(* ===== verification/MC_Prelude.thy ===== *)
theory MC_Prelude
  imports Main "HOL-Library.Word"
begin

text \<open>
  Shared vocabulary of the development: the types that stand for Go's \<open>time.Time\<close>,
  \<open>time.Duration\<close>, \<open>error\<close> and 64-bit integers, checked integer addition as PostgreSQL
  performs it, and the generic list lemmas the component theories share.

  A time is the number of nanoseconds since Go's zero time, so \<open>t.IsZero()\<close> is \<open>t = 0\<close>.
  A duration is a number of nanoseconds. A Go \<open>error\<close> is \<open>None\<close> for \<open>nil\<close> and
  \<open>Some msg\<close> otherwise. \<open>int64\<close> and \<open>uint64\<close> are both \<^typ>\<open>64 word\<close>: the conversions
  \<open>int64(x)\<close> and \<open>uint64(x)\<close> keep the bits, and signed comparisons go through \<^const>\<open>sint\<close>.
\<close>

named_theorems str_simps \<open>characteristic equations of the string functions\<close>
named_theorems json_simps \<open>encoders and decoders of the stored documents\<close>
named_theorems key_simps \<open>the key families of the DHT\<close>
named_theorems dht_simps \<open>reads and writes through the DHT node\<close>
named_theorems store_simps \<open>statements of the lease store\<close>
named_theorems http_simps \<open>request guards and responses of the control server\<close>

type_synonym time = int
type_synonym duration = int
type_synonym go_error = "string option"
type_synonym i64 = "64 word"
type_synonym i32 = "32 word"

text \<open>A call of Go code that may panic.\<close>

datatype 'a outcome = Crashed | Returned 'a

abbreviation (input) second :: duration where
  "second \<equiv> 1000000000"

abbreviation (input) millisecond :: duration where
  "millisecond \<equiv> 1000000"

text \<open>Go's integer division truncates towards zero.\<close>

definition tdiv :: "int \<Rightarrow> int \<Rightarrow> int" where
  "tdiv a b = sgn a * sgn b * (\<bar>a\<bar> div \<bar>b\<bar>)"

text \<open>\<open>int(d.Seconds())\<close>.\<close>

definition seconds_of :: "duration \<Rightarrow> int" where
  "seconds_of d = tdiv d second"

text \<open>Wrap-around of an \<open>int64\<close> computation on unbounded integers.\<close>

definition wrap64 :: "int \<Rightarrow> int" where
  "wrap64 x = sint (word_of_int x :: i64)"

text \<open>SQL integer addition: an out-of-range result is an error, never a wrap-around.\<close>

definition pg_add :: "'a::len word \<Rightarrow> 'a word \<Rightarrow> 'a word option" where
  "pg_add a b = (if sint (a + b) = sint a + sint b then Some (a + b) else None)"

lemma pg_add_SomeD: "pg_add a b = Some c \<Longrightarrow> sint c = sint a + sint b"
  by (auto simp: pg_add_def split: if_splits)

lemma pg_add_Some_iff: "pg_add a b = Some c \<longleftrightarrow> c = a + b \<and> sint (a + b) = sint a + sint b"
  by (auto simp: pg_add_def)

lemma tdiv_nonneg: "0 \<le> a \<Longrightarrow> 0 < b \<Longrightarrow> tdiv a b = a div b"
  by (cases "a = 0") (auto simp: tdiv_def)

lemma seconds_of_mult [simp]: "seconds_of (n * second) = n"
  by (cases n "0::int" rule: linorder_cases) (auto simp: seconds_of_def tdiv_def sgn_mult abs_mult)

lemma wrap64_id: "- (2 ^ 63) \<le> x \<Longrightarrow> x < 2 ^ 63 \<Longrightarrow> wrap64 x = x"
  by (simp add: wrap64_def sint_sbintrunc' signed_take_bit_int_eq_self)

lemma wrap64_range: "- (2 ^ 63) \<le> wrap64 x \<and> wrap64 x < 2 ^ 63"
  using sint_range_size [of "word_of_int x :: i64"] by (simp add: wrap64_def word_size)

lemma filter_length_0_iff: "length (filter P xs) = 0 \<longleftrightarrow> (\<forall>x\<in>set xs. \<not> P x)"
  by (simp add: filter_empty_conv)

lemma map_if_none: "\<forall>x\<in>set xs. \<not> P x \<Longrightarrow> map (\<lambda>x. if P x then f x else x) xs = xs"
  by (induction xs) auto

lemma find_append_absent: "find P (xs @ ys) = (case find P xs of None \<Rightarrow> find P ys | Some x \<Rightarrow> Some x)"
  by (induction xs) auto

lemma find_SomeD: "find P xs = Some x \<Longrightarrow> x \<in> set xs \<and> P x"
  by (induction xs) (auto split: if_splits)

lemma find_map_update:
  assumes "\<And>x. key (f x) = key x"
  shows "find (\<lambda>x. key x = k) (map f xs) = map_option f (find (\<lambda>x. key x = k) xs)"
  by (induction xs) (auto simp: assms)

lemma sum_list_map_filter_le: "length (filter P xs) \<le> length xs"
  by (rule length_filter_le)

end
