(* ===== verification/Go_Strings.thy ===== *)
theory Go_Strings
  imports MC_Prelude
begin

text \<open>
  The functions of Go's \<open>strings\<close>, \<open>strconv\<close> and \<open>fmt\<close> packages that the program calls,
  on strings as lists of bytes. Case conversion and white space are those of ASCII: the
  strings the program compares this way (status words, transport names, CIDs and header
  values) are ASCII.
\<close>

definition HasPrefix :: "string \<Rightarrow> string \<Rightarrow> bool" where
  "HasPrefix s p \<longleftrightarrow> take (length p) s = p"

definition HasSuffix :: "string \<Rightarrow> string \<Rightarrow> bool" where
  "HasSuffix s p \<longleftrightarrow> length p \<le> length s \<and> drop (length s - length p) s = p"

definition TrimPrefix :: "string \<Rightarrow> string \<Rightarrow> string" where
  "TrimPrefix s p = (if HasPrefix s p then drop (length p) s else s)"

definition TrimSuffix :: "string \<Rightarrow> string \<Rightarrow> string" where
  "TrimSuffix s p = (if HasSuffix s p then take (length s - length p) s else s)"

definition trim_by :: "(char \<Rightarrow> bool) \<Rightarrow> string \<Rightarrow> string" where
  "trim_by P s = rev (dropWhile P (rev (dropWhile P s)))"

text \<open>\<open>strings.Trim(s, "/")\<close> and \<open>strings.TrimSpace(s)\<close>.\<close>

definition Trim_slash :: "string \<Rightarrow> string" where
  "Trim_slash s = trim_by (\<lambda>c. c = CHR ''/'') s"

definition is_space :: "char \<Rightarrow> bool" where
  "is_space c \<longleftrightarrow> c = CHR '' '' \<or> (9 \<le> (of_char c :: nat) \<and> (of_char c :: nat) \<le> 13)"

definition TrimSpace :: "string \<Rightarrow> string" where
  "TrimSpace s = trim_by is_space s"

text \<open>\<open>strings.Split\<close> with a one-character separator.\<close>

fun split_on :: "char \<Rightarrow> string \<Rightarrow> string list" where
  "split_on c [] = [[]]"
| "split_on c (x # xs) =
     (if x = c then [] # split_on c xs
      else (case split_on c xs of [] \<Rightarrow> [[x]] | y # ys \<Rightarrow> (x # y) # ys))"

fun join_with :: "char \<Rightarrow> string list \<Rightarrow> string" where
  "join_with c [] = []"
| "join_with c [x] = x"
| "join_with c (x # y # ys) = x @ c # join_with c (y # ys)"

fun Contains :: "string \<Rightarrow> string \<Rightarrow> bool" where
  "Contains [] p = (p = [])"
| "Contains (x # xs) p = (HasPrefix (x # xs) p \<or> Contains xs p)"

definition lower_char :: "char \<Rightarrow> char" where
  "lower_char c =
     (if 65 \<le> (of_char c :: nat) \<and> (of_char c :: nat) \<le> 90 then char_of ((of_char c :: nat) + 32) else c)"

definition ToLower :: "string \<Rightarrow> string" where
  "ToLower s = map lower_char s"

definition EqualFold :: "string \<Rightarrow> string \<Rightarrow> bool" where
  "EqualFold s t \<longleftrightarrow> ToLower s = ToLower t"

text \<open>Decimal numerals: \<open>strconv.ParseUint(s, 10, 64)\<close>, \<open>strconv.Atoi\<close> and the verb \<open>%d\<close>.\<close>

definition digit_val :: "char \<Rightarrow> nat option" where
  "digit_val c =
     (if 48 \<le> (of_char c :: nat) \<and> (of_char c :: nat) \<le> 57 then Some ((of_char c :: nat) - 48) else None)"

definition digit_char :: "nat \<Rightarrow> char" where
  "digit_char d = char_of (48 + d)"

fun parse_digits :: "nat \<Rightarrow> string \<Rightarrow> nat option" where
  "parse_digits acc [] = Some acc"
| "parse_digits acc (c # cs) =
     (case digit_val c of None \<Rightarrow> None | Some d \<Rightarrow> parse_digits (10 * acc + d) cs)"

definition ParseUint :: "string \<Rightarrow> i64 option" where
  "ParseUint s =
     (if s = [] then None
      else (case parse_digits 0 s of
              None \<Rightarrow> None
            | Some n \<Rightarrow> if n < 2 ^ 64 then Some (word_of_nat n) else None))"

definition Atoi :: "string \<Rightarrow> int option" where
  "Atoi s =
     (let neg = HasPrefix s ''-''; body = (if neg \<or> HasPrefix s ''+'' then tl s else s) in
      if body = [] then None
      else (case parse_digits 0 body of
              None \<Rightarrow> None
            | Some n \<Rightarrow>
                (let v = (if neg then - int n else int n) in
                 if - (2 ^ 63) \<le> v \<and> v < 2 ^ 63 then Some v else None)))"

fun dec :: "nat \<Rightarrow> string" where
  "dec n = (if n < 10 then [digit_char n] else dec (n div 10) @ [digit_char (n mod 10)])"

declare dec.simps [simp del]

text \<open>\<open>fmt.Sprintf("%d", v)\<close> and \<open>fmt.Sprintf("%02d", n)\<close>.\<close>

definition fmt_d :: "int \<Rightarrow> string" where
  "fmt_d v = (if v < 0 then CHR ''-'' # dec (nat (- v)) else dec (nat v))"

definition fmt_02d :: "nat \<Rightarrow> string" where
  "fmt_02d n = (if n < 10 then CHR ''0'' # dec n else dec n)"

subsection \<open>Prefixes and suffixes\<close>

lemma HasPrefix_append [simp, str_simps]: "HasPrefix (p @ s) p"
  by (simp add: HasPrefix_def)

lemma HasPrefix_iff: "HasPrefix s p \<longleftrightarrow> (\<exists>t. s = p @ t)"
  by (metis HasPrefix_append HasPrefix_def append_take_drop_id)

lemma HasSuffix_append [simp, str_simps]: "HasSuffix (s @ p) p"
  by (simp add: HasSuffix_def)

lemma HasSuffix_iff: "HasSuffix s p \<longleftrightarrow> (\<exists>t. s = t @ p)"
  by (metis HasSuffix_append HasSuffix_def append_take_drop_id)

lemma TrimPrefix_append [simp, str_simps]: "TrimPrefix (p @ s) p = s"
  by (simp add: TrimPrefix_def)

lemma TrimSuffix_append [simp, str_simps]: "TrimSuffix (s @ p) p = s"
  by (simp add: TrimSuffix_def)

lemma Contains_append: "Contains (s @ p @ t) p"
proof (induction s)
  case Nil
  have "HasPrefix (p @ t) p" by simp
  then show ?case by (cases "p @ t") auto
next
  case (Cons a s)
  then show ?case by simp
qed

lemma Contains_iff: "Contains s p \<longleftrightarrow> (\<exists>a b. s = a @ p @ b)"
proof
  show "Contains s p \<Longrightarrow> \<exists>a b. s = a @ p @ b"
  proof (induction s)
    case Nil
    then show ?case by simp
  next
    case (Cons x s)
    show ?case
    proof (cases "HasPrefix (x # s) p")
      case True
      then obtain t where "x # s = [] @ p @ t" by (auto simp: HasPrefix_iff)
      then show ?thesis by blast
    next
      case False
      with Cons obtain a b where "s = a @ p @ b" by auto
      then have "x # s = (x # a) @ p @ b" by simp
      then show ?thesis by blast
    qed
  qed
qed (auto simp: Contains_append)

subsection \<open>Splitting and trimming\<close>

lemma split_on_nonempty [simp]: "split_on c s \<noteq> []"
  by (induction s) (auto split: list.splits)

lemma split_on_absent: "c \<notin> set s \<Longrightarrow> split_on c s = [s]"
  by (induction s) auto

lemma split_on_sep: "c \<notin> set a \<Longrightarrow> split_on c (a @ c # s) = a # split_on c s"
  by (induction a) auto

lemma split_on_no_sep: "p \<in> set (split_on c s) \<Longrightarrow> c \<notin> set p"
  by (induction s arbitrary: p) (auto split: if_splits list.splits)

lemma join_split: "join_with c (split_on c s) = s"
proof (induction s)
  case Nil
  show ?case by simp
next
  case (Cons x s)
  show ?case
  proof (cases "split_on c s")
    case Nil
    then show ?thesis by simp
  next
    case (Cons y ys)
    with Cons.IH show ?thesis by (cases ys) auto
  qed
qed

lemma trim_by_id: "s = [] \<or> (\<not> P (hd s) \<and> \<not> P (last s)) \<Longrightarrow> trim_by P s = s"
proof (cases s rule: rev_cases)
  case (snoc ys y)
  assume "s = [] \<or> (\<not> P (hd s) \<and> \<not> P (last s))"
  with snoc have h: "\<not> P (hd s)" "\<not> P y" by auto
  then have "dropWhile P s = s" using snoc by (metis append_is_Nil_conv dropWhile_eq_self_iff)
  then show ?thesis using h snoc by (simp add: trim_by_def)
qed (simp add: trim_by_def)

lemma trim_by_strip:
  assumes "P c" and "s = [] \<or> (\<not> P (hd s) \<and> \<not> P (last s))"
  shows "trim_by P (c # s) = s"
  using trim_by_id [of s P] assms by (simp add: trim_by_def)

lemma Trim_slash_path:
  assumes "s \<noteq> []" "hd s \<noteq> CHR ''/''" "last s \<noteq> CHR ''/''"
  shows "Trim_slash (CHR ''/'' # s) = s" and "Trim_slash s = s"
  using assms by (auto simp: Trim_slash_def trim_by_strip trim_by_id)

subsection \<open>Case folding\<close>

lemma lower_char_idem [simp]: "lower_char (lower_char c) = lower_char c"
proof -
  have "of_char (lower_char c) = (if 65 \<le> (of_char c :: nat) \<and> (of_char c :: nat) \<le> 90
      then (of_char c :: nat) + 32 else of_char c)"
    by (simp add: lower_char_def)
  then show ?thesis by (auto simp: lower_char_def)
qed

lemma ToLower_idem [simp]: "ToLower (ToLower s) = ToLower s"
  by (simp add: ToLower_def)

subsection \<open>Decimal numerals\<close>

lemma digit_val_char: "d < 10 \<Longrightarrow> digit_val (digit_char d) = Some d"
  by (simp add: digit_val_def digit_char_def)

lemma parse_digits_append:
  "parse_digits acc (s @ t) = (case parse_digits acc s of None \<Rightarrow> None | Some n \<Rightarrow> parse_digits n t)"
  by (induction s arbitrary: acc) (auto split: option.splits)

lemma dec_nonempty [simp]: "dec n \<noteq> []"
  by (subst dec.simps) simp

lemma parse_digits_dec: "parse_digits 0 (dec n) = Some n"
proof (induction n rule: dec.induct)
  case (1 n)
  show ?case
  proof (cases "n < 10")
    case True
    then show ?thesis by (simp add: dec.simps [of n] digit_val_char)
  next
    case False
    with 1 have "parse_digits 0 (dec (n div 10)) = Some (n div 10)" by simp
    with False show ?thesis
      by (simp add: dec.simps [of n] parse_digits_append digit_val_char)
  qed
qed

lemma ParseUint_dec: "n < 2 ^ 64 \<Longrightarrow> ParseUint (dec n) = Some (word_of_nat n)"
  by (simp add: ParseUint_def parse_digits_dec)

lemma dec_inj: "dec m = dec n \<Longrightarrow> m = n"
  by (metis option.inject parse_digits_dec)

lemma ParseUint_fmt_d:
  assumes "0 < sint (t :: i64)"
  shows "ParseUint (fmt_d (sint t)) = Some t"
proof -
  have "take_bit 64 (sint t) = sint t"
    using assms sint_lt [of t] by (simp add: take_bit_int_eq_self)
  then have u: "sint t = int (unat t)" by (simp add: uint_sint)
  have "unat t < 2 ^ LENGTH(64)" by (rule unsigned_less)
  then have "unat t < 2 ^ 64" by simp
  then have "ParseUint (dec (unat t)) = Some (word_of_nat (unat t))" by (rule ParseUint_dec)
  with u show ?thesis by (simp add: fmt_d_def)
qed

lemma digit_char_0: "digit_char 0 = CHR ''0''"
  by code_simp

lemma dec_digits: "c \<in> set (dec n) \<Longrightarrow> digit_val c \<noteq> None"
proof (induction n rule: dec.induct)
  case (1 n)
  then show ?case by (subst (asm) dec.simps) (auto simp: digit_val_char split: if_splits)
qed

text \<open>A text without digits does not reach into a numeral.\<close>

lemma Contains_dec:
  assumes "s \<noteq> []" "\<forall>c\<in>set s. digit_val c = None"
  shows "Contains (p @ dec n) s \<longleftrightarrow> Contains p s"
proof
  assume "Contains (p @ dec n) s"
  then obtain a b where ab: "(a @ s) @ b = p @ dec n" by (auto simp: Contains_iff)
  from append_eq_append_conv2 [THEN iffD1, OF ab] obtain us where
    "a @ s = p @ us \<and> us @ b = dec n \<or> a @ s @ us = p \<and> b = us @ dec n" by auto
  then show "Contains p s"
  proof
    assume l: "a @ s = p @ us \<and> us @ b = dec n"
    have "us = []"
    proof (rule ccontr)
      assume "us \<noteq> []"
      with l assms(1) have "last s = last us" by (metis last_appendR)
      with \<open>us \<noteq> []\<close> l have "last s \<in> set (dec n)" by (metis Un_iff last_in_set set_append)
      with dec_digits assms last_in_set show False by blast
    qed
    with l show ?thesis by (auto simp: Contains_iff) (metis append.right_neutral)
  next
    assume "a @ s @ us = p \<and> b = us @ dec n"
    then show ?thesis by (auto simp: Contains_iff)
  qed
next
  assume "Contains p s"
  then show "Contains (p @ dec n) s" by (auto simp: Contains_iff) (metis append.assoc)
qed

end
