(* ===== verification/Go_Json.thy ===== *)
theory Go_Json
  imports Go_Strings
begin

text \<open>
  Go's \<open>encoding/json\<close> at the level of JSON values. A stored byte string is a \<open>payload\<close>:
  \<open>Doc j\<close> is the text \<open>json.Marshal\<close> writes for the value \<open>j\<close>, \<open>Raw s\<close> is any byte
  string that is not a JSON text (the empty one included). A JSON string
  in RFC 3339 form is \<open>JDate s t\<close>, its text and its instant, every other string is \<open>JStr s\<close>;
  \<open>JTime t\<close> is the one that \<open>time.Time.MarshalJSON\<close> writes. An integer literal is \<open>JNum\<close>, any
  other numeral \<open>JFrac\<close>.

  Decoding follows \<open>json.Unmarshal\<close>: members are processed in order, names match without
  regard to case, unknown members are skipped, \<open>null\<close> leaves a plain field as it is and
  empties a slice, a map or a pointer, and a member of the wrong type keeps the field, lets
  decoding go on and makes the call return an error. A nil slice and an empty slice are the
  same list: the program only ranges over its slices and takes their length.
\<close>

text \<open>\<open>t.Format(time.RFC3339Nano)\<close> for a time in UTC: the date of a day number counted from
  0001-01-01 in the proleptic Gregorian calendar, then the clock, then the fraction without
  its trailing zeros.\<close>

definition civil_date :: "nat \<Rightarrow> nat \<times> nat \<times> nat" where
  "civil_date days =
     (let n = days + 306; era = n div 146097; doe = n mod 146097;
          yoe = (doe - doe div 1460 + doe div 36524 - doe div 146096) div 365;
          doy = doe - (365 * yoe + yoe div 4 - yoe div 100);
          mp = (5 * doy + 2) div 153;
          day = doy - (153 * mp + 2) div 5 + 1;
          month = (if mp < 10 then mp + 3 else mp - 9);
          year = yoe + 400 * era + (if month \<le> 2 then 1 else 0)
      in (year, month, day))"

definition pad_to :: "nat \<Rightarrow> string \<Rightarrow> string" where
  "pad_to w s = replicate (w - length s) (CHR ''0'') @ s"

definition fmt_fraction :: "nat \<Rightarrow> string" where
  "fmt_fraction ns =
     (if ns = 0 then [] else ''.'' @ rev (dropWhile (\<lambda>c. c = CHR ''0'') (rev (pad_to 9 (dec ns)))))"

definition fmt_time :: "time \<Rightarrow> string" where
  "fmt_time t =
     (let secs = nat (t div second); (y, m, d) = civil_date (secs div 86400); s = secs mod 86400
      in pad_to 4 (dec y) @ ''-'' @ fmt_02d m @ ''-'' @ fmt_02d d @ ''T'' @
         fmt_02d (s div 3600) @ '':'' @ fmt_02d (s mod 3600 div 60) @ '':'' @ fmt_02d (s mod 60) @
         fmt_fraction (nat (t mod second)) @ ''Z'')"

datatype json =
    JNull
  | JBool bool
  | JNum int
  | JFrac string
  | JStr string
  | JDate string time
  | JArr "json list"
  | JObj "(string \<times> json) list"

definition JTime :: "time \<Rightarrow> json" where
  "JTime t = JDate (fmt_time t) t"

datatype payload = Raw string | Doc json

definition payload_empty :: "payload \<Rightarrow> bool" where
  "payload_empty p \<longleftrightarrow> p = Raw []"

text \<open>The setter of a struct: what one member does to it, and whether its type fitted.\<close>

type_synonym 'a setter = "string \<Rightarrow> json \<Rightarrow> 'a \<Rightarrow> 'a \<times> bool"

fun decode_members :: "'a setter \<Rightarrow> (string \<times> json) list \<Rightarrow> 'a \<Rightarrow> 'a \<times> bool" where
  "decode_members f [] x = (x, True)"
| "decode_members f ((k, v) # ms) x =
     (let (y, ok) = f k v x; (z, oks) = decode_members f ms y in (z, ok \<and> oks))"

definition decode_struct :: "'a \<Rightarrow> 'a setter \<Rightarrow> json \<Rightarrow> 'a \<times> bool" where
  "decode_struct z f j =
     (case j of JObj ms \<Rightarrow> decode_members f ms z | JNull \<Rightarrow> (z, True) | _ \<Rightarrow> (z, False))"

definition put_str :: "json \<Rightarrow> (string \<Rightarrow> 'a) \<Rightarrow> 'a \<Rightarrow> 'a \<times> bool" where
  "put_str v upd x =
     (case v of JStr s \<Rightarrow> (upd s, True) | JDate s t \<Rightarrow> (upd s, True) | JNull \<Rightarrow> (x, True) | _ \<Rightarrow> (x, False))"

definition put_time :: "json \<Rightarrow> (time \<Rightarrow> 'a) \<Rightarrow> 'a \<Rightarrow> 'a \<times> bool" where
  "put_time v upd x = (case v of JDate s t \<Rightarrow> (upd t, True) | JNull \<Rightarrow> (x, True) | _ \<Rightarrow> (x, False))"

definition put_bool :: "json \<Rightarrow> (bool \<Rightarrow> 'a) \<Rightarrow> 'a \<Rightarrow> 'a \<times> bool" where
  "put_bool v upd x = (case v of JBool b \<Rightarrow> (upd b, True) | JNull \<Rightarrow> (x, True) | _ \<Rightarrow> (x, False))"

definition in_i64 :: "int \<Rightarrow> bool" where
  "in_i64 n \<longleftrightarrow> - (2 ^ 63) \<le> n \<and> n < 2 ^ 63"

definition put_i64 :: "json \<Rightarrow> (i64 \<Rightarrow> 'a) \<Rightarrow> 'a \<Rightarrow> 'a \<times> bool" where
  "put_i64 v upd x =
     (case v of
        JNum n \<Rightarrow> if in_i64 n then (upd (word_of_int n), True) else (x, False)
      | JNull \<Rightarrow> (x, True)
      | _ \<Rightarrow> (x, False))"

definition put_int :: "json \<Rightarrow> (int \<Rightarrow> 'a) \<Rightarrow> 'a \<Rightarrow> 'a \<times> bool" where
  "put_int v upd x =
     (case v of
        JNum n \<Rightarrow> if in_i64 n then (upd n, True) else (x, False)
      | JNull \<Rightarrow> (x, True)
      | _ \<Rightarrow> (x, False))"

definition put_list :: "(json \<Rightarrow> 'b \<times> bool) \<Rightarrow> json \<Rightarrow> ('b list \<Rightarrow> 'a) \<Rightarrow> 'a \<Rightarrow> 'a \<times> bool" where
  "put_list f v upd x =
     (case v of
        JArr js \<Rightarrow> (upd (map (\<lambda>j. fst (f j)) js), list_all (\<lambda>j. snd (f j)) js)
      | JNull \<Rightarrow> (upd [], True)
      | _ \<Rightarrow> (x, False))"

definition put_ptr :: "(json \<Rightarrow> 'b \<times> bool) \<Rightarrow> json \<Rightarrow> ('b option \<Rightarrow> 'a) \<Rightarrow> 'a \<Rightarrow> 'a \<times> bool" where
  "put_ptr f v upd x =
     (case v of JNull \<Rightarrow> (upd None, True) | _ \<Rightarrow> (upd (Some (fst (f v))), snd (f v)))"

definition put_map :: "json \<Rightarrow> ((string \<times> json) list \<Rightarrow> 'a) \<Rightarrow> 'a \<Rightarrow> 'a \<times> bool" where
  "put_map v upd x =
     (case v of JObj ms \<Rightarrow> (upd ms, True) | JNull \<Rightarrow> (upd [], True) | _ \<Rightarrow> (x, False))"

definition decode_str :: "json \<Rightarrow> string \<times> bool" where
  "decode_str v = put_str v (\<lambda>s. s) []"

definition decode_time :: "json \<Rightarrow> time \<times> bool" where
  "decode_time v = put_time v (\<lambda>t. t) 0"

definition decode_int :: "json \<Rightarrow> int \<times> bool" where
  "decode_int v = put_int v (\<lambda>n. n) 0"

text \<open>A member with the option \<open>omitempty\<close>: left out when the field is empty.\<close>

definition omit :: "bool \<Rightarrow> string \<Rightarrow> json \<Rightarrow> (string \<times> json) list" where
  "omit e k v = (if e then [] else [(k, v)])"

text \<open>\<open>json.Unmarshal\<close> into a variable that holds the zero value \<open>z\<close>: its value and the error.\<close>

definition unmarshal :: "'a \<Rightarrow> (json \<Rightarrow> 'a \<times> bool) \<Rightarrow> payload \<Rightarrow> 'a \<times> go_error" where
  "unmarshal z decf p =
     (case p of
        Raw s \<Rightarrow> (z, Some ''invalid JSON text'')
      | Doc j \<Rightarrow> (case decf j of
                   (x, True) \<Rightarrow> (x, None)
                 | (x, False) \<Rightarrow> (x, Some ''json: cannot unmarshal'')))"

subsection \<open>Decoding what was encoded\<close>

lemma put_simps [simp]:
  "put_str (JStr s) upd x = (upd s, True)"
  "put_str JNull upd x = (x, True)"
  "put_time (JTime t) updt x = (updt t, True)"
  "put_bool (JBool b) updb x = (updb b, True)"
  "put_list f (JArr js) upd' x = (upd' (map (\<lambda>j. fst (f j)) js), list_all (\<lambda>j. snd (f j)) js)"
  "put_map (JObj ms) upd'' x = (upd'' ms, True)"
  "put_ptr g JNull upd''' x = (upd''' None, True)"
  by (simp_all add: JTime_def put_str_def put_time_def put_bool_def put_list_def put_map_def put_ptr_def)

lemma JTime_not_JNull [simp]: "JTime t \<noteq> JNull"
  by (simp add: JTime_def)

lemma in_i64_sint [simp]: "in_i64 (sint (w :: i64))"
  using sint_ge [of w] sint_lt [of w] by (simp add: in_i64_def)

lemma put_i64_sint [simp]: "put_i64 (JNum (sint w)) upd x = (upd w, True)"
  by (simp add: put_i64_def)

lemma put_int_num [simp]: "in_i64 n \<Longrightarrow> put_int (JNum n) upd x = (upd n, True)"
  by (simp add: put_int_def)

lemma put_ptr_some [simp]: "v \<noteq> JNull \<Longrightarrow> put_ptr g v upd x = (upd (Some (fst (g v))), snd (g v))"
  by (cases v) (simp_all add: put_ptr_def)

lemma decode_str_JStr [simp]: "decode_str (JStr s) = (s, True)"
  by (simp add: decode_str_def)

lemma decode_time_JTime [simp]: "decode_time (JTime t) = (t, True)"
  by (simp add: decode_time_def)

lemma decode_int_JNum [simp]: "in_i64 n \<Longrightarrow> decode_int (JNum n) = (n, True)"
  by (simp add: decode_int_def)

lemma decode_members_append:
  "decode_members f (xs @ ys) x =
     (let (y, ok) = decode_members f xs x; (z, oks) = decode_members f ys y in (z, ok \<and> oks))"
  by (induction f xs x rule: decode_members.induct) (auto simp: Let_def split: prod.splits)

lemma decode_struct_JObj [simp]: "decode_struct z f (JObj ms) = decode_members f ms z"
  by (simp add: decode_struct_def)

text \<open>What every setter keeps, decoding keeps.\<close>

lemma decode_members_inv:
  assumes "\<And>k v x. P x \<Longrightarrow> P (fst (f k v x))" "P x"
  shows "P (fst (decode_members f ms x))"
  using assms(2)
proof (induction ms arbitrary: x)
  case (Cons m ms)
  obtain k v where m: "m = (k, v)" by fastforce
  have "P (fst (f k v x))" using assms(1) Cons.prems .
  from Cons.IH [OF this] show ?case by (simp add: m Let_def split_beta)
qed simp

lemma decode_struct_inv:
  assumes "\<And>k v x. P x \<Longrightarrow> P (fst (f k v x))" "P z"
  shows "P (fst (decode_struct z f j))"
  using decode_members_inv [of P f z] assms by (cases j) (simp_all add: decode_struct_def)

lemma put_inv:
  "P x \<Longrightarrow> (\<And>s. P (upd s)) \<Longrightarrow> P (fst (put_str v upd x))"
  "P x \<Longrightarrow> (\<And>t. P (updt t)) \<Longrightarrow> P (fst (put_time v updt x))"
  "P x \<Longrightarrow> (\<And>w. P (updw w)) \<Longrightarrow> P (fst (put_i64 v updw x))"
  "P x \<Longrightarrow> (\<And>n. in_i64 n \<Longrightarrow> P (updn n)) \<Longrightarrow> P (fst (put_int v updn x))"
  "P x \<Longrightarrow> (\<And>ys. P (updl ys)) \<Longrightarrow> P (fst (put_list f v updl x))"
  "P x \<Longrightarrow> (\<And>ms. P (updm ms)) \<Longrightarrow> P (fst (put_map v updm x))"
  "P x \<Longrightarrow> P (updp None) \<Longrightarrow> P (updp (Some (fst (g v)))) \<Longrightarrow> P (fst (put_ptr g v updp x))"
  by (cases v; simp add: put_str_def put_time_def put_i64_def put_int_def put_list_def put_map_def put_ptr_def)+

lemma decode_int_in_i64: "in_i64 (fst (decode_int v))"
  by (cases v) (simp_all add: decode_int_def put_int_def in_i64_def)

text \<open>The members of an encoder written one by one: a list of updates, none of which fails.\<close>

lemma decode_members_step:
  "f k v x = (y, True) \<Longrightarrow> decode_members f ((k, v) # ms) x = decode_members f ms y"
  by (simp add: Let_def split: prod.splits)

lemma decode_members_omit_step:
  assumes "f k v x = (y, True)" and "e \<Longrightarrow> y = x"
  shows "decode_members f (omit e k v @ ms) x = decode_members f ms y"
  using assms by (auto simp: omit_def Let_def split: prod.splits)

lemma decode_members_omit_last:
  assumes "f k v x = (y, True)" and "e \<Longrightarrow> y = x"
  shows "decode_members f (omit e k v) x = (y, True)"
  using assms by (auto simp: omit_def Let_def split: prod.splits)

lemmas decode_steps = decode_members_step decode_members_omit_step decode_members_omit_last

lemma unmarshal_Doc: "decf j = (x, True) \<Longrightarrow> unmarshal z decf (Doc j) = (x, None)"
  by (simp add: unmarshal_def)

lemma unmarshal_None_iff: "snd (unmarshal z decf p) = None \<longleftrightarrow> (\<exists>j x. p = Doc j \<and> decf j = (x, True))"
  by (auto simp: unmarshal_def split: payload.splits prod.splits bool.splits)

end
