(* ===== verification/Task_Types.thy ===== *)
theory Task_Types
  imports Go_Json
begin

text \<open>
  The package \<open>internal/task\<close>: the documents the control server and the agents exchange
  through the DHT (\<open>types.go\<close>), their JSON encodings, the DHT keys and the shards of the
  task index (\<open>index_sharded.go\<close>). A status is its string, as in the code.
\<close>

definition StatusQueued :: string where "StatusQueued = ''queued''"
definition StatusAssigned :: string where "StatusAssigned = ''assigned''"
definition StatusRunning :: string where "StatusRunning = ''running''"
definition StatusSucceeded :: string where "StatusSucceeded = ''succeeded''"
definition StatusFailed :: string where "StatusFailed = ''failed''"

record task_lease =
  tl_Owner :: string
  tl_Nonce :: string
  tl_Expires :: time
  tl_Version :: i64

record artifact =
  ar_Name :: string
  ar_Size :: i64
  ar_CID :: string
  ar_URL :: string

record task_meta =
  tm_ID :: string
  tm_CreatedAt :: time
  tm_Image :: string
  tm_Command :: "string list"
  tm_Env :: "string list"
  tm_Workdir :: string
  tm_TimeoutSec :: int
  tm_CPU :: string
  tm_Memory :: string

record provider =
  pv_PeerID :: string
  pv_Addrs :: "string list"
  pv_Relays :: "string list"
  pv_Caps :: "string list"

record manifest =
  mf_RootCID :: string
  mf_Providers :: "provider list"
  mf_EncMeta :: string
  mf_Rendezvous :: string
  mf_Transports :: "string list"
  mf_Version :: i64
  mf_UpdatedAt :: time

record task_state =
  ts_ID :: string
  ts_Status :: string
  ts_Version :: i64
  ts_UpdatedAt :: time
  ts_AssignedTo :: string
  ts_Lease :: "task_lease option"
  ts_StartedAt :: "time option"
  ts_FinishedAt :: "time option"
  ts_ExitCode :: "int option"
  ts_Error :: string
  ts_ResultRootCID :: string
  ts_Artifacts :: "artifact list"
  ts_Metrics :: "(string \<times> json) list"
  ts_LogTail :: string

record task_index =
  ix_IDs :: "string list"
  ix_UpdatedAt :: time
  ix_Version :: i64

definition zero_lease :: task_lease where
  "zero_lease = \<lparr>tl_Owner = [], tl_Nonce = [], tl_Expires = 0, tl_Version = 0\<rparr>"

definition zero_artifact :: artifact where
  "zero_artifact = \<lparr>ar_Name = [], ar_Size = 0, ar_CID = [], ar_URL = []\<rparr>"

definition zero_meta :: task_meta where
  "zero_meta = \<lparr>tm_ID = [], tm_CreatedAt = 0, tm_Image = [], tm_Command = [], tm_Env = [],
     tm_Workdir = [], tm_TimeoutSec = 0, tm_CPU = [], tm_Memory = []\<rparr>"

definition zero_provider :: provider where
  "zero_provider = \<lparr>pv_PeerID = [], pv_Addrs = [], pv_Relays = [], pv_Caps = []\<rparr>"

definition zero_manifest :: manifest where
  "zero_manifest = \<lparr>mf_RootCID = [], mf_Providers = [], mf_EncMeta = [], mf_Rendezvous = [],
     mf_Transports = [], mf_Version = 0, mf_UpdatedAt = 0\<rparr>"

definition zero_state :: task_state where
  "zero_state = \<lparr>ts_ID = [], ts_Status = [], ts_Version = 0, ts_UpdatedAt = 0, ts_AssignedTo = [],
     ts_Lease = None, ts_StartedAt = None, ts_FinishedAt = None, ts_ExitCode = None, ts_Error = [],
     ts_ResultRootCID = [], ts_Artifacts = [], ts_Metrics = [], ts_LogTail = []\<rparr>"

definition zero_index :: task_index where
  "zero_index = \<lparr>ix_IDs = [], ix_UpdatedAt = 0, ix_Version = 0\<rparr>"

subsection \<open>Encoders\<close>

definition enc_strs :: "string list \<Rightarrow> json" where
  "enc_strs ss = JArr (map JStr ss)"

definition enc_lease :: "task_lease \<Rightarrow> json" where
  "enc_lease l = JObj [(''owner'', JStr (tl_Owner l)), (''nonce'', JStr (tl_Nonce l)),
     (''expires'', JTime (tl_Expires l)), (''version'', JNum (sint (tl_Version l)))]"

definition enc_artifact :: "artifact \<Rightarrow> json" where
  "enc_artifact a = JObj (
     omit (ar_Name a = []) ''name'' (JStr (ar_Name a)) @
     omit (ar_Size a = 0) ''size'' (JNum (sint (ar_Size a))) @
     omit (ar_CID a = []) ''cid'' (JStr (ar_CID a)) @
     omit (ar_URL a = []) ''url'' (JStr (ar_URL a)) @ [])"

definition enc_meta :: "task_meta \<Rightarrow> json" where
  "enc_meta m = JObj (
     omit (tm_ID m = []) ''id'' (JStr (tm_ID m)) @
     (''created_at'', JTime (tm_CreatedAt m)) #
     (''image'', JStr (tm_Image m)) #
     (''command'', enc_strs (tm_Command m)) #
     omit (tm_Env m = []) ''env'' (enc_strs (tm_Env m)) @
     omit (tm_Workdir m = []) ''workdir'' (JStr (tm_Workdir m)) @
     omit (tm_TimeoutSec m = 0) ''timeout_sec'' (JNum (tm_TimeoutSec m)) @
     (''resources'', JObj (omit (tm_CPU m = []) ''cpu'' (JStr (tm_CPU m)) @
        omit (tm_Memory m = []) ''memory'' (JStr (tm_Memory m)) @ [])) # [])"

definition enc_provider :: "provider \<Rightarrow> json" where
  "enc_provider p = JObj (
     (''peer_id'', JStr (pv_PeerID p)) #
     (''addrs'', enc_strs (pv_Addrs p)) #
     omit (pv_Relays p = []) ''relays'' (enc_strs (pv_Relays p)) @
     omit (pv_Caps p = []) ''caps'' (enc_strs (pv_Caps p)) @ [])"

definition enc_manifest :: "manifest \<Rightarrow> json" where
  "enc_manifest m = JObj (
     (''root_cid'', JStr (mf_RootCID m)) #
     (''providers'', JArr (map enc_provider (mf_Providers m))) #
     omit (mf_EncMeta m = []) ''enc_meta'' (JStr (mf_EncMeta m)) @
     omit (mf_Rendezvous m = []) ''rendezvous'' (JStr (mf_Rendezvous m)) @
     omit (mf_Transports m = []) ''transports'' (enc_strs (mf_Transports m)) @
     (''version'', JNum (sint (mf_Version m))) #
     (''updated_at'', JTime (mf_UpdatedAt m)) # [])"

definition enc_opt :: "('a \<Rightarrow> json) \<Rightarrow> 'a option \<Rightarrow> json" where
  "enc_opt f v = (case v of None \<Rightarrow> JNull | Some x \<Rightarrow> f x)"

definition enc_state :: "task_state \<Rightarrow> json" where
  "enc_state s = JObj (
     (''id'', JStr (ts_ID s)) #
     (''status'', JStr (ts_Status s)) #
     (''version'', JNum (sint (ts_Version s))) #
     (''updated_at'', JTime (ts_UpdatedAt s)) #
     omit (ts_AssignedTo s = []) ''assigned_to'' (JStr (ts_AssignedTo s)) @
     omit (ts_Lease s = None) ''lease'' (enc_opt enc_lease (ts_Lease s)) @
     omit (ts_StartedAt s = None) ''started_at'' (enc_opt JTime (ts_StartedAt s)) @
     omit (ts_FinishedAt s = None) ''finished_at'' (enc_opt JTime (ts_FinishedAt s)) @
     omit (ts_ExitCode s = None) ''exit_code'' (enc_opt JNum (ts_ExitCode s)) @
     omit (ts_Error s = []) ''error'' (JStr (ts_Error s)) @
     omit (ts_ResultRootCID s = []) ''result_root_cid'' (JStr (ts_ResultRootCID s)) @
     omit (ts_Artifacts s = []) ''artifacts'' (JArr (map enc_artifact (ts_Artifacts s))) @
     omit (ts_Metrics s = []) ''metrics'' (JObj (ts_Metrics s)) @
     omit (ts_LogTail s = []) ''log_tail'' (JStr (ts_LogTail s)) @ [])"

definition enc_index :: "task_index \<Rightarrow> json" where
  "enc_index x = JObj [(''ids'', enc_strs (ix_IDs x)), (''updated_at'', JTime (ix_UpdatedAt x)),
     (''version'', JNum (sint (ix_Version x)))]"

subsection \<open>Decoders\<close>

definition set_lease :: "task_lease setter" where
  "set_lease k v l = (let n = ToLower k in
     if n = ''owner'' then put_str v (\<lambda>s. l\<lparr>tl_Owner := s\<rparr>) l
     else if n = ''nonce'' then put_str v (\<lambda>s. l\<lparr>tl_Nonce := s\<rparr>) l
     else if n = ''expires'' then put_time v (\<lambda>t. l\<lparr>tl_Expires := t\<rparr>) l
     else if n = ''version'' then put_i64 v (\<lambda>w. l\<lparr>tl_Version := w\<rparr>) l
     else (l, True))"

definition dec_lease :: "json \<Rightarrow> task_lease \<times> bool" where
  "dec_lease j = decode_struct zero_lease set_lease j"

definition set_artifact :: "artifact setter" where
  "set_artifact k v a = (let n = ToLower k in
     if n = ''name'' then put_str v (\<lambda>s. a\<lparr>ar_Name := s\<rparr>) a
     else if n = ''size'' then put_i64 v (\<lambda>w. a\<lparr>ar_Size := w\<rparr>) a
     else if n = ''cid'' then put_str v (\<lambda>s. a\<lparr>ar_CID := s\<rparr>) a
     else if n = ''url'' then put_str v (\<lambda>s. a\<lparr>ar_URL := s\<rparr>) a
     else (a, True))"

definition dec_artifact :: "json \<Rightarrow> artifact \<times> bool" where
  "dec_artifact j = decode_struct zero_artifact set_artifact j"

definition set_resources :: "task_meta setter" where
  "set_resources k v m = (let n = ToLower k in
     if n = ''cpu'' then put_str v (\<lambda>s. m\<lparr>tm_CPU := s\<rparr>) m
     else if n = ''memory'' then put_str v (\<lambda>s. m\<lparr>tm_Memory := s\<rparr>) m
     else (m, True))"

definition set_meta :: "task_meta setter" where
  "set_meta k v m = (let n = ToLower k in
     if n = ''id'' then put_str v (\<lambda>s. m\<lparr>tm_ID := s\<rparr>) m
     else if n = ''created_at'' then put_time v (\<lambda>t. m\<lparr>tm_CreatedAt := t\<rparr>) m
     else if n = ''image'' then put_str v (\<lambda>s. m\<lparr>tm_Image := s\<rparr>) m
     else if n = ''command'' then put_list decode_str v (\<lambda>ss. m\<lparr>tm_Command := ss\<rparr>) m
     else if n = ''env'' then put_list decode_str v (\<lambda>ss. m\<lparr>tm_Env := ss\<rparr>) m
     else if n = ''workdir'' then put_str v (\<lambda>s. m\<lparr>tm_Workdir := s\<rparr>) m
     else if n = ''timeout_sec'' then put_int v (\<lambda>i. m\<lparr>tm_TimeoutSec := i\<rparr>) m
     else if n = ''resources'' then decode_struct m set_resources v
     else (m, True))"

definition dec_meta :: "json \<Rightarrow> task_meta \<times> bool" where
  "dec_meta j = decode_struct zero_meta set_meta j"

definition set_provider :: "provider setter" where
  "set_provider k v p = (let n = ToLower k in
     if n = ''peer_id'' then put_str v (\<lambda>s. p\<lparr>pv_PeerID := s\<rparr>) p
     else if n = ''addrs'' then put_list decode_str v (\<lambda>ss. p\<lparr>pv_Addrs := ss\<rparr>) p
     else if n = ''relays'' then put_list decode_str v (\<lambda>ss. p\<lparr>pv_Relays := ss\<rparr>) p
     else if n = ''caps'' then put_list decode_str v (\<lambda>ss. p\<lparr>pv_Caps := ss\<rparr>) p
     else (p, True))"

definition dec_provider :: "json \<Rightarrow> provider \<times> bool" where
  "dec_provider j = decode_struct zero_provider set_provider j"

definition set_manifest :: "manifest setter" where
  "set_manifest k v m = (let n = ToLower k in
     if n = ''root_cid'' then put_str v (\<lambda>s. m\<lparr>mf_RootCID := s\<rparr>) m
     else if n = ''providers'' then put_list dec_provider v (\<lambda>ps. m\<lparr>mf_Providers := ps\<rparr>) m
     else if n = ''enc_meta'' then put_str v (\<lambda>s. m\<lparr>mf_EncMeta := s\<rparr>) m
     else if n = ''rendezvous'' then put_str v (\<lambda>s. m\<lparr>mf_Rendezvous := s\<rparr>) m
     else if n = ''transports'' then put_list decode_str v (\<lambda>ss. m\<lparr>mf_Transports := ss\<rparr>) m
     else if n = ''version'' then put_i64 v (\<lambda>w. m\<lparr>mf_Version := w\<rparr>) m
     else if n = ''updated_at'' then put_time v (\<lambda>t. m\<lparr>mf_UpdatedAt := t\<rparr>) m
     else (m, True))"

definition dec_manifest :: "json \<Rightarrow> manifest \<times> bool" where
  "dec_manifest j = decode_struct zero_manifest set_manifest j"

definition set_state :: "task_state setter" where
  "set_state k v s = (let n = ToLower k in
     if n = ''id'' then put_str v (\<lambda>x. s\<lparr>ts_ID := x\<rparr>) s
     else if n = ''status'' then put_str v (\<lambda>x. s\<lparr>ts_Status := x\<rparr>) s
     else if n = ''version'' then put_i64 v (\<lambda>x. s\<lparr>ts_Version := x\<rparr>) s
     else if n = ''updated_at'' then put_time v (\<lambda>x. s\<lparr>ts_UpdatedAt := x\<rparr>) s
     else if n = ''assigned_to'' then put_str v (\<lambda>x. s\<lparr>ts_AssignedTo := x\<rparr>) s
     else if n = ''lease'' then put_ptr dec_lease v (\<lambda>x. s\<lparr>ts_Lease := x\<rparr>) s
     else if n = ''started_at'' then put_ptr decode_time v (\<lambda>x. s\<lparr>ts_StartedAt := x\<rparr>) s
     else if n = ''finished_at'' then put_ptr decode_time v (\<lambda>x. s\<lparr>ts_FinishedAt := x\<rparr>) s
     else if n = ''exit_code'' then put_ptr decode_int v (\<lambda>x. s\<lparr>ts_ExitCode := x\<rparr>) s
     else if n = ''error'' then put_str v (\<lambda>x. s\<lparr>ts_Error := x\<rparr>) s
     else if n = ''result_root_cid'' then put_str v (\<lambda>x. s\<lparr>ts_ResultRootCID := x\<rparr>) s
     else if n = ''artifacts'' then put_list dec_artifact v (\<lambda>x. s\<lparr>ts_Artifacts := x\<rparr>) s
     else if n = ''metrics'' then put_map v (\<lambda>x. s\<lparr>ts_Metrics := x\<rparr>) s
     else if n = ''log_tail'' then put_str v (\<lambda>x. s\<lparr>ts_LogTail := x\<rparr>) s
     else (s, True))"

definition dec_state :: "json \<Rightarrow> task_state \<times> bool" where
  "dec_state j = decode_struct zero_state set_state j"

definition set_index :: "task_index setter" where
  "set_index k v x = (let n = ToLower k in
     if n = ''ids'' then put_list decode_str v (\<lambda>ss. x\<lparr>ix_IDs := ss\<rparr>) x
     else if n = ''updated_at'' then put_time v (\<lambda>t. x\<lparr>ix_UpdatedAt := t\<rparr>) x
     else if n = ''version'' then put_i64 v (\<lambda>w. x\<lparr>ix_Version := w\<rparr>) x
     else (x, True))"

definition dec_index :: "json \<Rightarrow> task_index \<times> bool" where
  "dec_index j = decode_struct zero_index set_index j"

subsection \<open>Keys\<close>

definition KeyMeta :: "string \<Rightarrow> string" where "KeyMeta i = ''task/'' @ i @ ''/meta''"
definition KeyState :: "string \<Rightarrow> string" where "KeyState i = ''task/'' @ i @ ''/state''"
definition KeyWS :: "string \<Rightarrow> string" where "KeyWS i = ''task/'' @ i @ ''/ws''"
definition KeyManifest :: "string \<Rightarrow> string" where "KeyManifest i = ''task/'' @ i @ ''/manifest''"
definition KeyFinishMirror :: "string \<Rightarrow> string" where "KeyFinishMirror i = ''task/'' @ i @ ''/finish''"
definition KeyLease :: "string \<Rightarrow> string" where "KeyLease i = ''task/'' @ i @ ''/lease''"
definition KeyIndex :: "string \<Rightarrow> string" where "KeyIndex ns = ''ns/'' @ ns @ ''/task/index''"

definition IndexKey :: string where "IndexKey = ''task/index''"

definition TaskIndexShardCount :: nat where "TaskIndexShardCount = 32"

definition KeyIndexShard :: "string \<Rightarrow> nat \<Rightarrow> string" where
  "KeyIndexShard ns shard = ''ns/'' @ ns @ ''/task/index/'' @ fmt_02d shard"

definition AllIndexShards :: "string \<Rightarrow> string list" where
  "AllIndexShards ns = map (KeyIndexShard ns) [0..<TaskIndexShardCount]"

text \<open>The exit code of a decoded state fits its type.\<close>

definition state_ok :: "task_state \<Rightarrow> bool" where
  "state_ok s \<longleftrightarrow> (\<forall>c. ts_ExitCode s = Some c \<longrightarrow> in_i64 c)"

subsection \<open>Round trips\<close>

lemma ToLower_names [simp]:
  "ToLower ''owner'' = ''owner''" "ToLower ''nonce'' = ''nonce''" "ToLower ''expires'' = ''expires''"
  "ToLower ''version'' = ''version''" "ToLower ''name'' = ''name''" "ToLower ''size'' = ''size''"
  "ToLower ''cid'' = ''cid''" "ToLower ''url'' = ''url''" "ToLower ''id'' = ''id''"
  "ToLower ''created_at'' = ''created_at''" "ToLower ''image'' = ''image''"
  "ToLower ''command'' = ''command''" "ToLower ''env'' = ''env''" "ToLower ''workdir'' = ''workdir''"
  "ToLower ''timeout_sec'' = ''timeout_sec''" "ToLower ''resources'' = ''resources''"
  "ToLower ''cpu'' = ''cpu''" "ToLower ''memory'' = ''memory''" "ToLower ''peer_id'' = ''peer_id''"
  "ToLower ''addrs'' = ''addrs''" "ToLower ''relays'' = ''relays''" "ToLower ''caps'' = ''caps''"
  "ToLower ''root_cid'' = ''root_cid''" "ToLower ''providers'' = ''providers''"
  "ToLower ''enc_meta'' = ''enc_meta''" "ToLower ''rendezvous'' = ''rendezvous''"
  "ToLower ''transports'' = ''transports''" "ToLower ''updated_at'' = ''updated_at''"
  "ToLower ''status'' = ''status''" "ToLower ''assigned_to'' = ''assigned_to''"
  "ToLower ''lease'' = ''lease''" "ToLower ''started_at'' = ''started_at''"
  "ToLower ''finished_at'' = ''finished_at''" "ToLower ''exit_code'' = ''exit_code''"
  "ToLower ''error'' = ''error''" "ToLower ''result_root_cid'' = ''result_root_cid''"
  "ToLower ''artifacts'' = ''artifacts''" "ToLower ''metrics'' = ''metrics''"
  "ToLower ''log_tail'' = ''log_tail''" "ToLower ''ids'' = ''ids''"
  by code_simp+

lemma put_list_enc_strs [simp]: "put_list decode_str (enc_strs ss) upd x = (upd ss, True)"
  by (simp add: enc_strs_def comp_def list_all_iff)

lemma put_list_enc:
  assumes "\<And>y. y \<in> set ys \<Longrightarrow> decf (enc y) = (y, True)"
  shows "put_list decf (JArr (map enc ys)) upd x = (upd ys, True)"
proof -
  have "map (\<lambda>y. fst (decf (enc y))) ys = ys"
    using assms by (induction ys) auto
  then show ?thesis using assms by (simp add: comp_def list_all_iff)
qed

lemma dec_enc_lease [simp, json_simps]: "dec_lease (enc_lease l) = (l, True)"
  by (simp add: dec_lease_def enc_lease_def set_lease_def zero_lease_def Let_def)

lemma dec_enc_artifact [simp, json_simps]: "dec_artifact (enc_artifact a) = (a, True)"
  by (simp add: dec_artifact_def enc_artifact_def set_artifact_def zero_artifact_def decode_steps
      comp_def list_all_iff del: decode_members.simps(2))

lemma dec_enc_meta [json_simps]:
  "in_i64 (tm_TimeoutSec m) \<Longrightarrow> dec_meta (enc_meta m) = (m, True)"
  by (simp add: dec_meta_def enc_meta_def set_meta_def set_resources_def zero_meta_def decode_steps
      comp_def list_all_iff del: decode_members.simps(2))

lemma dec_enc_provider [simp, json_simps]: "dec_provider (enc_provider p) = (p, True)"
  by (simp add: dec_provider_def enc_provider_def set_provider_def zero_provider_def decode_steps
      comp_def list_all_iff del: decode_members.simps(2))

lemma dec_enc_manifest [simp, json_simps]: "dec_manifest (enc_manifest m) = (m, True)"
  by (simp add: dec_manifest_def enc_manifest_def set_manifest_def zero_manifest_def decode_steps
      put_list_enc comp_def list_all_iff del: decode_members.simps(2))

lemma enc_not_null [simp]: "enc_lease l \<noteq> JNull"
  by (simp add: enc_lease_def)

lemma put_ptr_enc_opt:
  assumes "\<And>y. enc y \<noteq> JNull" and "\<And>y. v = Some y \<Longrightarrow> decf (enc y) = (y, True)"
  shows "put_ptr decf (enc_opt enc v) upd x = (upd v, True)"
  using assms by (cases v) (simp_all add: enc_opt_def)

lemma dec_enc_state [json_simps]:
  "(\<And>c. ts_ExitCode s = Some c \<Longrightarrow> in_i64 c) \<Longrightarrow> dec_state (enc_state s) = (s, True)"
  by (simp add: dec_state_def enc_state_def set_state_def zero_state_def decode_steps put_list_enc
      put_ptr_enc_opt comp_def list_all_iff del: decode_members.simps(2))

lemma dec_enc_index [simp, json_simps]: "dec_index (enc_index x) = (x, True)"
  by (simp add: dec_index_def enc_index_def set_index_def zero_index_def decode_steps
      comp_def list_all_iff del: decode_members.simps(2))

lemma dec_enc_state_ok: "state_ok s \<Longrightarrow> dec_state (enc_state s) = (s, True)"
  by (simp add: state_ok_def dec_enc_state)

lemma state_ok_upd [simp]:
  "state_ok (s\<lparr>ts_ID := x\<rparr>) = state_ok s" "state_ok (s\<lparr>ts_Status := x\<rparr>) = state_ok s"
  "state_ok (s\<lparr>ts_Version := ver\<rparr>) = state_ok s" "state_ok (s\<lparr>ts_UpdatedAt := t\<rparr>) = state_ok s"
  "state_ok (s\<lparr>ts_AssignedTo := x\<rparr>) = state_ok s" "state_ok (s\<lparr>ts_Lease := le\<rparr>) = state_ok s"
  "state_ok (s\<lparr>ts_StartedAt := ot\<rparr>) = state_ok s" "state_ok (s\<lparr>ts_FinishedAt := ot\<rparr>) = state_ok s"
  "state_ok (s\<lparr>ts_ExitCode := oc\<rparr>) = (\<forall>c. oc = Some c \<longrightarrow> in_i64 c)" "state_ok (s\<lparr>ts_Error := x\<rparr>) = state_ok s"
  "state_ok (s\<lparr>ts_ResultRootCID := x\<rparr>) = state_ok s" "state_ok (s\<lparr>ts_Artifacts := arts\<rparr>) = state_ok s"
  "state_ok (s\<lparr>ts_Metrics := ms\<rparr>) = state_ok s" "state_ok (s\<lparr>ts_LogTail := x\<rparr>) = state_ok s" "state_ok zero_state"
  by (simp_all add: state_ok_def zero_state_def)

lemma set_state_ok: "state_ok s \<Longrightarrow> state_ok (fst (set_state k v s))"
  by (simp add: set_state_def Let_def put_inv [where P = state_ok] decode_int_in_i64)

lemma dec_state_ok: "state_ok (fst (dec_state j))"
  unfolding dec_state_def by (rule decode_struct_inv) (simp_all add: set_state_ok)

subsection \<open>Distinct keys\<close>

lemmas key_defs = KeyMeta_def KeyState_def KeyWS_def KeyManifest_def KeyFinishMirror_def KeyLease_def

lemma key_inj [simp, key_simps]:
  "KeyMeta i = KeyMeta j \<longleftrightarrow> i = j" "KeyState i = KeyState j \<longleftrightarrow> i = j" "KeyWS i = KeyWS j \<longleftrightarrow> i = j"
  "KeyManifest i = KeyManifest j \<longleftrightarrow> i = j" "KeyFinishMirror i = KeyFinishMirror j \<longleftrightarrow> i = j"
  "KeyLease i = KeyLease j \<longleftrightarrow> i = j"
  by (simp_all add: key_defs)

lemma key_disjoint [simp, key_simps]:
  "KeyMeta i \<noteq> KeyState j" "KeyMeta i \<noteq> KeyManifest j" "KeyMeta i \<noteq> KeyLease j" "KeyMeta i \<noteq> KeyFinishMirror j"
  "KeyState i \<noteq> KeyMeta j" "KeyState i \<noteq> KeyManifest j" "KeyState i \<noteq> KeyLease j" "KeyState i \<noteq> KeyFinishMirror j"
  "KeyManifest i \<noteq> KeyMeta j" "KeyManifest i \<noteq> KeyState j" "KeyManifest i \<noteq> KeyLease j" "KeyManifest i \<noteq> KeyFinishMirror j"
  "KeyLease i \<noteq> KeyMeta j" "KeyLease i \<noteq> KeyState j" "KeyLease i \<noteq> KeyManifest j" "KeyLease i \<noteq> KeyFinishMirror j"
  "KeyFinishMirror i \<noteq> KeyMeta j" "KeyFinishMirror i \<noteq> KeyState j" "KeyFinishMirror i \<noteq> KeyManifest j"
  "KeyFinishMirror i \<noteq> KeyLease j"
  by (auto simp: key_defs dest!: arg_cong [where f = rev])

lemma ws_disjoint [simp, key_simps]: "KeyWS i \<noteq> KeyManifest j" "KeyManifest j \<noteq> KeyWS i"
  by (auto simp: key_defs dest!: arg_cong [where f = rev])

lemma index_disjoint [simp, key_simps]:
  "KeyIndexShard ns n \<noteq> KeyMeta i" "KeyIndexShard ns n \<noteq> KeyState i" "KeyIndexShard ns n \<noteq> KeyManifest i"
  "KeyIndexShard ns n \<noteq> KeyLease i" "KeyIndexShard ns n \<noteq> KeyFinishMirror i"
  "KeyMeta i \<noteq> KeyIndexShard ns n" "KeyState i \<noteq> KeyIndexShard ns n" "KeyManifest i \<noteq> KeyIndexShard ns n"
  "KeyLease i \<noteq> KeyIndexShard ns n" "KeyFinishMirror i \<noteq> KeyIndexShard ns n"
  "KeyIndex ns \<noteq> KeyMeta i" "KeyIndex ns \<noteq> KeyState i" "KeyIndex ns \<noteq> KeyManifest i"
  "KeyMeta i \<noteq> KeyIndex ns" "KeyState i \<noteq> KeyIndex ns"
  by (auto simp: key_defs KeyIndexShard_def KeyIndex_def)

lemma KeyIndex_IndexKey: "KeyIndex ns = ''ns/'' @ ns @ ''/'' @ IndexKey"
  by (simp add: KeyIndex_def IndexKey_def)

lemma shards_distinct: "distinct (AllIndexShards ns)"
proof -
  have "distinct (map fmt_02d [0..<TaskIndexShardCount])" by code_simp
  moreover have "AllIndexShards ns = map (\<lambda>s. ''ns/'' @ ns @ ''/task/index/'' @ s) (map fmt_02d [0..<TaskIndexShardCount])"
    by (simp add: AllIndexShards_def KeyIndexShard_def)
  ultimately show ?thesis by (simp add: distinct_map inj_on_def)
qed

lemma index_not_shard: "KeyIndex ns \<notin> set (AllIndexShards ns)"
  by (auto simp: AllIndexShards_def KeyIndexShard_def KeyIndex_def)

end
