(* ===== verification/Http_Types.thy ===== *)
theory Http_Types
  imports Task_Types
begin

text \<open>
  Requests and responses of the control server, the request and response bodies of
  \<open>cmd/control/control_http.go\<close> with their JSON forms, and the path functions of the standard
  library that the server and the multiplexer use.

  A body is the first JSON value of its stream (\<open>json.NewDecoder(r.Body).Decode\<close>), or a
  \<open>Raw\<close> string when there is none. Paths contain no escaped characters. A handler that
  dereferences a nil pointer panics; \<open>net/http\<close> recovers and drops the connection, so
  \<open>Panic\<close> is a response of its own and the effects up to that point remain.
\<close>

record request =
  rq_method :: string
  rq_path :: string
  rq_query :: "string \<Rightarrow> string"
  rq_header :: "string \<Rightarrow> string"
  rq_body :: payload

datatype resp_body = NoBody | Plain string | JsonBody json | Moved string

datatype response = Resp nat resp_body | Panic

definition httpError :: "string \<Rightarrow> nat \<Rightarrow> response" where
  "httpError msg code = Resp code (Plain msg)"

definition NotFound :: response where
  "NotFound = httpError ''404 page not found'' 404"

definition writeJSON :: "nat \<Rightarrow> json \<Rightarrow> response" where
  "writeJSON code v = Resp code (JsonBody v)"

subsection \<open>Paths\<close>

text \<open>\<open>path.Clean\<close> of a rooted path: its segments without empty and dot ones, with \<open>..\<close> taken back.\<close>

fun clean_segs :: "string list \<Rightarrow> string list \<Rightarrow> string list" where
  "clean_segs acc [] = rev acc"
| "clean_segs acc (s # ss) =
     (if s = [] \<or> s = ''.'' then clean_segs acc ss
      else if s = ''..'' then clean_segs (tl acc) ss
      else clean_segs (s # acc) ss)"

definition clean_rooted :: "string \<Rightarrow> string" where
  "clean_rooted p = CHR ''/'' # join_with (CHR ''/'') (clean_segs [] (split_on (CHR ''/'') p))"

text \<open>\<open>cleanPath\<close> of \<open>net/http\<close>: cleaned, rooted, and with the trailing slash the path had.\<close>

definition cleanPath :: "string \<Rightarrow> string" where
  "cleanPath p =
     (if p = [] then ''/''
      else (let q = (if hd p = CHR ''/'' then p else CHR ''/'' # p); np = clean_rooted q
            in if last q = CHR ''/'' \<and> np \<noteq> ''/'' then np @ ''/'' else np))"

text \<open>A path segment that cleaning keeps.\<close>

definition plain_seg :: "string \<Rightarrow> bool" where
  "plain_seg s \<longleftrightarrow> s \<noteq> [] \<and> s \<noteq> ''.'' \<and> s \<noteq> ''..'' \<and> CHR ''/'' \<notin> set s"

definition parts_of :: "string \<Rightarrow> string list" where
  "parts_of path = split_on (CHR ''/'') (Trim_slash path)"

text \<open>The guards \<open>len(parts) != 3 || parts[0] != a || parts[2] != z\<close> and
  \<open>len(parts) != 4 || parts[0] != a || parts[1] != b || parts[3] != z\<close>: the id, when they pass.\<close>

definition route3 :: "string \<Rightarrow> string \<Rightarrow> string \<Rightarrow> string option" where
  "route3 a z path = (case parts_of path of [p, i, q] \<Rightarrow> if p = a \<and> q = z then Some i else None | _ \<Rightarrow> None)"

definition route4 :: "string \<Rightarrow> string \<Rightarrow> string \<Rightarrow> string \<Rightarrow> string option" where
  "route4 a b z path =
     (case parts_of path of [p, q, i, s] \<Rightarrow> if p = a \<and> q = b \<and> s = z then Some i else None | _ \<Rightarrow> None)"

subsection \<open>Bodies\<close>

text \<open>\<open>providerDTO\<close> and \<open>manifestInDTO\<close> have the fields and the JSON names of \<open>task.Provider\<close> and
  \<open>task.Manifest\<close>.\<close>

type_synonym provider_dto = provider
type_synonym manifest_in = manifest

record manifest_out =
  mo_RootCID :: string
  mo_Providers :: "provider_dto list"
  mo_Rendezvous :: string
  mo_Transports :: "string list"
  mo_Version :: i64
  mo_UpdatedAt :: time

record claim_in =
  ci_AgentID :: string
  ci_TTLSec :: int

record hb_in =
  hb_AgentID :: string
  hb_Nonce :: string
  hb_TTLSec :: int
  hb_LeaseVersion :: i64

record release_in =
  ri_AgentID :: string
  ri_Nonce :: string

record lease_out =
  lo_OK :: bool
  lo_Lease :: task_lease

record finish_in =
  fi_Status :: string
  fi_Metrics :: "(string \<times> json) list"
  fi_Artifacts :: "string list"
  fi_ResultCID :: string
  fi_Error :: string

record create_req =
  cr_ID :: string
  cr_Image :: string
  cr_Command :: "string list"

definition copy_provider :: "provider \<Rightarrow> provider" where
  "copy_provider p = \<lparr>pv_PeerID = pv_PeerID p, pv_Addrs = pv_Addrs p, pv_Relays = pv_Relays p, pv_Caps = pv_Caps p\<rparr>"

definition manifest_out_members :: "manifest_out \<Rightarrow> (string \<times> json) list" where
  "manifest_out_members m =
     (''root_cid'', JStr (mo_RootCID m)) #
     (''providers'', JArr (map enc_provider (mo_Providers m))) #
     omit (mo_Rendezvous m = []) ''rendezvous'' (JStr (mo_Rendezvous m)) @
     omit (mo_Transports m = []) ''transports'' (enc_strs (mo_Transports m)) @
     (''version'', JNum (sint (mo_Version m))) #
     (''updated_at'', JTime (mo_UpdatedAt m)) # []"

definition enc_manifest_out :: "manifest_out \<Rightarrow> json" where
  "enc_manifest_out m = JObj (manifest_out_members m)"

definition enc_manifest_secret :: "manifest_out \<Rightarrow> string \<Rightarrow> json" where
  "enc_manifest_secret m encMeta = JObj (manifest_out_members m @ [(''enc_meta'', JStr encMeta)])"

definition out_of_manifest :: "manifest \<Rightarrow> manifest_out" where
  "out_of_manifest man =
     \<lparr>mo_RootCID = mf_RootCID man, mo_Providers = map copy_provider (mf_Providers man),
      mo_Rendezvous = mf_Rendezvous man, mo_Transports = mf_Transports man,
      mo_Version = mf_Version man, mo_UpdatedAt = mf_UpdatedAt man\<rparr>"

definition zero_claim_in :: claim_in where "zero_claim_in = \<lparr>ci_AgentID = [], ci_TTLSec = 0\<rparr>"
definition zero_hb_in :: hb_in where
  "zero_hb_in = \<lparr>hb_AgentID = [], hb_Nonce = [], hb_TTLSec = 0, hb_LeaseVersion = 0\<rparr>"
definition zero_release_in :: release_in where "zero_release_in = \<lparr>ri_AgentID = [], ri_Nonce = []\<rparr>"
definition zero_lease_out :: lease_out where "zero_lease_out = \<lparr>lo_OK = False, lo_Lease = zero_lease\<rparr>"
definition zero_finish_in :: finish_in where
  "zero_finish_in = \<lparr>fi_Status = [], fi_Metrics = [], fi_Artifacts = [], fi_ResultCID = [], fi_Error = []\<rparr>"
definition zero_create_req :: create_req where
  "zero_create_req = \<lparr>cr_ID = [], cr_Image = [], cr_Command = []\<rparr>"

definition set_claim_in :: "claim_in setter" where
  "set_claim_in k v x = (let n = ToLower k in
     if n = ''agent_id'' then put_str v (\<lambda>s. x\<lparr>ci_AgentID := s\<rparr>) x
     else if n = ''ttl_sec'' then put_int v (\<lambda>i. x\<lparr>ci_TTLSec := i\<rparr>) x
     else (x, True))"

definition dec_claim_in :: "json \<Rightarrow> claim_in \<times> bool" where
  "dec_claim_in j = decode_struct zero_claim_in set_claim_in j"

definition set_hb_in :: "hb_in setter" where
  "set_hb_in k v x = (let n = ToLower k in
     if n = ''agent_id'' then put_str v (\<lambda>s. x\<lparr>hb_AgentID := s\<rparr>) x
     else if n = ''nonce'' then put_str v (\<lambda>s. x\<lparr>hb_Nonce := s\<rparr>) x
     else if n = ''ttl_sec'' then put_int v (\<lambda>i. x\<lparr>hb_TTLSec := i\<rparr>) x
     else if n = ''lease_version'' then put_i64 v (\<lambda>i. x\<lparr>hb_LeaseVersion := i\<rparr>) x
     else (x, True))"

definition dec_hb_in :: "json \<Rightarrow> hb_in \<times> bool" where
  "dec_hb_in j = decode_struct zero_hb_in set_hb_in j"

definition set_release_in :: "release_in setter" where
  "set_release_in k v x = (let n = ToLower k in
     if n = ''agent_id'' then put_str v (\<lambda>s. x\<lparr>ri_AgentID := s\<rparr>) x
     else if n = ''nonce'' then put_str v (\<lambda>s. x\<lparr>ri_Nonce := s\<rparr>) x
     else (x, True))"

definition dec_release_in :: "json \<Rightarrow> release_in \<times> bool" where
  "dec_release_in j = decode_struct zero_release_in set_release_in j"

definition enc_lease_out :: "lease_out \<Rightarrow> json" where
  "enc_lease_out x = JObj [(''ok'', JBool (lo_OK x)), (''lease'', enc_lease (lo_Lease x))]"

definition set_finish_in :: "finish_in setter" where
  "set_finish_in k v x = (let n = ToLower k in
     if n = ''status'' then put_str v (\<lambda>s. x\<lparr>fi_Status := s\<rparr>) x
     else if n = ''metrics'' then put_map v (\<lambda>ms. x\<lparr>fi_Metrics := ms\<rparr>) x
     else if n = ''artifacts'' then put_list decode_str v (\<lambda>ss. x\<lparr>fi_Artifacts := ss\<rparr>) x
     else if n = ''result_root_cid'' then put_str v (\<lambda>s. x\<lparr>fi_ResultCID := s\<rparr>) x
     else if n = ''error'' then put_str v (\<lambda>s. x\<lparr>fi_Error := s\<rparr>) x
     else (x, True))"

definition dec_finish_in :: "json \<Rightarrow> finish_in \<times> bool" where
  "dec_finish_in j = decode_struct zero_finish_in set_finish_in j"

definition set_create_req :: "create_req setter" where
  "set_create_req k v x = (let n = ToLower k in
     if n = ''id'' then put_str v (\<lambda>s. x\<lparr>cr_ID := s\<rparr>) x
     else if n = ''image'' then put_str v (\<lambda>s. x\<lparr>cr_Image := s\<rparr>) x
     else if n = ''command'' then put_list decode_str v (\<lambda>ss. x\<lparr>cr_Command := ss\<rparr>) x
     else (x, True))"

definition dec_create_req :: "json \<Rightarrow> create_req \<times> bool" where
  "dec_create_req j = decode_struct zero_create_req set_create_req j"

text \<open>\<open>map[string]any\<close>: an object or null.\<close>

definition dec_any_map :: "json \<Rightarrow> json \<times> bool" where
  "dec_any_map j = (case j of JObj ms \<Rightarrow> (JObj ms, True) | JNull \<Rightarrow> (JNull, True) | _ \<Rightarrow> (JNull, False))"

lemma copy_provider_id [simp]: "copy_provider = (\<lambda>p. p)"
  by (simp add: copy_provider_def fun_eq_iff)

lemma no_slash_ends: "CHR ''/'' \<notin> set a \<Longrightarrow> a \<noteq> [] \<Longrightarrow> hd a \<noteq> CHR ''/'' \<and> last a \<noteq> CHR ''/''"
  by (metis hd_in_set last_in_set)

lemma route3_path:
  assumes "CHR ''/'' \<notin> set i" "CHR ''/'' \<notin> set a" "CHR ''/'' \<notin> set z" "a \<noteq> []" "z \<noteq> []"
  shows "route3 a z (''/'' @ a @ ''/'' @ i @ ''/'' @ z) = Some i"
proof -
  have "Trim_slash (''/'' @ a @ ''/'' @ i @ ''/'' @ z) = a @ ''/'' @ i @ ''/'' @ z"
    using Trim_slash_path [of "a @ ''/'' @ i @ ''/'' @ z"] assms no_slash_ends [of a] no_slash_ends [of z] by simp
  moreover have "split_on (CHR ''/'') (a @ ''/'' @ i @ ''/'' @ z) = [a, i, z]"
    using assms by (simp add: split_on_sep split_on_absent)
  ultimately show ?thesis by (simp add: route3_def parts_of_def)
qed

lemma route4_path:
  assumes "CHR ''/'' \<notin> set i" "CHR ''/'' \<notin> set a" "CHR ''/'' \<notin> set b" "CHR ''/'' \<notin> set z" "a \<noteq> []" "z \<noteq> []"
  shows "route4 a b z (''/'' @ a @ ''/'' @ b @ ''/'' @ i @ ''/'' @ z) = Some i"
proof -
  have "Trim_slash (''/'' @ a @ ''/'' @ b @ ''/'' @ i @ ''/'' @ z) = a @ ''/'' @ b @ ''/'' @ i @ ''/'' @ z"
    using Trim_slash_path [of "a @ ''/'' @ b @ ''/'' @ i @ ''/'' @ z"] assms no_slash_ends [of a] no_slash_ends [of z]
    by simp
  moreover have "split_on (CHR ''/'') (a @ ''/'' @ b @ ''/'' @ i @ ''/'' @ z) = [a, b, i, z]"
    using assms by (simp add: split_on_sep split_on_absent)
  ultimately show ?thesis by (simp add: route4_def parts_of_def)
qed

lemma clean_segs_plain: "list_all plain_seg ss \<Longrightarrow> clean_segs acc ss = rev acc @ ss"
  by (induction ss arbitrary: acc) (auto simp: plain_seg_def)

lemma split_join: "ss \<noteq> [] \<Longrightarrow> list_all (\<lambda>s. c \<notin> set s) ss \<Longrightarrow> split_on c (join_with c ss) = ss"
  by (induction c ss rule: join_with.induct) (auto simp: split_on_absent split_on_sep)

lemma join_last: "ss \<noteq> [] \<Longrightarrow> last ss \<noteq> [] \<Longrightarrow> join_with c ss \<noteq> [] \<and> last (join_with c ss) = last (last ss)"
  by (induction c ss rule: join_with.induct) auto

lemma cleanPath_plain:
  assumes "ss \<noteq> []" "list_all plain_seg ss"
  shows "cleanPath (CHR ''/'' # join_with (CHR ''/'') ss) = CHR ''/'' # join_with (CHR ''/'') ss"
proof -
  have ns: "list_all (\<lambda>s. CHR ''/'' \<notin> set s) ss" using assms(2) by (auto simp: list_all_iff plain_seg_def)
  have l: "last ss \<noteq> []" "CHR ''/'' \<notin> set (last ss)"
    using assms last_in_set [OF assms(1)] by (auto simp: list_all_iff plain_seg_def)
  then have "last (last ss) \<noteq> CHR ''/''" using last_in_set by fastforce
  with join_last [OF assms(1) l(1)] have "last (join_with (CHR ''/'') ss) \<noteq> CHR ''/''" "join_with (CHR ''/'') ss \<noteq> []"
    by auto
  moreover have "split_on (CHR ''/'') (CHR ''/'' # join_with (CHR ''/'') ss) = [] # ss"
    using split_on_sep [of "CHR ''/''" "[]"] split_join [OF assms(1) ns] by simp
  ultimately show ?thesis
    using clean_segs_plain [OF assms(2)] by (simp add: cleanPath_def clean_rooted_def Let_def)
qed

lemma last_seg_suffix:
  assumes "CHR ''/'' \<notin> set i" "CHR ''/'' \<notin> set z"
  shows "HasSuffix (p @ CHR ''/'' # i) (CHR ''/'' # z) \<longleftrightarrow> i = z"
proof
  assume "HasSuffix (p @ CHR ''/'' # i) (CHR ''/'' # z)"
  then obtain t where "p @ CHR ''/'' # i = t @ CHR ''/'' # z" by (auto simp: HasSuffix_iff)
  from arg_cong [where f = rev, OF this] have "takeWhile (\<lambda>c. c \<noteq> CHR ''/'') (rev i @ CHR ''/'' # rev p) =
      takeWhile (\<lambda>c. c \<noteq> CHR ''/'') (rev z @ CHR ''/'' # rev t)" by simp
  moreover have "takeWhile (\<lambda>c. c \<noteq> CHR ''/'') (rev x @ CHR ''/'' # y) = rev x" if "CHR ''/'' \<notin> set x" for x y
    using that by (subst takeWhile_append2) auto
  ultimately show "i = z" using assms by simp
qed (auto simp: HasSuffix_iff)

end
