(* ===== verification/Agent_Client.thy ===== *)
theory Agent_Client
  imports Http_Types
begin

text \<open>
  The HTTP clients of the agent: \<open>pkg/agent/claim.go\<close>, \<open>pkg/agent/finish_client.go\<close> and
  \<open>pkg/agent/wait_manifest.go\<close>.

  What carries a request to the control server and brings the answer back (\<open>net/http\<close> and the
  network) is a parameter \<open>h\<close>, a function on the state \<open>'w\<close> of whatever is at the other end.
  Its reply says that the URL could not be parsed, that the exchange failed with an error text,
  or the status code, the status line and the body. Both \<open>post\<close> methods discard the error of
  \<open>http.NewRequestWithContext\<close> and then use the nil request: for a malformed URL the process
  panics, which is the outcome \<open>Crashed\<close>.
\<close>

record http_call =
  hc_method :: string
  hc_url :: string
  hc_header :: "string \<Rightarrow> string"
  hc_body :: payload

datatype reply = BadURL string | NetErr string | Reply nat string payload

type_synonym 'w http = "http_call \<Rightarrow> 'w \<Rightarrow> reply \<times> 'w"

text \<open>\<open>HTTPClaimClient\<close> and \<open>FinishClient\<close> have the same fields; the underlying \<open>http.Client\<close> is
  part of \<open>h\<close>.\<close>

record HTTPClaimClient =
  cl_BaseURL :: string
  cl_Token :: string

type_synonym FinishClient = HTTPClaimClient

definition set_auth :: "string \<Rightarrow> (string \<Rightarrow> string) \<Rightarrow> string \<Rightarrow> string" where
  "set_auth token hdr = (if token \<noteq> [] then hdr(''Authorization'' := ''Bearer '' @ token) else hdr)"

subsection \<open>Claims\<close>

definition claim_post ::
  "'w http \<Rightarrow> HTTPClaimClient \<Rightarrow> string \<Rightarrow> json \<Rightarrow> 'a \<Rightarrow> (json \<Rightarrow> 'a \<times> bool) \<Rightarrow> 'w \<Rightarrow> ('a \<times> go_error) outcome \<times> 'w" where
  "claim_post h cl path inp z decf w =
     (case h \<lparr>hc_method = ''POST'', hc_url = cl_BaseURL cl @ path,
              hc_header = set_auth (cl_Token cl) ((\<lambda>_. [])(''Content-Type'' := ''application/json'')),
              hc_body = Doc inp\<rparr> w of
        (BadURL e, w') \<Rightarrow> (Crashed, w')
      | (NetErr e, w') \<Rightarrow> (Returned (z, Some e), w')
      | (Reply code status body, w') \<Rightarrow>
          if code div 100 \<noteq> 2 then (Returned (z, Some (''http '' @ path @ '': '' @ status)), w')
          else (Returned (unmarshal z decf body), w'))"

definition set_lease_out :: "lease_out setter" where
  "set_lease_out k v x = (let n = ToLower k in
     if n = ''ok'' then put_bool v (\<lambda>b. x\<lparr>lo_OK := b\<rparr>) x
     else if n = ''lease'' then
       (let (l, ok) = decode_struct (lo_Lease x) set_lease v in (x\<lparr>lo_Lease := l\<rparr>, ok))
     else (x, True))"

definition dec_lease_out :: "json \<Rightarrow> lease_out \<times> bool" where
  "dec_lease_out j = decode_struct zero_lease_out set_lease_out j"

definition TryClaim ::
  "'w http \<Rightarrow> HTTPClaimClient \<Rightarrow> string \<Rightarrow> string \<Rightarrow> duration \<Rightarrow> 'w \<Rightarrow> (string + task_lease) outcome \<times> 'w" where
  "TryClaim h cl taskID agentID ttl w =
     (case claim_post h cl (''/api/tasks/'' @ taskID @ ''/try-claim'')
             (JObj [(''agent_id'', JStr agentID), (''ttl_sec'', JNum (seconds_of ttl))]) zero_lease_out dec_lease_out w of
        (Crashed, w') \<Rightarrow> (Crashed, w')
      | (Returned (_, Some e), w') \<Rightarrow> (Returned (Inl e), w')
      | (Returned (out, None), w') \<Rightarrow>
          if \<not> lo_OK out then (Returned (Inl ''claim not ok''), w') else (Returned (Inr (lo_Lease out)), w'))"

definition Heartbeat ::
  "'w http \<Rightarrow> HTTPClaimClient \<Rightarrow> string \<Rightarrow> string \<Rightarrow> string \<Rightarrow> duration \<Rightarrow> i64 \<Rightarrow> 'w \<Rightarrow> (string + task_lease) outcome \<times> 'w" where
  "Heartbeat h cl taskID agentID nonce ttl leaseVersion w =
     (case claim_post h cl (''/api/tasks/'' @ taskID @ ''/heartbeat'')
             (JObj [(''agent_id'', JStr agentID), (''lease_version'', JNum (sint leaseVersion)), (''nonce'', JStr nonce),
                (''ttl_sec'', JNum (seconds_of ttl))]) zero_lease_out dec_lease_out w of
        (Crashed, w') \<Rightarrow> (Crashed, w')
      | (Returned (_, Some e), w') \<Rightarrow> (Returned (Inl e), w')
      | (Returned (out, None), w') \<Rightarrow>
          if \<not> lo_OK out then (Returned (Inl ''heartbeat not ok''), w') else (Returned (Inr (lo_Lease out)), w'))"

text \<open>The reply of a release has no lease.\<close>

definition set_ok :: "bool setter" where
  "set_ok k v x = (if ToLower k = ''ok'' then put_bool v (\<lambda>b. b) x else (x, True))"

definition Release :: "'w http \<Rightarrow> HTTPClaimClient \<Rightarrow> string \<Rightarrow> string \<Rightarrow> string \<Rightarrow> 'w \<Rightarrow> go_error outcome \<times> 'w" where
  "Release h cl taskID agentID nonce w =
     (case claim_post h cl (''/api/tasks/'' @ taskID @ ''/release'')
             (JObj [(''agent_id'', JStr agentID), (''nonce'', JStr nonce)]) False (decode_struct False set_ok) w of
        (Crashed, w') \<Rightarrow> (Crashed, w')
      | (Returned (_, Some e), w') \<Rightarrow> (Returned (Some e), w')
      | (Returned (ok, None), w') \<Rightarrow> if \<not> ok then (Returned (Some ''release not ok''), w') else (Returned None, w'))"

subsection \<open>Finish reports\<close>

definition finish_header :: "FinishClient \<Rightarrow> string \<Rightarrow> i64 \<Rightarrow> string \<Rightarrow> string" where
  "finish_header cl agentID leaseToken =
     (let h0 = set_auth (cl_Token cl) ((\<lambda>_. [])(''Content-Type'' := ''application/json''));
          h1 = (if agentID \<noteq> [] then h0(''X-Agent-ID'' := agentID) else h0)
      in if 0 < sint leaseToken then h1(''X-Lease-Token'' := fmt_d (sint leaseToken)) else h1)"

definition finish_post ::
  "'w http \<Rightarrow> FinishClient \<Rightarrow> string \<Rightarrow> json \<Rightarrow> string \<Rightarrow> i64 \<Rightarrow> 'w \<Rightarrow> go_error outcome \<times> 'w" where
  "finish_post h cl path inp agentID leaseToken w =
     (case h \<lparr>hc_method = ''POST'', hc_url = cl_BaseURL cl @ path, hc_header = finish_header cl agentID leaseToken,
              hc_body = Doc inp\<rparr> w of
        (BadURL e, w') \<Rightarrow> (Crashed, w')
      | (NetErr e, w') \<Rightarrow> (Returned (Some (''finish http request failed: '' @ e)), w')
      | (Reply code status body, w') \<Rightarrow>
          if code \<ge> 500 then (Returned (Some (''finish http server error: '' @ dec code)), w')
          else if code \<ge> 400 then (Returned (Some (''finish http client error: '' @ dec code)), w')
          else (Returned None, w'))"

definition ShouldRetryFinish :: "go_error \<Rightarrow> bool" where
  "ShouldRetryFinish err =
     (case err of
        None \<Rightarrow> False
      | Some msg \<Rightarrow>
          if Contains msg ''connection refused'' then True
          else if Contains msg ''timeout'' then True
          else if Contains msg ''server error'' then True
          else False)"

text \<open>The members of the body come in the order of their names, as \<open>json.Marshal\<close> writes a map.\<close>

definition Report ::
  "'w http \<Rightarrow> FinishClient \<Rightarrow> string \<Rightarrow> string \<Rightarrow> (string \<times> json) list \<Rightarrow> string \<Rightarrow> string list \<Rightarrow> string \<Rightarrow> string \<Rightarrow> i64 \<Rightarrow>
   'w \<Rightarrow> go_error outcome \<times> 'w" where
  "Report h cl jobID status metrics resultCID artifacts errMsg agentID leaseToken w =
     finish_post h cl (''/jobs/'' @ jobID @ ''/finish'')
       (JObj ((''artifacts'', enc_strs artifacts) # omit (errMsg = []) ''error'' (JStr errMsg) @
          [(''metrics'', JObj metrics), (''result_root_cid'', JStr resultCID), (''status'', JStr status)]))
       agentID leaseToken w"

subsection \<open>Waiting for the manifest\<close>

text \<open>The body of the answer: an object whose member \<open>manifest\<close> is a pointer.\<close>

definition set_wait_out :: "manifest option setter" where
  "set_wait_out k v x = (if ToLower k = ''manifest'' then put_ptr dec_manifest v (\<lambda>m. m) x else (x, True))"

definition ready_manifest :: "reply \<Rightarrow> manifest option" where
  "ready_manifest r =
     (case r of
        Reply code status body \<Rightarrow>
          if code = 200
          then (case unmarshal None (decode_struct None set_wait_out) body of
                  (Some m, None) \<Rightarrow> if mf_RootCID m \<noteq> [] \<and> mf_Providers m \<noteq> [] then Some m else None
                | _ \<Rightarrow> None)
          else None
      | _ \<Rightarrow> None)"

text \<open>The loop of \<open>WaitForManifest\<close>: \<open>clk n\<close> is the clock at the deadline test of round \<open>n\<close>, \<open>done n\<close>
  the error of the context when its end wins the \<open>select\<close> of that round. Not returning is \<open>None\<close>.\<close>

partial_function (option) wait_loop ::
  "'w http \<Rightarrow> http_call \<Rightarrow> (nat \<Rightarrow> time) \<Rightarrow> (nat \<Rightarrow> go_error) \<Rightarrow> time \<Rightarrow> nat \<Rightarrow> 'w \<Rightarrow> ((string + manifest) \<times> nat \<times> 'w) option" where
  "wait_loop h req clk done deadline n w =
     (case h req w of
        (BadURL e, w') \<Rightarrow> Some (Inl e, n, w')
      | (r, w') \<Rightarrow>
          (case ready_manifest r of
             Some m \<Rightarrow> Some (Inr m, n, w')
           | None \<Rightarrow>
               if clk n > deadline then Some (Inl ''manifest not ready'', n, w')
               else (case done n of
                       Some e \<Rightarrow> Some (Inl e, n, w')
                     | None \<Rightarrow> wait_loop h req clk done deadline (Suc n) w')))"

text \<open>The result carries the number of rounds that were slept through.\<close>

definition WaitForManifest ::
  "'w http \<Rightarrow> string \<Rightarrow> string \<Rightarrow> string \<Rightarrow> duration \<Rightarrow> time \<Rightarrow> (nat \<Rightarrow> time) \<Rightarrow> (nat \<Rightarrow> go_error) \<Rightarrow> 'w \<Rightarrow>
   ((string + manifest) \<times> nat \<times> 'w) option" where
  "WaitForManifest h baseURL token taskID maxWait start clk done w =
     wait_loop h \<lparr>hc_method = ''GET'', hc_url = baseURL @ ''/api/tasks/'' @ taskID,
         hc_header = set_auth token (\<lambda>_. []), hc_body = Raw []\<rparr> clk done (start + maxWait) 0 w"

subsection \<open>Replies\<close>

lemma ToLower_client_names [simp]: "ToLower ''ok'' = ''ok''" "ToLower ''manifest'' = ''manifest''"
  by code_simp+

lemma dec_enc_lease_out [simp, json_simps]: "dec_lease_out (enc_lease_out x) = (x, True)"
  using dec_enc_lease [of "lo_Lease x"]
  by (simp add: dec_lease_out_def enc_lease_out_def set_lease_out_def zero_lease_out_def Let_def
      dec_lease_def zero_lease_def [symmetric] split: prod.splits)

subsection \<open>The waiting loop\<close>

lemma wait_loop_returns:
  assumes "deadline < clk (n + k)"
  shows "\<exists>r m w'. wait_loop h req clk done deadline n w = Some (r, m, w') \<and> n \<le> m \<and> m \<le> n + k \<and>
    (\<forall>man. r = Inr man \<longrightarrow> mf_RootCID man \<noteq> [] \<and> mf_Providers man \<noteq> [])"
  using assms
proof (induction k arbitrary: n w)
  case 0
  obtain rep w1 where "h req w = (rep, w1)" by fastforce
  with 0 show ?case
    by (subst wait_loop.simps) (auto simp: ready_manifest_def split: reply.splits option.splits prod.splits if_splits)
next
  case (Suc k)
  obtain rep w1 where h: "h req w = (rep, w1)" by fastforce
  have more: "\<exists>r m w'. wait_loop h req clk done deadline (Suc n) w1 = Some (r, m, w') \<and> n \<le> m \<and> m \<le> n + Suc k \<and>
    (\<forall>man. r = Inr man \<longrightarrow> mf_RootCID man \<noteq> [] \<and> mf_Providers man \<noteq> [])"
    using Suc.IH [of "Suc n" w1] Suc.prems by auto
  show ?case
  proof (cases "ready_manifest rep")
    case None
    with h more show ?thesis
      by (subst wait_loop.simps) (auto split: reply.splits option.splits)
  next
    case (Some man)
    then have "mf_RootCID man \<noteq> [] \<and> mf_Providers man \<noteq> []" "\<forall>e. rep \<noteq> BadURL e"
      by (auto simp: ready_manifest_def split: reply.splits option.splits prod.splits if_splits)
    with h Some show ?thesis
      by (subst wait_loop.simps) (auto split: reply.splits)
  qed
qed

text \<open>When no reply carries a manifest with providers, the loop ends only by its deadline.\<close>

lemma wait_loop_times_out:
  assumes "deadline < clk (n + k)" "Q w"
    and "\<And>w. Q w \<Longrightarrow> ready_manifest (fst (h req w)) = None \<and> (\<forall>e. fst (h req w) \<noteq> BadURL e) \<and> Q (snd (h req w))"
  shows "\<exists>m w'. wait_loop h req clk (\<lambda>_. None) deadline n w = Some (Inl ''manifest not ready'', m, w') \<and> deadline < clk m \<and> Q w'"
  using assms(1,2)
proof (induction k arbitrary: n w)
  case 0
  obtain rep w1 where h: "h req w = (rep, w1)" by fastforce
  with 0 assms(3) [of w] show ?case by (subst wait_loop.simps) (auto split: reply.splits)
next
  case (Suc k)
  obtain rep w1 where h: "h req w = (rep, w1)" by fastforce
  from Suc.IH [of "Suc n" w1] Suc.prems h assms(3) [of w] show ?case
    by (subst wait_loop.simps) (auto split: reply.splits)
qed

text \<open>What a request keeps, the loop keeps.\<close>

lemma wait_loop_invariant:
  assumes "\<And>w. Q w \<Longrightarrow> Q (snd (h req w))" "Q w" "deadline < clk (n + k)"
  shows "\<exists>r m w'. wait_loop h req clk dn deadline n w = Some (r, m, w') \<and> Q w'"
  using assms(2,3)
proof (induction k arbitrary: n w)
  case 0
  obtain rep w1 where "h req w = (rep, w1)" by fastforce
  with 0 assms(1) [of w] show ?case by (subst wait_loop.simps) (auto split: reply.splits option.splits)
next
  case (Suc k)
  obtain rep w1 where h: "h req w = (rep, w1)" by fastforce
  with Suc.prems(1) assms(1) [of w] have "Q w1" by simp
  with Suc.IH [of w1 "Suc n"] Suc.prems(2) h show ?case
    by (subst wait_loop.simps) (auto split: reply.splits option.splits)
qed

text \<open>A clock that has advanced by the pause of half a second in every round.\<close>

lemma ticking_clock:
  assumes "t \<le> clk 0" "\<And>n. clk n + 500 * millisecond \<le> clk (Suc n)"
  shows "t + int n * (500 * millisecond) \<le> clk n"
proof (induction n)
  case (Suc n)
  then show ?case using assms(2) [of n] by (simp add: algebra_simps)
qed (simp add: assms(1))

lemma deadline_passed:
  assumes "t \<le> clk 0" "\<And>n. clk n + 500 * millisecond \<le> clk (Suc n)"
  shows "t + maxWait < clk (nat (maxWait div (500 * millisecond) + 1))"
proof -
  let ?q = "maxWait div (500 * millisecond)"
  have "maxWait = ?q * (500 * millisecond) + maxWait mod (500 * millisecond)" "maxWait mod (500 * millisecond) < 500 * millisecond"
    by simp_all
  then have "maxWait < (?q + 1) * (500 * millisecond)" by (simp add: algebra_simps)
  also have "\<dots> \<le> int (nat (?q + 1)) * (500 * millisecond)" by simp
  finally show ?thesis using ticking_clock [OF assms, of "nat (?q + 1)"] by linarith
qed

subsection \<open>Finish errors\<close>

lemma server_error_retried: "ShouldRetryFinish (Some (''finish http server error: '' @ dec code))"
  using Contains_append [of "''finish http ''" "''server error''" "'': '' @ dec code"]
  by (simp add: ShouldRetryFinish_def del: Contains.simps)

lemma client_error_final: "\<not> ShouldRetryFinish (Some (''finish http client error: '' @ dec code))"
proof -
  have "Contains (''finish http client error: '' @ dec code) s \<longleftrightarrow> Contains ''finish http client error: '' s"
    if "s \<in> {''connection refused'', ''timeout'', ''server error''}" for s
    using that Contains_dec [of s "''finish http client error: ''" code] by (auto simp: digit_val_def simp del: Contains.simps)
  moreover have "\<not> Contains ''finish http client error: '' ''connection refused''"
    "\<not> Contains ''finish http client error: '' ''timeout''" "\<not> Contains ''finish http client error: '' ''server error''"
    by code_simp+
  ultimately show ?thesis by (simp add: ShouldRetryFinish_def del: Contains.simps)
qed

subsection \<open>Properties\<close>

text \<open>C35: waiting for a manifest ends. On a clock that advances by the pause in every round the call
  returns, whatever the server answers, after at most one round more than half seconds fit into
  the waiting time; a manifest it returns has a root and at least one provider.\<close>

theorem WaitForManifest_returns:
  assumes "start \<le> clk 0" "\<And>n. clk n + 500 * millisecond \<le> clk (Suc n)" "0 \<le> maxWait"
  shows "\<exists>r n w'. WaitForManifest h base token i maxWait start clk done w = Some (r, n, w') \<and>
    int n \<le> maxWait div (500 * millisecond) + 1 \<and>
    (\<forall>m. r = Inr m \<longrightarrow> mf_RootCID m \<noteq> [] \<and> mf_Providers m \<noteq> [])"
proof -
  let ?q = "maxWait div (500 * millisecond)"
  have "0 \<le> ?q" using assms(3) by simp
  moreover have "start + maxWait < clk (0 + nat (?q + 1))" using deadline_passed [OF assms(1,2), of maxWait] by simp
  from wait_loop_returns [where clk = clk and n = 0 and k = "nat (?q + 1)" and h = h and w = w, OF this] obtain r m w' where
    "WaitForManifest h base token i maxWait start clk done w = Some (r, m, w')" "m \<le> 0 + nat (?q + 1)"
    "\<forall>man. r = Inr man \<longrightarrow> mf_RootCID man \<noteq> [] \<and> mf_Providers man \<noteq> []"
    unfolding WaitForManifest_def by blast
  ultimately show ?thesis by (intro exI [of _ r] exI [of _ m] exI [of _ w']) auto
qed

text \<open>Which finish reports are sent again. A status of the 5xx family always is, one of the 4xx
  family never; a failed exchange is only when its text names a refused connection, a (lower-case)
  timeout or a server error.\<close>

lemma finish_retry_policy:
  assumes "finish_post h cl path inp a tok w = (Returned err, w')"
    and "h \<lparr>hc_method = ''POST'', hc_url = cl_BaseURL cl @ path, hc_header = finish_header cl a tok, hc_body = Doc inp\<rparr> w = (rep, w')"
  shows "case rep of
      BadURL e \<Rightarrow> False
    | NetErr e \<Rightarrow> ShouldRetryFinish err \<longleftrightarrow>
        (\<exists>s\<in>{''connection refused'', ''timeout'', ''server error''}. Contains (''finish http request failed: '' @ e) s)
    | Reply code status body \<Rightarrow>
        if code < 400 then err = None \<and> \<not> ShouldRetryFinish err
        else if code < 500 then err \<noteq> None \<and> \<not> ShouldRetryFinish err
        else ShouldRetryFinish err"
proof (cases rep)
  case (BadURL e)
  with assms show ?thesis by (simp add: finish_post_def)
next
  case (NetErr e)
  with assms show ?thesis by (auto simp: finish_post_def ShouldRetryFinish_def simp del: Contains.simps)
next
  case (Reply code status body)
  with assms server_error_retried [of code] client_error_final [of code] show ?thesis
    by (auto simp: finish_post_def ShouldRetryFinish_def [of None] simp del: Contains.simps split: if_splits)
qed

theorem WaitForManifest_returns_witness:
  "\<exists>r n w'. WaitForManifest (\<lambda>_ w. (NetErr ''EOF'', w)) ''http://c'' ''s'' ''j'' (15 * second) 0
      (\<lambda>n. int n * (500 * millisecond)) (\<lambda>_. None) () = Some (r, n, w') \<and> int n \<le> 31"
  using WaitForManifest_returns [of 0 "\<lambda>n. int n * (500 * millisecond)" "15 * second" "\<lambda>_ w. (NetErr ''EOF'', w)"
      "''http://c''" "''s''" "''j''" "\<lambda>_. None" "()"] by auto

lemma finish_retry_policy_witness:
  "ShouldRetryFinish (Some (''finish http server error: '' @ dec 503))"
proof -
  let ?h = "\<lambda>_ w. (Reply 503 ''503 Service Unavailable'' (Raw []), w)"
  let ?cl = "\<lparr>cl_BaseURL = ''http://c'', cl_Token = ''s''\<rparr>"
  have "finish_post ?h ?cl ''/jobs/j/finish'' JNull ''A'' 3 () = (Returned (Some (''finish http server error: '' @ dec 503)), ())"
    by (simp add: finish_post_def)
  from finish_retry_policy [OF this] show ?thesis by simp
qed

end
