(* ===== verification/Dht_Node.thy ===== *)
theory Dht_Node
  imports Task_Types
begin

text \<open>
  The package \<open>internal/dht\<close>: the JSON operations of a node (\<open>json.go\<close>), its key space and
  the compare-and-swap loop (\<open>node.go\<close>), and the record validator the node installs.

  The Kademlia DHT of libp2p is a parameter: a \<open>kad\<close> record holds its \<open>PutValue\<close> and
  \<open>GetValue\<close> as functions of the timeout, the key and the state \<open>'n\<close> of the network, which
  they return updated. Nothing is assumed of them in the definitions. What the code relies on
  is stated by the locale \<open>dht_net\<close> (a stored value is what a later read returns) and by
  \<open>dht_up\<close> (a write succeeds, or fails only for want of peers). Both are interpreted on the
  node with the default namespace, alone and in a network whose peers answer.
\<close>

record 'n kad =
  kad_put :: "duration \<Rightarrow> string \<Rightarrow> payload \<Rightarrow> 'n \<Rightarrow> go_error \<times> 'n"
  kad_get :: "duration \<Rightarrow> string \<Rightarrow> 'n \<Rightarrow> (string + payload) \<times> 'n"

text \<open>The immutable part of a \<open>Node\<close>, and the mutable state behind it: the network and the
  package-level \<open>localStore\<close>.\<close>

record 'n dht_cfg =
  cf_ns :: string
  cf_kad :: "'n kad"

record 'n dht =
  net :: 'n
  localStore :: "string \<rightharpoonup> payload"

definition nsKey :: "string \<Rightarrow> string \<Rightarrow> string" where
  "nsKey ns key = (if ns = [] then ''/'' @ key else ''/'' @ ns @ ''/'' @ key)"

definition withTimeout :: "duration \<Rightarrow> duration" where
  "withTimeout d = (if d \<le> 0 then 5 * second else d)"

definition ErrLookupFailure :: string where
  "ErrLookupFailure = ''failed to find any peer in table''"

definition no_peers :: "string \<Rightarrow> bool" where
  "no_peers e \<longleftrightarrow> Contains e ErrLookupFailure"

definition Put :: "'n dht_cfg \<Rightarrow> string \<Rightarrow> payload \<Rightarrow> duration \<Rightarrow> 'n dht \<Rightarrow> go_error \<times> 'n dht" where
  "Put c key val timeout d =
     (let (e, n') = kad_put (cf_kad c) (withTimeout timeout) (nsKey (cf_ns c) key) val (net d)
      in (e, d\<lparr>net := n'\<rparr>))"

definition Get :: "'n dht_cfg \<Rightarrow> string \<Rightarrow> duration \<Rightarrow> 'n dht \<Rightarrow> (string + payload) \<times> 'n dht" where
  "Get c key timeout d =
     (let (r, n') = kad_get (cf_kad c) (withTimeout timeout) (nsKey (cf_ns c) key) (net d)
      in (r, d\<lparr>net := n'\<rparr>))"

definition PutJSON :: "'n dht_cfg \<Rightarrow> string \<Rightarrow> json \<Rightarrow> 'n dht \<Rightarrow> go_error \<times> 'n dht" where
  "PutJSON c key j d =
     (case kad_put (cf_kad c) (withTimeout (5 * second)) (nsKey (cf_ns c) key) (Doc j) (net d) of
        (None, n') \<Rightarrow> (None, d\<lparr>net := n'\<rparr>)
      | (Some e, n') \<Rightarrow>
          if no_peers e
          then (None, d\<lparr>net := n', localStore := (localStore d)(nsKey (cf_ns c) key \<mapsto> Doc j)\<rparr>)
          else (Some e, d\<lparr>net := n'\<rparr>))"

definition DelJSON :: "'n dht_cfg \<Rightarrow> string \<Rightarrow> 'n dht \<Rightarrow> go_error \<times> 'n dht" where
  "DelJSON c key d =
     (case PutJSON c key (JObj []) d of
        (Some e, d') \<Rightarrow> (Some e, d')
      | (None, d') \<Rightarrow> (None, d'\<lparr>localStore := (localStore d')(nsKey (cf_ns c) key := None)\<rparr>))"

text \<open>The read of \<open>GetJSON\<close> and of the compare-and-swap loop: the network first, then \<open>localStore\<close>.\<close>

definition read_fallback :: "'n dht_cfg \<Rightarrow> duration \<Rightarrow> string \<Rightarrow> 'n dht \<Rightarrow> (string + payload) \<times> 'n dht" where
  "read_fallback c timeout nsk d =
     (case kad_get (cf_kad c) timeout nsk (net d) of
        (Inr v, n') \<Rightarrow> (Inr v, d\<lparr>net := n'\<rparr>)
      | (Inl e, n') \<Rightarrow>
          (case localStore d nsk of
             Some lv \<Rightarrow> (Inr lv, d\<lparr>net := n'\<rparr>)
           | None \<Rightarrow> (Inl e, d\<lparr>net := n'\<rparr>)))"

definition GetJSON ::
  "'n dht_cfg \<Rightarrow> 'a \<Rightarrow> (json \<Rightarrow> 'a \<times> bool) \<Rightarrow> string \<Rightarrow> duration \<Rightarrow> 'n dht \<Rightarrow> ('a \<times> go_error) \<times> 'n dht" where
  "GetJSON c z decf key timeout d =
     (case read_fallback c (withTimeout timeout) (nsKey (cf_ns c) key) d of
        (Inl e, d') \<Rightarrow> ((z, Some e), d')
      | (Inr p, d') \<Rightarrow> (unmarshal z decf p, d'))"

subsection \<open>Compare and swap\<close>

definition ErrCASConflict :: string where
  "ErrCASConflict = ''cas conflict''"

text \<open>\<open>jitterBackoff\<close>; \<open>r\<close> is the value of \<open>rand.Intn(200)\<close>.\<close>

definition jitterBackoff :: "nat \<Rightarrow> nat \<Rightarrow> duration" where
  "jitterBackoff i r = 100 * millisecond * 2 ^ i + int r * millisecond"

text \<open>The callback \<open>check(prev)\<close> at the instant it is called: \<open>(ok, next, err)\<close>. A missing
  value is passed as the empty byte string.\<close>

type_synonym cas_check = "time \<Rightarrow> payload \<Rightarrow> bool \<times> payload \<times> go_error"

datatype cas_outcome = CasReturn go_error | CasRetry string

definition cas_verify :: "payload \<Rightarrow> payload \<Rightarrow> cas_outcome" where
  "cas_verify aft nxt = (if aft \<noteq> nxt then CasRetry ErrCASConflict else CasReturn None)"

definition cas_attempt ::
  "'n dht_cfg \<Rightarrow> string \<Rightarrow> cas_check \<Rightarrow> time \<Rightarrow> 'n dht \<Rightarrow> cas_outcome \<times> 'n dht" where
  "cas_attempt c nsk check now d =
     (let (r, d1) = read_fallback c (withTimeout (3 * second)) nsk d;
          prev = (case r of Inr v \<Rightarrow> v | Inl _ \<Rightarrow> Raw []);
          (ok, nxt, err) = check now prev
      in case err of
           Some e \<Rightarrow> (CasReturn (Some e), d1)
         | None \<Rightarrow>
             if \<not> ok then (CasRetry ErrCASConflict, d1)
             else (case kad_put (cf_kad c) (withTimeout (5 * second)) nsk nxt (net d1) of
                (Some e, n2) \<Rightarrow>
                  if no_peers e
                  then (CasReturn None, d1\<lparr>net := n2, localStore := (localStore d1)(nsk \<mapsto> nxt)\<rparr>)
                  else (CasRetry e, d1\<lparr>net := n2\<rparr>)
              | (None, n2) \<Rightarrow>
                  (case read_fallback c (withTimeout (3 * second)) nsk (d1\<lparr>net := n2\<rparr>) of
                     (Inl e, d3) \<Rightarrow> (CasRetry e, d3)
                   | (Inr aft, d3) \<Rightarrow> (cas_verify aft nxt, d3))))"

text \<open>The loop: \<open>k\<close> attempts are left, \<open>i\<close> have been made; \<open>clk i\<close> is the clock at attempt \<open>i\<close> and
  \<open>rnd i\<close> its random jitter. The result carries the time spent in \<open>time.Sleep\<close>.\<close>

fun cas_loop ::
  "'n dht_cfg \<Rightarrow> string \<Rightarrow> cas_check \<Rightarrow> (nat \<Rightarrow> time) \<Rightarrow> (nat \<Rightarrow> nat) \<Rightarrow> nat \<Rightarrow> nat \<Rightarrow> go_error \<Rightarrow>
   duration \<Rightarrow> 'n dht \<Rightarrow> (go_error \<times> duration) \<times> 'n dht" where
  "cas_loop c nsk check clk rnd 0 i lastErr slept d =
     ((Some (case lastErr of None \<Rightarrow> ErrCASConflict | Some e \<Rightarrow> e), slept), d)"
| "cas_loop c nsk check clk rnd (Suc k) i lastErr slept d =
     (case cas_attempt c nsk check (clk i) d of
        (CasReturn e, d') \<Rightarrow> ((e, slept), d')
      | (CasRetry e, d') \<Rightarrow>
          cas_loop c nsk check clk rnd k (Suc i) (Some e) (slept + jitterBackoff i (rnd i)) d')"

definition PutJSONCAS ::
  "'n dht_cfg \<Rightarrow> string \<Rightarrow> cas_check \<Rightarrow> (nat \<Rightarrow> time) \<Rightarrow> (nat \<Rightarrow> nat) \<Rightarrow> 'n dht \<Rightarrow>
   (go_error \<times> duration) \<times> 'n dht" where
  "PutJSONCAS c key check clk rnd d = cas_loop c (nsKey (cf_ns c) key) check clk rnd 5 0 None 0 d"

subsection \<open>The record validator\<close>

text \<open>\<open>record.SplitKey\<close> and \<open>NamespacedValidator\<close> of go-libp2p-record, with the map that
  \<open>NewNode\<close> builds: its only entry, \<open>node_validator\<close>, sends the namespace to \<open>noopValidator\<close>.\<close>

definition ErrInvalidRecordType :: string where
  "ErrInvalidRecordType = ''invalid record keytype''"

fun index_byte :: "char \<Rightarrow> string \<Rightarrow> nat option" where
  "index_byte b [] = None"
| "index_byte b (x # xs) = (if x = b then Some 0 else map_option Suc (index_byte b xs))"

definition SplitKey :: "string \<Rightarrow> (string \<times> string) option" where
  "SplitKey key =
     (case key of
        [] \<Rightarrow> None
      | x # rest \<Rightarrow>
          if x \<noteq> CHR ''/'' then None
          else (case index_byte (CHR ''/'') rest of
                  None \<Rightarrow> None
                | Some 0 \<Rightarrow> None
                | Some (Suc i) \<Rightarrow> Some (take (Suc i) rest, drop (Suc (Suc i)) rest)))"

text \<open>The interface \<open>Validator\<close>, the validator of the program, and the map by namespace.\<close>

record validator =
  va_Validate :: "string \<Rightarrow> payload \<Rightarrow> go_error"
  va_Select :: "string \<Rightarrow> payload list \<Rightarrow> nat \<times> go_error"

definition noopValidator :: validator where
  "noopValidator = \<lparr>va_Validate = (\<lambda>key v. None), va_Select = (\<lambda>key vs. (0, None))\<rparr>"

type_synonym NamespacedValidator = "string \<rightharpoonup> validator"

definition ValidatorByKey :: "NamespacedValidator \<Rightarrow> string \<Rightarrow> validator option" where
  "ValidatorByKey v key = (case SplitKey key of None \<Rightarrow> None | Some (ns, _) \<Rightarrow> v ns)"

definition Validate :: "NamespacedValidator \<Rightarrow> string \<Rightarrow> payload \<Rightarrow> go_error" where
  "Validate v key val =
     (case ValidatorByKey v key of
        None \<Rightarrow> Some ErrInvalidRecordType
      | Some vi \<Rightarrow> va_Validate vi key val)"

definition Select :: "NamespacedValidator \<Rightarrow> string \<Rightarrow> payload list \<Rightarrow> nat \<times> go_error" where
  "Select v key vals =
     (if vals = [] then (0, Some ''can't select from no values'')
      else (case ValidatorByKey v key of
              None \<Rightarrow> (0, Some ErrInvalidRecordType)
            | Some vi \<Rightarrow> va_Select vi key vals))"

definition node_validator :: "string \<Rightarrow> NamespacedValidator" where
  "node_validator namespace = [namespace \<mapsto> noopValidator]"

subsection \<open>Two networks\<close>

text \<open>
  A node without peers, as vendored go-libp2p-kad-dht behaves: \<open>PutValue\<close> validates the key,
  stores the record in the node's own datastore and then fails to find a peer; \<open>GetValue\<close>
  answers from the datastore. And a node whose peers hold every record it publishes.
\<close>

definition solo_put :: "string \<Rightarrow> duration \<Rightarrow> string \<Rightarrow> payload \<Rightarrow> (string \<rightharpoonup> payload) \<Rightarrow> go_error \<times> (string \<rightharpoonup> payload)" where
  "solo_put namespace t k v m =
     (case Validate (node_validator namespace) k v of
        Some e \<Rightarrow> (Some e, m)
      | None \<Rightarrow> (Some ErrLookupFailure, m(k \<mapsto> v)))"

definition lan_put :: "string \<Rightarrow> duration \<Rightarrow> string \<Rightarrow> payload \<Rightarrow> (string \<rightharpoonup> payload) \<Rightarrow> go_error \<times> (string \<rightharpoonup> payload)" where
  "lan_put namespace t k v m =
     (case Validate (node_validator namespace) k v of Some e \<Rightarrow> (Some e, m) | None \<Rightarrow> (None, m(k \<mapsto> v)))"

definition map_get :: "duration \<Rightarrow> string \<Rightarrow> (string \<rightharpoonup> payload) \<Rightarrow> (string + payload) \<times> (string \<rightharpoonup> payload)" where
  "map_get t k m = (case m k of None \<Rightarrow> (Inl ''routing: not found'', m) | Some v \<Rightarrow> (Inr v, m))"

definition solo_cfg :: "string \<Rightarrow> (string \<rightharpoonup> payload) dht_cfg" where
  "solo_cfg namespace = \<lparr>cf_ns = namespace, cf_kad = \<lparr>kad_put = solo_put namespace, kad_get = map_get\<rparr>\<rparr>"

definition lan_cfg :: "string \<Rightarrow> (string \<rightharpoonup> payload) dht_cfg" where
  "lan_cfg namespace = \<lparr>cf_ns = namespace, cf_kad = \<lparr>kad_put = lan_put namespace, kad_get = map_get\<rparr>\<rparr>"

definition fresh_dht :: "(string \<rightharpoonup> payload) dht" where
  "fresh_dht = \<lparr>net = Map.empty, localStore = Map.empty\<rparr>"

text \<open>What a read of a key returns, given the contents \<open>view\<close> of the network.\<close>

definition doc :: "'n dht_cfg \<Rightarrow> ('n \<Rightarrow> string \<rightharpoonup> payload) \<Rightarrow> 'n dht \<Rightarrow> string \<rightharpoonup> payload" where
  "doc c view d k =
     (case view (net d) (nsKey (cf_ns c) k) of
        Some p \<Rightarrow> Some p
      | None \<Rightarrow> localStore d (nsKey (cf_ns c) k))"

text \<open>The argument the compare-and-swap loop passes to its callback.\<close>

definition stored_or_nil :: "payload option \<Rightarrow> payload" where
  "stored_or_nil v = (case v of Some p \<Rightarrow> p | None \<Rightarrow> Raw [])"

text \<open>The value a reader that ignores the error of \<open>GetJSON\<close> goes on with.\<close>

definition read_as :: "'a \<Rightarrow> (json \<Rightarrow> 'a \<times> bool) \<Rightarrow> payload option \<Rightarrow> 'a" where
  "read_as z decf v = (case v of None \<Rightarrow> z | Some p \<Rightarrow> fst (unmarshal z decf p))"

definition readable :: "'a \<Rightarrow> (json \<Rightarrow> 'a \<times> bool) \<Rightarrow> payload option \<Rightarrow> bool" where
  "readable z decf v \<longleftrightarrow> (case v of None \<Rightarrow> False | Some p \<Rightarrow> snd (unmarshal z decf p) = None)"

subsection \<open>Keys and validation\<close>

lemma nsKey_inj [simp]: "nsKey ns k = nsKey ns k' \<longleftrightarrow> k = k'"
  by (simp add: nsKey_def)

lemma index_byte_absent: "b \<notin> set a \<Longrightarrow> index_byte b (a @ b # s) = Some (length a)"
  by (induction a) auto

lemma SplitKey_nsKey:
  assumes "ns \<noteq> []" "CHR ''/'' \<notin> set ns"
  shows "SplitKey (nsKey ns k) = Some (ns, k)"
  using assms index_byte_absent [of "CHR ''/''" ns k]
  by (cases ns) (auto simp: SplitKey_def nsKey_def)

lemma Validate_nsKey:
  assumes "ns \<noteq> []" "CHR ''/'' \<notin> set ns"
  shows "Validate (node_validator ns) (nsKey ns k) v = None"
  by (simp add: Validate_def ValidatorByKey_def node_validator_def SplitKey_nsKey assms noopValidator_def)

lemma Select_nsKey:
  assumes "ns \<noteq> []" "CHR ''/'' \<notin> set ns" "vs \<noteq> []"
  shows "Select (node_validator ns) (nsKey ns k) vs = (0, None)"
  by (simp add: Select_def ValidatorByKey_def node_validator_def SplitKey_nsKey assms noopValidator_def)

lemma Validate_empty_namespace: "Validate (node_validator []) (nsKey [] k) v = Some ErrInvalidRecordType"
  by (auto simp: Validate_def ValidatorByKey_def node_validator_def SplitKey_def nsKey_def split: list.splits option.splits nat.splits)

lemma no_peers_ErrLookupFailure [simp]: "no_peers ErrLookupFailure"
  using Contains_append [of "[]" ErrLookupFailure "[]"] by (simp add: no_peers_def)

lemma not_no_peers_ErrInvalidRecordType [simp]: "\<not> no_peers ErrInvalidRecordType"
  by (simp add: no_peers_def ErrInvalidRecordType_def ErrLookupFailure_def HasPrefix_def)

lemma read_as_Doc: "decf j = (x, True) \<Longrightarrow> read_as z decf (Some (Doc j)) = x"
  by (simp add: read_as_def unmarshal_Doc)

lemma readable_Doc: "decf j = (x, True) \<Longrightarrow> readable z decf (Some (Doc j))"
  by (simp add: readable_def unmarshal_Doc)

lemma read_state_ok [simp]: "state_ok (read_as zero_state dec_state v)"
  using dec_state_ok
  by (auto simp: read_as_def unmarshal_def split: option.splits payload.splits prod.splits bool.splits)
    (metis fst_conv)+

lemma read_state_Doc [simp]: "state_ok s \<Longrightarrow> read_as zero_state dec_state (Some (Doc (enc_state s))) = s"
  by (simp add: read_as_Doc dec_enc_state_ok)

lemma read_lease_Doc [simp]: "read_as zero_lease dec_lease (Some (Doc (enc_lease l))) = l"
  by (simp add: read_as_Doc)

lemma doc_stored:
  assumes "view n' = (view (net d))(nsKey (cf_ns c) k \<mapsto> v)" "net d' = n'"
    and "\<And>k'. k' \<noteq> k \<Longrightarrow> localStore d' (nsKey (cf_ns c) k') = localStore d (nsKey (cf_ns c) k')"
  shows "doc c view d' = (doc c view d)(k \<mapsto> v)"
  using assms by (intro ext) (auto simp: doc_def split: option.splits)

subsection \<open>A network that keeps what is stored\<close>

locale dht_net =
  fixes c :: "'n dht_cfg" and view :: "'n \<Rightarrow> string \<rightharpoonup> payload"
  assumes put_stored:
    "kad_put (cf_kad c) t (nsKey (cf_ns c) k) v n = (e, n') \<Longrightarrow> (\<forall>m. e = Some m \<longrightarrow> no_peers m) \<Longrightarrow>
       view n' = (view n)(nsKey (cf_ns c) k \<mapsto> v)"
    and get_frame: "kad_get (cf_kad c) t (nsKey (cf_ns c) k) n = (r, n') \<Longrightarrow> view n' = view n"
    and get_some: "view n (nsKey (cf_ns c) k) = Some v \<Longrightarrow>
       fst (kad_get (cf_kad c) t (nsKey (cf_ns c) k) n) = Inr v"
    and get_none: "view n (nsKey (cf_ns c) k) = None \<Longrightarrow>
       \<exists>e. fst (kad_get (cf_kad c) t (nsKey (cf_ns c) k) n) = Inl e"
begin

lemma read_fallback_doc:
  "(\<exists>e. fst (read_fallback c t (nsKey (cf_ns c) k) d) = Inl e \<and> doc c view d k = None) \<or>
   (\<exists>p. fst (read_fallback c t (nsKey (cf_ns c) k) d) = Inr p \<and> doc c view d k = Some p)"
proof -
  obtain r n' where g: "kad_get (cf_kad c) t (nsKey (cf_ns c) k) (net d) = (r, n')" by fastforce
  show ?thesis
  proof (cases "view (net d) (nsKey (cf_ns c) k)")
    case None
    with get_none [OF None, of t] g obtain e where "r = Inl e" by auto
    with None g show ?thesis
      by (cases "localStore d (nsKey (cf_ns c) k)") (simp_all add: read_fallback_def doc_def)
  next
    case (Some v)
    with get_some [OF Some, of t] g have "r = Inr v" by simp
    with Some g show ?thesis by (simp add: read_fallback_def doc_def)
  qed
qed

lemma read_fallback_frame:
  assumes "read_fallback c t (nsKey (cf_ns c) k) d = (r, d')"
  shows "doc c view d' = doc c view d"
proof -
  obtain r0 n' where g: "kad_get (cf_kad c) t (nsKey (cf_ns c) k) (net d) = (r0, n')" by fastforce
  then have "view n' = view (net d)" by (rule get_frame)
  moreover have "d' = d\<lparr>net := n'\<rparr>"
    using assms g by (auto simp: read_fallback_def split: sum.splits option.splits)
  ultimately show ?thesis by (intro ext) (simp add: doc_def split: option.split)
qed

lemma GetJSON_missing:
  "doc c view d k = None \<Longrightarrow> \<exists>e. fst (GetJSON c z decf k t d) = (z, Some e)"
  using read_fallback_doc [of "withTimeout t" k d]
  by (auto simp: GetJSON_def split: prod.splits)

lemma GetJSON_present:
  "doc c view d k = Some p \<Longrightarrow> fst (GetJSON c z decf k t d) = unmarshal z decf p"
  using read_fallback_doc [of "withTimeout t" k d]
  by (auto simp: GetJSON_def split: prod.splits)

lemma GetJSON_frame [dht_simps, simp]: "doc c view (snd (GetJSON c z decf k t d)) = doc c view d"
proof -
  obtain r d' where "read_fallback c (withTimeout t) (nsKey (cf_ns c) k) d = (r, d')" by fastforce
  then show ?thesis using read_fallback_frame by (cases r) (simp_all add: GetJSON_def)
qed

lemma GetJSON_value [dht_simps, simp]:
  "fst (fst (GetJSON c z decf k t d)) = read_as z decf (doc c view d k)"
  "snd (fst (GetJSON c z decf k t d)) = None \<longleftrightarrow> readable z decf (doc c view d k)"
  using GetJSON_missing [of d k z decf t] GetJSON_present [of d k _ z decf t]
  by (cases "doc c view d k"; auto simp: read_as_def readable_def)+

lemma GetJSON_cases:
  obtains err d' where "GetJSON c z decf k t d = ((read_as z decf (doc c view d k), err), d')"
    "err = None \<longleftrightarrow> readable z decf (doc c view d k)" "doc c view d' = doc c view d"
  using GetJSON_value [of z decf k t d] GetJSON_frame [of z decf k t d] that by (metis prod.collapse)

lemma PutJSON_doc:
  assumes "PutJSON c k j d = (None, d')"
  shows "doc c view d' = (doc c view d)(k \<mapsto> Doc j)"
proof -
  obtain e n' where g: "kad_put (cf_kad c) (withTimeout (5 * second)) (nsKey (cf_ns c) k) (Doc j) (net d) = (e, n')"
    by fastforce
  with assms have e: "\<forall>m. e = Some m \<longrightarrow> no_peers m" "net d' = n'"
      "\<And>k'. k' \<noteq> k \<Longrightarrow> localStore d' (nsKey (cf_ns c) k') = localStore d (nsKey (cf_ns c) k')"
    by (auto simp: PutJSON_def split: option.splits if_splits)
  from put_stored [OF g e(1)] e(2,3) show ?thesis by (rule doc_stored)
qed

lemma PutJSON_viewed:
  assumes "PutJSON c k j d = (None, d')"
  shows "view (net d') (nsKey (cf_ns c) k) \<noteq> None"
proof -
  obtain e n' where g: "kad_put (cf_kad c) (withTimeout (5 * second)) (nsKey (cf_ns c) k) (Doc j) (net d) = (e, n')"
    by fastforce
  with assms have "\<forall>m. e = Some m \<longrightarrow> no_peers m" "net d' = n'"
    by (auto simp: PutJSON_def split: option.splits if_splits)
  with put_stored [OF g] show ?thesis by simp
qed

lemma DelJSON_doc:
  assumes "DelJSON c k d = (None, d')"
  shows "doc c view d' = (doc c view d)(k \<mapsto> Doc (JObj []))"
proof -
  obtain e d1 where g: "PutJSON c k (JObj []) d = (e, d1)" by fastforce
  with assms have e: "e = None" and d': "d' = d1\<lparr>localStore := (localStore d1)(nsKey (cf_ns c) k := None)\<rparr>"
    by (auto simp: DelJSON_def split: option.splits)
  have "doc c view d1 = (doc c view d)(k \<mapsto> Doc (JObj []))"
    using g e by (simp add: PutJSON_doc)
  moreover have "view (net d1) (nsKey (cf_ns c) k) \<noteq> None"
    using PutJSON_viewed g e by blast
  then have "doc c view d' = doc c view d1" by (intro ext) (auto simp: d' doc_def split: option.split)
  ultimately show ?thesis by simp
qed

end

locale dht_up = dht_net +
  assumes put_ok: "fst (kad_put (cf_kad c) t (nsKey (cf_ns c) k) v n) = Some m \<Longrightarrow> no_peers m"
begin

lemma PutJSON_ok [dht_simps, simp]: "fst (PutJSON c k j d) = None"
  using put_ok [of "withTimeout (5 * second)" k "Doc j" "net d"]
  by (auto simp: PutJSON_def split: prod.splits option.splits)

lemma DelJSON_ok [dht_simps, simp]: "fst (DelJSON c k d) = None"
  using PutJSON_ok [of k "JObj []" d]
  by (cases "PutJSON c k (JObj []) d") (auto simp: DelJSON_def split: option.splits)

lemma PutJSON_put [dht_simps, simp]:
  "doc c view (snd (PutJSON c k j d)) = (doc c view d)(k \<mapsto> Doc j)"
  using PutJSON_doc PutJSON_ok by (metis prod.collapse)

lemma DelJSON_put [dht_simps, simp]:
  "doc c view (snd (DelJSON c k d)) = (doc c view d)(k \<mapsto> Doc (JObj []))"
  using DelJSON_doc DelJSON_ok by (metis prod.collapse)

end

context dht_net
begin

lemma cas_read:
  "read_fallback c t (nsKey (cf_ns c) k) d = (r, d1) \<Longrightarrow>
     (case r of Inr v \<Rightarrow> v | Inl _ \<Rightarrow> Raw []) = stored_or_nil (doc c view d k)"
  using read_fallback_doc [of t k d] by (auto simp: stored_or_nil_def)

lemma cas_attempt_error:
  assumes "check now (stored_or_nil (doc c view d k)) = (ok, nxt, Some e)"
  shows "\<exists>d'. cas_attempt c (nsKey (cf_ns c) k) check now d = (CasReturn (Some e), d') \<and>
    doc c view d' = doc c view d"
proof -
  obtain r d1 where g: "read_fallback c (withTimeout (3 * second)) (nsKey (cf_ns c) k) d = (r, d1)"
    by fastforce
  then show ?thesis
    using cas_read [OF g] read_fallback_frame [OF g] assms by (simp add: cas_attempt_def)
qed

lemma cas_attempt_refused:
  assumes "check now (stored_or_nil (doc c view d k)) = (False, nxt, None)"
  shows "\<exists>d'. cas_attempt c (nsKey (cf_ns c) k) check now d = (CasRetry ErrCASConflict, d') \<and>
    doc c view d' = doc c view d"
proof -
  obtain r d1 where g: "read_fallback c (withTimeout (3 * second)) (nsKey (cf_ns c) k) d = (r, d1)"
    by fastforce
  then show ?thesis
    using cas_read [OF g] read_fallback_frame [OF g] assms by (simp add: cas_attempt_def)
qed

lemma cas_loop_refused:
  assumes "\<And>i. \<exists>nxt. check (clk i) (stored_or_nil (doc c view d k)) = (False, nxt, None)"
    and "n = 0 \<Longrightarrow> lastErr = Some ErrCASConflict"
  shows "\<exists>s d'. cas_loop c (nsKey (cf_ns c) k) check clk rnd n i lastErr slept d =
      ((Some ErrCASConflict, s), d') \<and> doc c view d' = doc c view d"
  using assms
proof (induction n arbitrary: i lastErr slept d)
  case 0
  then show ?case by simp
next
  case (Suc n)
  obtain nxt where "check (clk i) (stored_or_nil (doc c view d k)) = (False, nxt, None)"
    using Suc.prems(1) by blast
  then obtain d1
    where d1: "cas_attempt c (nsKey (cf_ns c) k) check (clk i) d = (CasRetry ErrCASConflict, d1)"
      "doc c view d1 = doc c view d" using cas_attempt_refused [of check "clk i" d k nxt] by blast
  have "\<exists>s d'. cas_loop c (nsKey (cf_ns c) k) check clk rnd n (Suc i) (Some ErrCASConflict)
      (slept + jitterBackoff i (rnd i)) d1 = ((Some ErrCASConflict, s), d') \<and> doc c view d' = doc c view d1"
    by (rule Suc.IH) (use Suc.prems(1) d1(2) in auto)
  with d1 show ?case by simp
qed

end

context dht_up
begin

lemma cas_attempt_installs:
  assumes "check now (stored_or_nil (doc c view d k)) = (True, nxt, None)"
  shows "\<exists>d'. cas_attempt c (nsKey (cf_ns c) k) check now d = (CasReturn None, d') \<and>
    doc c view d' = (doc c view d)(k \<mapsto> nxt)"
proof -
  let ?K = "nsKey (cf_ns c) k"
  obtain r d1 where g: "read_fallback c (withTimeout (3 * second)) ?K d = (r, d1)" by fastforce
  obtain e n2 where p: "kad_put (cf_kad c) (withTimeout (5 * second)) ?K nxt (net d1) = (e, n2)" by fastforce
  have e: "\<forall>m. e = Some m \<longrightarrow> no_peers m"
    using put_ok [of "withTimeout (5 * second)" k nxt "net d1"] p by simp
  have v: "view n2 = (view (net d1))(?K \<mapsto> nxt)" using put_stored [OF p e] .
  have frame: "doc c view d1 = doc c view d" by (rule read_fallback_frame [OF g])
  show ?thesis
  proof (cases e)
    case (Some m)
    have "doc c view (d1\<lparr>net := n2, localStore := (localStore d1)(?K \<mapsto> nxt)\<rparr>) = (doc c view d1)(k \<mapsto> nxt)"
      by (rule doc_stored [where n' = n2]) (use v in auto)
    then show ?thesis
      using g p e cas_read [OF g] assms Some frame by (simp add: cas_attempt_def)
  next
    case None
    have d2: "doc c view (d1\<lparr>net := n2\<rparr>) = (doc c view d1)(k \<mapsto> nxt)"
      by (rule doc_stored [where n' = n2]) (use v in auto)
    obtain r3 d3 where g3: "read_fallback c (withTimeout (3 * second)) ?K (d1\<lparr>net := n2\<rparr>) = (r3, d3)"
      by fastforce
    have "r3 = Inr nxt"
      using read_fallback_doc [of "withTimeout (3 * second)" k "d1\<lparr>net := n2\<rparr>"] g3 d2 by auto
    then show ?thesis
      using g p cas_read [OF g] assms None frame g3 read_fallback_frame [OF g3] d2
      by (simp add: cas_attempt_def cas_verify_def)
  qed
qed

lemma PutJSONCAS_installs:
  assumes "check (clk 0) (stored_or_nil (doc c view d k)) = (True, nxt, None)"
  shows "\<exists>d'. PutJSONCAS c k check clk rnd d = ((None, 0), d') \<and> doc c view d' = (doc c view d)(k \<mapsto> nxt)"
  using cas_attempt_installs [of check "clk 0" d k nxt] assms
  by (auto simp: PutJSONCAS_def numeral_eq_Suc)

lemma PutJSONCAS_error:
  assumes "check (clk 0) (stored_or_nil (doc c view d k)) = (ok, nxt, Some e)"
  shows "\<exists>d'. PutJSONCAS c k check clk rnd d = ((Some e, 0), d') \<and> doc c view d' = doc c view d"
  using cas_attempt_error [of check "clk 0" d k ok nxt e] assms
  by (auto simp: PutJSONCAS_def numeral_eq_Suc)

lemma PutJSONCAS_refused:
  assumes "\<And>i. \<exists>nxt. check (clk i) (stored_or_nil (doc c view d k)) = (False, nxt, None)"
  shows "\<exists>s d'. PutJSONCAS c k check clk rnd d = ((Some ErrCASConflict, s), d') \<and>
    doc c view d' = doc c view d"
  unfolding PutJSONCAS_def by (rule cas_loop_refused) (use assms in auto)

end

lemma jitterBackoff_bounds:
  assumes "r < 200"
  shows "100 * millisecond * 2 ^ i \<le> jitterBackoff i r"
    and "jitterBackoff i r \<le> (100 * 2 ^ i + 199) * millisecond"
  using assms by (auto simp: jitterBackoff_def)

text \<open>Whatever the network and the callback do, the loop sleeps no longer than the sum of the
  back-offs of the attempts it has left.\<close>

lemma cas_loop_sleep:
  assumes "\<And>j. rnd j < 200"
  shows "slept \<le> snd (fst (cas_loop c nsk check clk rnd n i lastErr slept d)) \<and>
    snd (fst (cas_loop c nsk check clk rnd n i lastErr slept d)) \<le>
      slept + (\<Sum>j\<in>{i..<i + n}. (100 * 2 ^ j + 199) * millisecond)"
proof (induction n arbitrary: i lastErr slept d)
  case 0
  then show ?case by simp
next
  case (Suc n)
  obtain out d' where a: "cas_attempt c nsk check (clk i) d = (out, d')" by fastforce
  show ?case
  proof (cases out)
    case (CasReturn e)
    with a show ?thesis by (simp add: sum_nonneg)
  next
    case (CasRetry e)
    let ?s = "slept + jitterBackoff i (rnd i)"
    let ?f = "\<lambda>j. (100 * 2 ^ j + 199) * millisecond"
    have "(\<Sum>j\<in>{i..<i + Suc n}. ?f j) = ?f i + (\<Sum>j\<in>{Suc i..<Suc i + n}. ?f j)"
      by (simp add: sum.atLeast_Suc_lessThan)
    moreover have "0 \<le> jitterBackoff i (rnd i)" "jitterBackoff i (rnd i) \<le> ?f i"
      using jitterBackoff_bounds [OF assms, of i i] by (simp_all add: jitterBackoff_def)
    ultimately show ?thesis
      using Suc.IH [of ?s "Suc i" "Some e" d'] a CasRetry by simp
  qed
qed

lemma map_get_laws:
  "map_get t k m = (r, m') \<Longrightarrow> m' = m"
  "m k = Some v \<Longrightarrow> fst (map_get t k m) = Inr v"
  "m k = None \<Longrightarrow> \<exists>e. fst (map_get t k m) = Inl e"
  by (auto simp: map_get_def split: option.splits)

lemma solo_dht_up: "ns \<noteq> [] \<Longrightarrow> CHR ''/'' \<notin> set ns \<Longrightarrow> dht_up (solo_cfg ns) (\<lambda>m. m)"
  by unfold_locales
    (auto simp: solo_cfg_def solo_put_def Validate_nsKey map_get_laws)

lemma lan_dht_up: "ns \<noteq> [] \<Longrightarrow> CHR ''/'' \<notin> set ns \<Longrightarrow> dht_up (lan_cfg ns) (\<lambda>m. m)"
  by unfold_locales
    (auto simp: lan_cfg_def lan_put_def Validate_nsKey map_get_laws)

interpretation solo: dht_up "solo_cfg ''mc''" "\<lambda>m. m"
  by (rule solo_dht_up) simp_all

interpretation lan: dht_up "lan_cfg ''mc''" "\<lambda>m. m"
  by (rule lan_dht_up) simp_all

subsection \<open>Properties\<close>

lemma GetJSON_after_PutJSON:
  assumes "dht_net c view" "PutJSON c k j d = (None, d')" "decf j = (x, True)"
  shows "fst (GetJSON c z decf k t d') = (x, None)"
proof -
  have "doc c view d' k = Some (Doc j)" using dht_net.PutJSON_doc [OF assms(1,2)] by simp
  then show ?thesis by (simp add: dht_net.GetJSON_present [OF assms(1)] unmarshal_Doc assms(3))
qed

text \<open>A document that \<open>PutJSON\<close> reports stored, in the network or in the local fallback, is what
  \<open>GetJSON\<close> reads back: a manifest comes back equal, with no error, and the documents under all
  other keys are as before.\<close>

lemma PutJSON_GetJSON_manifest:
  assumes "dht_net c view" "PutJSON c k (enc_manifest m) d = (None, d')"
  shows "fst (GetJSON c zero_manifest dec_manifest k t d') = (m, None) \<and>
    (\<forall>k'. k' \<noteq> k \<longrightarrow> doc c view d' k' = doc c view d k')"
  using GetJSON_after_PutJSON [where decf = dec_manifest and z = zero_manifest and t = t and x = m, OF assms]
    dht_net.PutJSON_doc [OF assms] by simp

lemma PutJSON_GetJSON_manifest_witness:
  "\<exists>d'. PutJSON (solo_cfg ''mc'') (KeyManifest ''t1'') (enc_manifest (zero_manifest\<lparr>mf_RootCID := ''cid''\<rparr>)) fresh_dht
      = (None, d') \<and>
    fst (GetJSON (solo_cfg ''mc'') zero_manifest dec_manifest (KeyManifest ''t1'') (2 * second) d') =
      (zero_manifest\<lparr>mf_RootCID := ''cid''\<rparr>, None)"
proof -
  let ?m = "zero_manifest\<lparr>mf_RootCID := ''cid''\<rparr>"
  obtain d' where d': "PutJSON (solo_cfg ''mc'') (KeyManifest ''t1'') (enc_manifest ?m) fresh_dht = (None, d')"
    using solo.PutJSON_ok by (metis prod.collapse)
  from PutJSON_GetJSON_manifest [OF solo.dht_net_axioms d'] d' show ?thesis by auto
qed

text \<open>A delete leaves the empty object behind. \<open>DelJSON\<close> cannot remove a record from the DHT, so
  after it a read succeeds and yields the zero value; readers must test a field, not the error.\<close>

lemma DelJSON_reads_zero:
  assumes "dht_net c view" "DelJSON c k d = (None, d')"
  shows "fst (GetJSON c zero_state dec_state k t d') = (zero_state, None) \<and>
    fst (GetJSON c zero_manifest dec_manifest k t d') = (zero_manifest, None)"
proof -
  have "doc c view d' k = Some (Doc (JObj []))" using dht_net.DelJSON_doc [OF assms] by simp
  note r = dht_net.GetJSON_present [OF assms(1) this]
  show ?thesis unfolding r by (simp add: unmarshal_def dec_state_def dec_manifest_def)
qed

lemma DelJSON_reads_zero_witness:
  "\<exists>d'. DelJSON (lan_cfg ''mc'') (KeyState ''t1'') fresh_dht = (None, d') \<and>
    fst (GetJSON (lan_cfg ''mc'') zero_state dec_state (KeyState ''t1'') (2 * second) d') = (zero_state, None)"
proof -
  obtain d' where d': "DelJSON (lan_cfg ''mc'') (KeyState ''t1'') fresh_dht = (None, d')"
    using lan.DelJSON_ok by (metis prod.collapse)
  from DelJSON_reads_zero [OF lan.dht_net_axioms d'] d' show ?thesis by auto
qed

text \<open>C23: the compare-and-swap installs exactly what the callback computed from the stored value. An
  accepted update is written once, without a retry or a sleep; an error of the callback is
  returned at once and nothing is written.\<close>

theorem PutJSONCAS_applies_check:
  assumes "dht_up c view"
  shows "case check (clk 0) (stored_or_nil (doc c view d k)) of
      (ok, nxt, Some e) \<Rightarrow> \<exists>d'. PutJSONCAS c k check clk rnd d = ((Some e, 0), d') \<and> doc c view d' = doc c view d
    | (ok, nxt, None) \<Rightarrow> ok \<longrightarrow> (\<exists>d'. PutJSONCAS c k check clk rnd d = ((None, 0), d') \<and>
        doc c view d' = (doc c view d)(k \<mapsto> nxt))"
  using dht_up.PutJSONCAS_error [OF assms, of check clk d k] dht_up.PutJSONCAS_installs [OF assms, of check clk d k]
  by (auto split: prod.splits option.splits)

theorem PutJSONCAS_applies_check_witness:
  "dht_up (solo_cfg ''mc'') (\<lambda>m. m) \<and>
   (\<exists>d'. PutJSONCAS (solo_cfg ''mc'') (KeyLease ''t1'') (\<lambda>now prev. (True, Doc (JNum now), None)) (\<lambda>i. 7) (\<lambda>i. 0) fresh_dht
      = ((None, 0), d') \<and> doc (solo_cfg ''mc'') (\<lambda>m. m) d' (KeyLease ''t1'') = Some (Doc (JNum 7)))"
  using PutJSONCAS_applies_check [OF solo.dht_up_axioms, where d = fresh_dht and k = "KeyLease ''t1''" and
      check = "\<lambda>now prev. (True, Doc (JNum now), None)" and clk = "\<lambda>i. 7" and rnd = "\<lambda>i. 0"]
    solo_dht_up [of "''mc''"]
  by auto

text \<open>The retry loop is bounded. Whatever the network answers and the callback decides, one call
  sleeps at most 4.095 seconds over its five attempts.\<close>

lemma PutJSONCAS_sleep_bound:
  assumes "\<And>j. rnd j < 200"
  shows "0 \<le> snd (fst (PutJSONCAS c k check clk rnd d)) \<and>
    snd (fst (PutJSONCAS c k check clk rnd d)) \<le> 4095 * millisecond"
proof -
  have "(\<Sum>j\<in>{0..<0 + 5}. (100 * 2 ^ j + 199) * millisecond) = (4095 * millisecond :: int)"
    by (simp add: numeral_eq_Suc)
  with cas_loop_sleep [where n = 5 and i = 0 and slept = 0 and rnd = rnd and c = c and check = check and clk = clk
      and nsk = "nsKey (cf_ns c) k" and lastErr = None and d = d, OF assms] show ?thesis
    by (simp only: PutJSONCAS_def) simp
qed

lemma PutJSONCAS_sleep_bound_witness:
  "snd (fst (PutJSONCAS (solo_cfg ''mc'') ''k'' (\<lambda>now prev. (False, Raw [], None)) (\<lambda>i. 0) (\<lambda>i. 199) fresh_dht))
     \<le> 4095 * millisecond"
  using PutJSONCAS_sleep_bound [of "\<lambda>i. 199" "solo_cfg ''mc''" "''k''" "\<lambda>now prev. (False, Raw [], None)"
    "\<lambda>i. 0" fresh_dht] by simp

text \<open>With an empty namespace nothing can be written. \<open>nsKey\<close> then builds keys of one segment or
  of the wrong namespace, which the validator \<open>NewNode\<close> installs for that namespace rejects: every
  \<open>PutJSON\<close> fails with the validator's error and stores nothing.\<close>

lemma empty_namespace_unwritable:
  "PutJSON (lan_cfg []) k j d = (Some ErrInvalidRecordType, d) \<and>
   PutJSON (solo_cfg []) k j d = (Some ErrInvalidRecordType, d)"
  by (simp add: PutJSON_def lan_cfg_def solo_cfg_def lan_put_def solo_put_def Validate_empty_namespace)

end
