(* ===== verification/Announce.thy ===== *)
theory Announce
  imports Dht_Node "HOL-Library.Multiset"
begin

text \<open>
  Advertising jobs on the DHT: the advertisement documents and \<open>announceAds\<close> of
  \<open>cmd/control/control_http.go\<close>, and the \<open>AnnounceManager\<close> of \<open>cmd/control/main.go\<close>. The
  process environment is a function \<open>env\<close> (\<open>os.Getenv\<close>), readings of the clock are arguments,
  and the order in which Go ranges over the map \<open>dirty\<close> is an arbitrary function \<open>ord\<close>.
\<close>

record task_ad =
  ad_JobID :: string
  ad_Namespace :: string
  ad_Topic :: string
  ad_DemandURL :: string
  ad_Exp :: time
  ad_Sig :: string

record manifest_mirror =
  mm_Providers :: "provider list"
  mm_Exp :: time

definition enc_task_ad :: "task_ad \<Rightarrow> json" where
  "enc_task_ad a = JObj (
     (''job_id'', JStr (ad_JobID a)) #
     omit (ad_Namespace a = []) ''ns'' (JStr (ad_Namespace a)) @
     omit (ad_Topic a = []) ''topic'' (JStr (ad_Topic a)) @
     omit (ad_DemandURL a = []) ''demand_url'' (JStr (ad_DemandURL a)) @
     (''exp'', JTime (ad_Exp a)) #
     omit (ad_Sig a = []) ''sig'' (JStr (ad_Sig a)) @ [])"

definition enc_mirror :: "manifest_mirror \<Rightarrow> json" where
  "enc_mirror m = JObj [(''providers'', JArr (map enc_provider (mm_Providers m))), (''exp'', JTime (mm_Exp m))]"

definition keyTaskAd :: "string \<Rightarrow> string \<Rightarrow> string" where
  "keyTaskAd ns i = ''ad/'' @ ns @ ''/task/'' @ i"

definition keyP2PManifestMirror :: "string \<Rightarrow> string" where
  "keyP2PManifestMirror i = ''p2p/'' @ i @ ''/manifest''"

definition getNamespace :: "(string \<Rightarrow> string) \<Rightarrow> string" where
  "getNamespace env = (let v = env ''MC_NS'' in if v \<noteq> [] then v else ''default'')"

definition demand_url :: "(string \<Rightarrow> string) \<Rightarrow> string" where
  "demand_url env =
     (let durl = env ''CONTROL_PUBLIC_URL'' in
      if durl = []
      then (let u = ''http://127.0.0.1:'' @ env ''CONTROL_HTTP_PORT''
            in if u = ''http://127.0.0.1:'' then ''http://127.0.0.1:8080'' else u)
      else durl)"

definition ad_for :: "(string \<Rightarrow> string) \<Rightarrow> string \<Rightarrow> string \<Rightarrow> manifest \<Rightarrow> time \<Rightarrow> task_ad" where
  "ad_for env ns i man ex =
     \<lparr>ad_JobID = i, ad_Namespace = ns, ad_Topic = mf_Rendezvous man, ad_DemandURL = demand_url env,
      ad_Exp = ex, ad_Sig = []\<rparr>"

definition putManifestMirror ::
  "'n dht_cfg \<Rightarrow> string \<Rightarrow> provider list \<Rightarrow> duration \<Rightarrow> time \<Rightarrow> 'n dht \<Rightarrow> go_error \<times> 'n dht" where
  "putManifestMirror c i providers ttl now d =
     PutJSON c (keyP2PManifestMirror i) (enc_mirror \<lparr>mm_Providers = providers, mm_Exp = now + ttl\<rparr>) d"

definition announceAds ::
  "(string \<Rightarrow> string) \<Rightarrow> 'n dht_cfg \<Rightarrow> string \<Rightarrow> string \<Rightarrow> manifest \<Rightarrow> duration \<Rightarrow> time \<Rightarrow> 'n dht \<Rightarrow> 'n dht" where
  "announceAds env c ns i man ttl now d =
     (let ex = now + ttl;
          (_, d1) = PutJSON c (keyTaskAd ns i) (enc_task_ad (ad_for env ns i man ex)) d;
          (_, d2) = PutJSON c (keyP2PManifestMirror i) (enc_mirror \<lparr>mm_Providers = mf_Providers man, mm_Exp = ex\<rparr>) d1
      in d2)"

subsection \<open>The announce manager\<close>

text \<open>The map \<open>dirty\<close> is the list of its keys, without duplicates; \<open>am_trigger\<close> says whether the
  channel \<open>trigger\<close> of capacity one is full.\<close>

record mgr =
  am_ns :: string
  am_ttl :: duration
  am_interval :: duration
  am_dirty :: "string list"
  am_last :: "string \<rightharpoonup> time"
  am_trigger :: bool

definition NewAnnounceManager :: "string \<Rightarrow> duration \<Rightarrow> duration \<Rightarrow> mgr" where
  "NewAnnounceManager ns ttl interval =
     \<lparr>am_ns = ns, am_ttl = ttl, am_interval = interval, am_dirty = [], am_last = Map.empty, am_trigger = False\<rparr>"

definition Enqueue :: "string \<Rightarrow> mgr \<Rightarrow> mgr" where
  "Enqueue i m = m\<lparr>am_dirty := List.insert i (am_dirty m), am_trigger := True\<rparr>"

text \<open>\<open>clk 0\<close>, \<open>clk 1\<close> and \<open>clk 2\<close> are the clock when the placeholder is built, when the
  advertisement is published and when its time is recorded.\<close>

definition noop_manifest :: "time \<Rightarrow> manifest" where
  "noop_manifest now = zero_manifest\<lparr>mf_RootCID := ''noop'', mf_Version := 1, mf_UpdatedAt := now\<rparr>"

definition announceOnce ::
  "(string \<Rightarrow> string) \<Rightarrow> 'n dht_cfg \<Rightarrow> string \<Rightarrow> (nat \<Rightarrow> time) \<Rightarrow> 'n dht \<times> mgr \<Rightarrow> 'n dht \<times> mgr" where
  "announceOnce env c i clk s =
     (let (d, m) = s;
          ((man0, err), d1) = GetJSON c zero_manifest dec_manifest (KeyManifest i) (2 * second) d;
          missing = (err \<noteq> None \<or> mf_RootCID man0 = []);
          man = (if missing then noop_manifest (clk 0) else man0);
          d2 = (if missing then snd (PutJSON c (KeyManifest i) (enc_manifest man) d1) else d1);
          d3 = announceAds env c (am_ns m) i man (am_ttl m) (clk 1) d2
      in (d3, m\<lparr>am_last := (am_last m)(i \<mapsto> clk 2)\<rparr>))"

definition due :: "mgr \<Rightarrow> time \<Rightarrow> string \<Rightarrow> bool" where
  "due m now i =
     (let l = (case am_last m i of None \<Rightarrow> 0 | Some t \<Rightarrow> t) in l = 0 \<or> now - l \<ge> am_interval m)"

fun announce_all ::
  "(string \<Rightarrow> string) \<Rightarrow> 'n dht_cfg \<Rightarrow> (nat \<Rightarrow> nat \<Rightarrow> time) \<Rightarrow> nat \<Rightarrow> string list \<Rightarrow> 'n dht \<times> mgr \<Rightarrow> 'n dht \<times> mgr" where
  "announce_all env c clk n [] s = s"
| "announce_all env c clk n (i # ids) s = announce_all env c clk (Suc n) ids (announceOnce env c i (clk n) s)"

definition process ::
  "(string \<Rightarrow> string) \<Rightarrow> 'n dht_cfg \<Rightarrow> (string list \<Rightarrow> string list) \<Rightarrow> time \<Rightarrow> (nat \<Rightarrow> nat \<Rightarrow> time) \<Rightarrow>
   'n dht \<times> mgr \<Rightarrow> 'n dht \<times> mgr" where
  "process env c ord now clk s =
     announce_all env c clk 0 (filter (due (snd s) now) (ord (am_dirty (snd s)))) s"

text \<open>\<open>Run\<close> as the sequence of the cases its \<open>select\<close> takes, with the calls of \<open>Enqueue\<close> by other
  goroutines in between. The case of the channel is only taken when the channel is full.\<close>

datatype run_event =
    CtxDone
  | Tick "string list \<Rightarrow> string list" time "nat \<Rightarrow> nat \<Rightarrow> time"
  | Trigger "string list \<Rightarrow> string list" time "nat \<Rightarrow> nat \<Rightarrow> time"
  | Enq string

fun Run :: "(string \<Rightarrow> string) \<Rightarrow> 'n dht_cfg \<Rightarrow> run_event list \<Rightarrow> 'n dht \<times> mgr \<Rightarrow> 'n dht \<times> mgr" where
  "Run env c [] s = s"
| "Run env c (CtxDone # evs) s = s"
| "Run env c (Tick ord now clk # evs) s = Run env c evs (process env c ord now clk s)"
| "Run env c (Trigger ord now clk # evs) s =
     (if am_trigger (snd s)
      then Run env c evs (process env c ord now clk (fst s, (snd s)\<lparr>am_trigger := False\<rparr>))
      else Run env c evs s)"
| "Run env c (Enq i # evs) s = Run env c evs (fst s, Enqueue i (snd s))"

text \<open>What the readers of an advertisement rely on: a manifest with a root, and the advertisement
  and the mirror made from it that expire \<open>ttl\<close> after \<open>t\<close>.\<close>

definition advertised ::
  "(string \<Rightarrow> string) \<Rightarrow> string \<Rightarrow> duration \<Rightarrow> (string \<rightharpoonup> payload) \<Rightarrow> string \<Rightarrow> time \<Rightarrow> bool" where
  "advertised env ns ttl docs i t \<longleftrightarrow>
     (\<exists>p man. docs (KeyManifest i) = Some p \<and> unmarshal zero_manifest dec_manifest p = (man, None) \<and>
        mf_RootCID man \<noteq> [] \<and>
        docs (keyTaskAd ns i) = Some (Doc (enc_task_ad (ad_for env ns i man (t + ttl)))) \<and>
        docs (keyP2PManifestMirror i) =
          Some (Doc (enc_mirror \<lparr>mm_Providers = mf_Providers man, mm_Exp = t + ttl\<rparr>)))"

text \<open>The keys an announcement of the job writes.\<close>

definition ad_keys :: "string \<Rightarrow> string \<Rightarrow> string set" where
  "ad_keys ns i = {KeyManifest i, keyTaskAd ns i, keyP2PManifestMirror i}"

subsection \<open>Keys\<close>

lemma ad_key_inj [simp, key_simps]:
  "keyTaskAd ns i = keyTaskAd ns j \<longleftrightarrow> i = j" "keyP2PManifestMirror i = keyP2PManifestMirror j \<longleftrightarrow> i = j"
  by (simp_all add: keyTaskAd_def keyP2PManifestMirror_def)

lemma ad_key_disjoint [simp, key_simps]:
  "keyTaskAd ns i \<noteq> keyP2PManifestMirror j" "keyP2PManifestMirror j \<noteq> keyTaskAd ns i"
  "keyTaskAd ns i \<noteq> KeyMeta j" "keyTaskAd ns i \<noteq> KeyState j" "keyTaskAd ns i \<noteq> KeyManifest j"
  "keyTaskAd ns i \<noteq> KeyLease j" "keyTaskAd ns i \<noteq> KeyIndexShard ns' n"
  "keyP2PManifestMirror i \<noteq> KeyMeta j" "keyP2PManifestMirror i \<noteq> KeyState j" "keyP2PManifestMirror i \<noteq> KeyManifest j"
  "keyP2PManifestMirror i \<noteq> KeyLease j" "keyP2PManifestMirror i \<noteq> KeyIndexShard ns' n"
  "KeyMeta j \<noteq> keyTaskAd ns i" "KeyState j \<noteq> keyTaskAd ns i" "KeyManifest j \<noteq> keyTaskAd ns i"
  "KeyLease j \<noteq> keyTaskAd ns i" "KeyIndexShard ns' n \<noteq> keyTaskAd ns i"
  "KeyMeta j \<noteq> keyP2PManifestMirror i" "KeyState j \<noteq> keyP2PManifestMirror i" "KeyManifest j \<noteq> keyP2PManifestMirror i"
  "KeyLease j \<noteq> keyP2PManifestMirror i" "KeyIndexShard ns' n \<noteq> keyP2PManifestMirror i"
  by (auto simp: keyTaskAd_def keyP2PManifestMirror_def key_defs KeyIndexShard_def)

lemma ad_keys_disjoint: "i \<noteq> j \<Longrightarrow> k \<in> ad_keys ns j \<Longrightarrow> k \<notin> ad_keys ns i"
  by (auto simp: ad_keys_def)

lemma ad_keys_outside: "j \<notin> set ids \<Longrightarrow> k \<in> ad_keys ns j \<Longrightarrow> k \<notin> (\<Union>i\<in>set ids. ad_keys ns i)"
  by (metis UN_E ad_keys_disjoint)

lemma advertised_cong:
  "\<forall>k\<in>ad_keys ns i. docs' k = docs k \<Longrightarrow> advertised env ns ttl docs' i t = advertised env ns ttl docs i t"
  by (simp add: advertised_def ad_keys_def)

subsection \<open>One announcement\<close>

lemma announceOnce_mgr:
  "snd (announceOnce env c i clk (d, m)) = m\<lparr>am_last := (am_last m)(i \<mapsto> clk 2)\<rparr>"
  by (simp add: announceOnce_def Let_def split: prod.splits)

context dht_up
begin

lemma announceAds_docs:
  "doc c view (announceAds env c ns i man ttl now d) =
     (doc c view d)(keyTaskAd ns i \<mapsto> Doc (enc_task_ad (ad_for env ns i man (now + ttl))),
       keyP2PManifestMirror i \<mapsto> Doc (enc_mirror \<lparr>mm_Providers = mf_Providers man, mm_Exp = now + ttl\<rparr>))"
  by (simp add: announceAds_def Let_def split_beta)

lemma announceOnce_docs:
  assumes "announceOnce env c i clk (d, m) = (d', m')"
  shows "advertised env (am_ns m) (am_ttl m) (doc c view d') i (clk 1)"
    and "k \<notin> ad_keys (am_ns m) i \<Longrightarrow> doc c view d' k = doc c view d k"
proof -
  obtain man0 err d1 where g: "GetJSON c zero_manifest dec_manifest (KeyManifest i) (2 * second) d = ((man0, err), d1)"
    by (metis prod.collapse)
  then have f: "doc c view d1 = doc c view d" using GetJSON_frame by (metis snd_conv)
  let ?missing = "err \<noteq> None \<or> mf_RootCID man0 = []"
  let ?man = "if ?missing then noop_manifest (clk 0) else man0"
  let ?d2 = "if ?missing then snd (PutJSON c (KeyManifest i) (enc_manifest ?man) d1) else d1"
  have d': "d' = announceAds env c (am_ns m) i ?man (am_ttl m) (clk 1) ?d2"
    using assms g by (auto simp: announceOnce_def Let_def)
  have "\<exists>p. doc c view ?d2 (KeyManifest i) = Some p \<and> unmarshal zero_manifest dec_manifest p = (?man, None) \<and>
      mf_RootCID ?man \<noteq> []"
  proof (cases ?missing)
    case True
    then show ?thesis by (simp add: unmarshal_Doc noop_manifest_def)
  next
    case False
    then have "fst (GetJSON c zero_manifest dec_manifest (KeyManifest i) (2 * second) d) = (man0, None)"
      using g by simp
    with False show ?thesis
      using GetJSON_missing [of d "KeyManifest i" zero_manifest dec_manifest "2 * second"]
        GetJSON_present [of d "KeyManifest i" _ zero_manifest dec_manifest "2 * second"] f
      by (cases "doc c view d (KeyManifest i)") auto
  qed
  then show "advertised env (am_ns m) (am_ttl m) (doc c view d') i (clk 1)"
    unfolding d' announceAds_docs advertised_def by auto
  show "doc c view d' k = doc c view d k" if "k \<notin> ad_keys (am_ns m) i"
    unfolding d' announceAds_docs using that f by (auto simp: ad_keys_def)
qed

lemma announce_all_frame:
  assumes "k \<notin> (\<Union>i\<in>set ids. ad_keys (am_ns m) i)"
  shows "doc c view (fst (announce_all env c clk n ids (d, m))) k = doc c view d k"
  using assms
proof (induction ids arbitrary: n d m)
  case (Cons i ids)
  obtain d1 m1 where a: "announceOnce env c i (clk n) (d, m) = (d1, m1)" by fastforce
  then have "m1 = m\<lparr>am_last := (am_last m)(i \<mapsto> clk n 2)\<rparr>" using announceOnce_mgr by (metis snd_conv)
  then show ?case using Cons announceOnce_docs(2) [OF a] a by simp
qed simp

lemma announce_all_docs:
  assumes "distinct ids" "i \<in> set ids"
  shows "\<exists>k. advertised env (am_ns m) (am_ttl m) (doc c view (fst (announce_all env c clk n ids (d, m)))) i (clk k 1)"
  using assms
proof (induction ids arbitrary: n d m)
  case (Cons j ids)
  obtain d1 m1 where a: "announceOnce env c j (clk n) (d, m) = (d1, m1)" by fastforce
  then have m1: "m1 = m\<lparr>am_last := (am_last m)(j \<mapsto> clk n 2)\<rparr>" using announceOnce_mgr by (metis snd_conv)
  show ?case
  proof (cases "i = j")
    case True
    have "doc c view (fst (announce_all env c clk (Suc n) ids (d1, m1))) k = doc c view d1 k"
      if "k \<in> ad_keys (am_ns m) j" for k
    proof (rule announce_all_frame)
      have "am_ns m1 = am_ns m" by (simp add: m1)
      then show "k \<notin> (\<Union>i\<in>set ids. ad_keys (am_ns m1) i)"
        using ad_keys_outside [OF _ that, of ids] Cons.prems(1) by simp
    qed
    then have "\<forall>k\<in>ad_keys (am_ns m) j. doc c view (fst (announce_all env c clk (Suc n) ids (d1, m1))) k = doc c view d1 k"
      by blast
    from advertised_cong [OF this, of env "am_ttl m" "clk n 1"] announceOnce_docs(1) [OF a] True a
    show ?thesis by (intro exI [of _ n]) simp
  next
    case False
    with Cons.prems Cons.IH [of m1 "Suc n" d1] m1 a show ?thesis by simp
  qed
qed simp

end

lemma announce_all_last:
  "j \<notin> set ids \<Longrightarrow> am_last (snd (announce_all env c clk n ids s)) j = am_last (snd s) j"
proof (induction ids arbitrary: n s)
  case (Cons i ids)
  have "am_last (snd (announceOnce env c i (clk n) s)) j = am_last (snd s) j"
    using announceOnce_mgr [of env c i "clk n" "fst s" "snd s"] Cons.prems by simp
  with Cons show ?case by simp
qed simp

lemma announce_all_mgr: "\<exists>l. snd (announce_all env c clk n ids s) = (snd s)\<lparr>am_last := l\<rparr>"
proof (induction ids arbitrary: n s)
  case Nil
  show ?case by (intro exI [of _ "am_last (snd s)"]) simp
next
  case (Cons i ids)
  show ?case
    using Cons [of "Suc n" "announceOnce env c i (clk n) s"] announceOnce_mgr [of env c i "clk n" "fst s" "snd s"]
    by auto
qed

subsection \<open>Properties\<close>

text \<open>Every pass advertises the jobs that are due. Whatever order the pass takes them in, each dirty
  job whose last announcement is an interval old (or that was never announced) afterwards has a
  manifest with a root, the placeholder if it had none, and an advertisement and a mirror made
  from that manifest that live for the configured time from an instant of the pass.\<close>

lemma process_advertises:
  assumes "dht_up c view" "mset (ord (am_dirty m)) = mset (am_dirty m)" "distinct (am_dirty m)"
    and "i \<in> set (am_dirty m)" "due m now i"
  shows "\<exists>k. advertised env (am_ns m) (am_ttl m) (doc c view (fst (process env c ord now clk (d, m)))) i (clk k 1)"
proof -
  have "distinct (ord (am_dirty m))" "i \<in> set (ord (am_dirty m))"
    using assms(2-4) mset_eq_imp_distinct_iff [OF assms(2)] mset_eq_setD [OF assms(2)] by auto
  with assms(5) show ?thesis
    unfolding process_def snd_conv by (intro dht_up.announce_all_docs [OF assms(1)]) auto
qed

lemma process_advertises_witness:
  "due (Enqueue ''t'' (NewAnnounceManager ''mc'' (30 * second) (3 * second))) 9 ''t'' \<and>
   (\<exists>k. advertised (\<lambda>_. []) ''mc'' (30 * second)
      (doc (solo_cfg ''mc'') (\<lambda>m. m) (fst (process (\<lambda>_. []) (solo_cfg ''mc'') (\<lambda>x. x) 9 (\<lambda>k j. 9)
         (fresh_dht, Enqueue ''t'' (NewAnnounceManager ''mc'' (30 * second) (3 * second)))))) ''t'' 9)"
  using process_advertises [OF solo_dht_up, of "''mc''" "\<lambda>x. x" "Enqueue ''t'' (NewAnnounceManager ''mc'' (30 * second) (3 * second))"
    "''t''" 9 "\<lambda>_. []" "\<lambda>k j. 9" fresh_dht]
  by (simp add: due_def Enqueue_def NewAnnounceManager_def)

text \<open>Announcements are rate limited and never end. A pass leaves a job that was announced less
  than an interval ago alone, and no pass takes a job out of the dirty set: one that was enqueued
  once is announced again by every pass after the interval.\<close>

lemma process_rate_and_retention:
  assumes "dht_up c view" "mset (ord (am_dirty m)) = mset (am_dirty m)"
    and "process env c ord now clk (d, m) = (d', m')"
  shows "am_dirty m' = am_dirty m \<and>
    (\<not> due m now i \<longrightarrow> am_last m' i = am_last m i \<and>
      (\<forall>k\<in>ad_keys (am_ns m) i. doc c view d' k = doc c view d k))"
proof (intro conjI impI)
  let ?ids = "filter (due m now) (ord (am_dirty m))"
  have r: "announce_all env c clk 0 ?ids (d, m) = (d', m')" using assms(3) by (simp add: process_def)
  show "am_dirty m' = am_dirty m"
    using announce_all_mgr [of env c clk 0 ?ids "(d, m)"] r by auto
  assume "\<not> due m now i"
  then have i: "i \<notin> set ?ids" by simp
  show "am_last m' i = am_last m i"
    using announce_all_last [OF i, of env c clk 0 "(d, m)"] r by simp
  show "\<forall>k\<in>ad_keys (am_ns m) i. doc c view d' k = doc c view d k"
  proof
    fix k assume "k \<in> ad_keys (am_ns m) i"
    from dht_up.announce_all_frame [OF assms(1) ad_keys_outside [OF i this], of env clk 0 d] r
    show "doc c view d' k = doc c view d k" by simp
  qed
qed

lemma process_rate_and_retention_witness:
  "\<exists>d' m'. process (\<lambda>_. []) (lan_cfg ''mc'') rev 9 (\<lambda>k j. 9)
       (fresh_dht, Enqueue ''t'' (NewAnnounceManager ''mc'' (30 * second) (3 * second))) = (d', m') \<and>
     am_dirty m' = [''t'']"
proof -
  obtain d' m' where p: "process (\<lambda>_. []) (lan_cfg ''mc'') rev 9 (\<lambda>k j. 9)
       (fresh_dht, Enqueue ''t'' (NewAnnounceManager ''mc'' (30 * second) (3 * second))) = (d', m')" by fastforce
  have "am_dirty m' = am_dirty (Enqueue ''t'' (NewAnnounceManager ''mc'' (30 * second) (3 * second)))"
    using process_rate_and_retention [OF lan_dht_up _ p] by simp
  with p show ?thesis by (simp add: Enqueue_def NewAnnounceManager_def)
qed

end
