(* ===== verification/Agent_Discover.thy ===== *)
theory Agent_Discover
  imports Announce
begin

text \<open>
  The discovery side of the agent, \<open>pkg/agent/ads.go\<close> and \<open>pkg/agent/discover.go\<close>: the documents
  an agent reads, the scan of the sharded index, and the discoverer that offers jobs to its
  callback.

  The callback \<open>onCandidate\<close> is a function on the state of the agent's DHT node and the rest of
  its world; \<open>None\<close> stands for a panic that ends the process. Readings of the clock are arguments.
\<close>

record TaskAd =
  ta_JobID :: string
  ta_Namespace :: string
  ta_DemandURL :: string
  ta_Topic :: string
  ta_Exp :: time
  ta_Sig :: string

record ManifestAd =
  ma_RootCID :: string
  ma_Providers :: "provider list"
  ma_Rendezvous :: string
  ma_Transports :: "string list"
  ma_Exp :: time

definition zero_TaskAd :: TaskAd where
  "zero_TaskAd = \<lparr>ta_JobID = [], ta_Namespace = [], ta_DemandURL = [], ta_Topic = [], ta_Exp = 0, ta_Sig = []\<rparr>"

definition zero_ManifestAd :: ManifestAd where
  "zero_ManifestAd = \<lparr>ma_RootCID = [], ma_Providers = [], ma_Rendezvous = [], ma_Transports = [], ma_Exp = 0\<rparr>"

definition set_TaskAd :: "TaskAd setter" where
  "set_TaskAd k v x = (let n = ToLower k in
     if n = ''job_id'' then put_str v (\<lambda>s. x\<lparr>ta_JobID := s\<rparr>) x
     else if n = ''ns'' then put_str v (\<lambda>s. x\<lparr>ta_Namespace := s\<rparr>) x
     else if n = ''demand_url'' then put_str v (\<lambda>s. x\<lparr>ta_DemandURL := s\<rparr>) x
     else if n = ''topic'' then put_str v (\<lambda>s. x\<lparr>ta_Topic := s\<rparr>) x
     else if n = ''exp'' then put_time v (\<lambda>t. x\<lparr>ta_Exp := t\<rparr>) x
     else if n = ''sig'' then put_str v (\<lambda>s. x\<lparr>ta_Sig := s\<rparr>) x
     else (x, True))"

definition dec_TaskAd :: "json \<Rightarrow> TaskAd \<times> bool" where
  "dec_TaskAd j = decode_struct zero_TaskAd set_TaskAd j"

definition set_ManifestAd :: "ManifestAd setter" where
  "set_ManifestAd k v x = (let n = ToLower k in
     if n = ''root_cid'' then put_str v (\<lambda>s. x\<lparr>ma_RootCID := s\<rparr>) x
     else if n = ''providers'' then put_list dec_provider v (\<lambda>ps. x\<lparr>ma_Providers := ps\<rparr>) x
     else if n = ''rendezvous'' then put_str v (\<lambda>s. x\<lparr>ma_Rendezvous := s\<rparr>) x
     else if n = ''transports'' then put_list decode_str v (\<lambda>ss. x\<lparr>ma_Transports := ss\<rparr>) x
     else if n = ''exp'' then put_time v (\<lambda>t. x\<lparr>ma_Exp := t\<rparr>) x
     else (x, True))"

definition dec_ManifestAd :: "json \<Rightarrow> ManifestAd \<times> bool" where
  "dec_ManifestAd j = decode_struct zero_ManifestAd set_ManifestAd j"

definition KeyTaskAd :: "string \<Rightarrow> string \<Rightarrow> string" where
  "KeyTaskAd ns i = ''ad/'' @ ns @ ''/task/'' @ i"

definition KeyP2PManifestMirror :: "string \<Rightarrow> string" where
  "KeyP2PManifestMirror i = ''p2p/'' @ i @ ''/manifest''"

subsection \<open>Reading the DHT\<close>

record discoverer =
  dv_ns :: string
  dv_interval :: duration
  dv_seen :: "string \<rightharpoonup> time"

definition NewDiscoverer :: "string \<Rightarrow> duration \<Rightarrow> discoverer" where
  "NewDiscoverer ns interval = \<lparr>dv_ns = ns, dv_interval = interval, dv_seen = Map.empty\<rparr>"

fun list_shards :: "'n dht_cfg \<Rightarrow> string \<Rightarrow> nat list \<Rightarrow> string list \<Rightarrow> 'n dht \<Rightarrow> string list \<times> 'n dht" where
  "list_shards c ns [] ids d = (ids, d)"
| "list_shards c ns (shard # shards) ids d =
     (case GetJSON c zero_index dec_index (KeyIndexShard ns shard) (3 * second) d of
        ((idx, Some e), d1) \<Rightarrow> list_shards c ns shards ids d1
      | ((idx, None), d1) \<Rightarrow> list_shards c ns shards (ids @ ix_IDs idx) d1)"

definition ListFromIndex :: "'n dht_cfg \<Rightarrow> string \<Rightarrow> 'n dht \<Rightarrow> string list \<times> 'n dht" where
  "ListFromIndex c ns d = list_shards c ns [0..<TaskIndexShardCount] [] d"

definition DeadlineExceeded :: string where
  "DeadlineExceeded = ''context deadline exceeded''"

definition readTaskAd :: "'n dht_cfg \<Rightarrow> discoverer \<Rightarrow> time \<Rightarrow> string \<Rightarrow> 'n dht \<Rightarrow> (string + TaskAd) \<times> 'n dht" where
  "readTaskAd c dv now i d =
     (case GetJSON c zero_TaskAd dec_TaskAd (KeyTaskAd (dv_ns dv) i) (2 * second) d of
        ((_, Some e), d1) \<Rightarrow> (Inl e, d1)
      | ((ad, None), d1) \<Rightarrow> (if ta_Exp ad < now then Inl DeadlineExceeded else Inr ad, d1))"

definition readManifestMirror :: "'n dht_cfg \<Rightarrow> time \<Rightarrow> string \<Rightarrow> 'n dht \<Rightarrow> (string + ManifestAd) \<times> 'n dht" where
  "readManifestMirror c now i d =
     (case GetJSON c zero_ManifestAd dec_ManifestAd (KeyP2PManifestMirror i) (2 * second) d of
        ((_, Some e), d1) \<Rightarrow> (Inl e, d1)
      | ((m, None), d1) \<Rightarrow> (if ma_Exp m < now then Inl DeadlineExceeded else Inr m, d1))"

definition bad_addr :: "string \<Rightarrow> bool" where
  "bad_addr a \<longleftrightarrow> HasPrefix a ''http://'' \<or> HasPrefix a ''https://''"

fun filterProviders :: "provider list \<Rightarrow> provider list" where
  "filterProviders [] = []"
| "filterProviders (p # ps) =
     (if pv_PeerID p = [] \<or> pv_Addrs p = [] then filterProviders ps
      else if list_ex bad_addr (pv_Addrs p) then filterProviders ps
      else p # filterProviders ps)"

subsection \<open>The discoverer\<close>

type_synonym ('n, 's) callback = "string \<Rightarrow> provider list \<Rightarrow> string \<Rightarrow> 'n dht \<times> 's \<Rightarrow> ('n dht \<times> 's) option"

definition recently_seen :: "discoverer \<Rightarrow> time \<Rightarrow> string \<Rightarrow> bool" where
  "recently_seen dv now i =
     (case dv_seen dv i of None \<Rightarrow> False | Some t \<Rightarrow> now - t < 500 * millisecond)"

text \<open>\<open>clk 0\<close> to \<open>clk 3\<close> are the clock at the test of \<open>seen\<close>, at the two expiry tests and when the
  job is marked as seen.\<close>

definition handleJob ::
  "'n dht_cfg \<Rightarrow> (nat \<Rightarrow> time) \<Rightarrow> ('n, 's) callback \<Rightarrow> string \<Rightarrow> discoverer \<times> 'n dht \<times> 's \<Rightarrow>
   (discoverer \<times> 'n dht \<times> 's) option" where
  "handleJob c clk onCandidate i x =
     (let (dv, d, s) = x in
      if i = [] then Some (dv, d, s)
      else (let ((st, err), d1) = GetJSON c zero_state dec_state (KeyState i) (1 * second) d in
        if err = None \<and> ts_Status st \<noteq> StatusQueued then Some (dv, d1, s)
        else if recently_seen dv (clk 0) i then Some (dv, d1, s)
        else (case readTaskAd c dv (clk 1) i d1 of
           (Inl _, d2) \<Rightarrow> Some (dv, d2, s)
         | (Inr ad, d2) \<Rightarrow>
             (case readManifestMirror c (clk 2) i d2 of
                (Inl _, d3) \<Rightarrow> Some (dv, d3, s)
              | (Inr m, d3) \<Rightarrow>
                  (let providers = filterProviders (ma_Providers m) in
                   case (if providers = [] then onCandidate i [] (ta_DemandURL ad) (d3, s)
                         else onCandidate i providers (ta_DemandURL ad) (d3, s)) of
                     None \<Rightarrow> None
                   | Some (d4, s') \<Rightarrow> Some (dv\<lparr>dv_seen := (dv_seen dv)(i \<mapsto> clk 3)\<rparr>, d4, s'))))))"

fun handle_all ::
  "'n dht_cfg \<Rightarrow> (nat \<Rightarrow> nat \<Rightarrow> time) \<Rightarrow> ('n, 's) callback \<Rightarrow> nat \<Rightarrow> string list \<Rightarrow> discoverer \<times> 'n dht \<times> 's \<Rightarrow>
   (discoverer \<times> 'n dht \<times> 's) option" where
  "handle_all c clk onCandidate n [] x = Some x"
| "handle_all c clk onCandidate n (i # ids) x =
     (case handleJob c (clk n) onCandidate i x of
        None \<Rightarrow> None
      | Some y \<Rightarrow> handle_all c clk onCandidate (Suc n) ids y)"

definition discover_tick ::
  "'n dht_cfg \<Rightarrow> ('n dht \<Rightarrow> string list \<times> 'n dht) \<Rightarrow> ('n, 's) callback \<Rightarrow> (nat \<Rightarrow> nat \<Rightarrow> time) \<Rightarrow>
   discoverer \<times> 'n dht \<times> 's \<Rightarrow> (discoverer \<times> 'n dht \<times> 's) option" where
  "discover_tick c listIDs onCandidate clk x =
     (let (dv, d, s) = x; (ids, d1) = listIDs d in handle_all c clk onCandidate 0 ids (dv, d1, s))"

text \<open>\<open>Run\<close> for the ticks delivered before the context ends. \<open>time.NewTicker\<close> panics on an interval
  that is not positive.\<close>

fun run_ticks ::
  "'n dht_cfg \<Rightarrow> ('n dht \<Rightarrow> string list \<times> 'n dht) \<Rightarrow> ('n, 's) callback \<Rightarrow> (nat \<Rightarrow> nat \<Rightarrow> time) list \<Rightarrow>
   discoverer \<times> 'n dht \<times> 's \<Rightarrow> (discoverer \<times> 'n dht \<times> 's) option" where
  "run_ticks c listIDs onCandidate [] x = Some x"
| "run_ticks c listIDs onCandidate (clk # ticks) x =
     (case discover_tick c listIDs onCandidate clk x of
        None \<Rightarrow> None
      | Some y \<Rightarrow> run_ticks c listIDs onCandidate ticks y)"

definition Run ::
  "'n dht_cfg \<Rightarrow> ('n dht \<Rightarrow> string list \<times> 'n dht) \<Rightarrow> ('n, 's) callback \<Rightarrow> (nat \<Rightarrow> nat \<Rightarrow> time) list \<Rightarrow>
   discoverer \<times> 'n dht \<times> 's \<Rightarrow> (discoverer \<times> 'n dht \<times> 's) option" where
  "Run c listIDs onCandidate ticks x =
     (if dv_interval (fst x) \<le> 0 then None else run_ticks c listIDs onCandidate ticks x)"

text \<open>What \<open>handleJob\<close> decides, as a function of the documents a reader sees: the providers and the
  server it offers to the callback, or nothing.\<close>

definition offer ::
  "(string \<rightharpoonup> payload) \<Rightarrow> discoverer \<Rightarrow> (nat \<Rightarrow> time) \<Rightarrow> string \<Rightarrow> (provider list \<times> string) option" where
  "offer docs dv clk i =
     (let st = docs (KeyState i); ad = docs (KeyTaskAd (dv_ns dv) i); m = docs (KeyP2PManifestMirror i) in
      if i = [] \<or> readable zero_state dec_state st \<and> ts_Status (read_as zero_state dec_state st) \<noteq> StatusQueued \<or>
         recently_seen dv (clk 0) i then None
      else if readable zero_TaskAd dec_TaskAd ad \<and> clk 1 \<le> ta_Exp (read_as zero_TaskAd dec_TaskAd ad) \<and>
         readable zero_ManifestAd dec_ManifestAd m \<and> clk 2 \<le> ma_Exp (read_as zero_ManifestAd dec_ManifestAd m)
      then Some (filter (\<lambda>p. pv_PeerID p \<noteq> [] \<and> pv_Addrs p \<noteq> [] \<and> \<not> list_ex bad_addr (pv_Addrs p))
                   (ma_Providers (read_as zero_ManifestAd dec_ManifestAd m)),
                 ta_DemandURL (read_as zero_TaskAd dec_TaskAd ad))
      else None)"

text \<open>The ids the index shards hold, as a reader sees them.\<close>

definition indexed :: "string \<Rightarrow> (string \<rightharpoonup> payload) \<Rightarrow> string list" where
  "indexed ns docs = concat (map (\<lambda>n. let v = docs (KeyIndexShard ns n) in
     if readable zero_index dec_index v then ix_IDs (read_as zero_index dec_index v) else []) [0..<TaskIndexShardCount])"

text \<open>A callback that writes down what it is offered.\<close>

definition note_offer :: "('n, (string \<times> provider list \<times> string) list) callback" where
  "note_offer i ps url x = Some (fst x, snd x @ [(i, ps, url)])"

definition sample_air :: "(string \<rightharpoonup> payload) dht" where
  "sample_air =
     (let c = solo_cfg ''mc'';
          d1 = snd (PutJSON c (KeyIndexShard ''mc'' 7) (enc_index (zero_index\<lparr>ix_IDs := [''j'']\<rparr>)) fresh_dht);
          d2 = snd (PutJSON c (KeyState ''j'') (enc_state (zero_state\<lparr>ts_Status := StatusQueued\<rparr>)) d1);
          d3 = snd (PutJSON c (KeyManifest ''j'') (enc_manifest (noop_manifest 9)) d2)
      in announceAds (\<lambda>_. []) c ''mc'' ''j'' (noop_manifest 9) (30 * second) 10 d3)"

subsection \<open>Documents\<close>

lemma ToLower_ad_names [simp]:
  "ToLower ''job_id'' = ''job_id''" "ToLower ''ns'' = ''ns''" "ToLower ''demand_url'' = ''demand_url''"
  "ToLower ''topic'' = ''topic''" "ToLower ''exp'' = ''exp''" "ToLower ''sig'' = ''sig''"
  by code_simp+

lemma dec_TaskAd_enc:
  "dec_TaskAd (enc_task_ad a) =
     (\<lparr>ta_JobID = ad_JobID a, ta_Namespace = ad_Namespace a, ta_DemandURL = ad_DemandURL a, ta_Topic = ad_Topic a,
       ta_Exp = ad_Exp a, ta_Sig = ad_Sig a\<rparr>, True)"
  by (simp add: dec_TaskAd_def enc_task_ad_def set_TaskAd_def zero_TaskAd_def decode_steps
      del: decode_members.simps(2))

lemma dec_ManifestAd_enc:
  "dec_ManifestAd (enc_mirror m) = (zero_ManifestAd\<lparr>ma_Providers := mm_Providers m, ma_Exp := mm_Exp m\<rparr>, True)"
  by (simp add: dec_ManifestAd_def enc_mirror_def set_ManifestAd_def zero_ManifestAd_def decode_steps put_list_enc
      comp_def list_all_iff del: decode_members.simps(2))

lemma keys_agree: "KeyTaskAd = keyTaskAd" "KeyP2PManifestMirror = keyP2PManifestMirror"
  by (simp_all add: fun_eq_iff KeyTaskAd_def keyTaskAd_def KeyP2PManifestMirror_def keyP2PManifestMirror_def)

lemma filterProviders_filter:
  "filterProviders ps = filter (\<lambda>p. pv_PeerID p \<noteq> [] \<and> pv_Addrs p \<noteq> [] \<and> \<not> list_ex bad_addr (pv_Addrs p)) ps"
  by (induction ps) auto

subsection \<open>Reading\<close>

context dht_net
begin

lemma list_shards_ids:
  "fst (list_shards c ns shards ids d) =
     ids @ concat (map (\<lambda>n. let v = doc c view d (KeyIndexShard ns n) in
       if readable zero_index dec_index v then ix_IDs (read_as zero_index dec_index v) else []) shards) \<and>
   doc c view (snd (list_shards c ns shards ids d)) = doc c view d"
proof (induction shards arbitrary: ids d)
  case (Cons n shards)
  obtain err d1 where g: "GetJSON c zero_index dec_index (KeyIndexShard ns n) (3 * second) d =
      ((read_as zero_index dec_index (doc c view d (KeyIndexShard ns n)), err), d1)"
    "err = None \<longleftrightarrow> readable zero_index dec_index (doc c view d (KeyIndexShard ns n))" "doc c view d1 = doc c view d"
    by (rule GetJSON_cases)
  show ?case
    using g Cons [of _ d1] by (cases err) (simp_all add: Let_def)
qed simp

lemma ListFromIndex_indexed:
  "fst (ListFromIndex c ns d) = indexed ns (doc c view d)" "doc c view (snd (ListFromIndex c ns d)) = doc c view d"
  using list_shards_ids [of ns "[0..<TaskIndexShardCount]" "[]" d] by (simp_all add: ListFromIndex_def indexed_def)

lemma readTaskAd_doc:
  obtains e d1 where "doc c view d1 = doc c view d"
    "readTaskAd c dv now i d = (let v = doc c view d (KeyTaskAd (dv_ns dv) i); ad = read_as zero_TaskAd dec_TaskAd v in
       (if readable zero_TaskAd dec_TaskAd v \<and> now \<le> ta_Exp ad then Inr ad else Inl e, d1))"
proof -
  let ?v = "doc c view d (KeyTaskAd (dv_ns dv) i)"
  obtain err d1 where g: "GetJSON c zero_TaskAd dec_TaskAd (KeyTaskAd (dv_ns dv) i) (2 * second) d =
      ((read_as zero_TaskAd dec_TaskAd ?v, err), d1)"
    "err = None \<longleftrightarrow> readable zero_TaskAd dec_TaskAd ?v" "doc c view d1 = doc c view d"
    by (rule GetJSON_cases)
  from that [OF g(3), of "case err of Some e \<Rightarrow> e | None \<Rightarrow> DeadlineExceeded"] g(1,2) show thesis
    by (cases err) (simp_all add: readTaskAd_def Let_def not_less)
qed

lemma readManifestMirror_doc:
  obtains e d1 where "doc c view d1 = doc c view d"
    "readManifestMirror c now i d =
       (let v = doc c view d (KeyP2PManifestMirror i); m = read_as zero_ManifestAd dec_ManifestAd v in
       (if readable zero_ManifestAd dec_ManifestAd v \<and> now \<le> ma_Exp m then Inr m else Inl e, d1))"
proof -
  let ?v = "doc c view d (KeyP2PManifestMirror i)"
  obtain err d1 where g: "GetJSON c zero_ManifestAd dec_ManifestAd (KeyP2PManifestMirror i) (2 * second) d =
      ((read_as zero_ManifestAd dec_ManifestAd ?v, err), d1)"
    "err = None \<longleftrightarrow> readable zero_ManifestAd dec_ManifestAd ?v" "doc c view d1 = doc c view d"
    by (rule GetJSON_cases)
  from that [OF g(3), of "case err of Some e \<Rightarrow> e | None \<Rightarrow> DeadlineExceeded"] g(1,2) show thesis
    by (cases err) (simp_all add: readManifestMirror_def Let_def not_less)
qed

lemma handleJob_offer:
  "\<exists>d'. doc c view d' = doc c view d \<and>
     handleJob c clk onCandidate i (dv, d, s) =
       (case offer (doc c view d) dv clk i of
          None \<Rightarrow> Some (dv, d', s)
        | Some (ps, url) \<Rightarrow>
            (case onCandidate i ps url (d', s) of
               None \<Rightarrow> None
             | Some (d4, s') \<Rightarrow> Some (dv\<lparr>dv_seen := (dv_seen dv)(i \<mapsto> clk 3)\<rparr>, d4, s')))"
proof (cases "i = []")
  case False
  let ?st = "doc c view d (KeyState i)"
  obtain err d1 where g: "GetJSON c zero_state dec_state (KeyState i) (1 * second) d =
      ((read_as zero_state dec_state ?st, err), d1)"
    "err = None \<longleftrightarrow> readable zero_state dec_state ?st" "doc c view d1 = doc c view d"
    by (rule GetJSON_cases)
  obtain e2 d2 where a: "doc c view d2 = doc c view d1"
    "readTaskAd c dv (clk 1) i d1 = (let v = doc c view d1 (KeyTaskAd (dv_ns dv) i); ad = read_as zero_TaskAd dec_TaskAd v in
       (if readable zero_TaskAd dec_TaskAd v \<and> clk 1 \<le> ta_Exp ad then Inr ad else Inl e2, d2))"
    by (rule readTaskAd_doc)
  obtain e3 d3 where m: "doc c view d3 = doc c view d2"
    "readManifestMirror c (clk 2) i d2 =
       (let v = doc c view d2 (KeyP2PManifestMirror i); m = read_as zero_ManifestAd dec_ManifestAd v in
       (if readable zero_ManifestAd dec_ManifestAd v \<and> clk 2 \<le> ma_Exp m then Inr m else Inl e3, d3))"
    by (rule readManifestMirror_doc)
  note docs = g(3) a(1) m(1)
  show ?thesis
  proof (cases "(err = None \<and> ts_Status (read_as zero_state dec_state ?st) \<noteq> StatusQueued) \<or> recently_seen dv (clk 0) i")
    case True
    with g(1,2) docs False show ?thesis
      by (intro exI [of _ d1]) (auto simp: handleJob_def offer_def Let_def)
  next
    case guard: False
    show ?thesis
    proof (cases "readable zero_TaskAd dec_TaskAd (doc c view d (KeyTaskAd (dv_ns dv) i)) \<and>
        clk 1 \<le> ta_Exp (read_as zero_TaskAd dec_TaskAd (doc c view d (KeyTaskAd (dv_ns dv) i)))")
      case True
      with g(1,2) a(2) m(2) docs False guard show ?thesis
        by (intro exI [of _ d3]) (auto simp: handleJob_def offer_def Let_def filterProviders_filter)
    next
      case noad: False
      with g(1,2) a(2) docs False guard show ?thesis
        by (intro exI [of _ d2]) (auto simp: handleJob_def offer_def Let_def)
    qed
  qed
qed (auto simp: handleJob_def offer_def)

lemma handle_all_notes:
  "\<exists>dv' d' l. handle_all c clk note_offer n ids (dv, d, log) = Some (dv', d', log @ l) \<and>
     doc c view d' = doc c view d \<and> (\<forall>j. j \<notin> set ids \<longrightarrow> dv_seen dv' j = dv_seen dv j) \<and> dv_ns dv' = dv_ns dv"
proof (induction ids arbitrary: n dv d log)
  case (Cons i ids)
  obtain d1 where d1: "doc c view d1 = doc c view d" and h:
    "handleJob c (clk n) note_offer i (dv, d, log) =
       (case offer (doc c view d) dv (clk n) i of
          None \<Rightarrow> Some (dv, d1, log)
        | Some (ps, url) \<Rightarrow>
            (case note_offer i ps url (d1, log) of
               None \<Rightarrow> None
             | Some (d4, s') \<Rightarrow> Some (dv\<lparr>dv_seen := (dv_seen dv)(i \<mapsto> clk n 3)\<rparr>, d4, s')))"
    using handleJob_offer [of d "clk n" note_offer i dv log] by blast
  show ?case
  proof (cases "offer (doc c view d) dv (clk n) i")
    case None
    with h Cons [of "Suc n" dv d1 log] d1 show ?thesis by auto
  next
    case (Some o')
    obtain ps url where o': "o' = (ps, url)" by fastforce
    let ?dv = "dv\<lparr>dv_seen := (dv_seen dv)(i \<mapsto> clk n 3)\<rparr>"
    have "handleJob c (clk n) note_offer i (dv, d, log) = Some (?dv, d1, log @ [(i, ps, url)])"
      using h Some o' by (simp add: note_offer_def)
    with Cons [of "Suc n" ?dv d1 "log @ [(i, ps, url)]"] d1 show ?thesis by auto
  qed
qed simp

lemma handle_all_offers:
  assumes "i \<in> set ids" "\<And>n. offer (doc c view d) dv (clk n) i = Some (ps, url)"
    and "\<And>dv' n. dv_ns dv' = dv_ns dv \<Longrightarrow> dv_seen dv' i = dv_seen dv i \<Longrightarrow>
      offer (doc c view d) dv' (clk n) i = offer (doc c view d) dv (clk n) i"
  shows "\<exists>dv' d' l. handle_all c clk note_offer n ids (dv, d, log) = Some (dv', d', log @ l) \<and>
    (i, ps, url) \<in> set l \<and> doc c view d' = doc c view d"
proof -
  obtain xs ys where ids: "ids = xs @ i # ys" "i \<notin> set xs" using split_list_first [OF assms(1)] by blast
  have app: "handle_all c clk note_offer n (xs @ zs) x =
      (case handle_all c clk note_offer n xs x of None \<Rightarrow> None | Some y \<Rightarrow> handle_all c clk note_offer (n + length xs) zs y)"
    for zs x n
    by (induction xs arbitrary: n x) (auto split: option.splits)
  obtain dv1 d1 l1 where 1: "handle_all c clk note_offer n xs (dv, d, log) = Some (dv1, d1, log @ l1)"
    "doc c view d1 = doc c view d" "dv_seen dv1 i = dv_seen dv i" "dv_ns dv1 = dv_ns dv"
    using handle_all_notes [of clk n xs dv d log] ids(2) by blast
  let ?k = "n + length xs"
  have o1: "offer (doc c view d1) dv1 (clk ?k) i = Some (ps, url)"
    using assms(2) [of ?k] assms(3) [OF 1(4,3), of ?k] 1(2) by simp
  obtain d2 where d2: "doc c view d2 = doc c view d1" and h:
    "handleJob c (clk ?k) note_offer i (dv1, d1, log @ l1) =
       (case offer (doc c view d1) dv1 (clk ?k) i of
          None \<Rightarrow> Some (dv1, d2, log @ l1)
        | Some (ps, url) \<Rightarrow>
            (case note_offer i ps url (d2, log @ l1) of
               None \<Rightarrow> None
             | Some (d4, s') \<Rightarrow> Some (dv1\<lparr>dv_seen := (dv_seen dv1)(i \<mapsto> clk ?k 3)\<rparr>, d4, s')))"
    using handleJob_offer [of d1 "clk ?k" note_offer i dv1 "log @ l1"] by blast
  let ?dv2 = "dv1\<lparr>dv_seen := (dv_seen dv1)(i \<mapsto> clk ?k 3)\<rparr>"
  have h2: "handleJob c (clk ?k) note_offer i (dv1, d1, log @ l1) = Some (?dv2, d2, log @ l1 @ [(i, ps, url)])"
    using h o1 by (simp add: note_offer_def)
  obtain dv3 d3 l3 where 3: "handle_all c clk note_offer (Suc ?k) ys (?dv2, d2, log @ l1 @ [(i, ps, url)]) =
      Some (dv3, d3, (log @ l1 @ [(i, ps, url)]) @ l3)" "doc c view d3 = doc c view d2"
    using handle_all_notes [of clk "Suc ?k" ys ?dv2 d2 "log @ l1 @ [(i, ps, url)]"] by blast
  have "handle_all c clk note_offer n ids (dv, d, log) = Some (dv3, d3, log @ (l1 @ [(i, ps, url)] @ l3))"
    using app [of n "i # ys" "(dv, d, log)"] 1(1) h2 3(1) by (simp add: ids(1))
  with 3(2) d2 1(2) show ?thesis by fastforce
qed

end

lemma offer_cong:
  "dv_ns dv' = dv_ns dv \<Longrightarrow> dv_seen dv' i = dv_seen dv i \<Longrightarrow> offer docs dv' clk i = offer docs dv clk i"
  by (simp add: offer_def recently_seen_def)

text \<open>The documents of an announced job lead to an offer.\<close>

lemma advertised_offer:
  assumes "advertised env (dv_ns dv) ttl docs i t" "ts_Status (read_as zero_state dec_state (docs (KeyState i))) = StatusQueued"
    and "i \<noteq> []" "\<not> recently_seen dv (clk 0) i" "clk 1 \<le> t + ttl" "clk 2 \<le> t + ttl"
  shows "offer docs dv clk i =
    Some (filterProviders (ma_Providers (read_as zero_ManifestAd dec_ManifestAd (docs (KeyP2PManifestMirror i)))), demand_url env)"
proof -
  obtain man where "docs (KeyTaskAd (dv_ns dv) i) = Some (Doc (enc_task_ad (ad_for env (dv_ns dv) i man (t + ttl))))"
      "docs (KeyP2PManifestMirror i) = Some (Doc (enc_mirror \<lparr>mm_Providers = mf_Providers man, mm_Exp = t + ttl\<rparr>))"
    using assms(1) by (auto simp: advertised_def keys_agree)
  with assms(2-6) show ?thesis
    by (simp add: offer_def Let_def readable_Doc read_as_Doc dec_TaskAd_enc dec_ManifestAd_enc ad_for_def
        filterProviders_filter)
qed

subsection \<open>Properties\<close>

text \<open>Control and agent speak the same language. They use the same keys, and an agent that decodes
  an advertisement or a mirror written by the control server gets, without an error, exactly the
  fields that were written.\<close>

lemma ads_agree:
  "KeyTaskAd ns i = keyTaskAd ns i \<and> KeyP2PManifestMirror i = keyP2PManifestMirror i \<and>
   unmarshal zero_TaskAd dec_TaskAd (Doc (enc_task_ad a)) =
     (\<lparr>ta_JobID = ad_JobID a, ta_Namespace = ad_Namespace a, ta_DemandURL = ad_DemandURL a, ta_Topic = ad_Topic a,
       ta_Exp = ad_Exp a, ta_Sig = ad_Sig a\<rparr>, None) \<and>
   unmarshal zero_ManifestAd dec_ManifestAd (Doc (enc_mirror m)) =
     (\<lparr>ma_RootCID = [], ma_Providers = mm_Providers m, ma_Rendezvous = [], ma_Transports = [], ma_Exp = mm_Exp m\<rparr>, None)"
  by (simp add: keys_agree unmarshal_Doc dec_TaskAd_enc dec_ManifestAd_enc zero_ManifestAd_def)

text \<open>C32: what the discoverer does with one id is decided by the documents alone. It calls the callback
  exactly when the state is not known to be other than queued, the job was not handled in the last
  half second, and the advertisement and the mirror can be read and have not expired; it passes on
  the usable providers and the advertised server, and marks the job as seen afterwards. Otherwise
  nothing changes.\<close>

theorem handleJob_spec:
  assumes "dht_net c view"
  shows "\<exists>d'. doc c view d' = doc c view d \<and>
     handleJob c clk onCandidate i (dv, d, s) =
       (case offer (doc c view d) dv clk i of
          None \<Rightarrow> Some (dv, d', s)
        | Some (ps, url) \<Rightarrow>
            (case onCandidate i ps url (d', s) of
               None \<Rightarrow> None
             | Some (d4, s') \<Rightarrow> Some (dv\<lparr>dv_seen := (dv_seen dv)(i \<mapsto> clk 3)\<rparr>, d4, s')))"
  by (rule dht_net.handleJob_offer [OF assms])

text \<open>An agent finds every job that is indexed, queued and announced. One tick of its discoverer
  offers the job to the callback, with the address of the control server, however many other jobs
  come first; scanning and offering change no document.\<close>

lemma tick_offers_advertised:
  assumes "dht_net c view" "i \<in> set (indexed (dv_ns dv) (doc c view d))" "i \<noteq> []"
    and "advertised env (dv_ns dv) ttl (doc c view d) i t"
    and "ts_Status (read_as zero_state dec_state (doc c view d (KeyState i))) = StatusQueued"
    and "dv_seen dv i = None" "\<And>n k. clk n k \<le> t + ttl"
  shows "\<exists>dv' d' l ps. discover_tick c (ListFromIndex c (dv_ns dv)) note_offer clk (dv, d, []) = Some (dv', d', l) \<and>
    (i, ps, demand_url env) \<in> set l \<and> doc c view d' = doc c view d"
proof -
  let ?d1 = "snd (ListFromIndex c (dv_ns dv) d)"
  note L = dht_net.ListFromIndex_indexed [OF assms(1), of "dv_ns dv" d]
  have o': "offer (doc c view ?d1) dv (clk n) i =
      Some (filterProviders (ma_Providers (read_as zero_ManifestAd dec_ManifestAd (doc c view d (KeyP2PManifestMirror i)))),
        demand_url env)" for n
    unfolding L(2) by (rule advertised_offer [OF assms(4,5,3)]) (simp_all add: recently_seen_def assms(6,7))
  have "i \<in> set (fst (ListFromIndex c (dv_ns dv) d))" using assms(2) L(1) by simp
  from dht_net.handle_all_offers [where n = 0 and log = "[]" and clk = clk, OF assms(1) this o' offer_cong] L(2)
  show ?thesis by (auto simp: discover_tick_def split_beta)
qed

subsection \<open>Examples\<close>

text \<open>A job \<open>j\<close> without providers, indexed in shard 7, queued and announced at the instant 10.\<close>

lemma sample_air_docs:
  "doc (solo_cfg ''mc'') (\<lambda>m. m) sample_air =
     [KeyIndexShard ''mc'' 7 \<mapsto> Doc (enc_index (zero_index\<lparr>ix_IDs := [''j'']\<rparr>)),
      KeyState ''j'' \<mapsto> Doc (enc_state (zero_state\<lparr>ts_Status := StatusQueued\<rparr>)),
      KeyManifest ''j'' \<mapsto> Doc (enc_manifest (noop_manifest 9)),
      keyTaskAd ''mc'' ''j'' \<mapsto> Doc (enc_task_ad (ad_for (\<lambda>_. []) ''mc'' ''j'' (noop_manifest 9) (10 + 30 * second))),
      keyP2PManifestMirror ''j'' \<mapsto> Doc (enc_mirror \<lparr>mm_Providers = [], mm_Exp = 10 + 30 * second\<rparr>)]"
proof -
  have "doc (solo_cfg ''mc'') (\<lambda>m. m) fresh_dht = Map.empty" by (rule ext) (simp add: doc_def fresh_dht_def)
  then show ?thesis
    by (simp add: sample_air_def Let_def solo.announceAds_docs) (simp add: noop_manifest_def zero_manifest_def)
qed

lemma sample_air_advertised:
  "advertised (\<lambda>_. []) ''mc'' (30 * second) (doc (solo_cfg ''mc'') (\<lambda>m. m) sample_air) ''j'' 10"
  "ts_Status (read_as zero_state dec_state (doc (solo_cfg ''mc'') (\<lambda>m. m) sample_air (KeyState ''j''))) = StatusQueued"
  by (auto simp: advertised_def sample_air_docs unmarshal_Doc noop_manifest_def zero_manifest_def)

lemma sample_air_indexed: "''j'' \<in> set (indexed ''mc'' (doc (solo_cfg ''mc'') (\<lambda>m. m) sample_air))"
  by (auto simp: indexed_def sample_air_docs Let_def TaskIndexShardCount_def readable_Doc read_as_Doc
      intro!: bexI [of _ 7])

theorem handleJob_spec_witness:
  "\<exists>d'. handleJob (solo_cfg ''mc'') (\<lambda>_. 20) note_offer ''j'' (NewDiscoverer ''mc'' 5, sample_air, []) =
     Some ((NewDiscoverer ''mc'' 5)\<lparr>dv_seen := [''j'' \<mapsto> 20]\<rparr>, d', [(''j'', [], ''http://127.0.0.1:8080'')])"
proof -
  have "offer (doc (solo_cfg ''mc'') (\<lambda>m. m) sample_air) (NewDiscoverer ''mc'' 5) (\<lambda>_. 20) ''j'' =
      Some (filterProviders [], demand_url (\<lambda>_. []))"
    using advertised_offer [of "\<lambda>_. []" "NewDiscoverer ''mc'' 5" "30 * second" "doc (solo_cfg ''mc'') (\<lambda>m. m) sample_air" "''j''" 10 "\<lambda>_. 20"]
      sample_air_advertised
    by (simp add: NewDiscoverer_def recently_seen_def sample_air_docs keys_agree read_as_Doc dec_ManifestAd_enc)
  with handleJob_spec [OF solo.dht_net_axioms, of sample_air "\<lambda>_. 20" note_offer "''j''" "NewDiscoverer ''mc'' 5" "[]"]
  show ?thesis by (auto simp: note_offer_def demand_url_def NewDiscoverer_def)
qed

lemma tick_offers_advertised_witness:
  "\<exists>dv' d' l ps. discover_tick (solo_cfg ''mc'') (ListFromIndex (solo_cfg ''mc'') ''mc'') note_offer (\<lambda>_ _. 20)
      (NewDiscoverer ''mc'' 5, sample_air, []) = Some (dv', d', l) \<and> (''j'', ps, ''http://127.0.0.1:8080'') \<in> set l"
  using tick_offers_advertised [OF solo.dht_net_axioms, of "''j''" "NewDiscoverer ''mc'' 5" sample_air "\<lambda>_. []" "30 * second" 10
      "\<lambda>_ _. 20"] sample_air_advertised sample_air_indexed
  by (simp add: NewDiscoverer_def demand_url_def) blast

end

