(* ===== verification/P2P_Fetch.thy ===== *)
theory P2P_Fetch
  imports Http_Types
begin

text \<open>
  Moving input files between seeders and agents: \<open>pkg/p2p/protocol.go\<close>, the stream handler of
  \<open>pkg/seeder/seed_handler.go\<close> and the fetching side \<open>pkg/agent/fetch.go\<close>, with the functions of
  \<open>path/filepath\<close> they use.

  Two things outside the code are parameters. A \<open>fsys\<close> record is the file system: its calls may
  fail at will, and what a successful call does to the contents of files is stated by the locale
  \<open>file_system\<close>, which is interpreted on a map from paths to contents. A \<open>p2p\<close> record is the
  libp2p host and the multiaddress library: which texts parse, whether a peer can be reached, and
  what comes back on a stream.
\<close>

subsection \<open>Paths\<close>

fun clean_rel :: "string list \<Rightarrow> string list \<Rightarrow> string list" where
  "clean_rel acc [] = rev acc"
| "clean_rel acc (s # ss) =
     (if s = [] \<or> s = ''.'' then clean_rel acc ss
      else if s = ''..'' then
        (case acc of
           [] \<Rightarrow> clean_rel [''..''] ss
         | x # xs \<Rightarrow> if x = ''..'' then clean_rel (''..'' # acc) ss else clean_rel xs ss)
      else clean_rel (s # acc) ss)"

text \<open>\<open>filepath.Clean\<close> and \<open>filepath.Join\<close> on Unix.\<close>

definition filepath_Clean :: "string \<Rightarrow> string" where
  "filepath_Clean p =
     (if p = [] then ''.''
      else if hd p = CHR ''/'' then clean_rooted p
      else (let r = join_with (CHR ''/'') (clean_rel [] (split_on (CHR ''/'') p)) in if r = [] then ''.'' else r))"

definition filepath_Join :: "string list \<Rightarrow> string" where
  "filepath_Join elems =
     (case dropWhile (\<lambda>e. e = []) elems of [] \<Rightarrow> [] | es \<Rightarrow> filepath_Clean (join_with (CHR ''/'') es))"

subsection \<open>The protocol\<close>

definition ProtoGet :: string where
  "ProtoGet = ''/mc-get/1.0.0''"

record GetRequest =
  gr_RootCID :: string

definition enc_GetRequest :: "GetRequest \<Rightarrow> json" where
  "enc_GetRequest r = JObj [(''root_cid'', JStr (gr_RootCID r))]"

definition set_GetRequest :: "GetRequest setter" where
  "set_GetRequest k v r = (if ToLower k = ''root_cid'' then put_str v (\<lambda>s. r\<lparr>gr_RootCID := s\<rparr>) r else (r, True))"

definition dec_GetRequest :: "json \<Rightarrow> GetRequest \<times> bool" where
  "dec_GetRequest j = decode_struct \<lparr>gr_RootCID = []\<rparr> set_GetRequest j"

subsection \<open>The file system\<close>

text \<open>\<open>fs_write\<close> is what \<open>io.Copy\<close> does to the file it has just created, \<open>fs_read\<close> what it reads from
  an open file: the bytes up to the end or up to an error.\<close>

record 'f fsys =
  fs_mkdir_all :: "string \<Rightarrow> 'f \<Rightarrow> go_error \<times> 'f"
  fs_create :: "string \<Rightarrow> 'f \<Rightarrow> go_error \<times> 'f"
  fs_write :: "string \<Rightarrow> string \<Rightarrow> 'f \<Rightarrow> go_error \<times> 'f"
  fs_sync :: "string \<Rightarrow> 'f \<Rightarrow> go_error \<times> 'f"
  fs_rename :: "string \<Rightarrow> string \<Rightarrow> 'f \<Rightarrow> go_error \<times> 'f"
  fs_remove_all :: "string \<Rightarrow> 'f \<Rightarrow> go_error \<times> 'f"
  fs_symlink :: "string \<Rightarrow> string \<Rightarrow> 'f \<Rightarrow> go_error \<times> 'f"
  fs_open :: "string \<Rightarrow> 'f \<Rightarrow> go_error"
  fs_read :: "string \<Rightarrow> 'f \<Rightarrow> string \<times> go_error"

subsection \<open>The seeder\<close>

record SourceFS =
  sf_Base :: string

text \<open>The open file is its path.\<close>

definition SourceFS_Open :: "'f fsys \<Rightarrow> SourceFS \<Rightarrow> string \<Rightarrow> 'f \<Rightarrow> string + string" where
  "SourceFS_Open F s cid f =
     (let path = filepath_Join [sf_Base s, cid] in
      case fs_open F path f of Some e \<Rightarrow> Inl e | None \<Rightarrow> Inr path)"

text \<open>The stream handler of \<open>MountSeedHandler\<close>: the bytes it sends before it closes the stream. \<open>wr\<close>
  is the number of bytes the stream accepts before writing or flushing fails, if it does, and \<open>flushed\<close>
  the number of bytes that left the write buffer when reading the file fails.\<close>

definition seed_stream :: "'f fsys \<Rightarrow> SourceFS \<Rightarrow> nat option \<Rightarrow> nat \<Rightarrow> payload \<Rightarrow> 'f \<Rightarrow> string" where
  "seed_stream F src wr flushed reqBytes f =
     (case unmarshal \<lparr>gr_RootCID = []\<rparr> dec_GetRequest reqBytes of
        (_, Some e) \<Rightarrow> []
      | (req, None) \<Rightarrow>
          if gr_RootCID req = [] then []
          else (case SourceFS_Open F src (gr_RootCID req) f of
                  Inl e \<Rightarrow> []
                | Inr path \<Rightarrow>
                    (let (bytes, rerr) = fs_read F path f;
                         sent = (case rerr of None \<Rightarrow> bytes | Some _ \<Rightarrow> take flushed bytes)
                     in case wr of None \<Rightarrow> sent | Some n \<Rightarrow> take n sent)))"

subsection \<open>The agent\<close>

record FetchResult =
  fr_LocalPath :: string
  fr_Bytes :: int

text \<open>What became of a stream: it could not be opened, the request could not be sent, or the bytes
  that arrived before its end or an error.\<close>

datatype exchange = NoStream string | SendErr string | Recv string go_error

text \<open>\<open>pp_maddr\<close>: a text parses as a multiaddress. \<open>pp_cast\<close>: \<open>/p2p/\<close> with the id does (\<open>ma.StringCast\<close>
  panics otherwise). \<open>pp_info\<close>: \<open>peer.AddrInfoFromP2pAddr\<close> of the address with the id appended.\<close>

record 'h p2p =
  pp_maddr :: "string \<Rightarrow> bool"
  pp_cast :: "string \<Rightarrow> bool"
  pp_info :: "string \<Rightarrow> string \<Rightarrow> string + string \<times> string"
  pp_connect :: "duration \<Rightarrow> string \<times> string \<Rightarrow> 'h \<Rightarrow> go_error \<times> 'h"
  pp_exchange :: "string \<Rightarrow> string \<Rightarrow> payload \<Rightarrow> 'h \<Rightarrow> exchange \<times> 'h"

definition copyFile :: "'f fsys \<Rightarrow> string \<Rightarrow> string \<Rightarrow> 'f \<Rightarrow> go_error \<times> 'f" where
  "copyFile F src dst f =
     (case fs_open F src f of
        Some e \<Rightarrow> (Some e, f)
      | None \<Rightarrow>
          (case fs_create F dst f of
             (Some e, f1) \<Rightarrow> (Some e, f1)
           | (None, f1) \<Rightarrow>
               (let (bytes, rerr) = fs_read F src f1; (werr, f2) = fs_write F dst bytes f1 in
                case werr of
                  Some e \<Rightarrow> (Some e, f2)
                | None \<Rightarrow> (case rerr of Some e \<Rightarrow> (Some e, f2) | None \<Rightarrow> fs_sync F dst f2))))"

text \<open>The last part of \<open>FetchFromProvider\<close>: the name \<open>input\<close> for the file, best effort.\<close>

definition link_input :: "'f fsys \<Rightarrow> string \<Rightarrow> string \<Rightarrow> 'f \<Rightarrow> 'f" where
  "link_input F rootCID dir f =
     (if rootCID \<noteq> ''input''
      then (let inPath = filepath_Join [dir, ''input''];
                f1 = snd (fs_remove_all F inPath f);
                (err, f2) = fs_symlink F rootCID inPath f1
            in case err of None \<Rightarrow> f2 | Some _ \<Rightarrow> snd (copyFile F (filepath_Join [dir, rootCID]) inPath f2))
      else f)"

text \<open>Step 5 on: the destination, the bytes of the stream, the final name.\<close>

definition save_stream ::
  "'f fsys \<Rightarrow> string \<Rightarrow> string \<Rightarrow> string \<Rightarrow> go_error \<Rightarrow> 'f \<Rightarrow> (string + FetchResult) \<times> 'f" where
  "save_stream F rootCID dir bytes rerr f =
     (case fs_mkdir_all F dir f of
        (Some e, f1) \<Rightarrow> (Inl e, f1)
      | (None, f1) \<Rightarrow>
          (let tmp = filepath_Join [dir, rootCID @ ''.part''] in
           case fs_create F tmp f1 of
             (Some e, f2) \<Rightarrow> (Inl e, f2)
           | (None, f2) \<Rightarrow>
               (let (werr, f3) = fs_write F tmp bytes f2 in
                case (case werr of Some e \<Rightarrow> Some e | None \<Rightarrow> rerr) of
                  Some e \<Rightarrow> (Inl (''recv: '' @ e), f3)
                | None \<Rightarrow>
                    (let final = filepath_Join [dir, rootCID] in
                     case fs_rename F tmp final f3 of
                       (Some e, f4) \<Rightarrow> (Inl e, f4)
                     | (None, f4) \<Rightarrow>
                         (Inr \<lparr>fr_LocalPath = final, fr_Bytes = int (length bytes)\<rparr>, link_input F rootCID dir f4)))))"

definition FetchFromProvider ::
  "'f fsys \<Rightarrow> 'h p2p \<Rightarrow> string \<Rightarrow> provider \<Rightarrow> string \<Rightarrow> 'f \<times> 'h \<Rightarrow> (string + FetchResult) outcome \<times> 'f \<times> 'h" where
  "FetchFromProvider F P rootCID pv dir x =
     (let (f, s) = x in
      if pv_PeerID pv = [] \<or> pv_Addrs pv = [] then (Returned (Inl ''invalid provider''), f, s)
      else (case filter (pp_maddr P) (pv_Addrs pv) of
         [] \<Rightarrow> (Returned (Inl ''no valid addrs''), f, s)
       | a # _ \<Rightarrow>
           if \<not> pp_cast P (pv_PeerID pv) then (Crashed, f, s)
           else (case pp_info P a (pv_PeerID pv) of
              Inl e \<Rightarrow> (Returned (Inl (''peer info: '' @ e)), f, s)
            | Inr info \<Rightarrow>
                (case pp_connect P (4 * second) info s of
                   (Some e, s1) \<Rightarrow> (Returned (Inl (''connect: '' @ e)), f, s1)
                 | (None, s1) \<Rightarrow>
                     (case pp_exchange P (fst info) ProtoGet (Doc (enc_GetRequest \<lparr>gr_RootCID = rootCID\<rparr>)) s1 of
                        (NoStream e, s2) \<Rightarrow> (Returned (Inl (''new stream: '' @ e)), f, s2)
                      | (SendErr e, s2) \<Rightarrow> (Returned (Inl (''send req: '' @ e)), f, s2)
                      | (Recv bytes rerr, s2) \<Rightarrow>
                          (let (r, f1) = save_stream F rootCID dir bytes rerr f in (Returned r, f1, s2)))))))"

fun fetch_any ::
  "'f fsys \<Rightarrow> 'h p2p \<Rightarrow> string \<Rightarrow> string \<Rightarrow> go_error \<Rightarrow> provider list \<Rightarrow> 'f \<times> 'h \<Rightarrow> (string + FetchResult) outcome \<times> 'f \<times> 'h" where
  "fetch_any F P rootCID dir lastErr [] x =
     (Returned (Inl (case lastErr of None \<Rightarrow> ''no providers'' | Some e \<Rightarrow> e)), x)"
| "fetch_any F P rootCID dir lastErr (pv # providers) x =
     (case FetchFromProvider F P rootCID pv dir x of
        (Crashed, y) \<Rightarrow> (Crashed, y)
      | (Returned (Inr res), y) \<Rightarrow> (Returned (Inr res), y)
      | (Returned (Inl e), y) \<Rightarrow> fetch_any F P rootCID dir (Some e) providers y)"

definition FetchAny ::
  "'f fsys \<Rightarrow> 'h p2p \<Rightarrow> string \<Rightarrow> provider list \<Rightarrow> string \<Rightarrow> 'f \<times> 'h \<Rightarrow> (string + FetchResult) outcome \<times> 'f \<times> 'h" where
  "FetchAny F P rootCID providers dir x = fetch_any F P rootCID dir None providers x"

subsection \<open>A file system in memory\<close>

text \<open>The contents of the regular files by path; a symbolic link is not represented, so \<open>Symlink\<close>
  is refused and the callers fall back to copying.\<close>

definition mem_fs :: "(string \<rightharpoonup> string) fsys" where
  "mem_fs =
     \<lparr>fs_mkdir_all = (\<lambda>p m. (None, m)),
      fs_create = (\<lambda>p m. (None, m(p \<mapsto> []))),
      fs_write = (\<lambda>p bs m. (None, m(p \<mapsto> bs))),
      fs_sync = (\<lambda>p m. (None, m)),
      fs_rename = (\<lambda>p q m. case m p of None \<Rightarrow> (Some ''no such file'', m) | Some bs \<Rightarrow> (None, m(p := None, q \<mapsto> bs))),
      fs_remove_all = (\<lambda>p m. (None, \<lambda>q. if q = p \<or> HasPrefix q (p @ ''/'') then None else m q)),
      fs_symlink = (\<lambda>t l m. (Some ''operation not permitted'', m)),
      fs_open = (\<lambda>p m. if m p = None then Some ''no such file'' else None),
      fs_read = (\<lambda>p m. case m p of None \<Rightarrow> ([], Some ''bad file'') | Some bs \<Rightarrow> (bs, None))\<rparr>"

text \<open>Calls that all succeed, as far as they need no existing file.\<close>

definition fs_willing :: "'f fsys \<Rightarrow> ('f \<Rightarrow> string \<rightharpoonup> string) \<Rightarrow> bool" where
  "fs_willing F content \<longleftrightarrow>
     (\<forall>p f. fst (fs_mkdir_all F p f) = None) \<and> (\<forall>p f. fst (fs_create F p f) = None) \<and>
     (\<forall>p bs f. fst (fs_write F p bs f) = None) \<and>
     (\<forall>p q f. content f p \<noteq> None \<longrightarrow> fst (fs_rename F p q f) = None)"

definition sample_p2p :: "(string \<rightharpoonup> string) p2p" where
  "sample_p2p =
     \<lparr>pp_maddr = (\<lambda>_. True), pp_cast = (\<lambda>_. True), pp_info = (\<lambda>a i. Inr (i, a)), pp_connect = (\<lambda>_ _ s. (None, s)),
      pp_exchange = (\<lambda>i proto req s. (Recv (seed_stream mem_fs \<lparr>sf_Base = ''inputs''\<rparr> None 0 req s) None, s))\<rparr>"

subsection \<open>Joining paths\<close>

lemma clean_rel_plain_last:
  assumes "plain_seg x"
  shows "clean_rel acc (ss @ [x]) = clean_rel acc ss @ [x]"
  using assms by (induction acc ss rule: clean_rel.induct) (auto simp: plain_seg_def split: list.splits)

lemma clean_segs_plain_last: "plain_seg x \<Longrightarrow> clean_segs acc (ss @ [x]) = clean_segs acc ss @ [x]"
  by (induction acc ss rule: clean_segs.induct) (auto simp: plain_seg_def)

lemma split_on_last: "c \<notin> set x \<Longrightarrow> split_on c (s @ c # x) = split_on c s @ [x]"
  by (induction c s rule: split_on.induct) (auto simp: split_on_absent split: list.splits)

lemma join_with_last: "join_with c (ys @ [x]) = (if ys = [] then x else join_with c ys @ c # x)"
  by (induction c ys rule: join_with.induct) auto

text \<open>The directory part does not depend on the name joined to it.\<close>

lemma filepath_Join_plain:
  assumes "dir \<noteq> []"
  shows "\<exists>pre. \<forall>x. plain_seg x \<longrightarrow> filepath_Join [dir, x] = pre @ x"
proof -
  let ?s = "split_on (CHR ''/'') dir"
  let ?ys = "if hd dir = CHR ''/'' then clean_segs [] ?s else clean_rel [] ?s"
  let ?pre = "(if hd dir = CHR ''/'' then ''/'' else []) @ (if ?ys = [] then [] else join_with (CHR ''/'') ?ys @ ''/'')"
  have "filepath_Join [dir, x] = ?pre @ x" if "plain_seg x" for x
  proof -
    have x: "x \<noteq> []" "CHR ''/'' \<notin> set x" using that by (auto simp: plain_seg_def)
    have "hd (dir @ CHR ''/'' # x) = hd dir" using assms by (cases dir) auto
    then show ?thesis
      using assms x that
      by (auto simp: filepath_Join_def filepath_Clean_def clean_rooted_def split_on_last join_with_last
          clean_segs_plain_last clean_rel_plain_last Let_def)
  qed
  then show ?thesis by blast
qed

subsection \<open>What file operations promise\<close>

locale file_system =
  fixes F :: "'f fsys" and content :: "'f \<Rightarrow> string \<rightharpoonup> string"
  assumes mkdir_keeps: "fs_mkdir_all F p f = (e, f') \<Longrightarrow> content f' = content f"
    and create_empty: "fs_create F p f = (None, f') \<Longrightarrow> content f' = (content f)(p \<mapsto> [])"
    and create_frame: "fs_create F p f = (e, f') \<Longrightarrow> q \<noteq> p \<Longrightarrow> content f' q = content f q"
    and write_file: "fs_write F p bs f = (None, f') \<Longrightarrow> content f p = Some [] \<Longrightarrow> content f' = (content f)(p \<mapsto> bs)"
    and write_frame: "fs_write F p bs f = (e, f') \<Longrightarrow> q \<noteq> p \<Longrightarrow> content f' q = content f q"
    and sync_keeps: "fs_sync F p f = (e, f') \<Longrightarrow> content f' = content f"
    and rename_file: "content f p = Some bs \<Longrightarrow> fs_rename F p q f = (None, f') \<Longrightarrow>
      content f' = (content f)(p := None, q \<mapsto> bs)"
    and remove_frame: "fs_remove_all F p f = (e, f') \<Longrightarrow> q \<noteq> p \<Longrightarrow> \<not> HasPrefix q (p @ ''/'') \<Longrightarrow> content f' q = content f q"
    and symlink_frame: "fs_symlink F t p f = (e, f') \<Longrightarrow> q \<noteq> p \<Longrightarrow> \<not> HasPrefix q (p @ ''/'') \<Longrightarrow> content f' q = content f q"
    and read_file: "content f p = Some bs \<Longrightarrow> fs_open F p f = None \<and> fs_read F p f = (bs, None)"
begin

lemma copyFile_frame:
  assumes "copyFile F src dst f = (e, f')" "q \<noteq> dst"
  shows "content f' q = content f q"
proof (cases "fs_open F src f")
  case None
  obtain ec f1 where c: "fs_create F dst f = (ec, f1)" by fastforce
  obtain bytes rerr where r: "fs_read F src f1 = (bytes, rerr)" by fastforce
  obtain ew f2 where w: "fs_write F dst bytes f1 = (ew, f2)" by fastforce
  obtain es f3 where y: "fs_sync F dst f2 = (es, f3)" by fastforce
  show ?thesis
    using assms c r w y None create_frame [OF c assms(2)] write_frame [OF w assms(2)] sync_keeps [OF y]
    by (auto simp: copyFile_def split: option.splits)
qed (use assms in \<open>simp add: copyFile_def\<close>)

lemma link_input_frame:
  assumes "q \<noteq> filepath_Join [dir, ''input'']" "\<not> HasPrefix q (filepath_Join [dir, ''input''] @ ''/'')"
  shows "content (link_input F cid dir f) q = content f q"
proof -
  let ?in = "filepath_Join [dir, ''input'']"
  obtain e1 f1 where r: "fs_remove_all F ?in f = (e1, f1)" by fastforce
  obtain e2 f2 where l: "fs_symlink F cid ?in f1 = (e2, f2)" by fastforce
  obtain e3 f3 where c: "copyFile F (filepath_Join [dir, cid]) ?in f2 = (e3, f3)" by fastforce
  show ?thesis
    using r l c remove_frame [OF r assms] symlink_frame [OF l assms] copyFile_frame [OF c assms(1)]
    by (simp add: link_input_def split: option.splits)
qed

lemma save_stream_stores:
  assumes "fs_willing F content" "plain_seg cid" "plain_seg (cid @ ''.part'')" "dir \<noteq> []"
  shows "\<exists>f'. save_stream F cid dir bytes None f =
      (Inr \<lparr>fr_LocalPath = filepath_Join [dir, cid], fr_Bytes = int (length bytes)\<rparr>, f') \<and>
    content f' (filepath_Join [dir, cid]) = Some bytes"
proof -
  obtain pre where pre: "\<And>x. plain_seg x \<Longrightarrow> filepath_Join [dir, x] = pre @ x"
    using filepath_Join_plain [OF assms(4)] by blast
  let ?tmp = "pre @ cid @ ''.part''" and ?final = "pre @ cid"
  obtain f1 where 1: "fs_mkdir_all F dir f = (None, f1)"
    using assms(1) by (metis fs_willing_def prod.collapse)
  obtain f2 where 2: "fs_create F ?tmp f1 = (None, f2)"
    using assms(1) by (metis fs_willing_def prod.collapse)
  obtain f3 where 3: "fs_write F ?tmp bytes f2 = (None, f3)"
    using assms(1) by (metis fs_willing_def prod.collapse)
  have c2: "content f2 ?tmp = Some []" using create_empty [OF 2] by simp
  have c3: "content f3 ?tmp = Some bytes" using write_file [OF 3 c2] by simp
  obtain f4 where 4: "fs_rename F ?tmp ?final f3 = (None, f4)"
    using assms(1) c3 by (metis fs_willing_def prod.collapse option.distinct(1))
  have c4: "content f4 ?final = Some bytes" using rename_file [OF c3 4] by simp
  have "content (link_input F cid dir f4) ?final = content f4 ?final"
  proof (cases "cid = ''input''")
    case False
    have i: "filepath_Join [dir, ''input''] = pre @ ''input''" by (rule pre) (simp add: plain_seg_def)
    have "CHR ''/'' \<notin> set cid" using assms(2) by (simp add: plain_seg_def)
    then have "\<not> HasPrefix ?final ((pre @ ''input'') @ ''/'')" by (auto simp: HasPrefix_iff)
    with False i show ?thesis by (intro link_input_frame) simp_all
  qed (simp add: link_input_def)
  with c4 1 2 3 4 pre [OF assms(2)] pre [OF assms(3)] show ?thesis
    by (simp add: save_stream_def Let_def)
qed

end

interpretation mem: file_system mem_fs "\<lambda>m. m"
  by unfold_locales (auto simp: mem_fs_def split: option.splits)

lemma mem_fs_willing: "fs_willing mem_fs (\<lambda>m. m)"
  by (auto simp: fs_willing_def mem_fs_def)

lemma plain_seg_part: "plain_seg x \<Longrightarrow> plain_seg (x @ ''.part'')"
  by (auto simp: plain_seg_def append_eq_Cons_conv)

lemma root_cid_name [simp]: "dec_GetRequest (enc_GetRequest r) = (r, True)"
  by (simp add: dec_GetRequest_def enc_GetRequest_def set_GetRequest_def)

lemma Join_relative:
  assumes "plain_seg b" "plain_seg x"
  shows "filepath_Join [b, x] = b @ ''/'' @ x" "filepath_Join [b, ''../'' @ x] = x"
proof -
  have s: "split_on (CHR ''/'') (b @ ''/'' @ x) = [b, x]" "split_on (CHR ''/'') (b @ ''/'' @ ''../'' @ x) = [b, ''..'', x]"
    using assms by (simp_all add: plain_seg_def split_on_sep split_on_absent)
  have h: "hd (b @ y) \<noteq> CHR ''/''" for y
    using assms(1) by (cases b) (auto simp: plain_seg_def)
  show "filepath_Join [b, x] = b @ ''/'' @ x" "filepath_Join [b, ''../'' @ x] = x"
    using assms s h [of "''/'' @ x"] h [of "''/'' @ ''../'' @ x"]
    by (simp_all add: filepath_Join_def filepath_Clean_def plain_seg_def Let_def)
qed

lemma seed_stream_open:
  assumes "cid \<noteq> []"
  shows "seed_stream F src wr n (Doc (enc_GetRequest \<lparr>gr_RootCID = cid\<rparr>)) f =
    (case fs_open F (filepath_Join [sf_Base src, cid]) f of
       Some e \<Rightarrow> []
     | None \<Rightarrow>
         (let (bytes, rerr) = fs_read F (filepath_Join [sf_Base src, cid]) f;
              sent = (case rerr of None \<Rightarrow> bytes | Some _ \<Rightarrow> take n bytes)
          in case wr of None \<Rightarrow> sent | Some n \<Rightarrow> take n sent))"
  using assms by (simp add: seed_stream_def unmarshal_Doc SourceFS_Open_def Let_def split: option.splits)

subsection \<open>Properties\<close>

text \<open>C33: an agent stores exactly the bytes the seeder sent and reports success. Nothing compares them with
  the file: when the seeder has the file and the stream holds they are its contents, when the
  seeder cannot open it they are none, and the agent reports the empty file as fetched; when the
  stream breaks on the seeder's side they are a prefix.\<close>

theorem fetch_stores_sent:
  assumes "file_system F content" "fs_willing F content" "file_system Fs contents" "plain_seg cid" "dir \<noteq> []"
    and "pv_PeerID pv \<noteq> []" "filter (pp_maddr P) (pv_Addrs pv) = a # as" "pp_cast P (pv_PeerID pv)"
    and "pp_info P a (pv_PeerID pv) = Inr info" "pp_connect P (4 * second) info s = (None, s1)"
    and "sent = seed_stream Fs src broken flushed (Doc (enc_GetRequest \<lparr>gr_RootCID = cid\<rparr>)) g"
    and "pp_exchange P (fst info) ProtoGet (Doc (enc_GetRequest \<lparr>gr_RootCID = cid\<rparr>)) s1 = (Recv sent None, s2)"
  shows "\<exists>f'. FetchFromProvider F P cid pv dir (f, s) =
      (Returned (Inr \<lparr>fr_LocalPath = filepath_Join [dir, cid], fr_Bytes = int (length sent)\<rparr>), f', s2) \<and>
    content f' (filepath_Join [dir, cid]) = Some sent \<and>
    (case contents g (filepath_Join [sf_Base src, cid]) of
       Some bs \<Rightarrow> sent = (case broken of None \<Rightarrow> bs | Some n \<Rightarrow> take n bs)
     | None \<Rightarrow> fs_open Fs (filepath_Join [sf_Base src, cid]) g \<noteq> None \<longrightarrow> sent = [])"
proof -
  let ?path = "filepath_Join [sf_Base src, cid]"
  have "pv_Addrs pv \<noteq> []" using assms(7) by (cases "pv_Addrs pv") auto
  moreover obtain f' where f': "save_stream F cid dir sent None f =
      (Inr \<lparr>fr_LocalPath = filepath_Join [dir, cid], fr_Bytes = int (length sent)\<rparr>, f')"
    "content f' (filepath_Join [dir, cid]) = Some sent"
    using file_system.save_stream_stores [OF assms(1,2,4) plain_seg_part [OF assms(4)] assms(5)] by blast
  moreover have "case contents g ?path of
       Some bs \<Rightarrow> sent = (case broken of None \<Rightarrow> bs | Some n \<Rightarrow> take n bs)
     | None \<Rightarrow> fs_open Fs ?path g \<noteq> None \<longrightarrow> sent = []"
    using file_system.read_file [OF assms(3), of g ?path] assms(4)
    by (auto simp: assms(11) seed_stream_open plain_seg_def split: option.splits)
  ultimately show ?thesis using assms(6-10,12) by (simp add: FetchFromProvider_def)
qed

text \<open>C40: a seeder does not keep to its directory. A request whose root is a plain name is served from
  the base directory, but one whose root climbs out of it is served too: the contents of a file
  beside the base directory are sent to whoever asks.\<close>

theorem seeder_serves_outside:
  assumes "file_system F content" "plain_seg b" "plain_seg x"
  shows "(content f (b @ ''/'' @ x) = Some bs \<longrightarrow>
      seed_stream F \<lparr>sf_Base = b\<rparr> None n (Doc (enc_GetRequest \<lparr>gr_RootCID = x\<rparr>)) f = bs) \<and>
    (content f x = Some bs \<longrightarrow>
      seed_stream F \<lparr>sf_Base = b\<rparr> None n (Doc (enc_GetRequest \<lparr>gr_RootCID = ''../'' @ x\<rparr>)) f = bs)"
  using assms(2,3) file_system.read_file [OF assms(1)] Join_relative [OF assms(2,3)]
  by (simp add: seed_stream_open plain_seg_def)

text \<open>Providers are tried in order until one delivers. If the first ones fail and the next succeeds,
  its result is the result and the later ones are never contacted; if all fail, the error is that
  of the last one, and an empty list is an error of its own.\<close>

lemma FetchAny_first_success:
  "FetchAny F P cid [] dir x = (Returned (Inl ''no providers''), x) \<and>
   FetchAny F P cid (pv # pvs) dir x =
     (case FetchFromProvider F P cid pv dir x of
        (Returned (Inl e), y) \<Rightarrow> if pvs = [] then (Returned (Inl e), y) else FetchAny F P cid pvs dir y
      | r \<Rightarrow> r)"
proof -
  have lastErr: "pvs \<noteq> [] \<Longrightarrow> fetch_any F P cid dir (Some e) pvs y = fetch_any F P cid dir None pvs y" for e y
    by (cases pvs) auto
  show ?thesis by (auto simp: FetchAny_def lastErr split: outcome.splits sum.splits prod.splits)
qed

subsection \<open>Examples\<close>

text \<open>A host that reaches the seeder whose files are its state.\<close>

theorem fetch_stores_sent_witness:
  "\<exists>f'. FetchFromProvider mem_fs sample_p2p ''cid'' \<lparr>pv_PeerID = ''p'', pv_Addrs = [''/ip4/10.0.0.1/tcp/1''], pv_Relays = [], pv_Caps = []\<rparr>
      ''work'' (Map.empty, [''inputs/cid'' \<mapsto> ''data'']) =
      (Returned (Inr \<lparr>fr_LocalPath = ''work/cid'', fr_Bytes = 4\<rparr>), f', [''inputs/cid'' \<mapsto> ''data'']) \<and>
    f' ''work/cid'' = Some ''data''"
proof -
  have p: "plain_seg ''cid''" "plain_seg ''work''" "plain_seg ''inputs''" by (simp_all add: plain_seg_def)
  let ?g = "[''inputs/cid'' \<mapsto> ''data'']"
  let ?a = "''/ip4/10.0.0.1/tcp/1''"
  have sent: "''data'' = seed_stream mem_fs \<lparr>sf_Base = ''inputs''\<rparr> None 0 (Doc (enc_GetRequest \<lparr>gr_RootCID = ''cid''\<rparr>)) ?g"
    using Join_relative(1) [OF p(3,1)] by (simp add: seed_stream_open mem_fs_def)
  have x: "pp_exchange sample_p2p (fst (''p'', ?a)) ProtoGet
      (Doc (enc_GetRequest \<lparr>gr_RootCID = ''cid''\<rparr>)) ?g = (Recv ''data'' None, ?g)"
    using sent by (simp add: sample_p2p_def)
  have j: "filepath_Join [''work'', ''cid''] = ''work/cid''" using Join_relative(1) [OF p(2,1)] by simp
  have "\<exists>f'. FetchFromProvider mem_fs sample_p2p ''cid'' \<lparr>pv_PeerID = ''p'', pv_Addrs = [?a], pv_Relays = [], pv_Caps = []\<rparr>
      ''work'' (Map.empty, ?g) =
      (Returned (Inr \<lparr>fr_LocalPath = filepath_Join [''work'', ''cid''], fr_Bytes = int (length ''data'')\<rparr>), f', ?g) \<and>
    f' (filepath_Join [''work'', ''cid'']) = Some ''data''"
    using fetch_stores_sent [OF mem.file_system_axioms mem_fs_willing mem.file_system_axioms p(1) _ _ _ _ _ _ sent x,
        of "''work''" "\<lparr>pv_PeerID = ''p'', pv_Addrs = [?a], pv_Relays = [], pv_Caps = []\<rparr>" ?a "[]" ?g Map.empty]
    by (auto simp: sample_p2p_def)
  then show ?thesis unfolding j by simp
qed

theorem seeder_serves_outside_witness:
  "seed_stream mem_fs \<lparr>sf_Base = ''inputs''\<rparr> None 0 (Doc (enc_GetRequest \<lparr>gr_RootCID = ''../secret''\<rparr>))
     [''secret'' \<mapsto> ''key''] = ''key''"
proof -
  have p: "plain_seg ''inputs''" "plain_seg ''secret''" by (simp_all add: plain_seg_def)
  show ?thesis
    using seeder_serves_outside [OF mem.file_system_axioms p, of "[''secret'' \<mapsto> ''key'']" "''key''" 0] by simp
qed

end
