(* ===== verification/Dht_Net.thy ===== *)
theory Dht_Net
  imports Dht_Node
begin

text \<open>
  Starting a node (\<open>internal/dht/node.go\<close>): which addresses of the machine it advertises, how it
  joins the network, and what it reports of itself.

  The network interfaces of the machine, multiaddresses and libp2p are parameters. The state
  \<open>'l\<close> of the libp2p stack contains the clock; \<open>lp_sleep\<close> lets time pass in it.
\<close>

subsection \<open>Addresses of the machine\<close>

type_synonym ip = "8 word list"

text \<open>An address of an interface: a \<open>net.IPNet\<close>, or anything else.\<close>

datatype if_addr = IPNet ip | OtherAddr

record iface =
  if_Name :: string
  if_Up :: bool
  if_Addrs :: "if_addr list"

definition To4 :: "ip \<Rightarrow> ip option" where
  "To4 p =
     (if length p = 4 then Some p
      else if length p = 16 \<and> list_all (\<lambda>b. b = 0) (take 10 p) \<and> p ! 10 = 255 \<and> p ! 11 = 255 then Some (drop 12 p)
      else None)"

definition IsPrivate :: "ip \<Rightarrow> bool" where
  "IsPrivate p =
     (case To4 p of
        Some q \<Rightarrow> q ! 0 = 10 \<or> q ! 0 = 172 \<and> and (q ! 1) 240 = 16 \<or> q ! 0 = 192 \<and> q ! 1 = 168
      | None \<Rightarrow> length p = 16 \<and> and (p ! 0) 254 = 252)"

definition tailnet :: "ip \<Rightarrow> bool" where
  "tailnet q \<longleftrightarrow> q ! 0 = 100 \<and> 64 \<le> q ! 1 \<and> q ! 1 \<le> 127"

definition ip4_String :: "ip \<Rightarrow> string" where
  "ip4_String q = join_with (CHR ''.'') (map (\<lambda>b. dec (unat b)) q)"

fun tailnet_addr :: "if_addr list \<Rightarrow> string option" where
  "tailnet_addr [] = None"
| "tailnet_addr (OtherAddr # as) = tailnet_addr as"
| "tailnet_addr (IPNet p # as) =
     (case To4 p of
        None \<Rightarrow> tailnet_addr as
      | Some q \<Rightarrow> if tailnet q then Some (ip4_String q) else tailnet_addr as)"

fun tailnet_iface :: "(iface \<Rightarrow> bool) \<Rightarrow> iface list \<Rightarrow> string option" where
  "tailnet_iface P [] = None"
| "tailnet_iface P (f # fs) =
     (if P f then (case tailnet_addr (if_Addrs f) of Some s \<Rightarrow> Some s | None \<Rightarrow> tailnet_iface P fs)
      else tailnet_iface P fs)"

definition detectTailnetIPv4 :: "iface list \<Rightarrow> string" where
  "detectTailnetIPv4 ifaces =
     (case tailnet_iface (\<lambda>f. if_Name f = ''tailscale0'' \<and> if_Up f) ifaces of
        Some s \<Rightarrow> s
      | None \<Rightarrow> (case tailnet_iface if_Up ifaces of Some s \<Rightarrow> s | None \<Rightarrow> []))"

fun usable_addrs :: "if_addr list \<Rightarrow> string list" where
  "usable_addrs [] = []"
| "usable_addrs (OtherAddr # as) = usable_addrs as"
| "usable_addrs (IPNet p # as) =
     (case To4 p of
        None \<Rightarrow> usable_addrs as
      | Some q \<Rightarrow> if tailnet q \<or> IsPrivate q then ip4_String q # usable_addrs as else usable_addrs as)"

fun up_addrs :: "iface list \<Rightarrow> string list" where
  "up_addrs [] = []"
| "up_addrs (f # fs) = (if \<not> if_Up f then up_addrs fs else usable_addrs (if_Addrs f) @ up_addrs fs)"

definition detectIPv4Addrs :: "iface list \<Rightarrow> string list" where
  "detectIPv4Addrs ifaces = up_addrs ifaces @ [''127.0.0.1'']"

subsection \<open>Advertised addresses\<close>

text \<open>Multiaddresses: the TCP or UDP port of one if it has any, its text, parsing, and the text of
  one with \<open>/p2p/\<close> and a peer id appended.\<close>

record 'm multi =
  mu_tcp :: "'m \<Rightarrow> string option"
  mu_udp :: "'m \<Rightarrow> string option"
  mu_text :: "'m \<Rightarrow> string"
  mu_parse :: "string \<Rightarrow> string + 'm"
  mu_p2p :: "'m \<Rightarrow> string \<Rightarrow> string"

fun parse_all :: "'m multi \<Rightarrow> string list \<Rightarrow> 'm list" where
  "parse_all M [] = []"
| "parse_all M (s # ss) = (case mu_parse M s of Inr m \<Rightarrow> m # parse_all M ss | Inl _ \<Rightarrow> parse_all M ss)"

definition readdress :: "'m multi \<Rightarrow> string list \<Rightarrow> 'm \<Rightarrow> 'm list" where
  "readdress M ips a =
     (case mu_tcp M a of
        Some p \<Rightarrow> parse_all M (map (\<lambda>ip. ''/ip4/'' @ ip @ ''/tcp/'' @ p) ips)
      | None \<Rightarrow>
          (case mu_udp M a of
             Some p \<Rightarrow>
               (let isQuicV1 = Contains (mu_text M a) ''/quic-v1'' in
                parse_all M (map (\<lambda>ip. if isQuicV1 then ''/ip4/'' @ ip @ ''/udp/'' @ p @ ''/quic-v1''
                  else ''/ip4/'' @ ip @ ''/udp/'' @ p) ips))
           | None \<Rightarrow> []))"

definition addrs_factory :: "'m multi \<Rightarrow> string list \<Rightarrow> 'm list \<Rightarrow> 'm list" where
  "addrs_factory M ips ins = concat (map (readdress M ips) ins)"

subsection \<open>Joining the network\<close>

datatype dht_mode = ModeAuto | ModeServer

text \<open>\<open>lp_new\<close> is \<open>libp2p.New\<close> with the addresses to listen on and the addresses factory; it answers
  the id of the host. \<open>lp_dht\<close> is \<open>dht.New\<close> with the mode, the protocol prefix and the
  validator; its result may be nil.\<close>

record ('l, 'm, 'n) libp2p =
  lp_new :: "string list \<Rightarrow> ('m list \<Rightarrow> 'm list) \<Rightarrow> 'l \<Rightarrow> (string + string) \<times> 'l"
  lp_dht :: "dht_mode \<Rightarrow> string \<Rightarrow> NamespacedValidator \<Rightarrow> 'l \<Rightarrow> (string + 'n kad option) \<times> 'l"
  lp_info :: "'m \<Rightarrow> string + string \<times> 'm"
  lp_connect :: "string \<times> 'm \<Rightarrow> 'l \<Rightarrow> go_error \<times> 'l"
  lp_bootstrap :: "'l \<Rightarrow> go_error \<times> 'l"
  lp_table :: "'l \<Rightarrow> nat option"
  lp_now :: "'l \<Rightarrow> time"
  lp_sleep :: "duration \<Rightarrow> 'l \<Rightarrow> 'l"
  lp_listen :: "'l \<Rightarrow> 'm list"

record ('m, 'n) node =
  nd_ID :: string
  nd_factory :: "'m list \<Rightarrow> 'm list"
  nd_cfg :: "'n dht_cfg"

text \<open>The verb \<open>%q\<close> of \<open>fmt\<close>; bytes above ASCII are taken to be printable text.\<close>

definition hex_digit :: "nat \<Rightarrow> char" where
  "hex_digit n = ''0123456789abcdef'' ! n"

definition quote_char :: "char \<Rightarrow> string" where
  "quote_char c =
     (if c = CHR 0x22 then [CHR 0x5C, c] else if c = CHR 0x5C then [c, c]
      else if c = CHR 0x07 then [CHR 0x5C, CHR ''a''] else if c = CHR 0x08 then [CHR 0x5C, CHR ''b'']
      else if c = CHR 0x0C then [CHR 0x5C, CHR ''f''] else if c = CHR 0x0A then [CHR 0x5C, CHR ''n'']
      else if c = CHR 0x0D then [CHR 0x5C, CHR ''r''] else if c = CHR 0x09 then [CHR 0x5C, CHR ''t'']
      else if c = CHR 0x0B then [CHR 0x5C, CHR ''v'']
      else (let n = of_char c :: nat in
        if n < 32 \<or> n = 127 then [CHR 0x5C, CHR ''x'', hex_digit (n div 16), hex_digit (n mod 16)] else [c]))"

definition quoted :: "string \<Rightarrow> string" where
  "quoted s = CHR 0x22 # concat (map quote_char s) @ [CHR 0x22]"

definition Connect :: "'m multi \<Rightarrow> ('l, 'm, 'n) libp2p \<Rightarrow> string \<Rightarrow> 'l \<Rightarrow> go_error \<times> 'l" where
  "Connect M L maddrStr l =
     (case mu_parse M maddrStr of
        Inl e \<Rightarrow> (Some (''bad multiaddr '' @ quoted maddrStr @ '': '' @ e), l)
      | Inr m \<Rightarrow>
          (case lp_info L m of
             Inl e \<Rightarrow> (Some (''bad p2p addr '' @ quoted maddrStr @ '': '' @ e), l)
           | Inr info \<Rightarrow> lp_connect L info l))"

text \<open>Every bootstrap peer is tried; failures are only printed.\<close>

fun connect_all :: "'m multi \<Rightarrow> ('l, 'm, 'n) libp2p \<Rightarrow> string list \<Rightarrow> 'l \<Rightarrow> 'l" where
  "connect_all M L [] l = l"
| "connect_all M L (s # ss) l =
     (case mu_parse M s of
        Inl _ \<Rightarrow> connect_all M L ss l
      | Inr m \<Rightarrow>
          (case lp_info L m of
             Inl _ \<Rightarrow> connect_all M L ss l
           | Inr info \<Rightarrow> connect_all M L ss (snd (lp_connect L info l))))"

definition has_peers :: "('l, 'm, 'n) libp2p \<Rightarrow> 'l \<Rightarrow> bool" where
  "has_peers L l = (case lp_table L l of None \<Rightarrow> False | Some n \<Rightarrow> n > 0)"

text \<open>The waiting loop; not returning is \<open>None\<close>.\<close>

partial_function (option) wait_peers :: "('l, 'm, 'n) libp2p \<Rightarrow> time \<Rightarrow> 'l \<Rightarrow> (go_error \<times> 'l) option" where
  "wait_peers L deadline l =
     (if has_peers L l then Some (None, l)
      else if lp_now L l > deadline then Some (Some ''no peers in routing table after bootstrap'', l)
      else wait_peers L deadline (lp_sleep L (200 * millisecond) l))"

definition NewNode ::
  "'m multi \<Rightarrow> ('l, 'm, 'n) libp2p \<Rightarrow> iface list \<Rightarrow> string \<Rightarrow> string list \<Rightarrow> 'l \<Rightarrow> ((string + ('m, 'n) node) \<times> 'l) option" where
  "NewNode M L ifaces namespace bootstrapAddrs l =
     (let factory = addrs_factory M (detectIPv4Addrs ifaces) in
      case lp_new L [''/ip4/0.0.0.0/tcp/0'', ''/ip4/0.0.0.0/udp/0/quic-v1''] factory l of
        (Inl e, l1) \<Rightarrow> Some (Inl (''libp2p new: '' @ e), l1)
      | (Inr pid, l1) \<Rightarrow>
          (case lp_dht L (if bootstrapAddrs = [] then ModeServer else ModeAuto) (''/'' @ namespace)
                  (node_validator namespace) l1 of
             (Inl e, l2) \<Rightarrow> Some (Inl (''dht new: '' @ e), l2)
           | (Inr None, l2) \<Rightarrow> Some (Inl ''dht not initialized'', l2)
           | (Inr (Some kad), l2) \<Rightarrow>
               (case lp_bootstrap L (connect_all M L bootstrapAddrs l2) of
                  (Some e, l3) \<Rightarrow> Some (Inl (''dht bootstrap: '' @ e), l3)
                | (None, l3) \<Rightarrow>
                    (let n = \<lparr>nd_ID = pid, nd_factory = factory, nd_cfg = \<lparr>cf_ns = namespace, cf_kad = kad\<rparr>\<rparr> in
                     if bootstrapAddrs = [] then Some (Inr n, l3)
                     else (case wait_peers L (lp_now L l3 + 5 * second) l3 of
                             None \<Rightarrow> None
                           | Some (Some e, l4) \<Rightarrow> Some (Inl e, l4)
                           | Some (None, l4) \<Rightarrow> Some (Inr n, l4))))))"

definition Multiaddrs :: "'m multi \<Rightarrow> ('l, 'm, 'n) libp2p \<Rightarrow> ('m, 'n) node \<Rightarrow> 'l \<Rightarrow> string list" where
  "Multiaddrs M L n l = map (\<lambda>a. mu_p2p M a (nd_ID n)) (nd_factory n (lp_listen L l))"

text \<open>The addresses a node may show.\<close>

definition private_ip4 :: "ip \<Rightarrow> bool" where
  "private_ip4 q \<longleftrightarrow> length q = 4 \<and> (tailnet q \<or> IsPrivate q)"

text \<open>Multiaddresses as their texts, and a stack on which everything succeeds at once.\<close>

definition text_multi :: "string multi" where
  "text_multi =
     \<lparr>mu_tcp = (\<lambda>a. if HasPrefix a ''/ip4/0.0.0.0/tcp/'' then Some (drop 17 a) else None),
      mu_udp = (\<lambda>a. None), mu_text = (\<lambda>a. a), mu_parse = Inr, mu_p2p = (\<lambda>a i. a @ ''/p2p/'' @ i)\<rparr>"

definition sample_libp2p :: "(time, string, (string \<rightharpoonup> payload)) libp2p" where
  "sample_libp2p =
     \<lparr>lp_new = (\<lambda>_ _ l. (Inr ''p'', l)), lp_dht = (\<lambda>_ _ _ l. (Inr (Some (cf_kad (lan_cfg ''mc''))), l)),
      lp_info = (\<lambda>m. Inr (''q'', m)), lp_connect = (\<lambda>_ l. (None, l)), lp_bootstrap = (\<lambda>l. (None, l)),
      lp_table = (\<lambda>_. Some 1), lp_now = (\<lambda>l. l), lp_sleep = (\<lambda>d l. l + d), lp_listen = (\<lambda>_. [''/ip4/0.0.0.0/tcp/4001''])\<rparr>"

subsection \<open>Addresses\<close>

lemma To4_length: "To4 p = Some q \<Longrightarrow> length q = 4"
  by (auto simp: To4_def split: if_splits)

lemma usable_addrs_iff:
  "s \<in> set (usable_addrs as) \<longleftrightarrow> (\<exists>p q. IPNet p \<in> set as \<and> To4 p = Some q \<and> private_ip4 q \<and> s = ip4_String q)"
  by (induction as rule: usable_addrs.induct) (auto simp: private_ip4_def To4_length split: option.splits)

lemma up_addrs_iff: "s \<in> set (up_addrs fs) \<longleftrightarrow> (\<exists>f\<in>set fs. if_Up f \<and> s \<in> set (usable_addrs (if_Addrs f)))"
  by (induction fs) auto

lemma parse_all_iff: "m \<in> set (parse_all M ss) \<longleftrightarrow> (\<exists>s\<in>set ss. mu_parse M s = Inr m)"
  by (induction ss) (auto split: sum.splits)

lemma readdress_iff:
  "m \<in> set (readdress M ips a) \<longleftrightarrow> (\<exists>ip\<in>set ips. \<exists>port. mu_tcp M a = Some port \<and> mu_parse M (''/ip4/'' @ ip @ ''/tcp/'' @ port) = Inr m \<or>
      mu_tcp M a = None \<and> mu_udp M a = Some port \<and>
        mu_parse M (''/ip4/'' @ ip @ ''/udp/'' @ port @ (if Contains (mu_text M a) ''/quic-v1'' then ''/quic-v1'' else [])) = Inr m)"
  by (cases "mu_tcp M a"; cases "mu_udp M a")
    (simp_all add: readdress_def parse_all_iff Let_def del: Contains.simps)

lemma tailnet_addr_Some:
  "tailnet_addr as = Some s \<Longrightarrow> \<exists>p q. IPNet p \<in> set as \<and> To4 p = Some q \<and> tailnet q \<and> s = ip4_String q"
  by (induction as rule: tailnet_addr.induct) (auto split: option.splits if_splits)

lemma tailnet_addr_None:
  "tailnet_addr as = None \<Longrightarrow> IPNet p \<in> set as \<Longrightarrow> To4 p = Some q \<Longrightarrow> \<not> tailnet q"
  by (induction as rule: tailnet_addr.induct) (auto split: option.splits if_splits)

lemma tailnet_iface_Some:
  "tailnet_iface P fs = Some s \<Longrightarrow> \<exists>f\<in>set fs. P f \<and> tailnet_addr (if_Addrs f) = Some s"
  by (induction fs) (auto split: option.splits if_splits)

lemma tailnet_iface_None: "tailnet_iface P fs = None \<longleftrightarrow> (\<forall>f\<in>set fs. P f \<longrightarrow> tailnet_addr (if_Addrs f) = None)"
  by (induction fs) (auto split: option.splits)

subsection \<open>Waiting\<close>

lemma wait_peers_returns:
  assumes "\<And>l. lp_now L l + 200 * millisecond \<le> lp_now L (lp_sleep L (200 * millisecond) l)"
    and "deadline < lp_now L l + int k * (200 * millisecond)"
  shows "\<exists>e l'. wait_peers L deadline l = Some (e, l') \<and> (e = None \<longleftrightarrow> has_peers L l')"
  using assms(2)
proof (induction k arbitrary: l)
  case 0
  then show ?case by (subst wait_peers.simps) auto
next
  case (Suc k)
  have "deadline < lp_now L (lp_sleep L (200 * millisecond) l) + int k * (200 * millisecond)"
    using Suc.prems assms(1) [of l] by (simp add: algebra_simps)
  from Suc.IH [OF this] show ?case by (subst wait_peers.simps) auto
qed

subsection \<open>Properties\<close>

text \<open>C34: starting a node ends, and a node that was given peers has found one. If sleeping lets at
  least its time pass, \<open>NewNode\<close> answers an error or a node in the namespace it was asked for;
  a node started with bootstrap addresses has a peer in its routing table.\<close>

theorem NewNode_returns:
  assumes "\<And>l. lp_now L l + 200 * millisecond \<le> lp_now L (lp_sleep L (200 * millisecond) l)"
  shows "\<exists>r l'. NewNode M L ifaces ns boots l = Some (r, l') \<and>
    (\<forall>n. r = Inr n \<longrightarrow> cf_ns (nd_cfg n) = ns \<and> nd_factory n = addrs_factory M (detectIPv4Addrs ifaces) \<and>
      (boots \<noteq> [] \<longrightarrow> has_peers L l'))"
proof -
  have wait: "\<exists>e l'. wait_peers L (lp_now L l + 5 * second) l = Some (e, l') \<and> (e = None \<longleftrightarrow> has_peers L l')" for l
    by (rule wait_peers_returns [OF assms, where k = 26]) simp
  show ?thesis
  proof (cases "boots = []")
    case True
    then show ?thesis by (auto simp: NewNode_def Let_def split: prod.splits sum.splits option.splits)
  next
    case False
    obtain r1 l1 where 1: "lp_new L [''/ip4/0.0.0.0/tcp/0'', ''/ip4/0.0.0.0/udp/0/quic-v1'']
        (addrs_factory M (detectIPv4Addrs ifaces)) l = (r1, l1)" by fastforce
    obtain r2 l2 where 2: "lp_dht L ModeAuto (''/'' @ ns) (node_validator ns) l1 = (r2, l2)" by fastforce
    obtain r3 l3 where 3: "lp_bootstrap L (connect_all M L boots l2) = (r3, l3)" by fastforce
    obtain e l4 where 4: "wait_peers L (lp_now L l3 + 5 * second) l3 = Some (e, l4)" "e = None \<longleftrightarrow> has_peers L l4"
      using wait [of l3] by blast
    from False 1 2 3 4 show ?thesis
      by (cases r1; cases r2; cases r3; cases e) (auto simp: NewNode_def Let_def split: option.splits)
  qed
qed

text \<open>What a node advertises of itself. Every advertised address joins the port of a TCP or UDP
  address it listens on with the IPv4 address of an interface that is up, from a private range
  or 100.64/10, or with the loopback address. Listening addresses of any other kind are dropped.\<close>

lemma advertised_addrs:
  assumes "m \<in> set (addrs_factory M (detectIPv4Addrs ifaces) ins)"
  shows "\<exists>a\<in>set ins. \<exists>ip port. (mu_tcp M a = Some port \<and> mu_parse M (''/ip4/'' @ ip @ ''/tcp/'' @ port) = Inr m \<or>
      mu_tcp M a = None \<and> mu_udp M a = Some port \<and>
        mu_parse M (''/ip4/'' @ ip @ ''/udp/'' @ port @ (if Contains (mu_text M a) ''/quic-v1'' then ''/quic-v1'' else [])) = Inr m) \<and>
    (ip = ''127.0.0.1'' \<or>
     (\<exists>f\<in>set ifaces. if_Up f \<and> (\<exists>p q. IPNet p \<in> set (if_Addrs f) \<and> To4 p = Some q \<and> private_ip4 q \<and> ip = ip4_String q)))"
proof -
  from assms obtain a where a: "a \<in> set ins" "m \<in> set (readdress M (detectIPv4Addrs ifaces) a)"
    by (auto simp: addrs_factory_def)
  from this(2) obtain ip port where ip: "ip \<in> set (detectIPv4Addrs ifaces)"
    and m: "mu_tcp M a = Some port \<and> mu_parse M (''/ip4/'' @ ip @ ''/tcp/'' @ port) = Inr m \<or>
      mu_tcp M a = None \<and> mu_udp M a = Some port \<and>
        mu_parse M (''/ip4/'' @ ip @ ''/udp/'' @ port @ (if Contains (mu_text M a) ''/quic-v1'' then ''/quic-v1'' else [])) = Inr m"
    unfolding readdress_iff by blast
  from ip have "ip = ''127.0.0.1'' \<or>
     (\<exists>f\<in>set ifaces. if_Up f \<and> (\<exists>p q. IPNet p \<in> set (if_Addrs f) \<and> To4 p = Some q \<and> private_ip4 q \<and> ip = ip4_String q))"
    by (auto simp: detectIPv4Addrs_def up_addrs_iff usable_addrs_iff)
  with a(1) m show ?thesis by blast
qed

text \<open>The address of the machine in the tailnet. What is found is the address of an interface that
  is up and lies in 100.64/10; it belongs to \<open>tailscale0\<close> if that interface has one; and nothing is
  found only if no interface that is up has one.\<close>

lemma detectTailnetIPv4_spec:
  fixes ifaces :: "iface list"
  defines "has \<equiv> \<lambda>f s. if_Up f \<and> (\<exists>p q. IPNet p \<in> set (if_Addrs f) \<and> To4 p = Some q \<and> tailnet q \<and> s = ip4_String q)"
  shows "(detectTailnetIPv4 ifaces \<noteq> [] \<longrightarrow> (\<exists>f\<in>set ifaces. has f (detectTailnetIPv4 ifaces))) \<and>
    ((\<exists>f\<in>set ifaces. if_Name f = ''tailscale0'' \<and> (\<exists>s. has f s)) \<longrightarrow>
       (\<exists>f\<in>set ifaces. if_Name f = ''tailscale0'' \<and> has f (detectTailnetIPv4 ifaces))) \<and>
    (detectTailnetIPv4 ifaces = [] \<longrightarrow> (\<forall>f\<in>set ifaces. \<forall>s. \<not> has f s))"
proof -
  let ?ts = "\<lambda>f. if_Name f = ''tailscale0'' \<and> if_Up f"
  have found: "\<exists>f\<in>set ifaces. P f \<and> has f s" if "tailnet_iface P ifaces = Some s" "\<And>f. P f \<Longrightarrow> if_Up f" for P s
    using tailnet_iface_Some [OF that(1)] tailnet_addr_Some that(2) unfolding has_def by blast
  have none: "\<not> has f s" if "tailnet_iface P ifaces = None" "f \<in> set ifaces" "P f" for P f s
    using that tailnet_addr_None unfolding has_def tailnet_iface_None by blast
  have ne: "ip4_String q \<noteq> []" if "To4 p = Some q" for p q
    using To4_length [OF that] by (cases q rule: list.exhaust; cases "tl q") (auto simp: ip4_String_def)
  show ?thesis
  proof (cases "tailnet_iface ?ts ifaces")
    case (Some s)
    with found [OF Some] have "\<exists>f\<in>set ifaces. if_Name f = ''tailscale0'' \<and> has f s" by blast
    moreover from this have "s \<noteq> []" unfolding has_def by (auto dest: ne)
    ultimately show ?thesis using Some by (auto simp: detectTailnetIPv4_def)
  next
    case None
    note nts = this
    show ?thesis
    proof (cases "tailnet_iface if_Up ifaces")
      case (Some s)
      from found [OF Some] have "\<exists>f\<in>set ifaces. has f s" by blast
      moreover from this have "s \<noteq> []" unfolding has_def by (auto dest: ne)
      moreover have "\<not> (\<exists>f\<in>set ifaces. if_Name f = ''tailscale0'' \<and> (\<exists>s. has f s))"
        using none [OF nts] unfolding has_def by blast
      ultimately show ?thesis using Some nts by (auto simp: detectTailnetIPv4_def)
    next
      case None
      have "\<forall>f\<in>set ifaces. \<forall>s. \<not> has f s" using none [OF None] unfolding has_def by blast
      with None nts show ?thesis by (auto simp: detectTailnetIPv4_def)
    qed
  qed
qed

subsection \<open>Examples\<close>

theorem NewNode_returns_witness:
  "\<exists>r l'. NewNode text_multi sample_libp2p [] ''mc'' [''/ip4/10.0.0.2/tcp/1/p2p/q''] 0 = Some (r, l')"
  using NewNode_returns [of sample_libp2p text_multi "[]" "''mc''" "[''/ip4/10.0.0.2/tcp/1/p2p/q'']" 0]
  by (auto simp: sample_libp2p_def)

lemma advertised_addrs_witness:
  "''/ip4/10.0.0.7/tcp/4001'' \<in> set (addrs_factory text_multi
     (detectIPv4Addrs [\<lparr>if_Name = ''eth0'', if_Up = True, if_Addrs = [IPNet [10, 0, 0, 7]]\<rparr>]) [''/ip4/0.0.0.0/tcp/4001'']) \<and>
   (\<exists>ip port. mu_tcp text_multi ''/ip4/0.0.0.0/tcp/4001'' = Some port \<and> ''/ip4/10.0.0.7/tcp/4001'' = ''/ip4/'' @ ip @ ''/tcp/'' @ port)"
proof -
  have "''/ip4/10.0.0.7/tcp/4001'' \<in> set (addrs_factory text_multi
     (detectIPv4Addrs [\<lparr>if_Name = ''eth0'', if_Up = True, if_Addrs = [IPNet [10, 0, 0, 7]]\<rparr>]) [''/ip4/0.0.0.0/tcp/4001''])"
    by code_simp
  with advertised_addrs [OF this] show ?thesis by (auto simp: text_multi_def HasPrefix_def)
qed

lemma detectTailnetIPv4_spec_witness:
  "detectTailnetIPv4 [\<lparr>if_Name = ''tailscale0'', if_Up = True, if_Addrs = [IPNet [100, 64, 0, 7]]\<rparr>] \<noteq> []"
  using detectTailnetIPv4_spec [of "[\<lparr>if_Name = ''tailscale0'', if_Up = True, if_Addrs = [IPNet [100, 64, 0, 7]]\<rparr>]"]
  by (auto simp: To4_def tailnet_def)

end
