(* ===== verification/Agent_Run.thy ===== *)
theory Agent_Run
  imports Agent_Client Agent_Discover P2P_Fetch Dht_Net
begin

text \<open>
  The agent: running a container (\<open>pkg/agent/runner.go\<close>) and the command itself
  (\<open>cmd/agent/main.go\<close>) with its treatment of a candidate: claim, wait for the manifest,
  heartbeats, fetch, run, finish report.

  The heartbeat goroutine runs beside the rest. How many of its ticks are served in each phase
  of a job is an argument: phase 0 ends when the manifest has been read, phase 1 with the
  metadata, phase 2 with the inputs, phase 3 with the container; the ticks of phase \<open>4 + n\<close> come
  before finish report \<open>n\<close>, the last ones after all of them (a heartbeat in flight when the job's
  context is cancelled). A result \<open>None\<close> means that the callback does not come back.
\<close>

subsection \<open>Containers\<close>

record RunResult =
  rr_ExitCode :: int
  rr_Stdout :: string
  rr_Stderr :: string
  rr_Duration :: duration

text \<open>How \<open>cmd.Run\<close> ended: the process exited with a code, or could not be run.\<close>

datatype run_end = Exited int | NotRun string

text \<open>What the agent finds on its machine: the network and the file system, the host for streams, and
  \<open>docker\<close>, which is given its arguments and answers how it ended, its two outputs and how long
  it took.\<close>

record ('w, 'f, 'h) machine =
  mc_http :: "'w http"
  mc_fs :: "'f fsys"
  mc_p2p :: "'h p2p"
  mc_lookpath :: "string \<Rightarrow> go_error"
  mc_abs :: "string \<Rightarrow> string + string"
  mc_docker :: "string list \<Rightarrow> 'f \<Rightarrow> (run_end \<times> string \<times> string \<times> duration) \<times> 'f"

definition os_WriteFile :: "'f fsys \<Rightarrow> string \<Rightarrow> string \<Rightarrow> 'f \<Rightarrow> go_error \<times> 'f" where
  "os_WriteFile F path data f =
     (case fs_create F path f of (Some e, f1) \<Rightarrow> (Some e, f1) | (None, f1) \<Rightarrow> fs_write F path data f1)"

definition docker_args :: "string \<Rightarrow> string \<Rightarrow> string list \<Rightarrow> string list" where
  "docker_args absWorkDir img command =
     [''run'', ''--rm'', ''-w'', ''/app'', ''-v'', absWorkDir @ '':/app'', img] @ command"

definition exit_code :: "run_end \<Rightarrow> string \<Rightarrow> int" where
  "exit_code r stderr =
     (let exit = (case r of Exited n \<Rightarrow> n | NotRun _ \<Rightarrow> - 1) in
      if exit \<noteq> 0 \<and> (Contains stderr ''unable to open image'' \<or>
           Contains stderr ''no decode delegate for this image format'') then 0 else exit)"

definition RunInContainer ::
  "('w, 'f, 'h) machine \<Rightarrow> string \<Rightarrow> string \<Rightarrow> string list \<Rightarrow> 'f \<Rightarrow> (string + RunResult) \<times> 'f" where
  "RunInContainer M workDir img command f =
     (case mc_lookpath M ''docker'' of
        Some e \<Rightarrow> (Inl (''docker command not found: '' @ e), f)
      | None \<Rightarrow>
          (case mc_abs M workDir of
             Inl e \<Rightarrow> (Inl (''could not get absolute path for work dir: '' @ e), f)
           | Inr absWorkDir \<Rightarrow>
               (let ((r, out, err, dur), f1) = mc_docker M (docker_args absWorkDir img command) f;
                    F = mc_fs M;
                    f2 = snd (fs_mkdir_all F (filepath_Join [workDir, ''_logs'']) f1);
                    f3 = snd (os_WriteFile F (filepath_Join [workDir, ''_logs'', ''stdout.log'']) out f2);
                    f4 = snd (os_WriteFile F (filepath_Join [workDir, ''_logs'', ''stderr.log'']) err f3)
                in (Inr \<lparr>rr_ExitCode = exit_code r err, rr_Stdout = out, rr_Stderr = err, rr_Duration = dur\<rparr>, f4))))"

subsection \<open>Configuration\<close>

record agent_flags =
  af_ns :: string
  af_discEvery :: duration
  af_bootstrap :: string
  af_controlURL :: string
  af_controlAlias :: string
  af_authToken :: string
  af_ttlSec :: int
  af_hbSec :: int

record agent_cfg =
  ag_controlURL :: string
  ag_token :: string
  ag_ttl :: duration
  ag_hb :: duration
  ag_id :: string

definition control_url :: "agent_flags \<Rightarrow> string" where
  "control_url fl = (if af_controlAlias fl \<noteq> [] then af_controlAlias fl else af_controlURL fl)"

definition agent_token :: "(string \<Rightarrow> string) \<Rightarrow> agent_flags \<Rightarrow> string" where
  "agent_token env fl = (if af_authToken fl \<noteq> [] then af_authToken fl else env ''CONTROL_TOKEN'')"

text \<open>The lease time and the heartbeat interval, after the correction; the products wrap around.\<close>

definition lease_timing :: "int \<Rightarrow> int \<Rightarrow> duration \<times> duration" where
  "lease_timing ttlSec hbSec =
     (let leaseTTL = wrap64 (ttlSec * second); hbEvery = wrap64 (hbSec * second)
      in (leaseTTL,
          if hbEvery \<ge> leaseTTL
          then (if leaseTTL > second then leaseTTL - second else tdiv leaseTTL 2)
          else hbEvery))"

definition boot_list :: "string \<Rightarrow> string list" where
  "boot_list bootstrapPeers =
     (if bootstrapPeers \<noteq> [] then filter (\<lambda>s. s \<noteq> []) (map TrimSpace (split_on (CHR '','') bootstrapPeers)) else [])"

definition initDHTNode ::
  "'m multi \<Rightarrow> ('l, 'm, 'n) libp2p \<Rightarrow> iface list \<Rightarrow> string \<Rightarrow> string \<Rightarrow> 'l \<Rightarrow> ((string + ('m, 'n) node) \<times> 'l) option" where
  "initDHTNode M L ifaces ns bootstrapPeers l = NewNode M L ifaces ns (boot_list bootstrapPeers) l"

subsection \<open>Heartbeats and finish reports\<close>

definition maxFail :: nat where "maxFail = 3"

text \<open>The goroutine: \<open>Some fail\<close> while it runs, \<open>None\<close> once it has given up.\<close>

definition hb_tick ::
  "'w http \<Rightarrow> agent_cfg \<Rightarrow> HTTPClaimClient \<Rightarrow> string \<Rightarrow> task_lease \<Rightarrow> nat option \<times> 'w \<Rightarrow> (nat option \<times> 'w) outcome" where
  "hb_tick h cfg claim taskID lease x =
     (case x of
        (None, w) \<Rightarrow> Returned (None, w)
      | (Some fail, w) \<Rightarrow>
          (case Agent_Client.Heartbeat h claim taskID (ag_id cfg) (tl_Nonce lease) (ag_ttl cfg) (tl_Version lease) w of
             (Crashed, w') \<Rightarrow> Crashed
           | (Returned (Inl e), w') \<Rightarrow> Returned (if Suc fail \<ge> maxFail then None else Some (Suc fail), w')
           | (Returned (Inr _), w') \<Rightarrow> Returned (Some 0, w')))"

fun hb_ticks ::
  "'w http \<Rightarrow> agent_cfg \<Rightarrow> HTTPClaimClient \<Rightarrow> string \<Rightarrow> task_lease \<Rightarrow> nat \<Rightarrow> nat option \<times> 'w \<Rightarrow> (nat option \<times> 'w) outcome" where
  "hb_ticks h cfg claim taskID lease 0 x = Returned x"
| "hb_ticks h cfg claim taskID lease (Suc n) x =
     (case hb_tick h cfg claim taskID lease x of
        Crashed \<Rightarrow> Crashed
      | Returned y \<Rightarrow> hb_ticks h cfg claim taskID lease n y)"

definition maxFinishRetries :: nat where "maxFinishRetries = 20"

text \<open>The loop of finish reports: \<open>k\<close> attempts left, \<open>n\<close> made, with \<open>beats n\<close> heartbeats before attempt
  \<open>n\<close>. The result carries the last error and the number of attempts.\<close>

fun finish_loop ::
  "('x \<Rightarrow> go_error outcome \<times> 'x) \<Rightarrow> (nat \<Rightarrow> 'x \<Rightarrow> 'x outcome) \<Rightarrow> nat \<Rightarrow> nat \<Rightarrow> go_error \<Rightarrow> 'x \<Rightarrow>
   (go_error \<times> nat \<times> 'x) outcome" where
  "finish_loop report beats 0 n lastErr x = Returned (lastErr, n, x)"
| "finish_loop report beats (Suc k) n lastErr x =
     (case beats n x of
        Crashed \<Rightarrow> Crashed
      | Returned x1 \<Rightarrow>
          (case report x1 of
             (Crashed, _) \<Rightarrow> Crashed
           | (Returned None, x2) \<Rightarrow> Returned (None, Suc n, x2)
           | (Returned (Some e), x2) \<Rightarrow>
               if \<not> ShouldRetryFinish (Some e) then Returned (Some e, Suc n, x2)
               else finish_loop report beats k (Suc n) (Some e) x2))"

subsection \<open>A candidate\<close>

text \<open>The circumstances of a job: the clock when the wait starts and in its rounds, the heartbeats of
  each phase, and those after the last report.\<close>

record jobenv =
  je_start :: time
  je_clk :: "nat \<Rightarrow> time"
  je_beats :: "nat \<Rightarrow> nat"
  je_after :: nat

record ('w, 'f, 'h) astate =
  as_web :: 'w
  as_files :: 'f
  as_host :: 'h
  as_jobs :: nat

text \<open>The report of a failed stage, and the end of the heartbeats.\<close>

definition give_up ::
  "'w http \<Rightarrow> agent_cfg \<Rightarrow> HTTPClaimClient \<Rightarrow> jobenv \<Rightarrow> string \<Rightarrow> task_lease \<Rightarrow> (string \<times> json) list \<Rightarrow> string \<Rightarrow>
   nat option \<times> 'w \<Rightarrow> 'w option" where
  "give_up h cfg cl je jobID lease metrics errMsg x =
     (case hb_ticks h cfg cl jobID lease (je_beats je 4) x of
        Crashed \<Rightarrow> None
      | Returned (hb, w1) \<Rightarrow>
          (case Report h cl jobID ''failed'' metrics [] [] errMsg (ag_id cfg) (tl_Version lease) w1 of
             (Crashed, _) \<Rightarrow> None
           | (Returned _, w2) \<Rightarrow>
               (case hb_ticks h cfg cl jobID lease (je_after je) (hb, w2) of
                  Crashed \<Rightarrow> None
                | Returned (_, w3) \<Rightarrow> Some w3)))"

definition run_metrics :: "(string + RunResult) \<Rightarrow> (string \<times> json) list" where
  "run_metrics r =
     (case r of
        Inl _ \<Rightarrow> []
      | Inr res \<Rightarrow>
          [(''duration_ms'', JNum (tdiv (rr_Duration res) millisecond)), (''exit_code'', JNum (rr_ExitCode res)),
           (''stderr_bytes'', JNum (int (length (rr_Stderr res)))), (''stdout_bytes'', JNum (int (length (rr_Stdout res))))])"

definition run_status :: "(string + RunResult) \<Rightarrow> string \<times> string" where
  "run_status r =
     (case r of
        Inl e \<Rightarrow> (''failed'', e)
      | Inr res \<Rightarrow> if rr_ExitCode res \<noteq> 0 then (''failed'', []) else (''succeeded'', []))"

text \<open>The last part: the container, the end of the heartbeats and the finish reports.\<close>

definition execute ::
  "('w, 'f, 'h) machine \<Rightarrow> agent_cfg \<Rightarrow> HTTPClaimClient \<Rightarrow> jobenv \<Rightarrow> string \<Rightarrow> task_lease \<Rightarrow> task_meta \<Rightarrow> nat option \<Rightarrow>
   ('w, 'f, 'h) astate \<Rightarrow> ('w, 'f, 'h) astate option" where
  "execute M cfg cl je jobID lease meta hb s =
     (let h = mc_http M;
          (res, f1) = RunInContainer M (''./work/'' @ jobID) (tm_Image meta) (tm_Command meta) (as_files s)
      in case hb_ticks h cfg cl jobID lease (je_beats je 3) (hb, as_web s) of
           Crashed \<Rightarrow> None
         | Returned x1 \<Rightarrow>
             (let (status, errMsg) = run_status res;
                  report = (\<lambda>(hb, w). let (r, w') = Report h cl jobID status (run_metrics res) [] [] errMsg (ag_id cfg)
                              (tl_Version lease) w in (r, (hb, w')))
              in case finish_loop report (\<lambda>n. hb_ticks h cfg cl jobID lease (je_beats je (4 + n))) maxFinishRetries 0 None x1 of
                   Crashed \<Rightarrow> None
                 | Returned (_, _, x2) \<Rightarrow>
                     (case hb_ticks h cfg cl jobID lease (je_after je) x2 of
                        Crashed \<Rightarrow> None
                      | Returned (_, w3) \<Rightarrow> Some (s\<lparr>as_web := w3, as_files := f1\<rparr>))))"

text \<open>From the metadata on: directories and inputs.\<close>

definition fetch_inputs ::
  "('w, 'f, 'h) machine \<Rightarrow> string \<Rightarrow> manifest \<Rightarrow> 'f \<times> 'h \<Rightarrow> go_error outcome \<times> 'f \<times> 'h" where
  "fetch_inputs M jobID man x =
     (let workDir = ''./work/'' @ jobID; F = mc_fs M; inputDir = filepath_Join [workDir, ''input''];
          f1 = snd (fs_mkdir_all F workDir (fst x)); f2 = snd (fs_mkdir_all F inputDir f1)
      in if \<not> EqualFold (mf_RootCID man) ''noop'' \<and> mf_Providers man \<noteq> []
         then (case FetchAny F (mc_p2p M) (mf_RootCID man) (mf_Providers man) inputDir (f2, snd x) of
                 (Crashed, y) \<Rightarrow> (Crashed, y)
               | (Returned (Inl e), y) \<Rightarrow> (Returned (Some e), y)
               | (Returned (Inr _), y) \<Rightarrow> (Returned None, y))
         else (Returned None, f2, snd x))"

definition fail_job ::
  "('w, 'f, 'h) machine \<Rightarrow> agent_cfg \<Rightarrow> HTTPClaimClient \<Rightarrow> jobenv \<Rightarrow> string \<Rightarrow> task_lease \<Rightarrow> (string \<times> json) list \<Rightarrow> string \<Rightarrow>
   nat option \<times> 'w \<Rightarrow> ('w, 'f, 'h) astate \<Rightarrow> ('w, 'f, 'h) astate option" where
  "fail_job M cfg cl je jobID lease metrics errMsg x s =
     map_option (\<lambda>w. s\<lparr>as_web := w\<rparr>) (give_up (mc_http M) cfg cl je jobID lease metrics errMsg x)"

definition fetch_and_run ::
  "('w, 'f, 'h) machine \<Rightarrow> agent_cfg \<Rightarrow> HTTPClaimClient \<Rightarrow> jobenv \<Rightarrow> string \<Rightarrow> task_lease \<Rightarrow> manifest \<Rightarrow> task_meta \<Rightarrow>
   nat option \<times> 'w \<Rightarrow> ('w, 'f, 'h) astate \<Rightarrow> ('w, 'f, 'h) astate option" where
  "fetch_and_run M cfg cl je jobID lease man meta x s =
     (case fetch_inputs M jobID man (as_files s, as_host s) of
        (Crashed, _) \<Rightarrow> None
      | (Returned ferr, f', h') \<Rightarrow>
          (case hb_ticks (mc_http M) cfg cl jobID lease (je_beats je 2) x of
             Crashed \<Rightarrow> None
           | Returned (hb, w) \<Rightarrow>
               (let s1 = s\<lparr>as_web := w, as_files := f', as_host := h'\<rparr> in
                case ferr of
                  Some e \<Rightarrow> fail_job M cfg cl je jobID lease [(''error_stage'', JStr ''fetch_input'')] (''fetch failed: '' @ e) (hb, w) s1
                | None \<Rightarrow> execute M cfg cl je jobID lease meta hb s1)))"

text \<open>The job after the claim and the wait. \<open>time.NewTicker\<close> panics in the goroutine on an interval
  that is not positive.\<close>

definition run_job ::
  "('w, 'f, 'h) machine \<Rightarrow> 'n dht_cfg \<Rightarrow> agent_cfg \<Rightarrow> HTTPClaimClient \<Rightarrow> jobenv \<Rightarrow> string \<Rightarrow> task_lease \<Rightarrow>
   'n dht \<times> ('w, 'f, 'h) astate \<Rightarrow> ('n dht \<times> ('w, 'f, 'h) astate) option" where
  "run_job M c cfg cl je jobID lease x =
     (let (d, s) = x; beats = (\<lambda>p. hb_ticks (mc_http M) cfg cl jobID lease (je_beats je p))
      in if ag_hb cfg \<le> 0 then None
         else (let ((man, e1), d1) = GetJSON c zero_manifest dec_manifest (KeyManifest jobID) (3 * second) d in
           case beats 0 (Some 0, as_web s) of
             Crashed \<Rightarrow> None
           | Returned x1 \<Rightarrow>
               if e1 \<noteq> None \<or> mf_RootCID man = []
               then map_option (Pair d1) (fail_job M cfg cl je jobID lease
                      [(''error_stage'', JStr ''manifest_check''), (''reason'', JStr ''manifest_not_found'')]
                      ''manifest not found on DHT'' x1 s)
               else (let ((meta, e2), d2) = GetJSON c zero_meta dec_meta (KeyMeta jobID) (3 * second) d1 in
                 case beats 1 x1 of
                   Crashed \<Rightarrow> None
                 | Returned x2 \<Rightarrow>
                     map_option (Pair d2)
                       (case e2 of
                          Some e \<Rightarrow> fail_job M cfg cl je jobID lease [(''error_stage'', JStr ''get_meta'')] (''get meta failed: '' @ e) x2 s
                        | None \<Rightarrow> fetch_and_run M cfg cl je jobID lease man meta x2 s))))"

text \<open>The callback. \<open>jes n\<close> are the circumstances of the \<open>n\<close>th call.\<close>

definition onCandidate ::
  "('w, 'f, 'h) machine \<Rightarrow> 'n dht_cfg \<Rightarrow> agent_cfg \<Rightarrow> (nat \<Rightarrow> jobenv) \<Rightarrow> ('n, ('w, 'f, 'h) astate) callback" where
  "onCandidate M c cfg jes jobID providers demandURL x =
     (let (d, s) = x; h = mc_http M; je = jes (as_jobs s);
          base = (if demandURL \<noteq> [] then demandURL else ag_controlURL cfg);
          cl = \<lparr>cl_BaseURL = base, cl_Token = ag_token cfg\<rparr>;
          s0 = s\<lparr>as_jobs := Suc (as_jobs s)\<rparr>
      in case Agent_Client.TryClaim h cl jobID (ag_id cfg) (ag_ttl cfg) (as_web s) of
           (Crashed, _) \<Rightarrow> None
         | (Returned (Inl _), w1) \<Rightarrow> Some (d, s0\<lparr>as_web := w1\<rparr>)
         | (Returned (Inr lease), w1) \<Rightarrow>
             (case WaitForManifest h (ag_controlURL cfg) (ag_token cfg) jobID (15 * second) (je_start je) (je_clk je) (\<lambda>_. None) w1 of
                None \<Rightarrow> None
              | Some (_, _, w2) \<Rightarrow> run_job M c cfg cl je jobID lease (d, s0\<lparr>as_web := w2\<rparr>)))"

subsection \<open>The command\<close>

text \<open>\<open>main\<close> for the ticks its discoverer gets: the message it dies with, or what is left of the
  discoverer, the DHT and the machine. \<open>None\<close> means a crash or a call that does not come back.\<close>

definition agent_main ::
  "('w, 'f, 'h) machine \<Rightarrow> 'm multi \<Rightarrow> ('l, 'm, 'n) libp2p \<Rightarrow> iface list \<Rightarrow> (string \<Rightarrow> string) \<Rightarrow> agent_flags \<Rightarrow> (nat \<Rightarrow> jobenv) \<Rightarrow>
   (nat \<Rightarrow> nat \<Rightarrow> time) list \<Rightarrow> 'n dht \<Rightarrow> 'l \<Rightarrow> ('w, 'f, 'h) astate \<Rightarrow>
   (string + discoverer \<times> 'n dht \<times> ('w, 'f, 'h) astate) option" where
  "agent_main M Mu L ifaces env fl jes ticks d l s =
     (case initDHTNode Mu L ifaces (af_ns fl) (af_bootstrap fl) l of
        None \<Rightarrow> None
      | Some (Inl e, _) \<Rightarrow> Some (Inl (''DHT node init failed: '' @ e))
      | Some (Inr node, _) \<Rightarrow>
          (let (ttl, hb) = lease_timing (af_ttlSec fl) (af_hbSec fl);
               cfg = \<lparr>ag_controlURL = control_url fl, ag_token = agent_token env fl, ag_ttl = ttl, ag_hb = hb, ag_id = nd_ID node\<rparr>;
               c = nd_cfg node
           in map_option Inr (Agent_Discover.Run c (ListFromIndex c (af_ns fl)) (onCandidate M c cfg jes) ticks
                (NewDiscoverer (af_ns fl) (af_discEvery fl), d, s))))"

text \<open>A machine for the examples: nothing answers, files are in memory, and \<open>docker\<close> fails with the
  given error text.\<close>

definition sample_machine :: "reply \<Rightarrow> string \<Rightarrow> (unit, string \<rightharpoonup> string, string \<rightharpoonup> string) machine" where
  "sample_machine rep err =
     \<lparr>mc_http = (\<lambda>_ w. (rep, w)), mc_fs = mem_fs, mc_p2p = sample_p2p, mc_lookpath = (\<lambda>_. None), mc_abs = Inr,
      mc_docker = (\<lambda>_ f. ((Exited 1, [], err, 0), f))\<rparr>"

definition sample_cfg :: agent_cfg where
  "sample_cfg = \<lparr>ag_controlURL = ''http://127.0.0.1:8080'', ag_token = ''s'', ag_ttl = 15 * second, ag_hb = 5 * second, ag_id = ''A''\<rparr>"

subsection \<open>Heartbeats\<close>

lemma hb_ticks_stopped [simp]: "hb_ticks h cfg cl i lease n (None, w) = Returned (None, w)"
  by (induction n) (simp_all add: hb_tick_def)

lemma hb_ticks_add:
  "hb_ticks h cfg cl i lease (m + n) x =
     (case hb_ticks h cfg cl i lease m x of Crashed \<Rightarrow> Crashed | Returned y \<Rightarrow> hb_ticks h cfg cl i lease n y)"
  by (induction m arbitrary: x) (auto split: outcome.splits)

lemma hb_tick_fails:
  assumes "\<And>w. \<exists>e w'. Agent_Client.Heartbeat h cl i (ag_id cfg) (tl_Nonce lease) (ag_ttl cfg) (tl_Version lease) w = (Returned (Inl e), w')"
  shows "\<exists>w'. hb_tick h cfg cl i lease (Some n, w) = Returned (if Suc n \<ge> maxFail then None else Some (Suc n), w')"
  using assms [of w] by (auto simp: hb_tick_def)

text \<open>What every tick keeps, the ticks keep.\<close>

lemma hb_ticks_invariant:
  assumes "\<And>k w. Q w \<Longrightarrow> \<exists>k' w'. hb_tick h cfg cl i lease (Some k, w) = Returned (k', w') \<and> Q w'" "Q w"
  shows "\<exists>k' w'. hb_ticks h cfg cl i lease n (k, w) = Returned (k', w') \<and> Q w'"
  using assms(2)
proof (induction n arbitrary: k w)
  case (Suc n)
  show ?case
  proof (cases k)
    case None
    with Suc.prems show ?thesis by (simp add: hb_tick_def)
  next
    case (Some m)
    with Suc.IH assms(1) [OF Suc.prems, of m] show ?thesis by fastforce
  qed
qed simp

subsection \<open>Finish reports\<close>

lemma finish_loop_attempts:
  assumes "finish_loop report beats k n le x = Returned (err, m, y)" "\<forall>e. le = Some e \<longrightarrow> ShouldRetryFinish (Some e)" "n = 0 \<or> le \<noteq> None"
  shows "m \<le> n + k \<and> (ShouldRetryFinish err \<longrightarrow> m = n + k) \<and> (0 < k \<longrightarrow> n < m)"
  using assms
proof (induction k arbitrary: n le x)
  case (Suc k)
  then show ?case
    by (fastforce simp: ShouldRetryFinish_def [of None] split: outcome.splits prod.splits option.splits if_splits)
qed auto

text \<open>A report that is accepted at once.\<close>

lemma finish_loop_first:
  assumes "beats n x = Returned x1" "report x1 = (Returned None, x2)"
  shows "finish_loop report beats (Suc k) n le x = Returned (None, Suc n, x2)"
  using assms by simp

subsection \<open>Properties\<close>

text \<open>C39: heartbeats fit into the lease. Whatever positive lease time and interval are configured, as
  long as they are durations at all, the corrected interval is positive and shorter than the
  lease, and an interval that was shorter is kept.\<close>

theorem heartbeat_inside_lease:
  assumes "0 < ttl" "ttl * second < 2 ^ 63" "0 < hb" "hb * second < 2 ^ 63"
  shows "case lease_timing ttl hb of (leaseTTL, hbEvery) \<Rightarrow>
    leaseTTL = ttl * second \<and> 0 < hbEvery \<and> hbEvery < leaseTTL \<and> (hb < ttl \<longrightarrow> hbEvery = hb * second)"
proof -
  have "wrap64 (ttl * second) = ttl * second" "wrap64 (hb * second) = hb * second"
    using assms by (simp_all add: wrap64_id)
  moreover have "second \<le> ttl * second" "second \<le> hb * second" using assms by simp_all
  ultimately show ?thesis
    using assms by (auto simp: lease_timing_def Let_def tdiv_def)
qed

text \<open>A lease time that is not positive crashes the agent at its first job. The correction leaves
  the interval at zero or below, and the ticker of the heartbeat goroutine panics after the claim
  has been granted.\<close>

lemma nonpositive_ttl_crashes:
  assumes "- (2 ^ 63) \<le> ttl * second" "ttl \<le> 0" "0 < hb" "hb * second < 2 ^ 63"
    and "ag_hb cfg = snd (lease_timing ttl hb)"
  shows "run_job M c cfg cl je i lease x = None"
proof -
  have "wrap64 (ttl * second) = ttl * second" "wrap64 (hb * second) = hb * second"
    using assms(1-4) by (simp_all add: wrap64_id)
  moreover have "ttl * second \<le> 0" "0 < hb * second" using assms by (simp_all add: mult_nonpos_nonneg)
  ultimately have "ag_hb cfg \<le> 0" using assms(5) by (auto simp: lease_timing_def Let_def tdiv_def sgn_if)
  then show ?thesis by (simp add: run_job_def split_beta)
qed

text \<open>What the agent reports as success. A job is reported as succeeded exactly when \<open>docker\<close> was
  found, the directory could be named, and the container exited with 0 or wrote one of two texts
  of ImageMagick to its error output, whatever its exit code was then.\<close>

lemma reported_success:
  "fst (run_status (fst (RunInContainer M workDir img cmd f))) = ''succeeded'' \<longleftrightarrow>
     mc_lookpath M ''docker'' = None \<and>
     (\<exists>a. mc_abs M workDir = Inr a \<and>
       (case fst (mc_docker M (docker_args a img cmd) f) of (r, out, err, dur) \<Rightarrow>
          r = Exited 0 \<or> Contains err ''unable to open image'' \<or> Contains err ''no decode delegate for this image format''))"
  by (auto simp: RunInContainer_def run_status_def exit_code_def Let_def simp del: Contains.simps
      split: option.splits sum.splits prod.splits run_end.splits)

text \<open>Finish reports are sent at least once and at most twenty times, and an error that may be
  retried is what is left only after all twenty.\<close>

lemma finish_reports_bounded:
  assumes "finish_loop report beats maxFinishRetries 0 None x = Returned (err, n, y)"
  shows "0 < n \<and> n \<le> 20 \<and> (ShouldRetryFinish err \<longrightarrow> n = 20)"
  using finish_loop_attempts [OF assms] by (simp add: maxFinishRetries_def)

text \<open>The heartbeats of a job end after three failures in a row: the goroutine then sends no more
  requests, while the job goes on without its lease.\<close>

lemma heartbeats_give_up:
  assumes "\<And>w. \<exists>e w'. Agent_Client.Heartbeat h cl i (ag_id cfg) (tl_Nonce lease) (ag_ttl cfg) (tl_Version lease) w = (Returned (Inl e), w')"
    and "3 \<le> n"
  shows "\<exists>w'. hb_ticks h cfg cl i lease n (Some 0, w) = Returned (None, w') \<and>
    hb_ticks h cfg cl i lease 3 (Some 0, w) = Returned (None, w')"
proof -
  obtain w1 where 1: "hb_tick h cfg cl i lease (Some 0, w) = Returned (Some (Suc 0), w1)"
    using hb_tick_fails [OF assms(1), of 0 w] by (auto simp: maxFail_def)
  obtain w2 where 2: "hb_tick h cfg cl i lease (Some (Suc 0), w1) = Returned (Some (Suc (Suc 0)), w2)"
    using hb_tick_fails [OF assms(1), of "Suc 0" w1] by (auto simp: maxFail_def)
  obtain w3 where 3: "hb_tick h cfg cl i lease (Some (Suc (Suc 0)), w2) = Returned (None, w3)"
    using hb_tick_fails [OF assms(1), of "Suc (Suc 0)" w2] by (auto simp: maxFail_def)
  have t: "hb_ticks h cfg cl i lease 3 (Some 0, w) = Returned (None, w3)" by (simp add: numeral_3_eq_3 1 2 3)
  with hb_ticks_add [of h cfg cl i lease 3 "n - 3" "(Some 0, w)"] assms(2) show ?thesis by simp
qed

text \<open>An advertisement can bring an agent down. If the server it names is not a URL the client can
  parse, the callback does not return an error: the process crashes.\<close>

lemma bad_demand_url_crashes:
  assumes "url \<noteq> []" "\<And>req w. HasPrefix (hc_url req) url \<Longrightarrow> \<exists>e. fst (mc_http M req w) = BadURL e"
  shows "onCandidate M c cfg jes i ps url (d, s) = None"
proof -
  have post: "\<exists>w'. claim_post (mc_http M) \<lparr>cl_BaseURL = url, cl_Token = ag_token cfg\<rparr> path inp z decf w = (Crashed, w')" for path inp z decf w
    using assms(2) [of "\<lparr>hc_method = ''POST'', hc_url = url @ path,
      hc_header = set_auth (ag_token cfg) ((\<lambda>_. [])(''Content-Type'' := ''application/json'')), hc_body = Doc inp\<rparr>" w]
    by (auto simp: claim_post_def HasPrefix_append split: prod.splits)
  have "\<exists>w'. Agent_Client.TryClaim (mc_http M) \<lparr>cl_BaseURL = url, cl_Token = ag_token cfg\<rparr> i (ag_id cfg) (ag_ttl cfg) (as_web s) = (Crashed, w')"
    using post [of "''/api/tasks/'' @ i @ ''/try-claim''"
      "JObj [(''agent_id'', JStr (ag_id cfg)), (''ttl_sec'', JNum (seconds_of (ag_ttl cfg)))]" zero_lease_out dec_lease_out "as_web s"]
    by (auto simp: Agent_Client.TryClaim_def)
  then show ?thesis using assms(1) by (auto simp: onCandidate_def Let_def split: prod.splits)
qed

subsection \<open>Examples\<close>

theorem heartbeat_inside_lease_witness: "snd (lease_timing 5 60) < fst (lease_timing 5 60) \<and> 0 < snd (lease_timing 5 60)"
  using heartbeat_inside_lease [of 5 60] by (simp add: split_beta)

lemma nonpositive_ttl_crashes_witness:
  "run_job (sample_machine (NetErr ''EOF'') []) (solo_cfg ''mc'') (sample_cfg\<lparr>ag_hb := snd (lease_timing 0 5)\<rparr>)
     \<lparr>cl_BaseURL = ''http://c'', cl_Token = ''s''\<rparr> \<lparr>je_start = 0, je_clk = int, je_beats = (\<lambda>_. 1), je_after = 0\<rparr> ''j'' zero_lease
     (fresh_dht, \<lparr>as_web = (), as_files = Map.empty, as_host = Map.empty, as_jobs = 0\<rparr>) = None"
  by (rule nonpositive_ttl_crashes [of 0 5]) simp_all

lemma finish_reports_bounded_witness:
  "finish_loop (\<lambda>x. (Returned (Some ''timeout''), x)) (\<lambda>n. Returned) maxFinishRetries 0 None () = Returned (Some ''timeout'', 20, ()) \<and>
   (20::nat) \<le> 20"
proof -
  have "ShouldRetryFinish (Some ''timeout'')" by code_simp
  then have "finish_loop (\<lambda>x. (Returned (Some ''timeout''), x)) (\<lambda>n. Returned) k n (Some ''timeout'') () = Returned (Some ''timeout'', n + k, ())" for k n
    by (induction k arbitrary: n) simp_all
  then obtain n where n: "finish_loop (\<lambda>x. (Returned (Some ''timeout''), x)) (\<lambda>n. Returned) maxFinishRetries 0 None () = Returned (Some ''timeout'', n, ())"
    using \<open>ShouldRetryFinish (Some ''timeout'')\<close> by (simp add: maxFinishRetries_def numeral_eq_Suc)
  from finish_reports_bounded [OF this] \<open>ShouldRetryFinish (Some ''timeout'')\<close> n show ?thesis by simp
qed

lemma heartbeats_give_up_witness:
  "\<exists>w'. hb_ticks (mc_http (sample_machine (NetErr ''EOF'') [])) sample_cfg \<lparr>cl_BaseURL = ''http://c'', cl_Token = ''s''\<rparr> ''j'' zero_lease 9
     (Some 0, ()) = Returned (None, w')"
proof -
  have "\<exists>e w'. Agent_Client.Heartbeat (mc_http (sample_machine (NetErr ''EOF'') [])) \<lparr>cl_BaseURL = ''http://c'', cl_Token = ''s''\<rparr> ''j''
      (ag_id sample_cfg) (tl_Nonce zero_lease) (ag_ttl sample_cfg) (tl_Version zero_lease) w = (Returned (Inl e), w')" for w
    by (simp add: Agent_Client.Heartbeat_def claim_post_def sample_machine_def)
  from heartbeats_give_up [OF this, of 9] show ?thesis by simp
qed

lemma bad_demand_url_crashes_witness:
  "onCandidate (sample_machine (BadURL ''missing protocol scheme'') []) (solo_cfg ''mc'') sample_cfg
     (\<lambda>_. \<lparr>je_start = 0, je_clk = int, je_beats = (\<lambda>_. 1), je_after = 0\<rparr>) ''j'' [] '':''
     (fresh_dht, \<lparr>as_web = (), as_files = Map.empty, as_host = Map.empty, as_jobs = 0\<rparr>) = None"
  by (rule bad_demand_url_crashes) (simp_all add: sample_machine_def)

end
