(* ===== verification/Lease_Store.thy ===== *)
theory Lease_Store
  imports Task_Types
begin

text \<open>
  The package \<open>internal/lease\<close>: the demand store in PostgreSQL. The table \<open>demand_jobs\<close>
  (\<open>configs/schema.sql\<close>) is the list of its rows in storage order, and every method of \<open>PGStore\<close>
  is the SQL statement of its source line run on that list: conditions are three-valued, an
  \<open>UPDATE\<close> rewrites the rows whose condition is true and returns them, integer overflow is an
  error of the statement.

  The database server is a parameter: \<open>stmt_now\<close> gives \<open>now()\<close> for each statement of a method
  call, \<open>stmt_fault\<close> says whether the driver reports an error for it, either before the
  statement ran (\<open>Down\<close>) or after it had committed (\<open>Lost\<close>), and \<open>rows_cut\<close> is the number of
  rows a query delivered before the connection broke (the methods never consult
  \<open>rows.Err()\<close>, so such a query returns the rows it has). SQL leaves the order of a result open
  where \<open>ORDER BY\<close> does not fix it: \<open>scan_order\<close> is the order in which the server visits rows.
\<close>

record db_job =
  j_ID :: string
  j_Image :: string
  j_Command :: "string list"
  j_Status :: string
  j_CreatedAt :: time
  j_RetryCount :: int

record db_manifest =
  lm_RootCID :: string
  lm_Providers :: "string list"
  lm_EncMeta :: string

record db_lease =
  le_AgentID :: string
  le_ExpireAt :: time
  le_FencingToken :: i64

datatype store_err = ErrJobNotFound | ErrNoManifest | ErrLeaseConflict | ErrBadToken | ErrDB string

text \<open>\<open>Err.Error()\<close>.\<close>

fun err_text :: "store_err \<Rightarrow> string" where
  "err_text ErrJobNotFound = ''job not found''"
| "err_text ErrNoManifest = ''manifest not attached''"
| "err_text ErrLeaseConflict = ''lease still valid''"
| "err_text ErrBadToken = ''fencing token mismatch''"
| "err_text (ErrDB m) = m"

record job_row =
  r_id :: string
  r_image :: string
  r_command :: json
  r_status :: string
  r_created_at :: time
  r_retry_count :: i32
  r_manifest_root_cid :: "string option"
  r_manifest_providers :: "json option"
  r_manifest_enc_meta :: "string option"
  r_lease_agent :: "string option"
  r_lease_expires_at :: "time option"
  r_lease_token :: i64
  r_result_root_cid :: "string option"
  r_artifacts :: "json option"
  r_metrics :: "json option"

type_synonym db = "job_row list"

datatype fault = Up | Down string | Lost string

record dbenv =
  stmt_now :: "nat \<Rightarrow> time"
  stmt_fault :: "nat \<Rightarrow> fault"
  rows_cut :: "nat option"
  scan_order :: "job_row list \<Rightarrow> job_row list"

subsection \<open>SQL\<close>

type_synonym sql_bool = "bool option"

definition sql_eq :: "'a option \<Rightarrow> 'a option \<Rightarrow> sql_bool" where
  "sql_eq x y = (case x of None \<Rightarrow> None | Some a \<Rightarrow> (case y of None \<Rightarrow> None | Some b \<Rightarrow> Some (a = b)))"

definition sql_lt :: "int option \<Rightarrow> int option \<Rightarrow> sql_bool" where
  "sql_lt x y = (case x of None \<Rightarrow> None | Some a \<Rightarrow> (case y of None \<Rightarrow> None | Some b \<Rightarrow> Some (a < b)))"

definition sql_and :: "sql_bool \<Rightarrow> sql_bool \<Rightarrow> sql_bool" where
  "sql_and x y =
     (if x = Some False \<or> y = Some False then Some False
      else if x = Some True \<and> y = Some True then Some True else None)"

definition sql_or :: "sql_bool \<Rightarrow> sql_bool \<Rightarrow> sql_bool" where
  "sql_or x y =
     (if x = Some True \<or> y = Some True then Some True
      else if x = Some False \<and> y = Some False then Some False else None)"

definition is_null :: "'a option \<Rightarrow> sql_bool" where
  "is_null x = Some (x = None)"

definition holds :: "sql_bool \<Rightarrow> bool" where
  "holds b \<longleftrightarrow> b = Some True"

definition coalesce :: "'a option \<Rightarrow> 'a \<Rightarrow> 'a" where
  "coalesce x y = (case x of None \<Rightarrow> y | Some a \<Rightarrow> a)"

text \<open>\<open>UPDATE\<close>: the rows it changed, as \<open>RETURNING\<close> sees them; no row changes when the
  assignment of one overflows.\<close>

definition sql_update ::
  "(job_row \<Rightarrow> sql_bool) \<Rightarrow> (job_row \<Rightarrow> job_row option) \<Rightarrow> db \<Rightarrow> (string + job_row list) \<times> db" where
  "sql_update W f db =
     (if list_ex (\<lambda>r. holds (W r) \<and> f r = None) db then (Inl ''integer out of range'', db)
      else (Inr (map (\<lambda>r. coalesce (f r) r) (filter (\<lambda>r. holds (W r)) db)),
            map (\<lambda>r. if holds (W r) then coalesce (f r) r else r) db))"

definition sql_select :: "(job_row \<Rightarrow> sql_bool) \<Rightarrow> db \<Rightarrow> (string + job_row list) \<times> db" where
  "sql_select W db = (Inr (filter (\<lambda>r. holds (W r)) db), db)"

text \<open>A query that may find many rows.\<close>

definition sql_scan :: "dbenv \<Rightarrow> (job_row \<Rightarrow> sql_bool) \<Rightarrow> db \<Rightarrow> (string + job_row list) \<times> db" where
  "sql_scan e W db = (Inr (scan_order e (filter (\<lambda>r. holds (W r)) db)), db)"

text \<open>\<open>TIMESTAMPTZ\<close> keeps microseconds.\<close>

definition pg_time :: "time \<Rightarrow> time" where
  "pg_time t = (t + 500) div 1000 * 1000"

definition run_stmt :: "fault \<Rightarrow> (db \<Rightarrow> (string + 'a) \<times> db) \<Rightarrow> db \<Rightarrow> (string + 'a) \<times> db" where
  "run_stmt ft f db =
     (case ft of Up \<Rightarrow> f db | Down m \<Rightarrow> (Inl m, db) | Lost m \<Rightarrow> (Inl m, snd (f db)))"

text \<open>Reading a result set with \<open>for rows.Next()\<close>.\<close>

definition delivered :: "dbenv \<Rightarrow> 'a list \<Rightarrow> 'a list" where
  "delivered e rs = (case rows_cut e of None \<Rightarrow> rs | Some n \<Rightarrow> take n rs)"

definition id_is :: "string \<Rightarrow> job_row \<Rightarrow> sql_bool" where
  "id_is i r = sql_eq (Some (r_id r)) (Some i)"

definition status_is :: "string \<Rightarrow> job_row \<Rightarrow> sql_bool" where
  "status_is s r = sql_eq (Some (r_status r)) (Some s)"

subsection \<open>The methods of \<open>PGStore\<close>\<close>

definition toJSON :: "json option \<Rightarrow> json" where
  "toJSON v = (case v of None \<Rightarrow> JNull | Some j \<Rightarrow> j)"

definition new_row :: "db_job \<Rightarrow> time \<Rightarrow> job_row" where
  "new_row job now =
     \<lparr>r_id = j_ID job, r_image = j_Image job, r_command = toJSON (Some (enc_strs (j_Command job))),
      r_status = j_Status job, r_created_at = coalesce (Some (pg_time (j_CreatedAt job))) now, r_retry_count = 0,
      r_manifest_root_cid = None, r_manifest_providers = None, r_manifest_enc_meta = None,
      r_lease_agent = None, r_lease_expires_at = None, r_lease_token = 0,
      r_result_root_cid = None, r_artifacts = None, r_metrics = None\<rparr>"

definition sql_insert_job :: "db_job \<Rightarrow> time \<Rightarrow> db \<Rightarrow> (string + unit) \<times> db" where
  "sql_insert_job job now db =
     (if list_ex (\<lambda>r. r_id r = j_ID job) db then (Inr (), db) else (Inr (), db @ [new_row job now]))"

definition CreateJob :: "dbenv \<Rightarrow> db_job \<Rightarrow> db \<Rightarrow> store_err option \<times> db" where
  "CreateJob e job db =
     (case run_stmt (stmt_fault e 0) (sql_insert_job job (stmt_now e 0)) db of
        (Inl m, db') \<Rightarrow> (Some (ErrDB m), db')
      | (Inr _, db') \<Rightarrow> (None, db'))"

definition job_of_row :: "job_row \<Rightarrow> db_job" where
  "job_of_row r =
     \<lparr>j_ID = r_id r, j_Image = r_image r,
      j_Command = (if r_command r \<noteq> JNull then fst (put_list decode_str (r_command r) (\<lambda>ss. ss) []) else []),
      j_Status = r_status r, j_CreatedAt = r_created_at r, j_RetryCount = sint (r_retry_count r)\<rparr>"

text \<open>\<open>k\<close> is the position of the statement in the method call that runs it.\<close>

definition GetJob :: "nat \<Rightarrow> dbenv \<Rightarrow> string \<Rightarrow> db \<Rightarrow> store_err + db_job" where
  "GetJob k e i db =
     (case fst (run_stmt (stmt_fault e k) (sql_select (id_is i)) db) of
        Inl m \<Rightarrow> Inl (ErrDB m)
      | Inr [] \<Rightarrow> Inl ErrJobNotFound
      | Inr (r # _) \<Rightarrow> Inr (job_of_row r))"

definition AttachManifest :: "dbenv \<Rightarrow> string \<Rightarrow> db_manifest \<Rightarrow> db \<Rightarrow> store_err option \<times> db" where
  "AttachManifest e i m db =
     (case run_stmt (stmt_fault e 0)
             (sql_update (id_is i)
                (\<lambda>r. Some (r\<lparr>r_manifest_root_cid := Some (lm_RootCID m),
                             r_manifest_providers := Some (toJSON (Some (enc_strs (lm_Providers m)))),
                             r_manifest_enc_meta := Some (lm_EncMeta m)\<rparr>))) db of
        (Inl msg, db') \<Rightarrow> (Some (ErrDB msg), db')
      | (Inr rs, db') \<Rightarrow> (if rs = [] then Some ErrJobNotFound else None, db'))"

definition tryclaim_where :: "string \<Rightarrow> time \<Rightarrow> job_row \<Rightarrow> sql_bool" where
  "tryclaim_where i now r =
     sql_and (id_is i r)
       (sql_and (status_is ''queued'' r)
          (sql_or (is_null (r_lease_expires_at r)) (sql_lt (r_lease_expires_at r) (Some now))))"

definition tryclaim_set :: "string \<Rightarrow> int \<Rightarrow> time \<Rightarrow> job_row \<Rightarrow> job_row option" where
  "tryclaim_set agentID secs now r =
     (case pg_add (coalesce (Some (r_lease_token r)) 0) 1 of
        None \<Rightarrow> None
      | Some t \<Rightarrow> Some (r\<lparr>r_lease_agent := Some agentID,
                          r_lease_expires_at := Some (now + secs * second),
                          r_lease_token := t,
                          r_status := ''assigned''\<rparr>))"

definition claim_failure :: "dbenv \<Rightarrow> string \<Rightarrow> db \<Rightarrow> store_err" where
  "claim_failure e i db =
     (case GetJob 1 e i db of
        Inl err \<Rightarrow> err
      | Inr _ \<Rightarrow>
          (case fst (run_stmt (stmt_fault e 2) (sql_select (id_is i)) db) of
             Inr (r # _) \<Rightarrow>
               if r_manifest_root_cid r = None \<or> r_manifest_root_cid r = Some [] then ErrNoManifest
               else ErrLeaseConflict
           | _ \<Rightarrow> ErrLeaseConflict))"

definition TryClaim :: "dbenv \<Rightarrow> string \<Rightarrow> string \<Rightarrow> duration \<Rightarrow> db \<Rightarrow> (store_err + db_lease) \<times> db" where
  "TryClaim e i agentID ttl db =
     (case run_stmt (stmt_fault e 0)
             (sql_update (tryclaim_where i (stmt_now e 0))
                (tryclaim_set agentID (seconds_of ttl) (stmt_now e 0))) db of
        (Inl m, db') \<Rightarrow> (Inl (ErrDB m), db')
      | (Inr [], db') \<Rightarrow> (Inl (claim_failure e i db'), db')
      | (Inr (r # _), db') \<Rightarrow>
          (case r_lease_expires_at r of
             None \<Rightarrow> (Inl (ErrDB ''converting NULL to time.Time is unsupported''), db')
           | Some t \<Rightarrow>
               (Inr \<lparr>le_AgentID = agentID, le_ExpireAt = t, le_FencingToken = r_lease_token r\<rparr>, db')))"

definition heartbeat_where :: "string \<Rightarrow> string \<Rightarrow> i64 \<Rightarrow> job_row \<Rightarrow> sql_bool" where
  "heartbeat_where i agentID token r =
     sql_and (id_is i r)
       (sql_and (sql_eq (r_lease_agent r) (Some agentID))
          (sql_eq (Some (r_lease_token r)) (Some token)))"

definition Heartbeat :: "dbenv \<Rightarrow> string \<Rightarrow> string \<Rightarrow> i64 \<Rightarrow> duration \<Rightarrow> db \<Rightarrow> store_err option \<times> db" where
  "Heartbeat e i agentID token ttl db =
     (case run_stmt (stmt_fault e 0)
             (sql_update (heartbeat_where i agentID token)
                (\<lambda>r. Some (r\<lparr>r_lease_expires_at := Some (stmt_now e 0 + seconds_of ttl * second),
                             r_status := ''running''\<rparr>))) db of
        (Inl m, db') \<Rightarrow> (Some (ErrDB m), db')
      | (Inr rs, db') \<Rightarrow> (if rs = [] then Some ErrBadToken else None, db'))"

definition finish_where :: "string \<Rightarrow> string \<Rightarrow> i64 \<Rightarrow> job_row \<Rightarrow> sql_bool" where
  "finish_where i agentID token r =
     sql_and (id_is i r)
       (sql_and (sql_or (sql_eq (r_lease_agent r) (Some agentID)) (is_null (r_lease_agent r)))
          (Some (sint (r_lease_token r) \<le> sint token)))"

definition finish_status :: "bool \<Rightarrow> string" where
  "finish_status succeeded = (if succeeded then ''succeeded'' else ''failed'')"

definition Finish ::
  "dbenv \<Rightarrow> string \<Rightarrow> string \<Rightarrow> i64 \<Rightarrow> bool \<Rightarrow> string \<Rightarrow> string list \<Rightarrow> json \<Rightarrow> db \<Rightarrow> store_err option \<times> db" where
  "Finish e i agentID token succeeded resultCID artifacts metrics db =
     (case run_stmt (stmt_fault e 0)
             (sql_update (finish_where i agentID token)
                (\<lambda>r. Some (r\<lparr>r_status := finish_status succeeded,
                             r_result_root_cid := Some resultCID,
                             r_artifacts := Some (toJSON (Some (enc_strs artifacts))),
                             r_metrics := Some (toJSON (Some metrics)),
                             r_lease_agent := None,
                             r_lease_expires_at := None\<rparr>))) db of
        (Inl m, db') \<Rightarrow> (Some (ErrDB m), db')
      | (Inr _, db') \<Rightarrow> (None, db'))"

definition expired_where :: "time \<Rightarrow> job_row \<Rightarrow> sql_bool" where
  "expired_where now r =
     sql_and (sql_or (status_is ''assigned'' r) (status_is ''running'' r))
       (sql_and (Some (r_lease_expires_at r \<noteq> None)) (sql_lt (r_lease_expires_at r) (Some now)))"

text \<open>The argument \<open>cutoff\<close> (\<open>now\<close> in the source) is not used by the query.\<close>

definition ListExpiredLeases :: "dbenv \<Rightarrow> time \<Rightarrow> db \<Rightarrow> store_err + string list" where
  "ListExpiredLeases e cutoff db =
     (case fst (run_stmt (stmt_fault e 0) (sql_scan e (expired_where (stmt_now e 0))) db) of
        Inl m \<Rightarrow> Inl (ErrDB m)
      | Inr rs \<Rightarrow> Inr (map r_id (delivered e rs)))"

definition requeue_set :: "job_row \<Rightarrow> job_row option" where
  "requeue_set r =
     (case pg_add (r_retry_count r) 1 of
        None \<Rightarrow> None
      | Some n \<Rightarrow> Some (r\<lparr>r_status := ''queued'', r_lease_agent := None, r_lease_expires_at := None,
                          r_retry_count := n\<rparr>))"

definition SetStatusQueued :: "dbenv \<Rightarrow> string \<Rightarrow> db \<Rightarrow> store_err option \<times> db" where
  "SetStatusQueued e i db =
     (case run_stmt (stmt_fault e 0)
             (sql_update (\<lambda>r. sql_and (id_is i r) (expired_where (stmt_now e 0) r)) requeue_set) db of
        (Inl m, db') \<Rightarrow> (Some (ErrDB m), db')
      | (Inr rs, db') \<Rightarrow> (if rs = [] then Some ErrJobNotFound else None, db'))"

text \<open>\<open>ListQueued\<close> does not select \<open>retry_count\<close>: the field of its jobs is zero.\<close>

definition ListQueued :: "dbenv \<Rightarrow> db \<Rightarrow> store_err + db_job list" where
  "ListQueued e db =
     (case fst (run_stmt (stmt_fault e 0) (sql_scan e (status_is ''queued'')) db) of
        Inl m \<Rightarrow> Inl (ErrDB m)
      | Inr rs \<Rightarrow> Inr (map (\<lambda>r. (job_of_row r)\<lparr>j_RetryCount := 0\<rparr>)
                       (delivered e (sort_key r_created_at rs))))"

text \<open>\<open>(metrics->>'reason') = 'manifest_not_found'\<close>: the last member of that name counts, and only
  a JSON string can have this text.\<close>

definition reason_is_missing :: "json option \<Rightarrow> sql_bool" where
  "reason_is_missing m =
     (case m of
        Some (JObj ms) \<Rightarrow>
          (case map_of (rev ms) ''reason'' of
             None \<Rightarrow> None
           | Some JNull \<Rightarrow> None
           | Some (JStr s) \<Rightarrow> Some (s = ''manifest_not_found'')
           | Some _ \<Rightarrow> Some False)
      | _ \<Rightarrow> None)"

definition ListManifestMissingSince :: "dbenv \<Rightarrow> time \<Rightarrow> db \<Rightarrow> store_err + string list" where
  "ListManifestMissingSince e cutoff db =
     (case fst (run_stmt (stmt_fault e 0)
             (sql_scan e (\<lambda>r. sql_and (status_is ''failed'' r)
                (sql_and (reason_is_missing (r_metrics r)) (Some (r_created_at r \<le> pg_time cutoff))))) db) of
        Inl m \<Rightarrow> Inl (ErrDB m)
      | Inr rs \<Rightarrow> Inr (map r_id (delivered e rs)))"

definition ListAll :: "dbenv \<Rightarrow> db \<Rightarrow> store_err + db_job list" where
  "ListAll e db =
     (case fst (run_stmt (stmt_fault e 0) (sql_scan e (\<lambda>_. Some True)) db) of
        Inl m \<Rightarrow> Inl (ErrDB m)
      | Inr rs \<Rightarrow> Inr (map job_of_row (delivered e (sort_key r_created_at rs))))"

definition page_limit :: "int \<Rightarrow> int" where
  "page_limit limit = (let l = (if limit \<le> 0 then 100 else limit) in if l > 1000 then 1000 else l)"

definition page_offset :: "int \<Rightarrow> int" where
  "page_offset off = (if off < 0 then 0 else off)"

definition ListPaged :: "dbenv \<Rightarrow> int \<Rightarrow> int \<Rightarrow> db \<Rightarrow> store_err + db_job list" where
  "ListPaged e limit off db =
     (case fst (run_stmt (stmt_fault e 0) (sql_scan e (\<lambda>_. Some True)) db) of
        Inl m \<Rightarrow> Inl (ErrDB m)
      | Inr rs \<Rightarrow> Inr (map job_of_row (delivered e
          (take (nat (page_limit limit)) (drop (nat (page_offset off))
             (sort_key (\<lambda>r. - r_created_at r) rs))))))"

definition CountByStatus :: "dbenv \<Rightarrow> db \<Rightarrow> store_err + (string \<times> int) list" where
  "CountByStatus e db =
     (case fst (run_stmt (stmt_fault e 0) (sql_scan e (\<lambda>_. Some True)) db) of
        Inl m \<Rightarrow> Inl (ErrDB m)
      | Inr rs \<Rightarrow> Inr (delivered e
          (map (\<lambda>s. (s, int (length (filter (\<lambda>r. r_status r = s) rs)))) (remdups (map r_status rs)))))"

subsection \<open>The invariant of the table\<close>

text \<open>A queued or finished job has no lease; an assigned or running one has an owner, an expiry
  and a positive token. The primary key makes the ids distinct.\<close>

definition row_ok :: "job_row \<Rightarrow> bool" where
  "row_ok r \<longleftrightarrow> 0 \<le> sint (r_lease_token r) \<and>
     (if r_status r \<in> {''assigned'', ''running''}
      then r_lease_agent r \<noteq> None \<and> r_lease_expires_at r \<noteq> None \<and> 0 < sint (r_lease_token r)
      else r_status r \<in> {''queued'', ''succeeded'', ''failed''} \<and>
           r_lease_agent r = None \<and> r_lease_expires_at r = None)"

definition db_ok :: "db \<Rightarrow> bool" where
  "db_ok db \<longleftrightarrow> distinct (map r_id db) \<and> list_all row_ok db"

text \<open>The row of a job.\<close>

definition row_of :: "db \<Rightarrow> string \<Rightarrow> job_row option" where
  "row_of db i = find (\<lambda>r. r_id r = i) db"

text \<open>Replacing the row of a job.\<close>

definition put_row :: "job_row \<Rightarrow> db \<Rightarrow> db" where
  "put_row r' db = map (\<lambda>r. if r_id r = r_id r' then r' else r) db"

subsection \<open>Truth of a condition\<close>

lemma holds_simps [simp, store_simps]:
  "holds (sql_and a b) \<longleftrightarrow> holds a \<and> holds b"
  "holds (sql_or a b) \<longleftrightarrow> holds a \<or> holds b"
  "holds (Some P) \<longleftrightarrow> P"
  "\<not> holds None"
  "holds (is_null x) \<longleftrightarrow> x = None"
  by (auto simp: holds_def sql_and_def sql_or_def is_null_def)

lemma holds_eq [simp, store_simps]: "holds (sql_eq x y) \<longleftrightarrow> x \<noteq> None \<and> x = y"
  by (auto simp: holds_def sql_eq_def split: option.splits)

lemma holds_lt [simp, store_simps]: "holds (sql_lt x y) \<longleftrightarrow> (\<exists>a b. x = Some a \<and> y = Some b \<and> a < b)"
  by (auto simp: holds_def sql_lt_def split: option.splits)

lemma holds_id_is [simp, store_simps]: "holds (id_is i r) \<longleftrightarrow> r_id r = i"
  by (auto simp: id_is_def)

lemma holds_status_is [simp, store_simps]: "holds (status_is s r) \<longleftrightarrow> r_status r = s"
  by (auto simp: status_is_def)

lemma coalesce_Some [simp]: "coalesce (Some a) b = a"
  by (simp add: coalesce_def)

subsection \<open>Statements on one row\<close>

lemma row_of_SomeD: "row_of db i = Some r \<Longrightarrow> r \<in> set db \<and> r_id r = i"
  by (auto simp: row_of_def find_Some_iff)

lemma row_of_None_iff: "row_of db i = None \<longleftrightarrow> i \<notin> r_id ` set db"
  by (auto simp: row_of_def find_None_iff)

lemma row_of_unique:
  "distinct (map r_id db) \<Longrightarrow> r \<in> set db \<Longrightarrow> r_id r = i \<Longrightarrow> row_of db i = Some r"
  by (induction db) (auto simp: row_of_def rev_image_eqI)

lemma row_of_split:
  assumes "distinct (map r_id db)" "row_of db i = Some r"
  obtains xs ys where "db = xs @ r # ys" "r_id r = i" "i \<notin> r_id ` set xs" "i \<notin> r_id ` set ys"
proof -
  from row_of_SomeD [OF assms(2)] obtain xs ys where "db = xs @ r # ys" "r_id r = i"
    by (auto dest: split_list)
  with assms(1) that show ?thesis by force
qed

lemma put_row_id [simp]: "map r_id (put_row r' db) = map r_id db"
  by (simp add: put_row_def)

lemma row_of_put_row:
  "row_of (put_row r' db) j = (if j = r_id r' \<and> row_of db j \<noteq> None then Some r' else row_of db j)"
  by (induction db) (auto simp: row_of_def put_row_def)

lemma put_row_split:
  assumes "i \<notin> r_id ` set xs" "i \<notin> r_id ` set ys" "r_id r = i" "r_id r' = i"
  shows "put_row r' (xs @ r # ys) = xs @ r' # ys"
proof -
  have "\<And>zs. i \<notin> r_id ` set zs \<Longrightarrow> map (\<lambda>r. if r_id r = i then r' else r) zs = zs"
    by (rule map_if_none) auto
  with assms show ?thesis by (simp add: put_row_def)
qed

text \<open>An \<open>UPDATE\<close> whose condition names the id reads and writes one row.\<close>

lemma sql_update_point:
  assumes "distinct (map r_id db)" and W: "\<And>r. holds (W r) \<Longrightarrow> r_id r = i"
    and f: "\<And>r r'. f r = Some r' \<Longrightarrow> r_id r' = r_id r"
  shows "sql_update W f db =
    (case row_of db i of
       None \<Rightarrow> (Inr [], db)
     | Some r \<Rightarrow>
         if \<not> holds (W r) then (Inr [], db)
         else (case f r of
                 None \<Rightarrow> (Inl ''integer out of range'', db)
               | Some r' \<Rightarrow> (Inr [r'], put_row r' db)))"
proof (cases "row_of db i")
  case None
  then have "\<forall>r\<in>set db. \<not> holds (W r)" using W by (auto simp: row_of_None_iff)
  with None show ?thesis
    by (auto simp: sql_update_def list_ex_iff map_if_none)
next
  case (Some r)
  then obtain xs ys where db: "db = xs @ r # ys" and i: "r_id r = i"
    and n: "i \<notin> r_id ` set xs" "i \<notin> r_id ` set ys"
    using assms(1) row_of_split by metis
  have no: "\<forall>x\<in>set xs. \<not> holds (W x)" "\<forall>x\<in>set ys. \<not> holds (W x)" using W n by auto
  show ?thesis
  proof (cases "holds (W r)")
    case False
    with no Some db show ?thesis by (auto simp: sql_update_def list_ex_iff map_if_none)
  next
    case True
    show ?thesis
    proof (cases "f r")
      case None
      with True Some db show ?thesis by (auto simp: sql_update_def)
    next
      case (Some r')
      then have "r_id r' = i" using f i by simp
      then have "put_row r' db = xs @ r' # ys" using put_row_split n i by (simp add: db)
      moreover have "filter (\<lambda>x. holds (W x)) xs = []" "filter (\<lambda>x. holds (W x)) ys = []"
        using no by (simp_all add: filter_empty_conv)
      ultimately show ?thesis
        using True \<open>row_of db i = Some r\<close> Some no
        by (auto simp: sql_update_def list_ex_iff map_if_none db)
    qed
  qed
qed

lemma tryclaim_point:
  "holds (tryclaim_where i now r) \<longleftrightarrow> r_id r = i \<and> r_status r = ''queued'' \<and>
     (\<forall>t. r_lease_expires_at r = Some t \<longrightarrow> t < now)"
  by (cases "r_lease_expires_at r") (auto simp: tryclaim_where_def)

lemma heartbeat_point:
  "holds (heartbeat_where i a tok r) \<longleftrightarrow> r_id r = i \<and> r_lease_agent r = Some a \<and> r_lease_token r = tok"
  by (auto simp: heartbeat_where_def)

lemma finish_point:
  "holds (finish_where i a tok r) \<longleftrightarrow> r_id r = i \<and>
     (r_lease_agent r = Some a \<or> r_lease_agent r = None) \<and> sint (r_lease_token r) \<le> sint tok"
  by (auto simp: finish_where_def)

lemma expired_point:
  "holds (expired_where now r) \<longleftrightarrow> r_status r \<in> {''assigned'', ''running''} \<and>
     (\<exists>t. r_lease_expires_at r = Some t \<and> t < now)"
  by (auto simp: expired_where_def)

lemma tryclaim_set_id: "tryclaim_set a s now r = Some r' \<Longrightarrow> r_id r' = r_id r"
  by (auto simp: tryclaim_set_def split: option.splits)

lemma requeue_set_id: "requeue_set r = Some r' \<Longrightarrow> r_id r' = r_id r"
  by (auto simp: requeue_set_def split: option.splits)

lemmas where_points [store_simps] = tryclaim_point heartbeat_point finish_point expired_point

lemma run_stmt_Up [simp, store_simps]: "run_stmt Up f db = f db"
  by (simp add: run_stmt_def)

lemma run_stmt_db: "snd (run_stmt ft f db) = db \<or> snd (run_stmt ft f db) = snd (f db)"
  by (cases ft) (simp_all add: run_stmt_def)

lemma run_stmt_Inr: "run_stmt ft f db = (Inr x, db') \<Longrightarrow> f db = (Inr x, db')"
  by (cases ft) (simp_all add: run_stmt_def)

text \<open>The effect of a method: nothing, or one row rewritten.\<close>

definition row_step :: "string \<Rightarrow> (job_row \<Rightarrow> sql_bool) \<Rightarrow> (job_row \<Rightarrow> job_row option) \<Rightarrow> db \<Rightarrow> db \<Rightarrow> bool" where
  "row_step i W f db db' \<longleftrightarrow>
     (\<exists>r r'. row_of db i = Some r \<and> holds (W r) \<and> f r = Some r' \<and> db' = put_row r' db)"

lemma update_effect:
  assumes "distinct (map r_id db)" "\<And>r. holds (W r) \<Longrightarrow> r_id r = i"
    "\<And>r r'. f r = Some r' \<Longrightarrow> r_id r' = r_id r"
  shows "snd (run_stmt ft (sql_update W f) db) = db \<or>
    row_step i W f db (snd (run_stmt ft (sql_update W f) db))"
  using run_stmt_db [of ft "sql_update W f" db] sql_update_point [OF assms]
  by (auto simp: row_step_def split: option.splits if_splits)

lemma update_rows:
  assumes "distinct (map r_id db)" "\<And>r. holds (W r) \<Longrightarrow> r_id r = i"
    "\<And>r r'. f r = Some r' \<Longrightarrow> r_id r' = r_id r"
    and "run_stmt ft (sql_update W f) db = (Inr rs, db')"
  shows "(rs = [] \<and> db' = db \<and> (\<forall>r. row_of db i = Some r \<longrightarrow> \<not> holds (W r))) \<or>
    (\<exists>r r'. row_of db i = Some r \<and> holds (W r) \<and> f r = Some r' \<and> rs = [r'] \<and> db' = put_row r' db)"
  using run_stmt_Inr [OF assms(4)] sql_update_point [OF assms(1-3)]
  by (auto split: option.splits if_splits)

abbreviation claim_rewrite :: "dbenv \<Rightarrow> string \<Rightarrow> string \<Rightarrow> duration \<Rightarrow> db \<Rightarrow> db \<Rightarrow> bool" where
  "claim_rewrite e i a ttl \<equiv> row_step i (tryclaim_where i (stmt_now e 0))
     (tryclaim_set a (seconds_of ttl) (stmt_now e 0))"

lemma TryClaim_effect:
  assumes "distinct (map r_id db)"
  shows "snd (TryClaim e i a ttl db) = db \<or> claim_rewrite e i a ttl db (snd (TryClaim e i a ttl db))"
proof -
  let ?st = "run_stmt (stmt_fault e 0) (sql_update (tryclaim_where i (stmt_now e 0))
      (tryclaim_set a (seconds_of ttl) (stmt_now e 0))) db"
  have "snd ?st = db \<or> claim_rewrite e i a ttl db (snd ?st)"
    by (rule update_effect) (auto simp: assms tryclaim_point tryclaim_set_id)
  moreover have "snd (TryClaim e i a ttl db) = snd ?st"
    by (auto simp: TryClaim_def split: prod.splits sum.splits list.splits option.splits)
  ultimately show ?thesis by simp
qed

lemma TryClaim_granted:
  assumes "distinct (map r_id db)" "TryClaim e i a ttl db = (Inr l, db')"
  obtains r r' where "row_of db i = Some r" "holds (tryclaim_where i (stmt_now e 0) r)"
    "tryclaim_set a (seconds_of ttl) (stmt_now e 0) r = Some r'" "db' = put_row r' db"
    "l = \<lparr>le_AgentID = a, le_ExpireAt = stmt_now e 0 + seconds_of ttl * second,
      le_FencingToken = r_lease_token r'\<rparr>"
proof -
  let ?st = "run_stmt (stmt_fault e 0) (sql_update (tryclaim_where i (stmt_now e 0))
      (tryclaim_set a (seconds_of ttl) (stmt_now e 0))) db"
  obtain rs where st: "?st = (Inr rs, db')" and ne: "rs \<noteq> []"
    and l: "r_lease_expires_at (hd rs) = Some (le_ExpireAt l)" "le_AgentID l = a"
      "le_FencingToken l = r_lease_token (hd rs)"
    using assms(2) by (auto simp: TryClaim_def split: prod.splits sum.splits list.splits option.splits)
  then obtain r r' where "row_of db i = Some r" "holds (tryclaim_where i (stmt_now e 0) r)"
    "tryclaim_set a (seconds_of ttl) (stmt_now e 0) r = Some r'" "rs = [r']" "db' = put_row r' db"
    using update_rows [where i = i, OF assms(1) _ _ st] by (auto simp: tryclaim_point tryclaim_set_id)
  moreover from this l have "l = \<lparr>le_AgentID = a, le_ExpireAt = stmt_now e 0 + seconds_of ttl * second,
      le_FencingToken = r_lease_token r'\<rparr>"
    by (cases l) (auto simp: tryclaim_set_def split: option.splits)
  ultimately show ?thesis using that by blast
qed

abbreviation renew_set :: "dbenv \<Rightarrow> duration \<Rightarrow> job_row \<Rightarrow> job_row option" where
  "renew_set e ttl \<equiv> \<lambda>r. Some (r\<lparr>r_lease_expires_at := Some (stmt_now e 0 + seconds_of ttl * second),
     r_status := ''running''\<rparr>)"

lemma Heartbeat_effect:
  assumes "distinct (map r_id db)"
  shows "snd (Heartbeat e i a tok ttl db) = db \<or>
    row_step i (heartbeat_where i a tok) (renew_set e ttl) db (snd (Heartbeat e i a tok ttl db))"
proof -
  let ?st = "run_stmt (stmt_fault e 0) (sql_update (heartbeat_where i a tok) (renew_set e ttl)) db"
  have "snd ?st = db \<or> row_step i (heartbeat_where i a tok) (renew_set e ttl) db (snd ?st)"
    by (rule update_effect) (auto simp: assms heartbeat_point)
  moreover have "snd (Heartbeat e i a tok ttl db) = snd ?st"
    by (auto simp: Heartbeat_def split: prod.splits sum.splits)
  ultimately show ?thesis by simp
qed

abbreviation finish_set :: "bool \<Rightarrow> string \<Rightarrow> string list \<Rightarrow> json \<Rightarrow> job_row \<Rightarrow> job_row option" where
  "finish_set succ cid arts mets \<equiv> \<lambda>r. Some (r\<lparr>r_status := finish_status succ,
     r_result_root_cid := Some cid, r_artifacts := Some (toJSON (Some (enc_strs arts))),
     r_metrics := Some (toJSON (Some mets)), r_lease_agent := None, r_lease_expires_at := None\<rparr>)"

lemma Finish_effect:
  assumes "distinct (map r_id db)"
  shows "snd (Finish e i a tok succ cid arts mets db) = db \<or>
    row_step i (finish_where i a tok) (finish_set succ cid arts mets) db
      (snd (Finish e i a tok succ cid arts mets db))"
proof -
  let ?st = "run_stmt (stmt_fault e 0) (sql_update (finish_where i a tok) (finish_set succ cid arts mets)) db"
  have "snd ?st = db \<or> row_step i (finish_where i a tok) (finish_set succ cid arts mets) db (snd ?st)"
    by (rule update_effect) (auto simp: assms finish_point)
  moreover have "snd (Finish e i a tok succ cid arts mets db) = snd ?st"
    by (auto simp: Finish_def split: prod.splits sum.splits)
  ultimately show ?thesis by simp
qed

abbreviation requeue_where :: "dbenv \<Rightarrow> string \<Rightarrow> job_row \<Rightarrow> sql_bool" where
  "requeue_where e i \<equiv> \<lambda>r. sql_and (id_is i r) (expired_where (stmt_now e 0) r)"

lemma SetStatusQueued_effect:
  assumes "distinct (map r_id db)"
  shows "snd (SetStatusQueued e i db) = db \<or>
    row_step i (requeue_where e i) requeue_set db (snd (SetStatusQueued e i db))"
proof -
  let ?st = "run_stmt (stmt_fault e 0) (sql_update (requeue_where e i) requeue_set) db"
  have "snd ?st = db \<or> row_step i (requeue_where e i) requeue_set db (snd ?st)"
    by (rule update_effect) (auto simp: assms requeue_set_id)
  moreover have "snd (SetStatusQueued e i db) = snd ?st"
    by (auto simp: SetStatusQueued_def split: prod.splits sum.splits)
  ultimately show ?thesis by simp
qed

abbreviation attach_set :: "db_manifest \<Rightarrow> job_row \<Rightarrow> job_row option" where
  "attach_set m \<equiv> \<lambda>r. Some (r\<lparr>r_manifest_root_cid := Some (lm_RootCID m),
     r_manifest_providers := Some (toJSON (Some (enc_strs (lm_Providers m)))),
     r_manifest_enc_meta := Some (lm_EncMeta m)\<rparr>)"

lemma AttachManifest_effect:
  assumes "distinct (map r_id db)"
  shows "snd (AttachManifest e i m db) = db \<or>
    row_step i (id_is i) (attach_set m) db (snd (AttachManifest e i m db))"
proof -
  let ?st = "run_stmt (stmt_fault e 0) (sql_update (id_is i) (attach_set m)) db"
  have "snd ?st = db \<or> row_step i (id_is i) (attach_set m) db (snd ?st)"
    by (rule update_effect) (auto simp: assms)
  moreover have "snd (AttachManifest e i m db) = snd ?st"
    by (auto simp: AttachManifest_def split: prod.splits sum.splits)
  ultimately show ?thesis by simp
qed

lemma CreateJob_effect:
  "snd (CreateJob e job db) = db \<or>
   (row_of db (j_ID job) = None \<and> snd (CreateJob e job db) = db @ [new_row job (stmt_now e 0)])"
  by (cases "stmt_fault e 0")
    (auto simp: CreateJob_def run_stmt_def sql_insert_job_def row_of_None_iff list_ex_iff
       split: prod.splits sum.splits)

subsection \<open>Every method keeps the invariant\<close>

lemma db_ok_rowD: "db_ok db \<Longrightarrow> row_of db i = Some r \<Longrightarrow> row_ok r"
  by (auto simp: db_ok_def list_all_iff dest: row_of_SomeD)

lemma db_ok_distinct: "db_ok db \<Longrightarrow> distinct (map r_id db)"
  by (simp add: db_ok_def)

lemma put_row_ok: "db_ok db \<Longrightarrow> row_ok r' \<Longrightarrow> db_ok (put_row r' db)"
  unfolding db_ok_def put_row_id by (auto simp: list_all_iff put_row_def)

lemma row_step_ok:
  assumes "db' = db \<or> row_step i W f db db'" "db_ok db"
    and "\<And>r r'. row_ok r \<Longrightarrow> holds (W r) \<Longrightarrow> f r = Some r' \<Longrightarrow> row_ok r'"
  shows "db_ok db'"
  using assms by (auto simp: row_step_def dest: db_ok_rowD intro: put_row_ok)

lemma claim_row_ok: "row_ok r \<Longrightarrow> tryclaim_set a s now r = Some r' \<Longrightarrow> row_ok r'"
  using pg_add_SomeD [of "r_lease_token r" 1]
  by (auto simp: row_ok_def tryclaim_set_def split: option.splits)

lemma requeue_row_ok: "row_ok r \<Longrightarrow> requeue_set r = Some r' \<Longrightarrow> row_ok r'"
  by (auto simp: requeue_set_def row_ok_def split: if_splits option.splits)

lemma TryClaim_ok: "db_ok db \<Longrightarrow> db_ok (snd (TryClaim e i a ttl db))"
  by (rule row_step_ok [OF TryClaim_effect]) (auto dest: db_ok_distinct claim_row_ok)

lemma Heartbeat_ok: "db_ok db \<Longrightarrow> db_ok (snd (Heartbeat e i a tok ttl db))"
  by (rule row_step_ok [OF Heartbeat_effect])
    (auto dest: db_ok_distinct simp: heartbeat_point row_ok_def split: if_splits)

lemma Finish_ok: "db_ok db \<Longrightarrow> db_ok (snd (Finish e i a tok succ cid arts mets db))"
  by (rule row_step_ok [OF Finish_effect])
    (auto dest: db_ok_distinct simp: finish_status_def row_ok_def split: if_splits)

lemma SetStatusQueued_ok: "db_ok db \<Longrightarrow> db_ok (snd (SetStatusQueued e i db))"
  by (rule row_step_ok [OF SetStatusQueued_effect]) (auto dest: db_ok_distinct requeue_row_ok)

lemma AttachManifest_ok: "db_ok db \<Longrightarrow> db_ok (snd (AttachManifest e i m db))"
  by (rule row_step_ok [OF AttachManifest_effect])
    (auto dest: db_ok_distinct simp: row_ok_def split: if_splits)

lemma CreateJob_ok:
  "db_ok db \<Longrightarrow> j_Status job = ''queued'' \<Longrightarrow> db_ok (snd (CreateJob e job db))"
  using CreateJob_effect [of e job db]
  by (auto simp: db_ok_def row_ok_def new_row_def row_of_None_iff)

end
