(* ===== verification/Lease_Spec.thy ===== *)
theory Lease_Spec
  imports Lease_Store "HOL-Library.Multiset"
begin

text \<open>
  What each method of \<open>PGStore\<close> does on every branch when the server answers: the reply and the
  row it writes, in terms of the row of the job. The last group is about the queries: what the
  list methods return, how pages tile the table, and what the counts add up to.
\<close>

text \<open>A server that answers every statement, and every query completely, in some order; \<open>up_env t\<close> does so at the instant \<open>t\<close>.\<close>

definition db_up :: "dbenv \<Rightarrow> bool" where
  "db_up e \<longleftrightarrow> stmt_fault e = (\<lambda>_. Up) \<and> rows_cut e = None \<and> (\<forall>rs. mset (scan_order e rs) = mset rs)"

definition up_env :: "time \<Rightarrow> dbenv" where
  "up_env t = \<lparr>stmt_now = \<lambda>_. t, stmt_fault = \<lambda>_. Up, rows_cut = None, scan_order = \<lambda>rs. rs\<rparr>"

text \<open>The row after a granted claim, a heartbeat, a finish and a requeue.\<close>

definition claimed_row :: "string \<Rightarrow> time \<Rightarrow> job_row \<Rightarrow> job_row" where
  "claimed_row a x r = r\<lparr>r_lease_agent := Some a, r_lease_expires_at := Some x,
     r_lease_token := r_lease_token r + 1, r_status := ''assigned''\<rparr>"

definition requeued_row :: "job_row \<Rightarrow> job_row" where
  "requeued_row r = r\<lparr>r_status := ''queued'', r_lease_agent := None, r_lease_expires_at := None,
     r_retry_count := r_retry_count r + 1\<rparr>"

definition no_manifest :: "job_row \<Rightarrow> bool" where
  "no_manifest r \<longleftrightarrow> r_manifest_root_cid r = None \<or> r_manifest_root_cid r = Some []"

text \<open>A small table for the examples: one queued job with a manifest, one running one.\<close>

definition sample_job :: "string \<Rightarrow> db_job" where
  "sample_job i = \<lparr>j_ID = i, j_Image = ''alpine'', j_Command = [''echo'', ''hi''],
     j_Status = ''queued'', j_CreatedAt = 5, j_RetryCount = 0\<rparr>"

definition sample_queued :: job_row where
  "sample_queued = (new_row (sample_job ''q'') 0)\<lparr>r_manifest_root_cid := Some ''cid''\<rparr>"

definition sample_running :: job_row where
  "sample_running = (new_row (sample_job ''r'') 0)\<lparr>r_status := ''running'', r_lease_agent := Some ''A'',
     r_lease_expires_at := Some 100, r_lease_token := 3\<rparr>"

definition sample_db :: db where
  "sample_db = [sample_queued, sample_running]"

definition sample_pair :: db where
  "sample_pair = [sample_queued\<lparr>r_created_at := 1000\<rparr>, sample_running\<lparr>r_created_at := 2000\<rparr>]"

lemma up_env_simps [simp]: "stmt_now (up_env t) k = t" "db_up (up_env t)"
  by (simp_all add: up_env_def db_up_def)

lemma db_up_simps:
  "db_up e \<Longrightarrow> stmt_fault e k = Up" "db_up e \<Longrightarrow> delivered e rs = rs"
  by (simp_all add: db_up_def delivered_def)

lemma scan_order_up:
  assumes "db_up e"
  shows "mset (scan_order e rs) = mset rs" "set (scan_order e rs) = set rs" "length (scan_order e rs) = length rs"
proof -
  show *: "mset (scan_order e rs) = mset rs" using assms by (simp add: db_up_def)
  show "set (scan_order e rs) = set rs" "length (scan_order e rs) = length rs"
    using mset_eq_setD [OF *] mset_eq_length [OF *] by simp_all
qed

lemma sample_row_of:
  "row_of sample_db ''q'' = Some sample_queued" "row_of sample_db ''r'' = Some sample_running"
  by (simp_all add: row_of_def sample_db_def sample_queued_def sample_running_def new_row_def sample_job_def)

lemma sample_ok: "db_ok sample_db"
  by (simp add: db_ok_def row_ok_def sample_db_def sample_queued_def sample_running_def new_row_def sample_job_def)

lemmas sample_simps = pg_time_def sample_queued_def sample_running_def new_row_def sample_job_def

subsection \<open>Point updates and point queries\<close>

lemma no_id_filter: "i \<notin> r_id ` set db \<Longrightarrow> filter (\<lambda>r. r_id r = i) db = []"
  by (induction db) auto

lemma select_point:
  assumes "distinct (map r_id db)"
  shows "filter (\<lambda>r. r_id r = i) db = (case row_of db i of None \<Rightarrow> [] | Some r \<Rightarrow> [r])"
proof (cases "row_of db i")
  case None
  then have "\<forall>r\<in>set db. r_id r \<noteq> i" by (auto simp: row_of_None_iff)
  with None show ?thesis by simp
next
  case (Some r)
  then obtain xs ys where "db = xs @ r # ys" "r_id r = i" "i \<notin> r_id ` set xs" "i \<notin> r_id ` set ys"
    using row_of_split [OF assms] by blast
  moreover from this have "filter (\<lambda>r. r_id r = i) xs = []" "filter (\<lambda>r. r_id r = i) ys = []"
    by (simp_all add: no_id_filter)
  ultimately show ?thesis using Some by simp
qed

lemma GetJob_up:
  assumes "distinct (map r_id db)" "db_up e"
  shows "GetJob k e i db = (case row_of db i of None \<Rightarrow> Inl ErrJobNotFound | Some r \<Rightarrow> Inr (job_of_row r))"
  using assms(2) by (simp add: GetJob_def sql_select_def assms(1) db_up_simps select_point split: option.splits)

lemma claim_failure_up:
  assumes "distinct (map r_id db)" "db_up e"
  shows "claim_failure e i db =
    (case row_of db i of None \<Rightarrow> ErrJobNotFound
     | Some r \<Rightarrow> if no_manifest r then ErrNoManifest else ErrLeaseConflict)"
  using assms(2)
  by (cases "row_of db i")
    (simp_all add: claim_failure_def GetJob_up assms(1) db_up_simps sql_select_def select_point no_manifest_def)

lemma i64_max: "sint (w :: i64) \<le> 2 ^ 63 - 1"
  using sint_range_size [of w] by (simp add: word_size)

lemma i32_max: "sint (w :: i32) \<le> 2 ^ 31 - 1"
  using sint_range_size [of w] by (simp add: word_size)

lemma sint_succ: "sint (w :: i64) < 2 ^ 63 - 1 \<Longrightarrow> sint (w + 1) = sint w + 1"
  using sint_range_size [of w] by (simp add: sint_word_add word_size signed_take_bit_int_eq_self)

lemma pg_add_i64:
  "pg_add (w :: i64) 1 = (if sint w = 2 ^ 63 - 1 then None else Some (w + 1))"
proof (cases "sint w = 2 ^ 63 - 1")
  case True
  have "sint (w + 1) \<le> 2 ^ 63 - 1" by (rule i64_max)
  with True show ?thesis by (simp add: pg_add_def)
next
  case False
  with i64_max [of w] have "sint (w + 1) = sint w + 1" by (intro sint_succ) simp
  with False show ?thesis by (simp add: pg_add_def)
qed

lemma pg_add_i32:
  "pg_add (w :: i32) 1 = (if sint w = 2 ^ 31 - 1 then None else Some (w + 1))"
proof (cases "sint w = 2 ^ 31 - 1")
  case True
  have "sint (w + 1) \<le> 2 ^ 31 - 1" by (rule i32_max)
  with True show ?thesis by (simp add: pg_add_def)
next
  case False
  with i32_max [of w] sint_range_size [of w] have "sint (w + 1) = sint w + 1"
    by (simp add: sint_word_add word_size signed_take_bit_int_eq_self)
  with False show ?thesis by (simp add: pg_add_def)
qed

lemma tryclaim_set_cases:
  "tryclaim_set a s now r =
     (if sint (r_lease_token r) = 2 ^ 63 - 1 then None else Some (claimed_row a (now + s * second) r))"
  by (simp add: tryclaim_set_def claimed_row_def pg_add_i64)

lemma requeue_set_cases:
  "requeue_set r = (if sint (r_retry_count r) = 2 ^ 31 - 1 then None else Some (requeued_row r))"
  by (simp add: requeue_set_def requeued_row_def pg_add_i32)

lemma queued_no_expiry:
  "row_ok r \<Longrightarrow> r_status r = ''queued'' \<Longrightarrow> r_lease_agent r = None \<and> r_lease_expires_at r = None"
  by (simp add: row_ok_def)

lemma tryclaim_update:
  assumes "db_ok db"
  shows "sql_update (tryclaim_where i now) (tryclaim_set a n now) db =
    (case row_of db i of
       None \<Rightarrow> (Inr [], db)
     | Some r \<Rightarrow>
         if r_status r \<noteq> ''queued'' then (Inr [], db)
         else if sint (r_lease_token r) = 2 ^ 63 - 1 then (Inl ''integer out of range'', db)
         else (Inr [claimed_row a (now + n * second) r], put_row (claimed_row a (now + n * second) r) db))"
  using queued_no_expiry [OF db_ok_rowD [OF assms]]
  by (subst sql_update_point [OF db_ok_distinct [OF assms], where i = i])
    (auto simp: tryclaim_point tryclaim_set_cases claimed_row_def dest: row_of_SomeD split: option.splits if_splits)

lemma TryClaim_queued:
  assumes "db_ok db" "db_up e" "row_of db i = Some r" "r_status r = ''queued''"
    "sint (r_lease_token r) < 2 ^ 63 - 1"
  shows "TryClaim e i a ttl db =
    (Inr \<lparr>le_AgentID = a, le_ExpireAt = stmt_now e 0 + seconds_of ttl * second,
          le_FencingToken = r_lease_token r + 1\<rparr>,
     put_row (claimed_row a (stmt_now e 0 + seconds_of ttl * second) r) db)"
  using assms(3-5)
  by (simp add: TryClaim_def db_up_simps [OF assms(2)] tryclaim_update [OF assms(1)]) (simp add: claimed_row_def)

lemma TryClaim_refused:
  assumes "db_ok db" "db_up e" "row_of db i = Some r" "r_status r \<noteq> ''queued''"
  shows "TryClaim e i a ttl db = (Inl (if no_manifest r then ErrNoManifest else ErrLeaseConflict), db)"
  using assms(3,4)
  by (simp add: TryClaim_def db_up_simps [OF assms(2)] tryclaim_update [OF assms(1)]
      claim_failure_up [OF db_ok_distinct [OF assms(1)] assms(2)])

text \<open>\<open>TryClaim\<close> on every branch. A queued job is granted with the next token and the expiry on
  the database clock, an unknown job is \<open>ErrJobNotFound\<close>, every other job is refused, with
  \<open>ErrNoManifest\<close> when it has no manifest, and nothing is written; a token at the top of
  \<open>BIGINT\<close> is an error and not a wrap-around.\<close>

lemma TryClaim_spec:
  assumes "db_ok db" "db_up e"
  shows "TryClaim e i a ttl db =
    (case row_of db i of
       None \<Rightarrow> (Inl ErrJobNotFound, db)
     | Some r \<Rightarrow>
         if r_status r \<noteq> ''queued'' then (Inl (if no_manifest r then ErrNoManifest else ErrLeaseConflict), db)
         else if sint (r_lease_token r) = 2 ^ 63 - 1 then (Inl (ErrDB ''integer out of range''), db)
         else (let x = stmt_now e 0 + seconds_of ttl * second
               in (Inr \<lparr>le_AgentID = a, le_ExpireAt = x, le_FencingToken = r_lease_token r + 1\<rparr>,
                   put_row (claimed_row a x r) db)))"
  by (simp add: TryClaim_def db_up_simps [OF assms(2)] tryclaim_update [OF assms(1)]
        claim_failure_up [OF db_ok_distinct [OF assms(1)] assms(2)] Let_def split: option.splits)
    (auto simp: claimed_row_def)

lemma TryClaim_spec_witness:
  "db_ok sample_db \<and> db_up (up_env 200) \<and>
   fst (TryClaim (up_env 200) ''q'' ''B'' (15 * second) sample_db) =
     Inr \<lparr>le_AgentID = ''B'', le_ExpireAt = 200 + 15 * second, le_FencingToken = 1\<rparr> \<and>
   fst (TryClaim (up_env 200) ''r'' ''B'' (15 * second) sample_db) = Inl ErrNoManifest"
  using TryClaim_spec [OF sample_ok up_env_simps(2), of 200 "''q''" "''B''" "15 * second"]
    TryClaim_spec [OF sample_ok up_env_simps(2), of 200 "''r''" "''B''" "15 * second"]
    seconds_of_mult [of 15]
  by (simp add: sample_ok sample_row_of Let_def no_manifest_def) (simp add: sample_simps)

lemma heartbeat_update:
  assumes "db_ok db"
  shows "sql_update (heartbeat_where i a tok) (renew_set e ttl) db =
    (case row_of db i of
       None \<Rightarrow> (Inr [], db)
     | Some r \<Rightarrow> if r_lease_agent r = Some a \<and> r_lease_token r = tok
         then (Inr [the (renew_set e ttl r)], put_row (the (renew_set e ttl r)) db) else (Inr [], db))"
  by (subst sql_update_point [OF db_ok_distinct [OF assms], where i = i])
    (auto simp: heartbeat_point dest: row_of_SomeD split: option.splits)

lemma Heartbeat_holder:
  assumes "db_ok db" "db_up e" "row_of db i = Some r" "r_lease_agent r = Some a"
  shows "Heartbeat e i a (r_lease_token r) ttl db =
    (None, put_row (r\<lparr>r_lease_expires_at := Some (stmt_now e 0 + seconds_of ttl * second), r_status := ''running''\<rparr>) db)"
  using assms(3,4) by (simp add: Heartbeat_def db_up_simps [OF assms(2)] heartbeat_update [OF assms(1)])

lemma Heartbeat_other:
  assumes "db_ok db" "db_up e" "\<And>r. row_of db i = Some r \<Longrightarrow> r_lease_agent r \<noteq> Some a \<or> r_lease_token r \<noteq> tok"
  shows "Heartbeat e i a tok ttl db = (Some ErrBadToken, db)"
  using assms(3)
  by (auto simp: Heartbeat_def db_up_simps [OF assms(2)] heartbeat_update [OF assms(1)] split: option.splits)

text \<open>\<open>Heartbeat\<close> on every branch. It extends the lease exactly when the caller's agent id and
  token are those of the row, and then the job is running; otherwise it answers
  \<open>ErrBadToken\<close> and writes nothing. An expired lease that nobody requeued can still be
  extended.\<close>

lemma Heartbeat_spec:
  assumes "db_ok db" "db_up e"
  shows "Heartbeat e i a tok ttl db =
    (case row_of db i of
       None \<Rightarrow> (Some ErrBadToken, db)
     | Some r \<Rightarrow>
         if r_lease_agent r = Some a \<and> r_lease_token r = tok
         then (None, put_row (r\<lparr>r_lease_expires_at := Some (stmt_now e 0 + seconds_of ttl * second),
                                r_status := ''running''\<rparr>) db)
         else (Some ErrBadToken, db))"
  by (simp add: Heartbeat_def db_up_simps [OF assms(2)] heartbeat_update [OF assms(1)] split: option.splits)

lemma Heartbeat_spec_witness:
  "db_ok sample_db \<and> db_up (up_env 200) \<and>
   fst (Heartbeat (up_env 200) ''r'' ''A'' 3 (15 * second) sample_db) = None \<and>
   Heartbeat (up_env 200) ''r'' ''A'' 2 (15 * second) sample_db = (Some ErrBadToken, sample_db)"
  using Heartbeat_spec [OF sample_ok up_env_simps(2), of 200 "''r''" "''A''" 3 "15 * second"]
    Heartbeat_spec [OF sample_ok up_env_simps(2), of 200 "''r''" "''A''" 2 "15 * second"]
  by (simp add: sample_ok sample_row_of) (simp add: sample_simps)

lemma finish_update:
  assumes "db_ok db"
  shows "sql_update (finish_where i a tok) (finish_set succ cid arts mets) db =
    (case row_of db i of
       None \<Rightarrow> (Inr [], db)
     | Some r \<Rightarrow> if r_lease_agent r \<in> {Some a, None} \<and> sint (r_lease_token r) \<le> sint tok
         then (Inr [the (finish_set succ cid arts mets r)], put_row (the (finish_set succ cid arts mets r)) db)
         else (Inr [], db))"
  by (subst sql_update_point [OF db_ok_distinct [OF assms], where i = i])
    (auto simp: finish_point dest: row_of_SomeD split: option.splits)

lemma Finish_holder:
  assumes "db_ok db" "db_up e" "row_of db i = Some r"
    and "r_lease_agent r \<in> {Some a, None}" "sint (r_lease_token r) \<le> sint tok"
  shows "Finish e i a tok succ cid arts mets db =
    (None, put_row (r\<lparr>r_status := finish_status succ, r_result_root_cid := Some cid,
        r_artifacts := Some (toJSON (Some (enc_strs arts))), r_metrics := Some (toJSON (Some mets)),
        r_lease_agent := None, r_lease_expires_at := None\<rparr>) db)"
  using assms(3-5) by (auto simp: Finish_def db_up_simps [OF assms(2)] finish_update [OF assms(1)])

lemma Finish_stale:
  assumes "db_ok db" "db_up e" "row_of db i = Some r"
    and "r_lease_agent r \<notin> {Some a, None} \<or> sint tok < sint (r_lease_token r)"
  shows "Finish e i a tok succ cid arts mets db = (None, db)"
  using assms(3,4) by (auto simp: Finish_def db_up_simps [OF assms(2)] finish_update [OF assms(1)])

text \<open>C16: \<open>Finish\<close> on every branch. It answers no error whether or not it found a row to finish; it
  writes the outcome and clears the lease exactly when the token is not older than the row's
  and the row is leased to the caller or to nobody. A queued job, which has no lease, is thus
  finished by any caller whose token is recent enough.\<close>

theorem Finish_spec:
  assumes "db_ok db" "db_up e"
  shows "Finish e i a tok succ cid arts mets db =
    (None,
     case row_of db i of
       None \<Rightarrow> db
     | Some r \<Rightarrow>
         if r_lease_agent r \<in> {Some a, None} \<and> sint (r_lease_token r) \<le> sint tok
         then put_row (r\<lparr>r_status := finish_status succ, r_result_root_cid := Some cid,
                r_artifacts := Some (enc_strs arts), r_metrics := Some mets,
                r_lease_agent := None, r_lease_expires_at := None\<rparr>) db
         else db)"
  by (simp add: Finish_def db_up_simps [OF assms(2)] finish_update [OF assms(1)] split: option.splits)
    (simp add: toJSON_def)

theorem Finish_spec_witness:
  "db_ok sample_db \<and> db_up (up_env 200) \<and>
   Finish (up_env 200) ''r'' ''B'' 9 True [] [] JNull sample_db = (None, sample_db) \<and>
   map r_status (snd (Finish (up_env 200) ''q'' ''B'' 0 True [] [] JNull sample_db)) = [''succeeded'', ''running'']"
  using Finish_spec [OF sample_ok up_env_simps(2), of 200 "''r''" "''B''" 9 True "[]" "[]" JNull]
    Finish_spec [OF sample_ok up_env_simps(2), of 200 "''q''" "''B''" 0 True "[]" "[]" JNull]
  by (simp add: sample_ok sample_row_of)
    (simp add: sample_simps put_row_def sample_db_def finish_status_def)

lemma SetStatusQueued_up:
  assumes "db_ok db" "db_up e" "row_of db i = Some r" "r_status r \<in> {''assigned'', ''running''}"
    "r_lease_expires_at r = Some x" "x < stmt_now e 0" "sint (r_retry_count r) < 2 ^ 31 - 1"
  shows "SetStatusQueued e i db = (None, put_row (requeued_row r) db)"
proof -
  have "sql_update (requeue_where e i) requeue_set db = (Inr [requeued_row r], put_row (requeued_row r) db)"
    using assms(3-7)
    by (subst sql_update_point [OF db_ok_distinct [OF assms(1)], where i = i])
      (auto simp: expired_point requeue_set_cases requeued_row_def dest: row_of_SomeD split: option.splits if_splits)
  then show ?thesis by (simp add: SetStatusQueued_def db_up_simps [OF assms(2)])
qed

lemma ListExpiredLeases_up:
  assumes "db_up e"
  shows "\<exists>ids. ListExpiredLeases e cutoff db = Inr ids \<and>
    set ids = {r_id r |r. r \<in> set db \<and> r_status r \<in> {''assigned'', ''running''} \<and>
      (\<exists>x. r_lease_expires_at r = Some x \<and> x < stmt_now e 0)}"
  by (auto simp: ListExpiredLeases_def db_up_simps [OF assms] sql_scan_def scan_order_up [OF assms] expired_point)

subsection \<open>Queries\<close>

text \<open>Distinct keys leave a sort no choice.\<close>

lemma sort_key_unique:
  assumes "mset xs = mset ys" "distinct (map f xs)"
  shows "sort_key f xs = sort_key f ys"
  using assms by (intro sort_key_inj_key_eq) (simp_all add: distinct_map)

text \<open>The pages of \<open>ListPaged\<close> tile the table when no two jobs were created in the same instant.
  Two consecutive pages, served whenever and in whatever scan order, are the page of both sizes
  together, so walking the offsets by the page size visits every job once, newest first.\<close>

lemma ListPaged_tiles:
  assumes "db_up e" "db_up e1" "db_up e2" "distinct (map r_created_at db)"
    and "0 < l" "0 < l'" "l + l' \<le> 1000" "0 \<le> off"
  shows "\<exists>xs ys. ListPaged e1 l off db = Inr xs \<and> ListPaged e2 l' (off + l) db = Inr ys \<and>
    ListPaged e (l + l') off db = Inr (xs @ ys)"
proof -
  let ?k = "\<lambda>r. - r_created_at r"
  have "sort_key ?k (scan_order e' db) = sort_key ?k db" if "db_up e'" for e'
    using sort_key_unique [of db "scan_order e' db" ?k] scan_order_up(1) [OF that, of db] assms(4)
    by (simp add: distinct_map inj_on_def)
  moreover have "take (nat (l + l')) (drop (nat off) zs) =
      take (nat l) (drop (nat off) zs) @ take (nat l') (drop (nat (off + l)) zs)" for zs :: "job_row list"
    using assms by (simp add: nat_add_distrib take_add add.commute)
  ultimately show ?thesis
    using assms by (simp add: ListPaged_def db_up_simps sql_scan_def holds_def page_limit_def page_offset_def)
qed

lemma sample_pair_page:
  "ListPaged (up_env 400) 2 0 sample_pair = Inr js \<Longrightarrow> map j_ID js = [''r'', ''q'']"
  by (auto simp: ListPaged_def sql_scan_def up_env_def run_stmt_def delivered_def page_limit_def
      page_offset_def sample_pair_def job_of_row_def holds_def sample_simps)

lemma ListPaged_tiles_witness:
  "\<exists>xs ys. ListPaged (up_env 200) 1 0 sample_pair = Inr xs \<and>
     ListPaged ((up_env 300)\<lparr>scan_order := rev\<rparr>) 1 1 sample_pair = Inr ys \<and>
     ListPaged (up_env 400) 2 0 sample_pair = Inr (xs @ ys) \<and> map j_ID (xs @ ys) = [''r'', ''q'']"
proof -
  have up: "db_up ((up_env 300)\<lparr>scan_order := rev\<rparr>)" by (simp add: db_up_def up_env_def)
  have "distinct (map r_created_at sample_pair)" by (simp add: sample_pair_def)
  then obtain xs ys where *: "ListPaged (up_env 200) 1 0 sample_pair = Inr xs"
      "ListPaged ((up_env 300)\<lparr>scan_order := rev\<rparr>) 1 1 sample_pair = Inr ys"
      "ListPaged (up_env 400) 2 0 sample_pair = Inr (xs @ ys)"
    using ListPaged_tiles [OF up_env_simps(2) up_env_simps(2) up, of sample_pair 1 1 0 200 400] by auto
  then show ?thesis by (intro exI [of _ xs] exI [of _ ys] conjI sample_pair_page)
qed

text \<open>A page never has more than a thousand jobs, and none more than the caller asked for when
  the request is within bounds; a limit that is not positive means a hundred.\<close>

lemma ListPaged_bounds:
  assumes "ListPaged e limit off db = Inr js"
  shows "int (length js) \<le> (if limit \<le> 0 then 100 else min limit 1000)"
proof -
  obtain zs :: "job_row list" where "js = map job_of_row (delivered e (take (nat (page_limit limit)) zs))"
    using assms by (auto simp: ListPaged_def split: sum.splits)
  moreover have "length (delivered e ys) \<le> length ys" for ys :: "job_row list"
    by (simp add: delivered_def split: option.splits)
  ultimately have "length js \<le> nat (page_limit limit)"
    by (metis (no_types, lifting) length_map length_take min.bounded_iff le_trans)
  then show ?thesis by (auto simp: page_limit_def Let_def split: if_splits)
qed

lemma ListPaged_bounds_witness:
  "\<exists>js. ListPaged (up_env 200) 1 0 sample_db = Inr js \<and> int (length js) \<le> min 1 1000"
proof -
  obtain js where "ListPaged (up_env 200) 1 0 sample_db = Inr js"
    by (simp add: ListPaged_def db_up_simps sql_scan_def)
  with ListPaged_bounds [of "up_env 200" 1 0 sample_db js] show ?thesis by simp
qed

lemma count_split:
  "distinct ss \<Longrightarrow>
   (\<Sum>s\<leftarrow>ss. int (length (filter (\<lambda>y. f y = s) (z # xs)))) =
   (if f z \<in> set ss then 1 else 0) + (\<Sum>s\<leftarrow>ss. int (length (filter (\<lambda>y. f y = s) xs)))"
  for f :: "'a \<Rightarrow> 'b"
  by (induction ss) auto

lemma count_total:
  "f ` set xs \<subseteq> set ss \<Longrightarrow> distinct ss \<Longrightarrow>
   (\<Sum>s\<leftarrow>ss. int (length (filter (\<lambda>x. f x = s) xs))) = int (length xs)" for f :: "'a \<Rightarrow> 'b"
proof (induction xs)
  case (Cons x xs)
  then show ?case using count_split [of ss f x xs] by simp
qed simp

text \<open>\<open>CountByStatus\<close> counts every job once: each status occurs once with the number of its rows,
  and the counts add up to the size of the table.\<close>

lemma CountByStatus_total:
  assumes "db_up e"
  shows "\<exists>cs. CountByStatus e db = Inr cs \<and> distinct (map fst cs) \<and>
    (\<Sum>(s, n)\<leftarrow>cs. n) = int (length db) \<and>
    (\<forall>s. map_of cs s = (if s \<in> r_status ` set db
       then Some (int (length (filter (\<lambda>r. r_status r = s) db))) else None))"
proof -
  let ?f = "\<lambda>s. (s, int (length (filter (\<lambda>r. r_status r = s) db)))"
  let ?ss = "remdups (map r_status (scan_order e db))"
  have "length (filter P (scan_order e db)) = length (filter P db)" for P
    using scan_order_up(1) [OF assms, of db] by (metis mset_filter size_mset)
  then have "CountByStatus e db = Inr (map ?f ?ss)"
    by (simp add: CountByStatus_def db_up_simps [OF assms] sql_scan_def holds_def)
  moreover have "set ?ss = r_status ` set db" by (simp add: scan_order_up [OF assms])
  moreover have "map_of (map ?f ss) s =
      (if s \<in> set ss then Some (int (length (filter (\<lambda>r. r_status r = s) db))) else None)" for ss s
    by (induction ss) auto
  moreover have "(\<Sum>s\<leftarrow>?ss. int (length (filter (\<lambda>r. r_status r = s) db))) = int (length db)"
    by (rule count_total) (auto simp: scan_order_up [OF assms])
  ultimately show ?thesis by (simp add: comp_def)
qed

lemma CountByStatus_total_witness:
  "db_up (up_env 200) \<and> (\<exists>cs. CountByStatus (up_env 200) sample_db = Inr cs \<and> (\<Sum>(s, n)\<leftarrow>cs. n) = 2)"
  using CountByStatus_total [of "up_env 200" sample_db] by (auto simp: sample_db_def)

end
