(* ===== verification/Control_Http.thy ===== *)
theory Control_Http
  imports Http_Types Announce Lease_Spec
begin

text \<open>
  The HTTP handlers of the control server, \<open>cmd/control/control_http.go\<close>, and its multiplexer.

  A handler takes the server (its DHT node, namespace, environment variables and the parsers of
  libp2p peer ids and multiaddresses, which are parameters), the circumstances of the call
  (clock readings in the order the handler takes them, the database server, the random shard),
  the request and the world: the database, the DHT and the announce manager. It returns the
  response and the world. Errors the code discards with \<open>_ =\<close> are discarded here.
\<close>

record 'n server =
  sv_dht :: "'n dht_cfg"
  sv_ns :: string
  sv_env :: "string \<Rightarrow> string"
  sv_peer :: "string \<Rightarrow> go_error"
  sv_maddr :: "string \<Rightarrow> bool"

record callenv =
  ce_now :: "nat \<Rightarrow> time"
  ce_db :: dbenv
  ce_shard :: nat

record 'n world =
  w_db :: db
  w_dht :: "'n dht"
  w_mgr :: mgr

type_synonym 'n handler = "'n server \<Rightarrow> callenv \<Rightarrow> request \<Rightarrow> 'n world \<Rightarrow> response \<times> 'n world"

definition enqueue :: "string \<Rightarrow> 'n world \<Rightarrow> 'n world" where
  "enqueue i w = w\<lparr>w_mgr := Enqueue i (w_mgr w)\<rparr>"

definition requireAuth :: "(string \<Rightarrow> string) \<Rightarrow> request \<Rightarrow> bool" where
  "requireAuth env r =
     (if env ''MC_DISABLE_AUTH'' = ''1'' then True
      else (let want = env ''CONTROL_TOKEN'' in
            if want = [] then False else rq_header r ''Authorization'' = ''Bearer '' @ want))"

definition ttlOrDefault :: "int \<Rightarrow> duration" where
  "ttlOrDefault sec = (if sec \<le> 0 \<or> sec > 3600 then 15 * second else sec * second)"

definition allowedTransports :: "string list" where
  "allowedTransports = [''quic-v1'', ''webrtc'']"

text \<open>\<open>strconv.ParseUint\<close> of a token, zero when it is missing or malformed.\<close>

definition token_of :: "string \<Rightarrow> i64" where
  "token_of s = (if s \<noteq> [] then (case ParseUint s of Some v \<Rightarrow> v | None \<Rightarrow> 0) else 0)"

definition unauthorized :: "'n world \<Rightarrow> response \<times> 'n world" where
  "unauthorized w = (httpError ''unauthorized'' 401, w)"

definition bad_method :: "'n world \<Rightarrow> response \<times> 'n world" where
  "bad_method w = (httpError ''method not allowed'' 405, w)"

definition bad_path :: "'n world \<Rightarrow> response \<times> 'n world" where
  "bad_path w = (httpError ''bad path'' 400, w)"

definition bad_json :: "string \<Rightarrow> 'n world \<Rightarrow> response \<times> 'n world" where
  "bad_json e w = (httpError (''bad json: '' @ e) 400, w)"

subsection \<open>The finish report\<close>

definition finished_state :: "bool \<Rightarrow> time \<Rightarrow> task_state \<Rightarrow> task_state" where
  "finished_state succeeded now st =
     st\<lparr>ts_Status := (if succeeded then StatusSucceeded else StatusFailed), ts_UpdatedAt := now,
        ts_FinishedAt := Some now, ts_Version := ts_Version st + 1\<rparr>"

definition finish_dht :: "'n dht_cfg \<Rightarrow> string \<Rightarrow> string \<Rightarrow> bool \<Rightarrow> time \<Rightarrow> 'n dht \<Rightarrow> 'n dht" where
  "finish_dht c ns i succeeded now d =
     (let ((st, _), d1) = GetJSON c zero_state dec_state (KeyState i) (2 * second) d;
          d2 = snd (PutJSON c (KeyState i) (enc_state (finished_state succeeded now st)) d1);
          d3 = snd (DelJSON c (KeyLease i) d2);
          d4 = snd (DelJSON c (keyTaskAd ns i) d3)
      in snd (DelJSON c (keyP2PManifestMirror i) d4))"

definition finishHandler :: "'n handler" where
  "finishHandler sv ce r w =
     (if \<not> requireAuth (sv_env sv) r then unauthorized w
      else if rq_method r \<noteq> ''POST'' then bad_method w
      else (case route3 ''jobs'' ''finish'' (rq_path r) of
         None \<Rightarrow> bad_path w
       | Some i \<Rightarrow>
           (case unmarshal zero_finish_in dec_finish_in (rq_body r) of
              (_, Some e) \<Rightarrow> bad_json e w
            | (inp, None) \<Rightarrow>
                (let agentID = rq_header r ''X-Agent-ID'';
                     token = token_of (rq_header r ''X-Lease-Token'');
                     succeeded = (ToLower (fi_Status inp) = ''succeeded'');
                     (err, db') = Finish (ce_db ce) i agentID token succeeded (fi_ResultCID inp)
                        (fi_Artifacts inp) (JObj (fi_Metrics inp)) (w_db w);
                     w1 = w\<lparr>w_db := db'\<rparr>
                 in case err of
                      Some e \<Rightarrow> (httpError (''finish failed: '' @ err_text e) 409, w1)
                    | None \<Rightarrow>
                        (Resp 204 NoBody,
                         w1\<lparr>w_dht := finish_dht (sv_dht sv) (sv_ns sv) i succeeded (ce_now ce 0) (w_dht w1)\<rparr>)))))"

subsection \<open>Creating and reading tasks\<close>

definition addToIndex :: "'n dht_cfg \<Rightarrow> string \<Rightarrow> string \<Rightarrow> nat \<Rightarrow> time \<Rightarrow> 'n dht \<Rightarrow> go_error \<times> 'n dht" where
  "addToIndex c ns i shard now d =
     (let key = KeyIndexShard ns shard;
          ((idx, _), d1) = GetJSON c zero_index dec_index key (2 * second) d
      in if i \<in> set (ix_IDs idx) then (None, d1)
         else PutJSON c key (enc_index (idx\<lparr>ix_IDs := ix_IDs idx @ [i], ix_UpdatedAt := now,
                ix_Version := ix_Version idx + 1\<rparr>)) d1)"

definition new_meta :: "string \<Rightarrow> string \<Rightarrow> string list \<Rightarrow> time \<Rightarrow> task_meta" where
  "new_meta i img cmd now =
     zero_meta\<lparr>tm_ID := i, tm_Image := img, tm_Command := cmd, tm_CreatedAt := now\<rparr>"

definition queued_state :: "string \<Rightarrow> time \<Rightarrow> task_state" where
  "queued_state i now = zero_state\<lparr>ts_ID := i, ts_Status := StatusQueued, ts_UpdatedAt := now, ts_Version := 1\<rparr>"

definition new_job :: "string \<Rightarrow> string \<Rightarrow> string list \<Rightarrow> time \<Rightarrow> db_job" where
  "new_job i img cmd now =
     \<lparr>j_ID = i, j_Image = img, j_Command = cmd, j_Status = ''queued'', j_CreatedAt = now, j_RetryCount = 0\<rparr>"

text \<open>The part after the database has the job: metadata, state, index, announcement.\<close>

definition publish_task :: "'n server \<Rightarrow> callenv \<Rightarrow> create_req \<Rightarrow> time \<Rightarrow> 'n world \<Rightarrow> response \<times> 'n world" where
  "publish_task sv ce req now w =
     (let c = sv_dht sv; i = cr_ID req;
          (e1, d1) = PutJSON c (KeyMeta i) (enc_meta (new_meta i (cr_Image req) (cr_Command req) now)) (w_dht w)
      in case e1 of
           Some e \<Rightarrow> (httpError (''dht put meta failed: '' @ e) 500, w\<lparr>w_dht := d1\<rparr>)
         | None \<Rightarrow>
             (let (e2, d2) = PutJSON c (KeyState i) (enc_state (queued_state i now)) d1
              in case e2 of
                   Some e \<Rightarrow> (httpError (''dht put state failed: '' @ e) 500, w\<lparr>w_dht := d2\<rparr>)
                 | None \<Rightarrow>
                     (let (e3, d3) = addToIndex c (sv_ns sv) i (ce_shard ce) (ce_now ce 1) d2
                      in case e3 of
                           Some e \<Rightarrow> (httpError (''index update failed: '' @ e) 500, w\<lparr>w_dht := d3\<rparr>)
                         | None \<Rightarrow>
                             (writeJSON 201 (JObj [(''job_id'', JStr i)]), enqueue i (w\<lparr>w_dht := d3\<rparr>)))))"

definition createTaskHandler :: "'n handler" where
  "createTaskHandler sv ce r w =
     (if \<not> requireAuth (sv_env sv) r then unauthorized w
      else if rq_method r \<noteq> ''POST'' then bad_method w
      else (let (req, err) = unmarshal zero_create_req dec_create_req (rq_body r) in
        if err \<noteq> None \<or> cr_ID req = [] then (httpError ''bad request'' 400, w)
        else (let now = ce_now ce 0;
                  (e, db') = CreateJob (ce_db ce) (new_job (cr_ID req) (cr_Image req) (cr_Command req) now) (w_db w);
                  w1 = w\<lparr>w_db := db'\<rparr>
              in case e of
                   Some e \<Rightarrow> (httpError (''db create failed: '' @ err_text e) 500, w1)
                 | None \<Rightarrow> publish_task sv ce req now w1)))"

definition task_view :: "db_job \<Rightarrow> manifest_out option \<Rightarrow> json" where
  "task_view job om = JObj (
     (case om of None \<Rightarrow> [] | Some m \<Rightarrow> [(''manifest'', enc_manifest_out m)]) @
     [(''meta'', JObj [(''command'', enc_strs (j_Command job)), (''id'', JStr (j_ID job)), (''image'', JStr (j_Image job))]),
      (''state'', JObj [(''id'', JStr (j_ID job)), (''status'', JStr (j_Status job))])])"

definition getTaskHandler :: "'n handler" where
  "getTaskHandler sv ce r w =
     (if \<not> requireAuth (sv_env sv) r then unauthorized w
      else if rq_method r \<noteq> ''GET'' then bad_method w
      else (let i = TrimPrefix (rq_path r) ''/api/tasks/'' in
        if i = [] then (NotFound, w)
        else (case GetJob 0 (ce_db ce) i (w_db w) of
           Inl _ \<Rightarrow> (httpError ''not found'' 404, w)
         | Inr job \<Rightarrow>
             (let ((man, err), d1) = GetJSON (sv_dht sv) zero_manifest dec_manifest (KeyManifest i) (2 * second) (w_dht w);
                  om = (if err = None \<and> mf_RootCID man \<noteq> [] then Some (out_of_manifest man) else None)
              in (writeJSON 200 (task_view job om), w\<lparr>w_dht := d1\<rparr>)))))"

definition job_view :: "db_job \<Rightarrow> json" where
  "job_view j = JObj [(''command'', enc_strs (j_Command j)), (''created_at'', JTime (j_CreatedAt j)), (''id'', JStr (j_ID j)),
     (''image'', JStr (j_Image j)), (''retry_count'', JNum (j_RetryCount j)), (''status'', JStr (j_Status j))]"

definition int_param :: "string \<Rightarrow> int \<Rightarrow> int" where
  "int_param v dflt = (if v \<noteq> [] then (case Atoi v of Some n \<Rightarrow> n | None \<Rightarrow> dflt) else dflt)"

definition listTasksHandler :: "'n handler" where
  "listTasksHandler sv ce r w =
     (if \<not> requireAuth (sv_env sv) r then unauthorized w
      else if rq_method r \<noteq> ''GET'' then bad_method w
      else (case ListPaged (ce_db ce) (int_param (rq_query r ''limit'') 100) (int_param (rq_query r ''offset'') 0) (w_db w) of
         Inl e \<Rightarrow> (httpError (''db list failed: '' @ err_text e) 500, w)
       | Inr jobs \<Rightarrow> (writeJSON 200 (JArr (map job_view jobs)), w)))"

definition statsHandler :: "'n handler" where
  "statsHandler sv ce r w =
     (if \<not> requireAuth (sv_env sv) r then unauthorized w
      else (case CountByStatus (ce_db ce) (w_db w) of
         Inl e \<Rightarrow> (httpError (''count failed: '' @ err_text e) 500, w)
       | Inr m \<Rightarrow>
           (let n = (\<lambda>s. JNum (case map_of m s of Some k \<Rightarrow> k | None \<Rightarrow> 0))
            in (writeJSON 200 (JObj [(''assigned'', n ''assigned''), (''failed'', n ''failed''), (''queued'', n ''queued''),
                  (''running'', n ''running''), (''succeeded'', n ''succeeded'')]), w))))"

definition healthHandler :: "'n handler" where
  "healthHandler sv ce r w = (writeJSON 200 (JObj [(''ok'', JBool True)]), w)"

subsection \<open>Manifests\<close>

definition providerIDs :: "provider_dto list \<Rightarrow> string list" where
  "providerIDs ps = map pv_PeerID ps"

fun validate_addrs :: "(string \<Rightarrow> bool) \<Rightarrow> string list \<Rightarrow> go_error" where
  "validate_addrs maddr [] = None"
| "validate_addrs maddr (a # rest) =
     (if \<not> maddr a then Some (''invalid multiaddr: '' @ a)
      else if HasPrefix a ''http://'' \<or> HasPrefix a ''https://'' then Some (''http(s) not allowed in addrs: '' @ a)
      else validate_addrs maddr rest)"

definition validateProvider :: "(string \<Rightarrow> go_error) \<Rightarrow> (string \<Rightarrow> bool) \<Rightarrow> provider_dto \<Rightarrow> go_error" where
  "validateProvider decode maddr p =
     (if pv_PeerID p = [] then Some ''missing peer_id''
      else (case decode (pv_PeerID p) of
         Some e \<Rightarrow> Some (''invalid peer_id: '' @ e)
       | None \<Rightarrow> if pv_Addrs p = [] then Some ''addrs empty'' else validate_addrs maddr (pv_Addrs p)))"

fun validateTransports :: "string list \<Rightarrow> go_error" where
  "validateTransports [] = None"
| "validateTransports (t # ts) =
     (if ToLower t \<notin> set allowedTransports then Some (''transport not allowed: '' @ t) else validateTransports ts)"

text \<open>The loop over the providers: the first error, with the position.\<close>

fun validate_providers :: "(string \<Rightarrow> go_error) \<Rightarrow> (string \<Rightarrow> bool) \<Rightarrow> nat \<Rightarrow> provider_dto list \<Rightarrow> go_error" where
  "validate_providers decode maddr n [] = None"
| "validate_providers decode maddr n (p # ps) =
     (case validateProvider decode maddr p of
        Some e \<Rightarrow> Some (''provider['' @ dec n @ '']: '' @ e)
      | None \<Rightarrow> validate_providers decode maddr (Suc n) ps)"

definition manifest_invalid :: "(string \<Rightarrow> go_error) \<Rightarrow> (string \<Rightarrow> bool) \<Rightarrow> manifest_in \<Rightarrow> go_error" where
  "manifest_invalid decode maddr inp =
     (if mf_RootCID inp = [] then Some ''root_cid required''
      else (case validateTransports (mf_Transports inp) of
         Some e \<Rightarrow> Some e
       | None \<Rightarrow>
           if mf_RootCID inp = ''noop'' \<and> mf_Providers inp = [] then None
           else validate_providers decode maddr 0 (mf_Providers inp)))"

definition stamped :: "time \<Rightarrow> manifest_in \<Rightarrow> manifest" where
  "stamped now inp =
     \<lparr>mf_RootCID = mf_RootCID inp, mf_Providers = map copy_provider (mf_Providers inp), mf_EncMeta = mf_EncMeta inp,
      mf_Rendezvous = mf_Rendezvous inp, mf_Transports = mf_Transports inp, mf_Version = mf_Version inp,
      mf_UpdatedAt = (if mf_UpdatedAt inp = 0 then now else mf_UpdatedAt inp)\<rparr>"

definition store_manifest :: "'n server \<Rightarrow> callenv \<Rightarrow> string \<Rightarrow> manifest_in \<Rightarrow> 'n world \<Rightarrow> response \<times> 'n world" where
  "store_manifest sv ce i inp w =
     (let c = sv_dht sv; man = stamped (ce_now ce 0) inp;
          (e1, d1) = PutJSON c (KeyManifest i) (enc_manifest man) (w_dht w)
      in case e1 of
           Some e \<Rightarrow> (httpError (''store error: '' @ e) 500, w\<lparr>w_dht := d1\<rparr>)
         | None \<Rightarrow>
             (let (e2, d2) = PutJSON c (keyP2PManifestMirror i)
                    (enc_mirror \<lparr>mm_Providers = mf_Providers man, mm_Exp = ce_now ce 1 + 120 * second\<rparr>) d1
              in case e2 of
                   Some e \<Rightarrow> (httpError (''mirror store error: '' @ e) 500, w\<lparr>w_dht := d2\<rparr>)
                 | None \<Rightarrow>
                     (let (e3, db') = AttachManifest (ce_db ce) i
                            \<lparr>lm_RootCID = mf_RootCID inp, lm_Providers = providerIDs (mf_Providers inp),
                             lm_EncMeta = mf_EncMeta inp\<rparr> (w_db w);
                          w1 = w\<lparr>w_dht := d2, w_db := db'\<rparr>
                      in case e3 of
                           Some e \<Rightarrow> (httpError (''db attach manifest failed: '' @ err_text e) 500, w1)
                         | None \<Rightarrow> (Resp 204 NoBody, enqueue i w1))))"

definition manifestHandler :: "'n handler" where
  "manifestHandler sv ce r w =
     (if \<not> requireAuth (sv_env sv) r then unauthorized w
      else (case route3 ''jobs'' ''manifest'' (rq_path r) of
         None \<Rightarrow> bad_path w
       | Some i \<Rightarrow>
           (case unmarshal zero_manifest dec_manifest (rq_body r) of
              (_, Some e) \<Rightarrow> bad_json e w
            | (inp, None) \<Rightarrow>
                (case manifest_invalid (sv_peer sv) (sv_maddr sv) inp of
                   Some e \<Rightarrow> (httpError e 400, w)
                 | None \<Rightarrow> store_manifest sv ce i inp w))))"

definition validateAgentToken :: "string \<Rightarrow> string \<Rightarrow> bool" where
  "validateAgentToken token i \<longleftrightarrow> length token > 10 \<and> Contains token i"

definition agentManifestHandler :: "'n handler" where
  "agentManifestHandler sv ce r w =
     (case route4 ''internal'' ''agents'' ''manifest'' (rq_path r) of
        None \<Rightarrow> bad_path w
      | Some i \<Rightarrow>
          (let token = rq_query r ''token'' in
           if token = [] \<or> \<not> validateAgentToken token i then unauthorized w
           else (let ((man, err), d1) = GetJSON (sv_dht sv) zero_manifest dec_manifest (KeyManifest i) (2 * second) (w_dht w);
                     w1 = w\<lparr>w_dht := d1\<rparr>
                 in if err \<noteq> None \<or> mf_RootCID man = [] then (httpError ''manifest not found'' 404, w1)
                    else (writeJSON 200 (enc_manifest_secret (out_of_manifest man) (mf_EncMeta man)), w1))))"

subsection \<open>Leases\<close>

definition lease_doc :: "string \<Rightarrow> db_lease \<Rightarrow> task_lease" where
  "lease_doc agentID l = \<lparr>tl_Owner = agentID, tl_Nonce = [], tl_Expires = le_ExpireAt l, tl_Version = le_FencingToken l\<rparr>"

definition assigned_state :: "string \<Rightarrow> string \<Rightarrow> time \<Rightarrow> task_state \<Rightarrow> task_state" where
  "assigned_state i agentID now st =
     st\<lparr>ts_ID := i, ts_Status := StatusAssigned, ts_AssignedTo := agentID, ts_UpdatedAt := now,
        ts_StartedAt := (case ts_StartedAt st of None \<Rightarrow> Some now | Some t \<Rightarrow> Some t),
        ts_Version := ts_Version st + 1\<rparr>"

text \<open>After the store answered with a lease, or with \<open>ErrNoManifest\<close> and a nil one: the state is
  written first, then the lease is read.\<close>

definition claim_dht :: "'n server \<Rightarrow> callenv \<Rightarrow> string \<Rightarrow> string \<Rightarrow> db_lease option \<Rightarrow> 'n world \<Rightarrow> response \<times> 'n world" where
  "claim_dht sv ce i agentID claimed w =
     (let c = sv_dht sv;
          ((st, _), d1) = GetJSON c zero_state dec_state (KeyState i) (2 * second) (w_dht w);
          d2 = snd (PutJSON c (KeyState i) (enc_state (assigned_state i agentID (ce_now ce 0) st)) d1)
      in case claimed of
           None \<Rightarrow> (Panic, w\<lparr>w_dht := d2\<rparr>)
         | Some l \<Rightarrow>
             (writeJSON 200 (enc_lease_out \<lparr>lo_OK = True, lo_Lease = lease_doc agentID l\<rparr>),
              w\<lparr>w_dht := snd (PutJSON c (KeyLease i) (enc_lease (lease_doc agentID l)) d2)\<rparr>))"

definition tryClaimHandler :: "'n handler" where
  "tryClaimHandler sv ce r w =
     (if \<not> requireAuth (sv_env sv) r then unauthorized w
      else (case route4 ''api'' ''tasks'' ''try-claim'' (rq_path r) of
         None \<Rightarrow> bad_path w
       | Some i \<Rightarrow>
           (case unmarshal zero_claim_in dec_claim_in (rq_body r) of
              (_, Some e) \<Rightarrow> bad_json e w
            | (inp, None) \<Rightarrow>
                if ci_AgentID inp = [] then (httpError ''agent_id required'' 400, w)
                else (let (res, db') = TryClaim (ce_db ce) i (ci_AgentID inp) (ttlOrDefault (ci_TTLSec inp)) (w_db w);
                          w1 = w\<lparr>w_db := db'\<rparr>
                      in case res of
                           Inr l \<Rightarrow> claim_dht sv ce i (ci_AgentID inp) (Some l) w1
                         | Inl err \<Rightarrow>
                             if err = ErrLeaseConflict then (writeJSON 200 (enc_lease_out zero_lease_out), w1)
                             else if err = ErrJobNotFound then (httpError ''not found'' 404, w1)
                             else if err \<noteq> ErrNoManifest then (httpError (''store error: '' @ err_text err) 500, w1)
                             else claim_dht sv ce i (ci_AgentID inp) None w1))))"

definition requeued_state :: "time \<Rightarrow> task_state \<Rightarrow> task_state" where
  "requeued_state now st =
     st\<lparr>ts_Status := StatusQueued, ts_AssignedTo := [], ts_UpdatedAt := now, ts_Version := ts_Version st + 1\<rparr>"

definition release_dht :: "'n server \<Rightarrow> callenv \<Rightarrow> string \<Rightarrow> string \<Rightarrow> 'n dht \<Rightarrow> 'n dht" where
  "release_dht sv ce i agentID d =
     (let c = sv_dht sv; d1 = snd (DelJSON c (KeyLease i) d);
          ((st, _), d2) = GetJSON c zero_state dec_state (KeyState i) (2 * second) d1
      in if ts_ID st \<noteq> [] \<and> (ts_AssignedTo st = agentID \<or> ts_Status st = StatusAssigned \<or> ts_Status st = StatusRunning)
         then snd (PutJSON c (KeyState i) (enc_state (requeued_state (ce_now ce 0) st)) d2)
         else d2)"

definition releaseHandler :: "'n handler" where
  "releaseHandler sv ce r w =
     (if \<not> requireAuth (sv_env sv) r then unauthorized w
      else (case route4 ''api'' ''tasks'' ''release'' (rq_path r) of
         None \<Rightarrow> bad_path w
       | Some i \<Rightarrow>
           (case unmarshal zero_release_in dec_release_in (rq_body r) of
              (_, Some e) \<Rightarrow> bad_json e w
            | (inp, None) \<Rightarrow>
                (let ((cur, err), d1) = GetJSON (sv_dht sv) zero_lease dec_lease (KeyLease i) (2 * second) (w_dht w);
                     w1 = w\<lparr>w_dht := d1\<rparr>
                 in if err \<noteq> None \<or> tl_Owner cur = [] then (httpError ''no lease'' 404, w1)
                    else if tl_Owner cur \<noteq> ri_AgentID inp \<or> tl_Nonce cur \<noteq> ri_Nonce inp
                         then (httpError ''forbidden'' 403, w1)
                    else (writeJSON 200 (JObj [(''ok'', JBool True)]),
                          w1\<lparr>w_dht := release_dht sv ce i (ri_AgentID inp) d1\<rparr>)))))"

definition hb_token :: "hb_in \<Rightarrow> request \<Rightarrow> i64" where
  "hb_token inp r =
     (if sint (hb_LeaseVersion inp) > 0 then hb_LeaseVersion inp
      else (let n = TrimSpace (hb_Nonce inp) in token_of (if n = [] then rq_header r ''X-Lease-Token'' else n)))"

definition renewed_lease :: "string \<Rightarrow> time \<Rightarrow> task_lease \<Rightarrow> task_lease" where
  "renewed_lease agentID ex cur = cur\<lparr>tl_Owner := agentID, tl_Expires := ex, tl_Version := tl_Version cur + 1\<rparr>"

definition heartbeatHandler :: "'n handler" where
  "heartbeatHandler sv ce r w =
     (if \<not> requireAuth (sv_env sv) r then unauthorized w
      else (case route4 ''api'' ''tasks'' ''heartbeat'' (rq_path r) of
         None \<Rightarrow> bad_path w
       | Some i \<Rightarrow>
           (case unmarshal zero_hb_in dec_hb_in (rq_body r) of
              (_, Some e) \<Rightarrow> bad_json e w
            | (inp, None) \<Rightarrow>
                (let ttl = ttlOrDefault (hb_TTLSec inp); token = hb_token inp r in
                 if token = 0 then (httpError ''missing lease token'' 400, w)
                 else (let (err, db') = Heartbeat (ce_db ce) i (hb_AgentID inp) token ttl (w_db w);
                           w1 = w\<lparr>w_db := db'\<rparr>
                       in case err of
                            Some e \<Rightarrow> (httpError (''heartbeat failed: '' @ err_text e) 409, w1)
                          | None \<Rightarrow>
                              (let c = sv_dht sv;
                                   ((cur, _), d1) = GetJSON c zero_lease dec_lease (KeyLease i) (2 * second) (w_dht w1);
                                   d2 = snd (PutJSON c (KeyLease i)
                                     (enc_lease (renewed_lease (hb_AgentID inp) (ce_now ce 0 + ttl) cur)) d1)
                               in (writeJSON 200 (JObj [(''ok'', JBool True)]), w1\<lparr>w_dht := d2\<rparr>)))))))"

subsection \<open>Operations and diagnostics\<close>

definition forceRequeueHandler :: "'n handler" where
  "forceRequeueHandler sv ce r w =
     (if \<not> requireAuth (sv_env sv) r then unauthorized w
      else if rq_method r \<noteq> ''POST'' then bad_method w
      else (let i = TrimSuffix (TrimPrefix (rq_path r) ''/internal/requeue/'') ''/force-requeue'';
                c = sv_dht sv;
                ((st, err), d1) = GetJSON c zero_state dec_state (KeyState i) (2 * second) (w_dht w)
            in if err \<noteq> None \<or> ts_ID st = [] then (httpError ''state not found'' 404, w\<lparr>w_dht := d1\<rparr>)
               else (let d2 = snd (DelJSON c (KeyLease i) d1);
                         (e, d3) = PutJSON c (KeyState i) (enc_state (requeued_state (ce_now ce 0) st)) d2;
                         w1 = w\<lparr>w_dht := d3\<rparr>
                     in if e \<noteq> None then (httpError ''put state failed'' 500, w1)
                        else (Resp 204 NoBody, enqueue i w1))))"

definition debugLeaseHandler :: "'n handler" where
  "debugLeaseHandler sv ce r w =
     (if \<not> requireAuth (sv_env sv) r then unauthorized w
      else (let i = TrimSuffix (TrimPrefix (rq_path r) ''/internal/tasks/'') ''/lease'';
                c = sv_dht sv;
                ((st, _), d1) = GetJSON c zero_state dec_state (KeyState i) (2 * second) (w_dht w);
                ((le, _), d2) = GetJSON c zero_lease dec_lease (KeyLease i) (2 * second) d1
            in (writeJSON 200 (JObj [(''id'', JStr i), (''lease_expires'', JTime (tl_Expires le)),
                  (''lease_owner'', JStr (tl_Owner le)), (''lease_ver'', JNum (sint (tl_Version le))),
                  (''owner'', JStr (ts_AssignedTo st)), (''status'', JStr (ts_Status st)),
                  (''updated_at'', JTime (ts_UpdatedAt st))]),
                w\<lparr>w_dht := d2\<rparr>)))"

text \<open>\<open>t.Unix()\<close>: seconds since 1970, which is this many seconds after the zero time.\<close>

definition unix_seconds :: "time \<Rightarrow> int" where
  "unix_seconds t = t div second - 62135596800"

definition logsHandler :: "'n handler" where
  "logsHandler sv ce r w =
     (if \<not> requireAuth (sv_env sv) r then unauthorized w
      else (let i = TrimSuffix (TrimPrefix (rq_path r) ''/api/tasks/'') ''/logs'';
                c = sv_dht sv;
                ((endp, err), d1) = GetJSON c JNull dec_any_map (KeyWS i) (2 * second) (w_dht w)
            in if err \<noteq> None then (httpError ''no ws endpoint'' 404, w\<lparr>w_dht := d1\<rparr>)
               else (let tkn = ''demo-'' @ fmt_d (unix_seconds (ce_now ce 0));
                         d2 = snd (PutJSON c (KeyWS i @ ''_token'')
                                (JObj [(''issued'', JTime (ce_now ce 1)), (''token'', JStr tkn)]) d1)
                     in (writeJSON 200 (JObj [(''endpoint'', endp), (''token'', JStr tkn)]), w\<lparr>w_dht := d2\<rparr>))))"

subsection \<open>The multiplexer\<close>

definition tasks_root :: "'n handler" where
  "tasks_root sv ce r w =
     (if rq_method r = ''GET'' then listTasksHandler sv ce r w
      else if rq_method r = ''POST'' then createTaskHandler sv ce r w
      else bad_method w)"

definition tasks_sub :: "'n handler" where
  "tasks_sub sv ce r w =
     (if rq_method r = ''POST'' \<and> HasSuffix (rq_path r) ''/try-claim'' then tryClaimHandler sv ce r w
      else if rq_method r = ''POST'' \<and> HasSuffix (rq_path r) ''/heartbeat'' then heartbeatHandler sv ce r w
      else if rq_method r = ''POST'' \<and> HasSuffix (rq_path r) ''/release'' then releaseHandler sv ce r w
      else if HasSuffix (rq_path r) ''/logs'' then logsHandler sv ce r w
      else getTaskHandler sv ce r w)"

definition jobs_sub :: "'n handler" where
  "jobs_sub sv ce r w =
     (if HasSuffix (rq_path r) ''/manifest'' then manifestHandler sv ce r w
      else if HasSuffix (rq_path r) ''/finish'' then finishHandler sv ce r w
      else (NotFound, w))"

definition api_jobs_sub :: "'n handler" where
  "api_jobs_sub sv ce r w =
     (if HasSuffix (rq_path r) ''/finish'' then finishHandler sv ce r w else (NotFound, w))"

text \<open>The patterns that end in a slash, and match every path below them.\<close>

definition subtrees :: "(string \<times> 'n handler) list" where
  "subtrees =
     [(''/api/tasks/'', tasks_sub), (''/jobs/'', jobs_sub), (''/api/jobs/'', api_jobs_sub),
      (''/internal/tasks/'', debugLeaseHandler), (''/internal/requeue/'', forceRequeueHandler)]"

definition exact_paths :: "(string \<times> 'n handler) list" where
  "exact_paths =
     [(''/api/health'', healthHandler), (''/api/tasks'', tasks_root), (''/api/stats/tasks'', statsHandler)]"

text \<open>\<open>ServeMux\<close>: a path that is not clean is redirected, an exact pattern wins over a subtree, the
  subtrees do not overlap, and a subtree without its slash is redirected.\<close>

definition mountHTTP :: "'n handler" where
  "mountHTTP sv ce r w =
     (let p = rq_path r in
      if cleanPath p \<noteq> p then (Resp 301 (Moved (cleanPath p)), w)
      else (case map_of exact_paths p of
         Some h \<Rightarrow> h sv ce r w
       | None \<Rightarrow>
           (case find (\<lambda>(pat, _). HasPrefix p pat) subtrees of
              Some (_, h) \<Rightarrow> h sv ce r w
            | None \<Rightarrow>
                if list_ex (\<lambda>(pat, _). pat = p @ ''/'') (subtrees :: (string \<times> 'n handler) list)
                then (Resp 301 (Moved (p @ ''/'')), w)
                else (NotFound, w))))"

lemmas http_defs [http_simps] = httpError_def NotFound_def writeJSON_def unauthorized_def bad_method_def
  bad_path_def bad_json_def

end
