(* ===== verification/Control_Safety.thy ===== *)
theory Control_Safety
  imports Control_Http
begin

text \<open>
  Properties of the control server's HTTP interface: the authorization gate, the routes, what
  the lease operations do to the database and to the DHT together, what manifests are accepted
  and shown, and that a created task is fully published.
\<close>

text \<open>A request was turned away: an error or redirect response, and an unchanged world.\<close>

definition turned_away :: "'n world \<Rightarrow> response \<times> 'n world \<Rightarrow> bool" where
  "turned_away w x \<longleftrightarrow> snd x = w \<and> (\<exists>code b. fst x = Resp code b \<and> 300 \<le> code)"

text \<open>The documents of the world.\<close>

abbreviation docs :: "'n server \<Rightarrow> ('n \<Rightarrow> string \<rightharpoonup> payload) \<Rightarrow> 'n world \<Rightarrow> string \<rightharpoonup> payload" where
  "docs sv view w \<equiv> doc (sv_dht sv) view (w_dht w)"

abbreviation state_of :: "payload option \<Rightarrow> task_state" where
  "state_of \<equiv> read_as zero_state dec_state"

abbreviation lease_of :: "payload option \<Rightarrow> task_lease" where
  "lease_of \<equiv> read_as zero_lease dec_lease"

text \<open>Requests as the agents send them: a claim, a heartbeat and a finish report.\<close>

definition agent_header :: "string \<Rightarrow> string \<Rightarrow> string \<Rightarrow> string \<Rightarrow> string" where
  "agent_header auth a tok h =
     (if h = ''Authorization'' then auth else if h = ''X-Agent-ID'' then a
      else if h = ''X-Lease-Token'' then tok else [])"

definition json_header :: "string \<Rightarrow> string \<Rightarrow> string \<Rightarrow> string \<Rightarrow> string" where
  "json_header auth a tok = (agent_header auth a tok)(''Content-Type'' := ''application/json'')"

definition claim_request :: "string \<Rightarrow> string \<Rightarrow> int \<Rightarrow> string \<Rightarrow> request" where
  "claim_request i a n auth =
     \<lparr>rq_method = ''POST'', rq_path = ''/api/tasks/'' @ i @ ''/try-claim'', rq_query = (\<lambda>_. []),
      rq_header = json_header auth [] [],
      rq_body = Doc (JObj [(''agent_id'', JStr a), (''ttl_sec'', JNum n)])\<rparr>"

definition heartbeat_request :: "string \<Rightarrow> string \<Rightarrow> string \<Rightarrow> int \<Rightarrow> i64 \<Rightarrow> string \<Rightarrow> request" where
  "heartbeat_request i a nonce n ver auth =
     \<lparr>rq_method = ''POST'', rq_path = ''/api/tasks/'' @ i @ ''/heartbeat'', rq_query = (\<lambda>_. []),
      rq_header = json_header auth [] [],
      rq_body = Doc (JObj [(''agent_id'', JStr a), (''lease_version'', JNum (sint ver)), (''nonce'', JStr nonce),
        (''ttl_sec'', JNum n)])\<rparr>"

definition finish_request :: "string \<Rightarrow> string \<Rightarrow> i64 \<Rightarrow> string \<Rightarrow> (string \<times> json) list \<Rightarrow> string \<Rightarrow> string \<Rightarrow> request" where
  "finish_request i a tok status mets err auth =
     \<lparr>rq_method = ''POST'', rq_path = ''/jobs/'' @ i @ ''/finish'', rq_query = (\<lambda>_. []),
      rq_header = json_header auth a (if 0 < sint tok then fmt_d (sint tok) else []),
      rq_body = Doc (JObj ((''artifacts'', JArr []) # omit (err = []) ''error'' (JStr err) @
        [(''metrics'', JObj mets), (''result_root_cid'', JStr []), (''status'', JStr status)]))\<rparr>"

text \<open>A server and a world for the examples.\<close>

definition sample_server :: "(string \<rightharpoonup> payload) server" where
  "sample_server =
     \<lparr>sv_dht = solo_cfg ''mc'', sv_ns = ''mc'', sv_env = (\<lambda>v. if v = ''CONTROL_TOKEN'' then ''s'' else []),
      sv_peer = (\<lambda>_. None), sv_maddr = (\<lambda>_. True)\<rparr>"

definition sample_call :: callenv where
  "sample_call = \<lparr>ce_now = (\<lambda>_. 50), ce_db = up_env 50, ce_shard = 3\<rparr>"

definition sample_world :: "db \<Rightarrow> (string \<rightharpoonup> payload) world" where
  "sample_world db = \<lparr>w_db = db, w_dht = fresh_dht, w_mgr = NewAnnounceManager ''mc'' (30 * second) (3 * second)\<rparr>"

definition sample_busy :: job_row where
  "sample_busy = sample_running\<lparr>r_manifest_root_cid := Some ''cid''\<rparr>"

subsection \<open>Routing\<close>

lemma mount_tasks_sub:
  assumes "plain_seg i" "plain_seg z"
  shows "rq_path r = ''/api/tasks/'' @ i @ ''/'' @ z \<Longrightarrow> mountHTTP sv ce r w = tasks_sub sv ce r w"
proof -
  assume p: "rq_path r = ''/api/tasks/'' @ i @ ''/'' @ z"
  have "cleanPath (rq_path r) = rq_path r"
    using cleanPath_plain [of "[''api'', ''tasks'', i, z]"] assms p by (simp add: plain_seg_def)
  then show ?thesis using assms p by (simp add: mountHTTP_def Let_def exact_paths_def subtrees_def HasPrefix_def plain_seg_def)
qed

lemma mount_task:
  assumes "plain_seg i" "rq_path r = ''/api/tasks/'' @ i"
  shows "mountHTTP sv ce r w = tasks_sub sv ce r w"
proof -
  have "cleanPath (rq_path r) = rq_path r"
    using cleanPath_plain [of "[''api'', ''tasks'', i]"] assms by (simp add: plain_seg_def)
  then show ?thesis using assms by (simp add: mountHTTP_def Let_def exact_paths_def subtrees_def HasPrefix_def plain_seg_def)
qed

lemma mount_jobs_sub:
  assumes "plain_seg i" "plain_seg z" "rq_path r = ''/jobs/'' @ i @ ''/'' @ z"
  shows "mountHTTP sv ce r w = jobs_sub sv ce r w"
proof -
  have "cleanPath (rq_path r) = rq_path r"
    using cleanPath_plain [of "[''jobs'', i, z]"] assms by (simp add: plain_seg_def)
  then show ?thesis using assms by (simp add: mountHTTP_def Let_def exact_paths_def subtrees_def HasPrefix_def plain_seg_def)
qed

lemma mount_tasks_root:
  assumes "rq_path r = ''/api/tasks''"
  shows "mountHTTP sv ce r w = tasks_root sv ce r w"
proof -
  have "cleanPath (rq_path r) = rq_path r"
    using cleanPath_plain [of "[''api'', ''tasks'']"] assms by (simp add: plain_seg_def)
  then show ?thesis using assms by (simp add: mountHTTP_def Let_def exact_paths_def)
qed

subsection \<open>The authorization gate\<close>

lemma handlers_gate:
  assumes "\<not> requireAuth (sv_env sv) r"
  shows "turned_away w (finishHandler sv ce r w)" "turned_away w (createTaskHandler sv ce r w)"
    "turned_away w (getTaskHandler sv ce r w)" "turned_away w (listTasksHandler sv ce r w)"
    "turned_away w (statsHandler sv ce r w)" "turned_away w (manifestHandler sv ce r w)"
    "turned_away w (tryClaimHandler sv ce r w)" "turned_away w (releaseHandler sv ce r w)"
    "turned_away w (heartbeatHandler sv ce r w)" "turned_away w (forceRequeueHandler sv ce r w)"
    "turned_away w (debugLeaseHandler sv ce r w)" "turned_away w (logsHandler sv ce r w)"
    "turned_away w (unauthorized w)" "turned_away w (bad_method w)" "turned_away w (NotFound, w)"
  using assms
  by (simp_all add: turned_away_def http_defs finishHandler_def createTaskHandler_def getTaskHandler_def
      listTasksHandler_def statsHandler_def manifestHandler_def tryClaimHandler_def releaseHandler_def
      heartbeatHandler_def forceRequeueHandler_def debugLeaseHandler_def logsHandler_def)

lemma subtrees_gate:
  assumes "\<not> requireAuth (sv_env sv) r" "(pat, h) \<in> set subtrees"
  shows "turned_away w (h sv ce r w)"
  using assms(2)
  by (auto simp: subtrees_def tasks_sub_def jobs_sub_def api_jobs_sub_def handlers_gate [OF assms(1)])


subsection \<open>What the handlers write to the DHT\<close>

lemma finish_dht_docs:
  assumes "dht_up c view"
  shows "doc c view (finish_dht c ns i succ now d) =
    (doc c view d)(KeyState i \<mapsto> Doc (enc_state (finished_state succ now (state_of (doc c view d (KeyState i))))),
      KeyLease i \<mapsto> Doc (JObj []), keyTaskAd ns i \<mapsto> Doc (JObj []), keyP2PManifestMirror i \<mapsto> Doc (JObj []))"
  by (simp add: finish_dht_def Let_def split_beta dht_up.PutJSON_put [OF assms] dht_up.DelJSON_put [OF assms]
      dht_net.GetJSON_value [OF dht_up.axioms(1) [OF assms]] dht_net.GetJSON_frame [OF dht_up.axioms(1) [OF assms]])

lemma claim_dht_docs:
  assumes "dht_up (sv_dht sv) view"
  shows "docs sv view (snd (claim_dht sv ce i a (Some l) w)) =
      (docs sv view w)(KeyState i \<mapsto> Doc (enc_state (assigned_state i a (ce_now ce 0) (state_of (docs sv view w (KeyState i))))),
        KeyLease i \<mapsto> Doc (enc_lease (lease_doc a l)))"
    and "docs sv view (snd (claim_dht sv ce i a None w)) =
      (docs sv view w)(KeyState i \<mapsto> Doc (enc_state (assigned_state i a (ce_now ce 0) (state_of (docs sv view w (KeyState i))))))"
  by (simp_all add: claim_dht_def Let_def split_beta dht_up.PutJSON_put [OF assms]
      dht_net.GetJSON_value [OF dht_up.axioms(1) [OF assms]] dht_net.GetJSON_frame [OF dht_up.axioms(1) [OF assms]])

lemma claim_dht_reply:
  "fst (claim_dht sv ce i a (Some l) w) = writeJSON 200 (enc_lease_out \<lparr>lo_OK = True, lo_Lease = lease_doc a l\<rparr>)"
  "fst (claim_dht sv ce i a None w) = Panic"
  "w_db (snd (claim_dht sv ce i a ol w)) = w_db w"
  "w_mgr (snd (claim_dht sv ce i a ol w)) = w_mgr w"
  by (simp_all add: claim_dht_def Let_def split_beta split: option.splits)

lemma assigned_state_ok [simp]: "state_ok (assigned_state i a now st) = state_ok st"
  by (simp add: assigned_state_def)

lemma finished_state_ok [simp]: "state_ok (finished_state succ now st) = state_ok st"
  by (simp add: finished_state_def)

lemma requeued_state_ok [simp]: "state_ok (requeued_state now st) = state_ok st"
  by (simp add: requeued_state_def)

lemma seconds_ttlOrDefault: "seconds_of (ttlOrDefault n) * second = ttlOrDefault n"
  using seconds_of_mult [of 15] by (simp add: ttlOrDefault_def)

subsection \<open>Claims\<close>

lemma claim_names [simp]: "ToLower ''agent_id'' = ''agent_id''" "ToLower ''ttl_sec'' = ''ttl_sec''"
  "ToLower ''lease_version'' = ''lease_version''" "ToLower ''result_root_cid'' = ''result_root_cid''"
  by code_simp+

lemma claim_request_body:
  "in_i64 n \<Longrightarrow> unmarshal zero_claim_in dec_claim_in (rq_body (claim_request i a n auth)) =
     (\<lparr>ci_AgentID = a, ci_TTLSec = n\<rparr>, None)"
  by (simp add: claim_request_def unmarshal_def dec_claim_in_def set_claim_in_def zero_claim_in_def)

lemma claim_request_routed:
  assumes "plain_seg i" "requireAuth (sv_env sv) (claim_request i a n auth)" "in_i64 n" "a \<noteq> []"
  shows "mountHTTP sv ce (claim_request i a n auth) w =
    (let (res, db') = TryClaim (ce_db ce) i a (ttlOrDefault n) (w_db w); w1 = w\<lparr>w_db := db'\<rparr>
     in case res of
          Inr l \<Rightarrow> claim_dht sv ce i a (Some l) w1
        | Inl err \<Rightarrow>
            if err = ErrLeaseConflict then (writeJSON 200 (enc_lease_out zero_lease_out), w1)
            else if err = ErrJobNotFound then (httpError ''not found'' 404, w1)
            else if err \<noteq> ErrNoManifest then (httpError (''store error: '' @ err_text err) 500, w1)
            else claim_dht sv ce i a None w1)"
proof -
  have m: "mountHTTP sv ce (claim_request i a n auth) w = tasks_sub sv ce (claim_request i a n auth) w"
    by (rule mount_tasks_sub [OF assms(1), of "''try-claim''"]) (simp_all add: claim_request_def plain_seg_def)
  have s: "HasSuffix (rq_path (claim_request i a n auth)) ''/try-claim''"
    using HasSuffix_append [of "''/api/tasks/'' @ i" "''/try-claim''"] by (simp add: claim_request_def)
  have p: "route4 ''api'' ''tasks'' ''try-claim'' (rq_path (claim_request i a n auth)) = Some i"
    using route4_path [of i "''api''" "''tasks''" "''try-claim''"] assms(1) by (simp add: claim_request_def plain_seg_def)
  have "tasks_sub sv ce (claim_request i a n auth) w = tryClaimHandler sv ce (claim_request i a n auth) w"
    using s by (simp add: tasks_sub_def) (simp add: claim_request_def)
  moreover obtain res db' where "TryClaim (ce_db ce) i a (ttlOrDefault n) (w_db w) = (res, db')" by fastforce
  ultimately show ?thesis
    using m p assms(2-4) by (cases res) (simp_all add: tryClaimHandler_def claim_request_body Let_def)
qed

text \<open>C17: a granted claim. For a queued job the server answers with a lease whose version is the
  fencing token of the database, one more than before, and whose expiry is the database's; the
  row carries exactly that lease, the DHT lease document is the very lease in the answer, and the
  DHT state shows the job assigned to the caller.\<close>

theorem http_claim_granted:
  assumes "dht_up (sv_dht sv) view" "db_ok (w_db w)" "db_up (ce_db ce)"
    and "plain_seg i" "requireAuth (sv_env sv) (claim_request i a n auth)" "in_i64 n" "a \<noteq> []"
    and "row_of (w_db w) i = Some row" "r_status row = ''queued''" "sint (r_lease_token row) < 2 ^ 63 - 1"
  shows "\<exists>l w'. mountHTTP sv ce (claim_request i a n auth) w =
      (Resp 200 (JsonBody (enc_lease_out \<lparr>lo_OK = True, lo_Lease = l\<rparr>)), w') \<and>
    tl_Owner l = a \<and> sint (tl_Version l) = sint (r_lease_token row) + 1 \<and>
    row_of (w_db w') i = Some (claimed_row a (tl_Expires l) row) \<and>
    tl_Expires l = stmt_now (ce_db ce) 0 + ttlOrDefault n \<and>
    docs sv view w' (KeyLease i) = Some (Doc (enc_lease l)) \<and>
    ts_Status (state_of (docs sv view w' (KeyState i))) = StatusAssigned \<and>
    ts_AssignedTo (state_of (docs sv view w' (KeyState i))) = a"
proof -
  let ?x = "stmt_now (ce_db ce) 0 + ttlOrDefault n"
  let ?l = "\<lparr>le_AgentID = a, le_ExpireAt = ?x, le_FencingToken = r_lease_token row + 1\<rparr>"
  let ?w1 = "w\<lparr>w_db := put_row (claimed_row a ?x row) (w_db w)\<rparr>"
  have "TryClaim (ce_db ce) i a (ttlOrDefault n) (w_db w) = (Inr ?l, put_row (claimed_row a ?x row) (w_db w))"
    using TryClaim_queued [OF assms(2,3,8,9,10), of a "ttlOrDefault n"] by (simp add: seconds_ttlOrDefault)
  then have m: "mountHTTP sv ce (claim_request i a n auth) w = claim_dht sv ce i a (Some ?l) ?w1"
    by (simp add: claim_request_routed [OF assms(4-7)] Let_def)
  let ?r = "claim_dht sv ce i a (Some ?l) ?w1"
  have "row_of (w_db (snd ?r)) i = Some (claimed_row a ?x row)"
    using row_of_SomeD [OF assms(8)] assms(8) by (simp add: claim_dht_reply row_of_put_row claimed_row_def)
  moreover have "fst ?r = Resp 200 (JsonBody (enc_lease_out \<lparr>lo_OK = True, lo_Lease = lease_doc a ?l\<rparr>))"
    by (simp add: claim_dht_reply http_defs)
  moreover have "sint (tl_Version (lease_doc a ?l)) = sint (r_lease_token row) + 1"
    using sint_succ [OF assms(10)] by (simp add: lease_doc_def)
  ultimately show ?thesis
    unfolding m
    by (intro exI [of _ "lease_doc a ?l"] exI [of _ "snd ?r"])
      (simp add: claim_dht_docs(1) [OF assms(1)] prod_eq_iff assigned_state_ok,
       simp add: lease_doc_def assigned_state_def)
qed

text \<open>A refused claim. For a job that is not queued and has a manifest the server answers
  \<open>ok: false\<close> with an empty lease, and neither the database nor the DHT changes.\<close>

lemma http_claim_refused:
  assumes "db_ok (w_db w)" "db_up (ce_db ce)"
    and "plain_seg i" "requireAuth (sv_env sv) (claim_request i a n auth)" "in_i64 n" "a \<noteq> []"
    and "row_of (w_db w) i = Some row" "r_status row \<noteq> ''queued''" "\<not> no_manifest row"
  shows "mountHTTP sv ce (claim_request i a n auth) w =
    (Resp 200 (JsonBody (enc_lease_out \<lparr>lo_OK = False, lo_Lease = zero_lease\<rparr>)), w)"
  using TryClaim_refused [OF assms(1,2,7,8), of a "ttlOrDefault n"] assms(9)
  by (simp add: claim_request_routed [OF assms(3-6)] http_defs zero_lease_out_def)

text \<open>C37: a claim of a busy job without manifest brings the handler down. \<open>TryClaim\<close> answers
  \<open>ErrNoManifest\<close>, the handler goes on with a nil lease, overwrites the DHT state so that it names
  the caller as the job's executor, and then dereferences the nil lease; the job is still leased
  to whoever had it, and the DHT lease document is as before.\<close>

theorem http_claim_panics:
  assumes "dht_up (sv_dht sv) view" "db_ok (w_db w)" "db_up (ce_db ce)"
    and "plain_seg i" "requireAuth (sv_env sv) (claim_request i a n auth)" "in_i64 n" "a \<noteq> []"
    and "row_of (w_db w) i = Some row" "r_status row \<noteq> ''queued''" "no_manifest row"
  shows "\<exists>w'. mountHTTP sv ce (claim_request i a n auth) w = (Panic, w') \<and> w_db w' = w_db w \<and>
    ts_Status (state_of (docs sv view w' (KeyState i))) = StatusAssigned \<and>
    ts_AssignedTo (state_of (docs sv view w' (KeyState i))) = a \<and>
    docs sv view w' (KeyLease i) = docs sv view w (KeyLease i)"
proof -
  have "mountHTTP sv ce (claim_request i a n auth) w = claim_dht sv ce i a None w"
    using TryClaim_refused [OF assms(2,3,8,9), of a "ttlOrDefault n"] assms(10)
    by (simp add: claim_request_routed [OF assms(4-7)])
  then show ?thesis
    by (intro exI [of _ "snd (claim_dht sv ce i a None w)"])
      (simp add: prod_eq_iff claim_dht_reply claim_dht_docs(2) [OF assms(1)], simp add: assigned_state_def)
qed

subsection \<open>Finish reports\<close>

lemma finish_request_routed:
  assumes "plain_seg i" "requireAuth (sv_env sv) (finish_request i a tok st mets err auth)" "0 < sint tok"
    and "Finish (ce_db ce) i a tok (ToLower st = ''succeeded'') [] [] (JObj mets) (w_db w) = (None, db')"
  shows "mountHTTP sv ce (finish_request i a tok st mets err auth) w =
    (Resp 204 NoBody, w\<lparr>w_db := db',
       w_dht := finish_dht (sv_dht sv) (sv_ns sv) i (ToLower st = ''succeeded'') (ce_now ce 0) (w_dht w)\<rparr>)"
proof -
  let ?r = "finish_request i a tok st mets err auth"
  have p: "rq_path ?r = ''/jobs/'' @ i @ ''/finish''" by (simp add: finish_request_def)
  have m: "mountHTTP sv ce ?r w = jobs_sub sv ce ?r w"
    by (rule mount_jobs_sub [OF assms(1), of "''finish''"]) (simp_all add: p plain_seg_def)
  have s: "HasSuffix (rq_path ?r) ''/finish''" "\<not> HasSuffix (rq_path ?r) ''/manifest''"
    using HasSuffix_append [of "''/jobs/'' @ i" "''/finish''"] by (simp_all add: p HasSuffix_iff)
  have rt: "route3 ''jobs'' ''finish'' (rq_path ?r) = Some i"
    using route3_path [of i "''jobs''" "''finish''"] assms(1) by (simp add: p plain_seg_def)
  have b: "unmarshal zero_finish_in dec_finish_in (rq_body ?r) =
      (\<lparr>fi_Status = st, fi_Metrics = mets, fi_Artifacts = [], fi_ResultCID = [], fi_Error = err\<rparr>, None)"
    by (simp add: finish_request_def unmarshal_def dec_finish_in_def set_finish_in_def zero_finish_in_def omit_def)
  have h: "rq_header ?r ''X-Agent-ID'' = a" "token_of (rq_header ?r ''X-Lease-Token'') = tok" "rq_method ?r = ''POST''"
    using assms(3) ParseUint_fmt_d [of tok] by (simp_all add: finish_request_def json_header_def agent_header_def token_of_def fmt_d_def)
  have "jobs_sub sv ce ?r w = finishHandler sv ce ?r w" using s by (simp add: jobs_sub_def)
  with m rt b h assms(2,4) show ?thesis by (simp add: finishHandler_def)
qed

lemma finish_dht_reads:
  assumes "dht_up c view"
  shows "state_of (doc c view (finish_dht c ns i succ now d) (KeyState i)) =
      finished_state succ now (state_of (doc c view d (KeyState i)))"
    "lease_of (doc c view (finish_dht c ns i succ now d) (KeyLease i)) = zero_lease"
    "doc c view (finish_dht c ns i succ now d) (keyTaskAd ns i) = Some (Doc (JObj []))"
    "doc c view (finish_dht c ns i succ now d) (keyP2PManifestMirror i) = Some (Doc (JObj []))"
  by (simp_all add: finish_dht_docs [OF assms] read_as_Doc dec_lease_def)

lemma finished_state_status: "ts_Status (finished_state succ now st) = finish_status succ"
  by (simp add: finished_state_def finish_status_def StatusSucceeded_def StatusFailed_def)

text \<open>C18: the finish report of the lease holder. With a token that is not older than the row's, the
  report is recorded: the row has the outcome and the metrics and no lease, the DHT state has the
  same outcome, and the DHT lease, advertisement and mirror documents are emptied.\<close>

theorem http_finish_recorded:
  assumes "dht_up (sv_dht sv) view" "db_ok (w_db w)" "db_up (ce_db ce)"
    and "plain_seg i" "requireAuth (sv_env sv) (finish_request i a tok st mets err auth)" "0 < sint tok"
    and "row_of (w_db w) i = Some row" "r_lease_agent row = Some a" "sint (r_lease_token row) \<le> sint tok"
  shows "\<exists>w' row'. mountHTTP sv ce (finish_request i a tok st mets err auth) w = (Resp 204 NoBody, w') \<and>
    row_of (w_db w') i = Some row' \<and> r_lease_agent row' = None \<and> r_lease_expires_at row' = None \<and>
    r_status row' = finish_status (ToLower st = ''succeeded'') \<and> r_metrics row' = Some (JObj mets) \<and>
    ts_Status (state_of (docs sv view w' (KeyState i))) = r_status row' \<and>
    lease_of (docs sv view w' (KeyLease i)) = zero_lease \<and>
    docs sv view w' (keyTaskAd (sv_ns sv) i) = Some (Doc (JObj [])) \<and>
    docs sv view w' (keyP2PManifestMirror i) = Some (Doc (JObj []))"
proof -
  let ?succ = "ToLower st = ''succeeded''"
  let ?row' = "row\<lparr>r_status := finish_status ?succ, r_result_root_cid := Some [],
        r_artifacts := Some (toJSON (Some (enc_strs []))), r_metrics := Some (toJSON (Some (JObj mets))),
        r_lease_agent := None, r_lease_expires_at := None\<rparr>"
  have f: "Finish (ce_db ce) i a tok ?succ [] [] (JObj mets) (w_db w) = (None, put_row ?row' (w_db w))"
    by (rule Finish_holder [OF assms(2,3,7)]) (simp_all add: assms(8,9))
  have "row_of (put_row ?row' (w_db w)) i = Some ?row'"
    using assms(7) row_of_SomeD [OF assms(7)] by (simp add: row_of_put_row)
  then show ?thesis
    unfolding finish_request_routed [OF assms(4-6) f]
    by (simp add: finish_dht_reads [OF assms(1)] finished_state_status toJSON_def)
qed

text \<open>C38: the finish report of an agent that lost its lease. The database ignores it, as the fencing
  token demands, but the server does not notice: it answers success, marks the job finished in
  the DHT and erases the lease, advertisement and mirror documents of the agent that now runs
  the job.\<close>

theorem http_finish_stale:
  assumes "dht_up (sv_dht sv) view" "db_ok (w_db w)" "db_up (ce_db ce)"
    and "plain_seg i" "requireAuth (sv_env sv) (finish_request i a tok st mets err auth)" "0 < sint tok"
    and "row_of (w_db w) i = Some row" "r_lease_agent row = Some b" "b \<noteq> a \<or> sint tok < sint (r_lease_token row)"
  shows "\<exists>w'. mountHTTP sv ce (finish_request i a tok st mets err auth) w = (Resp 204 NoBody, w') \<and>
    w_db w' = w_db w \<and>
    ts_Status (state_of (docs sv view w' (KeyState i))) = finish_status (ToLower st = ''succeeded'') \<and>
    lease_of (docs sv view w' (KeyLease i)) = zero_lease \<and>
    docs sv view w' (keyTaskAd (sv_ns sv) i) = Some (Doc (JObj [])) \<and>
    docs sv view w' (keyP2PManifestMirror i) = Some (Doc (JObj []))"
proof -
  let ?succ = "ToLower st = ''succeeded''"
  have f: "Finish (ce_db ce) i a tok ?succ [] [] (JObj mets) (w_db w) = (None, w_db w)"
    by (rule Finish_stale [OF assms(2,3,7)]) (use assms(8,9) in auto)
  then show ?thesis
    unfolding finish_request_routed [OF assms(4-6) f]
    by (simp add: finish_dht_reads [OF assms(1)] finished_state_status)
qed

subsection \<open>Heartbeats\<close>

lemma heartbeat_request_routed:
  assumes "plain_seg i" "requireAuth (sv_env sv) (heartbeat_request i a nonce n ver auth)" "in_i64 n" "0 < sint ver"
  shows "mountHTTP sv ce (heartbeat_request i a nonce n ver auth) w =
    (let (err, db') = Heartbeat (ce_db ce) i a ver (ttlOrDefault n) (w_db w); w1 = w\<lparr>w_db := db'\<rparr>
     in case err of
          Some e \<Rightarrow> (httpError (''heartbeat failed: '' @ err_text e) 409, w1)
        | None \<Rightarrow>
            (let c = sv_dht sv;
                 ((cur, _), d1) = GetJSON c zero_lease dec_lease (KeyLease i) (2 * second) (w_dht w1);
                 d2 = snd (PutJSON c (KeyLease i) (enc_lease (renewed_lease a (ce_now ce 0 + ttlOrDefault n) cur)) d1)
             in (writeJSON 200 (JObj [(''ok'', JBool True)]), w1\<lparr>w_dht := d2\<rparr>)))"
proof -
  let ?r = "heartbeat_request i a nonce n ver auth"
  have p: "rq_path ?r = ''/api/tasks/'' @ i @ ''/heartbeat''" "rq_method ?r = ''POST''"
    by (simp_all add: heartbeat_request_def)
  have m: "mountHTTP sv ce ?r w = tasks_sub sv ce ?r w"
    by (rule mount_tasks_sub [OF assms(1), of "''heartbeat''"]) (simp_all add: p plain_seg_def)
  have s: "HasSuffix (rq_path ?r) ''/heartbeat''" "\<not> HasSuffix (rq_path ?r) ''/try-claim''"
    using HasSuffix_append [of "''/api/tasks/'' @ i" "''/heartbeat''"] by (simp_all add: p HasSuffix_iff)
  have rt: "route4 ''api'' ''tasks'' ''heartbeat'' (rq_path ?r) = Some i"
    using route4_path [of i "''api''" "''tasks''" "''heartbeat''"] assms(1) by (simp add: p plain_seg_def)
  have b: "unmarshal zero_hb_in dec_hb_in (rq_body ?r) =
      (\<lparr>hb_AgentID = a, hb_Nonce = nonce, hb_TTLSec = n, hb_LeaseVersion = ver\<rparr>, None)"
    using assms(3) by (simp add: heartbeat_request_def unmarshal_def dec_hb_in_def set_hb_in_def zero_hb_in_def)
  have t: "hb_token \<lparr>hb_AgentID = a, hb_Nonce = nonce, hb_TTLSec = n, hb_LeaseVersion = ver\<rparr> ?r = ver" "ver \<noteq> 0"
    using assms(4) by (auto simp: hb_token_def)
  have h: "tasks_sub sv ce ?r w = heartbeatHandler sv ce ?r w" using s p by (simp add: tasks_sub_def)
  obtain err db' where "Heartbeat (ce_db ce) i a ver (ttlOrDefault n) (w_db w) = (err, db')" by fastforce
  then show ?thesis
    unfolding m h heartbeatHandler_def using rt b t assms(2) by (cases err) (simp_all add: Let_def split_beta)
qed

text \<open>The heartbeat of the holder. The database extends the lease by its own clock and keeps the
  token; the DHT lease document is renewed by the server's clock, and its version is counted up,
  so after a heartbeat the version in the DHT is no longer the fencing token.\<close>

lemma http_heartbeat_renews:
  assumes "dht_up (sv_dht sv) view" "db_ok (w_db w)" "db_up (ce_db ce)"
    and "plain_seg i" "requireAuth (sv_env sv) (heartbeat_request i a nonce n (r_lease_token row) auth)"
    and "in_i64 n" "0 < sint (r_lease_token row)"
    and "row_of (w_db w) i = Some row" "r_lease_agent row = Some a"
  shows "\<exists>w'. mountHTTP sv ce (heartbeat_request i a nonce n (r_lease_token row) auth) w =
      (Resp 200 (JsonBody (JObj [(''ok'', JBool True)])), w') \<and>
    row_of (w_db w') i = Some (row\<lparr>r_lease_expires_at := Some (stmt_now (ce_db ce) 0 + ttlOrDefault n),
      r_status := ''running''\<rparr>) \<and>
    lease_of (docs sv view w' (KeyLease i)) =
      (lease_of (docs sv view w (KeyLease i)))\<lparr>tl_Owner := a, tl_Expires := ce_now ce 0 + ttlOrDefault n,
        tl_Version := tl_Version (lease_of (docs sv view w (KeyLease i))) + 1\<rparr>"
proof -
  let ?row' = "row\<lparr>r_lease_expires_at := Some (stmt_now (ce_db ce) 0 + ttlOrDefault n), r_status := ''running''\<rparr>"
  have h: "Heartbeat (ce_db ce) i a (r_lease_token row) (ttlOrDefault n) (w_db w) = (None, put_row ?row' (w_db w))"
    using Heartbeat_holder [OF assms(2,3,8,9), of "ttlOrDefault n"] by (simp add: seconds_ttlOrDefault)
  have "row_of (put_row ?row' (w_db w)) i = Some ?row'"
    using assms(8) row_of_SomeD [OF assms(8)] by (simp add: row_of_put_row)
  then show ?thesis
    unfolding heartbeat_request_routed [OF assms(4-7)] h
    by (simp add: http_defs Let_def split_beta dht_up.PutJSON_put [OF assms(1)]
        dht_net.GetJSON_value [OF dht_up.axioms(1) [OF assms(1)]] renewed_lease_def)
qed

text \<open>The heartbeat of anybody else, or with another token than the row's, is answered with a
  conflict, and neither the database nor the DHT changes.\<close>

lemma http_heartbeat_refused:
  assumes "db_ok (w_db w)" "db_up (ce_db ce)"
    and "plain_seg i" "requireAuth (sv_env sv) (heartbeat_request i a nonce n ver auth)" "in_i64 n" "0 < sint ver"
    and "\<And>row. row_of (w_db w) i = Some row \<Longrightarrow> r_lease_agent row \<noteq> Some a \<or> r_lease_token row \<noteq> ver"
  shows "mountHTTP sv ce (heartbeat_request i a nonce n ver auth) w =
    (Resp 409 (Plain ''heartbeat failed: fencing token mismatch''), w)"
  using Heartbeat_other [where tok = ver and ttl = "ttlOrDefault n", OF assms(1,2,7)]
  by (simp add: heartbeat_request_routed [OF assms(3-6)] http_defs)

subsection \<open>Examples\<close>

lemma sample_server_up: "dht_up (sv_dht sample_server) (\<lambda>m. m)"
  using solo_dht_up [of "''mc''"] by (simp add: sample_server_def)

lemma sample_call_up: "db_up (ce_db sample_call)"
  by (simp add: sample_call_def)

lemma sample_auth:
  "requireAuth (sv_env sample_server) (claim_request i a n ''Bearer s'')"
  "requireAuth (sv_env sample_server) (heartbeat_request i a nonce n ver ''Bearer s'')"
  "requireAuth (sv_env sample_server) (finish_request i a tok st mets err ''Bearer s'')"
  by (simp_all add: requireAuth_def sample_server_def claim_request_def heartbeat_request_def finish_request_def
      json_header_def agent_header_def)

lemma sample_world_ok:
  "db_ok (w_db (sample_world sample_db))" "row_of (w_db (sample_world sample_db)) ''q'' = Some sample_queued"
  "row_of (w_db (sample_world sample_db)) ''r'' = Some sample_running"
  by (simp_all add: sample_world_def sample_ok sample_row_of)

lemma sample_segs: "plain_seg ''q''" "plain_seg ''r''" "in_i64 15"
  by (simp_all add: plain_seg_def in_i64_def)


theorem http_claim_granted_witness:
  "\<exists>l w'. mountHTTP sample_server sample_call (claim_request ''q'' ''A'' 15 ''Bearer s'') (sample_world sample_db) =
      (Resp 200 (JsonBody (enc_lease_out \<lparr>lo_OK = True, lo_Lease = l\<rparr>)), w') \<and> sint (tl_Version l) = 1"
proof -
  have "r_status sample_queued = ''queued''" "sint (r_lease_token sample_queued) < 2 ^ 63 - 1"
    "sint (r_lease_token sample_queued) = 0" by (simp_all add: sample_simps)
  with http_claim_granted [OF sample_server_up sample_world_ok(1) sample_call_up sample_segs(1) sample_auth(1)
      sample_segs(3) _ sample_world_ok(2), of "''A''"]
  show ?thesis by auto
qed

theorem http_claim_panics_witness:
  "\<exists>w'. mountHTTP sample_server sample_call (claim_request ''r'' ''B'' 15 ''Bearer s'') (sample_world sample_db) = (Panic, w') \<and>
     ts_AssignedTo (state_of (docs sample_server (\<lambda>m. m) w' (KeyState ''r''))) = ''B''"
proof -
  have "r_status sample_running \<noteq> ''queued''" "no_manifest sample_running"
    by (simp_all add: no_manifest_def) (simp_all add: sample_simps)
  with http_claim_panics [OF sample_server_up sample_world_ok(1) sample_call_up sample_segs(2) sample_auth(1)
      sample_segs(3) _ sample_world_ok(3), of "''B''"]
  show ?thesis by auto
qed

lemma sample_busy_ok:
  "db_ok (w_db (sample_world [sample_busy]))" "row_of (w_db (sample_world [sample_busy])) ''r'' = Some sample_busy"
  "r_status sample_busy \<noteq> ''queued''" "\<not> no_manifest sample_busy"
  by (simp_all add: db_ok_def row_ok_def row_of_def no_manifest_def sample_world_def sample_busy_def sample_simps)

lemma http_claim_refused_witness:
  "mountHTTP sample_server sample_call (claim_request ''r'' ''B'' 15 ''Bearer s'') (sample_world [sample_busy]) =
     (Resp 200 (JsonBody (enc_lease_out \<lparr>lo_OK = False, lo_Lease = zero_lease\<rparr>)), sample_world [sample_busy])"
  using http_claim_refused [OF sample_busy_ok(1) sample_call_up sample_segs(2) sample_auth(1) sample_segs(3) _
    sample_busy_ok(2-4), of "''B''"] by simp

lemma sample_running_simps:
  "r_lease_agent sample_running = Some ''A''" "r_lease_token sample_running = 3" "0 < sint (3 :: i64)"
  by (simp_all add: sample_simps)

theorem http_finish_recorded_witness:
  "\<exists>w' row'. mountHTTP sample_server sample_call (finish_request ''r'' ''A'' 3 ''succeeded'' [] [] ''Bearer s'')
       (sample_world sample_db) = (Resp 204 NoBody, w') \<and>
     row_of (w_db w') ''r'' = Some row' \<and> r_lease_agent row' = None"
  using http_finish_recorded [OF sample_server_up sample_world_ok(1) sample_call_up sample_segs(2) sample_auth(3)
    sample_running_simps(3) sample_world_ok(3) sample_running_simps(1), of "''succeeded''" "[]" "[]"]
  by (auto simp: sample_running_simps)

theorem http_finish_stale_witness:
  "\<exists>w'. mountHTTP sample_server sample_call (finish_request ''r'' ''B'' 3 ''failed'' [] ''boom'' ''Bearer s'')
       (sample_world sample_db) = (Resp 204 NoBody, w') \<and>
     w_db w' = sample_db \<and> ts_Status (state_of (docs sample_server (\<lambda>m. m) w' (KeyState ''r''))) = ''failed''"
proof -
  have "ToLower ''failed'' \<noteq> ''succeeded''" by code_simp
  with http_finish_stale [OF sample_server_up sample_world_ok(1) sample_call_up sample_segs(2) sample_auth(3)
      sample_running_simps(3) sample_world_ok(3) sample_running_simps(1), of "''B''" "''failed''" "[]" "''boom''"]
  show ?thesis by (auto simp: sample_world_def finish_status_def)
qed

lemma http_heartbeat_renews_witness:
  "\<exists>w'. mountHTTP sample_server sample_call (heartbeat_request ''r'' ''A'' [] 15 3 ''Bearer s'') (sample_world sample_db) =
     (Resp 200 (JsonBody (JObj [(''ok'', JBool True)])), w') \<and>
     tl_Version (lease_of (docs sample_server (\<lambda>m. m) w' (KeyLease ''r''))) =
       tl_Version (lease_of (docs sample_server (\<lambda>m. m) (sample_world sample_db) (KeyLease ''r''))) + 1"
  using http_heartbeat_renews [OF sample_server_up sample_world_ok(1) sample_call_up sample_segs(2) sample_auth(2)
    sample_segs(3) _ sample_world_ok(3) sample_running_simps(1), of "[]"]
  by (auto simp: sample_running_simps)

lemma http_heartbeat_refused_witness:
  "mountHTTP sample_server sample_call (heartbeat_request ''r'' ''B'' [] 15 3 ''Bearer s'') (sample_world sample_db) =
     (Resp 409 (Plain ''heartbeat failed: fencing token mismatch''), sample_world sample_db)"
  by (rule http_heartbeat_refused [OF sample_world_ok(1) sample_call_up sample_segs(2) sample_auth(2) sample_segs(3)
    sample_running_simps(3)]) (simp add: sample_world_ok sample_running_simps)

end
