(* ===== verification/Control_Publish.thy ===== *)
theory Control_Publish
  imports Control_Safety
begin

text \<open>
  Publishing through the control server: which manifests it accepts, what creating a task and
  attaching a manifest leave in the database, the DHT and the announce queue, that the secret of
  a manifest is never shown, and the route that can never succeed.
\<close>

definition manifest_request :: "string \<Rightarrow> manifest \<Rightarrow> string \<Rightarrow> request" where
  "manifest_request i m auth =
     \<lparr>rq_method = ''POST'', rq_path = ''/jobs/'' @ i @ ''/manifest'', rq_query = (\<lambda>_. []),
      rq_header = json_header auth [] [], rq_body = Doc (enc_manifest m)\<rparr>"

definition get_request :: "string \<Rightarrow> string \<Rightarrow> request" where
  "get_request i auth =
     \<lparr>rq_method = ''GET'', rq_path = ''/api/tasks/'' @ i, rq_query = (\<lambda>_. []),
      rq_header = agent_header auth [] [], rq_body = Raw []\<rparr>"

definition create_request :: "string \<Rightarrow> string \<Rightarrow> string list \<Rightarrow> string \<Rightarrow> request" where
  "create_request i img cmd auth =
     \<lparr>rq_method = ''POST'', rq_path = ''/api/tasks'', rq_query = (\<lambda>_. []),
      rq_header = json_header auth [] [],
      rq_body = Doc (JObj [(''id'', JStr i), (''image'', JStr img), (''command'', enc_strs cmd)])\<rparr>"

text \<open>What the server demands of a provider and of a manifest.\<close>

definition good_provider :: "'n server \<Rightarrow> provider \<Rightarrow> bool" where
  "good_provider sv p \<longleftrightarrow>
     pv_PeerID p \<noteq> [] \<and> sv_peer sv (pv_PeerID p) = None \<and> pv_Addrs p \<noteq> [] \<and>
     (\<forall>a\<in>set (pv_Addrs p). sv_maddr sv a \<and> \<not> HasPrefix a ''http://'' \<and> \<not> HasPrefix a ''https://'')"

definition good_manifest :: "'n server \<Rightarrow> manifest \<Rightarrow> bool" where
  "good_manifest sv m \<longleftrightarrow>
     mf_RootCID m \<noteq> [] \<and> (\<forall>t\<in>set (mf_Transports m). ToLower t \<in> {''quic-v1'', ''webrtc''}) \<and>
     (\<forall>p\<in>set (mf_Providers m). good_provider sv p)"

text \<open>Two worlds that agree on everything but the secrets of their manifests.\<close>

definition same_but_secret :: "'n server \<Rightarrow> ('n \<Rightarrow> string \<rightharpoonup> payload) \<Rightarrow> 'n world \<Rightarrow> 'n world \<Rightarrow> bool" where
  "same_but_secret sv view w w' \<longleftrightarrow>
     w_db w = w_db w' \<and>
     (\<forall>k. docs sv view w k = docs sv view w' k \<or>
        (\<exists>i m s. k = KeyManifest i \<and> docs sv view w k = Some (Doc (enc_manifest m)) \<and>
           docs sv view w' k = Some (Doc (enc_manifest (m\<lparr>mf_EncMeta := s\<rparr>)))))"

abbreviation manifest_at :: "payload option \<Rightarrow> manifest" where
  "manifest_at \<equiv> read_as zero_manifest dec_manifest"

definition shown_manifest :: "payload option \<Rightarrow> manifest_out option" where
  "shown_manifest v =
     (if readable zero_manifest dec_manifest v \<and> mf_RootCID (manifest_at v) \<noteq> []
      then Some (out_of_manifest (manifest_at v)) else None)"

abbreviation index_at :: "payload option \<Rightarrow> task_index" where
  "index_at \<equiv> read_as zero_index dec_index"

text \<open>The world after a task has been created.\<close>

definition created_world :: "'n server \<Rightarrow> callenv \<Rightarrow> string \<Rightarrow> string \<Rightarrow> string list \<Rightarrow> 'n world \<Rightarrow> 'n world" where
  "created_world sv ce i img cmd w =
     (let now = ce_now ce 0;
          d1 = snd (PutJSON (sv_dht sv) (KeyMeta i) (enc_meta (new_meta i img cmd now)) (w_dht w));
          d2 = snd (PutJSON (sv_dht sv) (KeyState i) (enc_state (queued_state i now)) d1);
          d3 = snd (addToIndex (sv_dht sv) (sv_ns sv) i (ce_shard ce) (ce_now ce 1) d2)
      in enqueue i (w\<lparr>w_db := (if row_of (w_db w) i = None then w_db w @ [new_row (new_job i img cmd now) (stmt_now (ce_db ce) 0)]
           else w_db w), w_dht := d3\<rparr>))"

text \<open>A manifest for the examples.\<close>

definition sample_manifest :: manifest where
  "sample_manifest = zero_manifest\<lparr>mf_RootCID := ''cid'', mf_Transports := [''QUIC-v1''],
     mf_Providers := [\<lparr>pv_PeerID = ''p'', pv_Addrs = [''/ip4/10.0.0.1/tcp/4001''], pv_Relays = [], pv_Caps = []\<rparr>],
     mf_EncMeta := ''k''\<rparr>"

subsection \<open>Validation\<close>

lemma validate_addrs_None:
  "validate_addrs maddr as = None \<longleftrightarrow>
     (\<forall>a\<in>set as. maddr a \<and> \<not> HasPrefix a ''http://'' \<and> \<not> HasPrefix a ''https://'')"
  by (induction as) auto

lemma validateProvider_None: "validateProvider (sv_peer sv) (sv_maddr sv) p = None \<longleftrightarrow> good_provider sv p"
  by (auto simp: validateProvider_def good_provider_def validate_addrs_None split: option.splits)

lemma validate_providers_None:
  "validate_providers (sv_peer sv) (sv_maddr sv) n ps = None \<longleftrightarrow> (\<forall>p\<in>set ps. good_provider sv p)"
  by (induction ps arbitrary: n) (auto simp: validateProvider_None [symmetric] split: option.splits)

lemma validateTransports_None:
  "validateTransports ts = None \<longleftrightarrow> (\<forall>t\<in>set ts. ToLower t \<in> {''quic-v1'', ''webrtc''})"
  by (induction ts) (auto simp: allowedTransports_def)

lemma manifest_invalid_None: "manifest_invalid (sv_peer sv) (sv_maddr sv) m = None \<longleftrightarrow> good_manifest sv m"
  using validateTransports_None [of "mf_Transports m"] validate_providers_None [of sv 0 "mf_Providers m"]
  by (auto simp: manifest_invalid_def good_manifest_def split: option.splits)

lemma manifest_request_routed:
  assumes "plain_seg i" "requireAuth (sv_env sv) (manifest_request i m auth)"
  shows "mountHTTP sv ce (manifest_request i m auth) w =
    (case manifest_invalid (sv_peer sv) (sv_maddr sv) m of
       Some e \<Rightarrow> (httpError e 400, w) | None \<Rightarrow> store_manifest sv ce i m w)"
proof -
  let ?r = "manifest_request i m auth"
  have p: "rq_path ?r = ''/jobs/'' @ i @ ''/manifest''" by (simp add: manifest_request_def)
  have r: "mountHTTP sv ce ?r w = jobs_sub sv ce ?r w"
    by (rule mount_jobs_sub [OF assms(1), of "''manifest''"]) (simp_all add: p plain_seg_def)
  have s: "HasSuffix (rq_path ?r) ''/manifest''"
    using HasSuffix_append [of "''/jobs/'' @ i" "''/manifest''"] by (simp add: p)
  have rt: "route3 ''jobs'' ''manifest'' (rq_path ?r) = Some i"
    using route3_path [of i "''jobs''" "''manifest''"] assms(1) by (simp add: p plain_seg_def)
  have b: "unmarshal zero_manifest dec_manifest (rq_body ?r) = (m, None)"
    by (simp add: manifest_request_def unmarshal_Doc)
  show ?thesis using r s rt b assms(2) by (simp add: jobs_sub_def manifestHandler_def)
qed

text \<open>A manifest that does not meet the demands is answered with status 400 and changes nothing:
  a root is required, every transport must be QUIC v1 or WebRTC in some capitalization, and every
  provider needs a valid peer id and valid multiaddresses that are not HTTP URLs.\<close>

lemma http_manifest_rejected:
  assumes "plain_seg i" "requireAuth (sv_env sv) (manifest_request i m auth)" "\<not> good_manifest sv m"
  shows "\<exists>e. mountHTTP sv ce (manifest_request i m auth) w = (Resp 400 (Plain e), w)"
  using assms(3) manifest_invalid_None [of sv m]
  by (auto simp: manifest_request_routed [OF assms(1,2)] http_defs)

lemma get_request_reply:
  assumes "dht_up (sv_dht sv) view" "db_ok (w_db w)" "db_up (ce_db ce)"
    and "plain_seg i" "i \<noteq> ''logs''" "requireAuth (sv_env sv) (get_request i auth)" "row_of (w_db w) i = Some row"
  shows "fst (mountHTTP sv ce (get_request i auth) w) =
    Resp 200 (JsonBody (task_view (job_of_row row) (shown_manifest (docs sv view w (KeyManifest i)))))"
proof -
  let ?r = "get_request i auth"
  have p: "rq_path ?r = ''/api/tasks/'' @ i" "rq_method ?r = ''GET''" by (simp_all add: get_request_def)
  have "CHR ''/'' \<notin> set i" using assms(4) by (simp add: plain_seg_def)
  then have "\<not> HasSuffix (rq_path ?r) ''/logs''"
    using last_seg_suffix [of i "''logs''" "''/api/tasks''"] assms(5) by (simp add: p)
  then have "mountHTTP sv ce ?r w = getTaskHandler sv ce ?r w"
    using mount_task [OF assms(4) p(1)] by (simp add: tasks_sub_def p)
  moreover have "TrimPrefix (rq_path ?r) ''/api/tasks/'' = i" using TrimPrefix_append [of "''/api/tasks/''" i] by (simp add: p)
  moreover have "i \<noteq> []" using assms(4) by (simp add: plain_seg_def)
  moreover have "GetJob 0 (ce_db ce) i (w_db w) = Inr (job_of_row row)"
    by (simp add: GetJob_up [OF db_ok_distinct [OF assms(2)] assms(3)] assms(7))
  ultimately show ?thesis
    using assms(6)
    by (simp add: getTaskHandler_def p Let_def split_beta http_defs shown_manifest_def
        dht_net.GetJSON_value [OF dht_up.axioms(1) [OF assms(1)]])
qed

lemma AttachManifest_up:
  assumes "db_ok db" "db_up e" "row_of db i = Some r"
  shows "AttachManifest e i m db = (None, put_row (r\<lparr>r_manifest_root_cid := Some (lm_RootCID m),
     r_manifest_providers := Some (toJSON (Some (enc_strs (lm_Providers m)))),
     r_manifest_enc_meta := Some (lm_EncMeta m)\<rparr>) db)"
proof -
  have "sql_update (id_is i) (attach_set m) db = (Inr [the (attach_set m r)], put_row (the (attach_set m r)) db)"
    using assms(3) row_of_SomeD [OF assms(3)]
    by (subst sql_update_point [OF db_ok_distinct [OF assms(1)], where i = i]) auto
  then show ?thesis by (simp add: AttachManifest_def db_up_simps [OF assms(2)])
qed

text \<open>C19: an accepted manifest of a known job is published everywhere: it is the DHT manifest (stamped
  with the server's time if it has none), its providers are the mirror, its root is in the row, and
  the job is queued for announcement. Reading the task afterwards shows exactly this manifest.\<close>

theorem http_manifest_published:
  assumes "dht_up (sv_dht sv) view" "db_ok (w_db w)" "db_up (ce_db ce)"
    and "plain_seg i" "requireAuth (sv_env sv) (manifest_request i m auth)" "good_manifest sv m"
    and "row_of (w_db w) i = Some row"
  shows "\<exists>w' row'. mountHTTP sv ce (manifest_request i m auth) w = (Resp 204 NoBody, w') \<and>
    docs sv view w' (KeyManifest i) = Some (Doc (enc_manifest (stamped (ce_now ce 0) m))) \<and>
    docs sv view w' (keyP2PManifestMirror i) =
      Some (Doc (enc_mirror \<lparr>mm_Providers = mf_Providers m, mm_Exp = ce_now ce 1 + 120 * second\<rparr>)) \<and>
    row_of (w_db w') i = Some row' \<and> r_manifest_root_cid row' = Some (mf_RootCID m) \<and> \<not> no_manifest row' \<and>
    r_status row' = r_status row \<and> i \<in> set (am_dirty (w_mgr w')) \<and>
    (i \<noteq> ''logs'' \<longrightarrow> requireAuth (sv_env sv) (get_request i auth) \<longrightarrow>
       fst (mountHTTP sv ce (get_request i auth) w') =
         Resp 200 (JsonBody (task_view (job_of_row row') (Some (out_of_manifest (stamped (ce_now ce 0) m))))))"
proof -
  let ?lm = "\<lparr>lm_RootCID = mf_RootCID m, lm_Providers = providerIDs (mf_Providers m), lm_EncMeta = mf_EncMeta m\<rparr>"
  let ?row' = "row\<lparr>r_manifest_root_cid := Some (mf_RootCID m),
     r_manifest_providers := Some (toJSON (Some (enc_strs (providerIDs (mf_Providers m))))),
     r_manifest_enc_meta := Some (mf_EncMeta m)\<rparr>"
  note [simp] = dht_up.PutJSON_ok [OF assms(1)] dht_up.PutJSON_put [OF assms(1)]
  have a: "AttachManifest (ce_db ce) i ?lm (w_db w) = (None, put_row ?row' (w_db w))"
    using AttachManifest_up [OF assms(2,3,7), of ?lm] by simp
  have m: "mountHTTP sv ce (manifest_request i m auth) w = store_manifest sv ce i m w"
    using assms(6) manifest_invalid_None [of sv m] by (simp add: manifest_request_routed [OF assms(4,5)])
  let ?w' = "snd (store_manifest sv ce i m w)"
  have row: "row_of (w_db ?w') i = Some ?row'"
    using assms(7) row_of_SomeD [OF assms(7)]
    by (simp add: store_manifest_def Let_def split_beta a row_of_put_row enqueue_def)
  have man: "docs sv view ?w' (KeyManifest i) = Some (Doc (enc_manifest (stamped (ce_now ce 0) m)))"
    by (simp add: store_manifest_def Let_def split_beta a enqueue_def)
  have root: "mf_RootCID m \<noteq> []" using assms(6) by (simp add: good_manifest_def)
  have "db_ok (w_db ?w')"
    using AttachManifest_ok [OF assms(2), of "ce_db ce" i ?lm] by (simp add: store_manifest_def Let_def split_beta a enqueue_def)
  from get_request_reply [OF assms(1) this assms(3,4) _ _ row, of auth] man root
  have g: "i \<noteq> ''logs'' \<Longrightarrow> requireAuth (sv_env sv) (get_request i auth) \<Longrightarrow>
      fst (mountHTTP sv ce (get_request i auth) ?w') =
      Resp 200 (JsonBody (task_view (job_of_row ?row') (Some (out_of_manifest (stamped (ce_now ce 0) m)))))"
    by (simp add: shown_manifest_def read_as_Doc readable_Doc) (simp add: stamped_def)
  show ?thesis
    by (rule exI [of _ ?w'], rule exI [of _ ?row'], unfold m)
      (use g row man root in \<open>simp add: prod_eq_iff, simp add: store_manifest_def Let_def split_beta a enqueue_def
        Enqueue_def no_manifest_def stamped_def\<close>)
qed

subsection \<open>Creating a task\<close>

lemma CreateJob_up:
  assumes "db_up e"
  shows "CreateJob e job db = (None, if row_of db (j_ID job) = None then db @ [new_row job (stmt_now e 0)] else db)"
  by (force simp: CreateJob_def db_up_simps [OF assms] sql_insert_job_def row_of_None_iff list_ex_iff)

lemma addToIndex_docs:
  assumes "dht_up c view"
  shows "fst (addToIndex c ns i shard now d) = None"
    and "i \<in> set (ix_IDs (index_at (doc c view (snd (addToIndex c ns i shard now d)) (KeyIndexShard ns shard))))"
    and "set (ix_IDs (index_at (doc c view d (KeyIndexShard ns shard)))) \<subseteq>
      set (ix_IDs (index_at (doc c view (snd (addToIndex c ns i shard now d)) (KeyIndexShard ns shard))))"
    and "k \<noteq> KeyIndexShard ns shard \<Longrightarrow> doc c view (snd (addToIndex c ns i shard now d)) k = doc c view d k"
  by (auto simp: addToIndex_def Let_def split_beta dht_up.PutJSON_ok [OF assms] dht_up.PutJSON_put [OF assms]
      dht_net.GetJSON_value [OF dht_up.axioms(1) [OF assms]] dht_net.GetJSON_frame [OF dht_up.axioms(1) [OF assms]]
      read_as_Doc)

lemma create_request_routed:
  assumes "requireAuth (sv_env sv) (create_request i img cmd auth)" "i \<noteq> []"
  shows "mountHTTP sv ce (create_request i img cmd auth) w =
    (case CreateJob (ce_db ce) (new_job i img cmd (ce_now ce 0)) (w_db w) of
       (Some e, db') \<Rightarrow> (httpError (''db create failed: '' @ err_text e) 500, w\<lparr>w_db := db'\<rparr>)
     | (None, db') \<Rightarrow> publish_task sv ce \<lparr>cr_ID = i, cr_Image = img, cr_Command = cmd\<rparr> (ce_now ce 0) (w\<lparr>w_db := db'\<rparr>))"
proof -
  let ?r = "create_request i img cmd auth"
  have p: "rq_path ?r = ''/api/tasks''" "rq_method ?r = ''POST''" by (simp_all add: create_request_def)
  have b: "unmarshal zero_create_req dec_create_req (rq_body ?r) = (\<lparr>cr_ID = i, cr_Image = img, cr_Command = cmd\<rparr>, None)"
    by (simp add: create_request_def unmarshal_def dec_create_req_def set_create_req_def zero_create_req_def)
  show ?thesis
    unfolding mount_tasks_root [OF p(1)] using p b assms
    by (simp add: tasks_root_def createTaskHandler_def Let_def split_beta split: option.splits prod.splits)
qed

lemma create_request_reply:
  assumes "dht_up (sv_dht sv) view" "db_up (ce_db ce)"
    and "requireAuth (sv_env sv) (create_request i img cmd auth)" "i \<noteq> []"
  shows "mountHTTP sv ce (create_request i img cmd auth) w =
    (Resp 201 (JsonBody (JObj [(''job_id'', JStr i)])), created_world sv ce i img cmd w)"
  using addToIndex_docs(1) [OF assms(1)]
  by (simp add: create_request_routed [OF assms(3,4)] publish_task_def created_world_def Let_def split_beta http_defs
      CreateJob_up [OF assms(2)] new_job_def dht_up.PutJSON_ok [OF assms(1)])

lemma created_world_docs:
  assumes "dht_up (sv_dht sv) view"
  shows "docs sv view (created_world sv ce i img cmd w) (KeyMeta i) = Some (Doc (enc_meta (new_meta i img cmd (ce_now ce 0))))"
    "docs sv view (created_world sv ce i img cmd w) (KeyState i) = Some (Doc (enc_state (queued_state i (ce_now ce 0))))"
    "insert i (set (ix_IDs (index_at (docs sv view w (KeyIndexShard (sv_ns sv) (ce_shard ce)))))) \<subseteq>
      set (ix_IDs (index_at (docs sv view (created_world sv ce i img cmd w) (KeyIndexShard (sv_ns sv) (ce_shard ce)))))"
    "i \<in> set (am_dirty (w_mgr (created_world sv ce i img cmd w)))"
    "row_of (w_db (created_world sv ce i img cmd w)) i = (case row_of (w_db w) i of
       None \<Rightarrow> Some (new_row (new_job i img cmd (ce_now ce 0)) (stmt_now (ce_db ce) 0)) | Some r \<Rightarrow> Some r)"
  using addToIndex_docs(2-4) [where i = i and ns = "sv_ns sv" and shard = "ce_shard ce" and now = "ce_now ce 1" and
      d = "snd (PutJSON (sv_dht sv) (KeyState i) (enc_state (queued_state i (ce_now ce 0)))
        (snd (PutJSON (sv_dht sv) (KeyMeta i) (enc_meta (new_meta i img cmd (ce_now ce 0))) (w_dht w))))", OF assms]
  by (simp_all add: created_world_def Let_def enqueue_def Enqueue_def dht_up.PutJSON_put [OF assms]
      row_of_def find_append_absent new_row_def new_job_def split: option.splits)

text \<open>Creating a task publishes it completely. The job is in the database, queued, unless the id
  was taken, in which case its row is left alone; the DHT has the metadata and a queued state of
  version one in either case; the id is in its index shard, along with the ids that were there;
  and the job waits for its announcement.\<close>

lemma http_create_published:
  assumes "dht_up (sv_dht sv) view" "db_up (ce_db ce)"
    and "requireAuth (sv_env sv) (create_request i img cmd auth)" "i \<noteq> []"
  shows "\<exists>w'. mountHTTP sv ce (create_request i img cmd auth) w = (Resp 201 (JsonBody (JObj [(''job_id'', JStr i)])), w') \<and>
    row_of (w_db w') i = (case row_of (w_db w) i of
       None \<Rightarrow> Some (new_row (new_job i img cmd (ce_now ce 0)) (stmt_now (ce_db ce) 0)) | Some r \<Rightarrow> Some r) \<and>
    docs sv view w' (KeyMeta i) = Some (Doc (enc_meta (new_meta i img cmd (ce_now ce 0)))) \<and>
    docs sv view w' (KeyState i) = Some (Doc (enc_state (queued_state i (ce_now ce 0)))) \<and>
    insert i (set (ix_IDs (index_at (docs sv view w (KeyIndexShard (sv_ns sv) (ce_shard ce)))))) \<subseteq>
      set (ix_IDs (index_at (docs sv view w' (KeyIndexShard (sv_ns sv) (ce_shard ce))))) \<and>
    i \<in> set (am_dirty (w_mgr w'))"
  using create_request_reply [OF assms] created_world_docs [OF assms(1)] by simp

subsection \<open>Secrets\<close>

lemma secret_docs:
  assumes "same_but_secret sv view w w'"
  shows "w_db w = w_db w'" "docs sv view w (KeyState i) = docs sv view w' (KeyState i)"
    "docs sv view w (KeyLease i) = docs sv view w' (KeyLease i)" "docs sv view w (KeyWS i) = docs sv view w' (KeyWS i)"
  using assms by (auto simp: same_but_secret_def)

lemma secret_manifest:
  assumes "same_but_secret sv view w w'"
  shows "shown_manifest (docs sv view w (KeyManifest i)) = shown_manifest (docs sv view w' (KeyManifest i))"
proof -
  consider "docs sv view w (KeyManifest i) = docs sv view w' (KeyManifest i)"
    | m s where "docs sv view w (KeyManifest i) = Some (Doc (enc_manifest m))"
      "docs sv view w' (KeyManifest i) = Some (Doc (enc_manifest (m\<lparr>mf_EncMeta := s\<rparr>)))"
    using assms unfolding same_but_secret_def by blast
  then show ?thesis
    by cases (simp_all add: shown_manifest_def read_as_Doc readable_Doc out_of_manifest_def)
qed

lemma get_task_secret:
  assumes "dht_up (sv_dht sv) view" "same_but_secret sv view w w'"
  shows "fst (getTaskHandler sv ce r w) = fst (getTaskHandler sv ce r w')"
proof -
  let ?i = "TrimPrefix (rq_path r) ''/api/tasks/''"
  have "fst (getTaskHandler sv ce r x) =
    (if \<not> requireAuth (sv_env sv) r then httpError ''unauthorized'' 401
     else if rq_method r \<noteq> ''GET'' then httpError ''method not allowed'' 405
     else if ?i = [] then NotFound
     else (case GetJob 0 (ce_db ce) ?i (w_db x) of
        Inl _ \<Rightarrow> httpError ''not found'' 404
      | Inr job \<Rightarrow> writeJSON 200 (task_view job (shown_manifest (docs sv view x (KeyManifest ?i))))))" for x
    by (simp add: getTaskHandler_def unauthorized_def bad_method_def Let_def split_beta shown_manifest_def
        dht_net.GetJSON_value [OF dht_up.axioms(1) [OF assms(1)]] split: sum.splits)
  then show ?thesis
    by (simp add: secret_docs(1) [OF assms(2)] secret_manifest [OF assms(2)] split: sum.splits)
qed

lemma lease_handlers_secret:
  assumes "dht_up (sv_dht sv) view" "same_but_secret sv view w w'"
  shows "fst (tryClaimHandler sv ce r w) = fst (tryClaimHandler sv ce r w')"
    and "fst (heartbeatHandler sv ce r w) = fst (heartbeatHandler sv ce r w')"
    and "fst (releaseHandler sv ce r w) = fst (releaseHandler sv ce r w')"
    and "fst (forceRequeueHandler sv ce r w) = fst (forceRequeueHandler sv ce r w')"
    and "fst (debugLeaseHandler sv ce r w) = fst (debugLeaseHandler sv ce r w')"
    and "fst (logsHandler sv ce r w) = fst (logsHandler sv ce r w')"
    and "fst (finishHandler sv ce r w) = fst (finishHandler sv ce r w')"
proof -
  note net = dht_up.axioms(1) [OF assms(1)]
  note [simp] = secret_docs [OF assms(2)] dht_net.GetJSON_value [OF net] dht_net.GetJSON_frame [OF net]
    dht_up.PutJSON_ok [OF assms(1)]
  note defs = http_defs Let_def split_beta
  show "fst (tryClaimHandler sv ce r w) = fst (tryClaimHandler sv ce r w')"
    by (simp add: tryClaimHandler_def claim_dht_reply defs split: option.splits sum.splits)
  show "fst (heartbeatHandler sv ce r w) = fst (heartbeatHandler sv ce r w')"
    by (simp add: heartbeatHandler_def defs split: option.splits)
  show "fst (releaseHandler sv ce r w) = fst (releaseHandler sv ce r w')"
    by (auto simp: releaseHandler_def defs split: option.splits simp del: not_None_eq)
  show "fst (forceRequeueHandler sv ce r w) = fst (forceRequeueHandler sv ce r w')"
    by (simp add: forceRequeueHandler_def defs del: not_None_eq)
  show "fst (debugLeaseHandler sv ce r w) = fst (debugLeaseHandler sv ce r w')"
    by (simp add: debugLeaseHandler_def defs)
  show "fst (logsHandler sv ce r w) = fst (logsHandler sv ce r w')"
    by (simp add: logsHandler_def defs del: not_None_eq)
  show "fst (finishHandler sv ce r w) = fst (finishHandler sv ce r w')"
    by (simp add: finishHandler_def defs split: option.splits)
qed

lemma store_handlers_secret:
  assumes "dht_up (sv_dht sv) view" "same_but_secret sv view w w'"
  shows "fst (createTaskHandler sv ce r w) = fst (createTaskHandler sv ce r w')"
    and "fst (manifestHandler sv ce r w) = fst (manifestHandler sv ce r w')"
    and "fst (listTasksHandler sv ce r w) = fst (listTasksHandler sv ce r w')"
    and "fst (statsHandler sv ce r w) = fst (statsHandler sv ce r w')"
proof -
  note [simp] = secret_docs(1) [OF assms(2)] dht_up.PutJSON_ok [OF assms(1)] addToIndex_docs(1) [OF assms(1)]
  note defs = http_defs Let_def split_beta
  show "fst (createTaskHandler sv ce r w) = fst (createTaskHandler sv ce r w')"
    by (simp add: createTaskHandler_def publish_task_def defs split: option.splits)
  show "fst (manifestHandler sv ce r w) = fst (manifestHandler sv ce r w')"
    by (simp add: manifestHandler_def store_manifest_def defs split: option.splits)
  show "fst (listTasksHandler sv ce r w) = fst (listTasksHandler sv ce r w')"
    by (simp add: listTasksHandler_def defs split: sum.splits)
  show "fst (statsHandler sv ce r w) = fst (statsHandler sv ce r w')"
    by (simp add: statsHandler_def defs split: sum.splits)
qed

lemma mounted_secret:
  assumes "dht_up (sv_dht sv) view" "same_but_secret sv view w w'" "(pat, h) \<in> set subtrees \<union> set exact_paths"
  shows "fst (h sv ce r w) = fst (h sv ce r w')"
  using assms(3)
  by (auto simp: subtrees_def exact_paths_def tasks_sub_def jobs_sub_def api_jobs_sub_def tasks_root_def bad_method_def
      healthHandler_def lease_handlers_secret [OF assms(1,2)] store_handlers_secret [OF assms(1,2)]
      get_task_secret [OF assms(1,2)])


subsection \<open>A route that cannot succeed\<close>

lemma parts_of_api:
  assumes "HasPrefix p ''/api/jobs/''"
  shows "\<exists>rest. parts_of p = ''api'' # rest"
proof -
  let ?P = "\<lambda>c. c = CHR ''/''"
  obtain x where p: "p = ''/api/jobs/'' @ x" using assms by (auto simp: HasPrefix_iff)
  have "dropWhile ?P (rev (''api/jobs'' @ ''/'' @ x)) = dropWhile ?P (rev x @ rev ''/'') @ rev ''api/jobs'' \<or>
      dropWhile ?P (rev (''api/jobs'' @ ''/'' @ x)) = rev ''api/jobs''"
    by (simp add: dropWhile_append)
  then obtain u where "dropWhile ?P (rev (''api/jobs'' @ ''/'' @ x)) = u @ rev ''api/jobs''"
    by (metis append_Nil)
  then have "Trim_slash p = ''api/'' @ ''jobs'' @ rev u" by (simp add: p Trim_slash_def trim_by_def)
  then have "parts_of p = ''api'' # split_on (CHR ''/'') (''jobs'' @ rev u)"
    using split_on_sep [of "CHR ''/''" "''api''" "''jobs'' @ rev u"] by (simp add: parts_of_def)
  then show ?thesis by blast
qed

text \<open>Finish reports sent below \<open>/api/jobs/\<close> are always turned away: the multiplexer hands them to
  the finish handler, whose path check accepts only \<open>/jobs/<id>/finish\<close>.\<close>

lemma api_jobs_never_succeeds:
  assumes "HasPrefix (rq_path r) ''/api/jobs/''"
  shows "turned_away w (mountHTTP sv ce r w)"
proof -
  have "route3 ''jobs'' ''finish'' (rq_path r) = None"
    using parts_of_api [OF assms] by (auto simp: route3_def split: list.splits)
  then have f: "turned_away w (finishHandler sv ce r w)"
    by (simp add: finishHandler_def turned_away_def http_defs)
  obtain x where p: "rq_path r = ''/api/jobs/'' @ x" using assms by (auto simp: HasPrefix_iff)
  show ?thesis
  proof (cases "cleanPath (rq_path r) = rq_path r")
    case True
    then have "mountHTTP sv ce r w = api_jobs_sub sv ce r w"
      by (simp add: p mountHTTP_def Let_def exact_paths_def subtrees_def HasPrefix_def)
    then show ?thesis using f by (simp add: api_jobs_sub_def turned_away_def http_defs)
  qed (simp add: mountHTTP_def turned_away_def Let_def)
qed

subsection \<open>Examples\<close>

lemma sample_manifest_good: "good_manifest sample_server sample_manifest"
proof -
  have "ToLower ''QUIC-v1'' = ''quic-v1''" by code_simp
  then show ?thesis
    by (simp add: good_manifest_def good_provider_def sample_manifest_def sample_server_def HasPrefix_def)
qed

lemma sample_auth_publish:
  "requireAuth (sv_env sample_server) (manifest_request i m ''Bearer s'')"
  "requireAuth (sv_env sample_server) (create_request i img cmd ''Bearer s'')"
  "requireAuth (sv_env sample_server) (get_request i ''Bearer s'')"
  by (simp_all add: requireAuth_def sample_server_def manifest_request_def create_request_def get_request_def json_header_def agent_header_def)

lemma http_manifest_rejected_witness:
  "\<exists>e. mountHTTP sample_server sample_call (manifest_request ''q'' zero_manifest ''Bearer s'') (sample_world sample_db) =
     (Resp 400 (Plain e), sample_world sample_db)"
  using http_manifest_rejected [OF sample_segs(1) sample_auth_publish(1), of zero_manifest]
  by (simp add: good_manifest_def zero_manifest_def)

theorem http_manifest_published_witness:
  "\<exists>w' row'. mountHTTP sample_server sample_call (manifest_request ''q'' sample_manifest ''Bearer s'') (sample_world sample_db) =
     (Resp 204 NoBody, w') \<and> row_of (w_db w') ''q'' = Some row' \<and> r_manifest_root_cid row' = Some ''cid''"
  using http_manifest_published [OF sample_server_up sample_world_ok(1) sample_call_up sample_segs(1)
    sample_auth_publish(1) sample_manifest_good sample_world_ok(2)]
  by (auto simp: sample_manifest_def)

lemma http_create_published_witness:
  "\<exists>w'. mountHTTP sample_server sample_call (create_request ''n'' ''alpine'' [''ls''] ''Bearer s'') (sample_world sample_db) =
     (Resp 201 (JsonBody (JObj [(''job_id'', JStr ''n'')])), w') \<and> ''n'' \<in> set (am_dirty (w_mgr w'))"
  using http_create_published [OF sample_server_up sample_call_up sample_auth_publish(2), of "''n''" "''alpine''" "[''ls'']"]
  by auto


lemma api_jobs_never_succeeds_witness:
  "turned_away (sample_world sample_db) (mountHTTP sample_server sample_call
     ((finish_request ''r'' ''A'' 3 ''succeeded'' [] [] ''Bearer s'')\<lparr>rq_path := ''/api/jobs/r/finish''\<rparr>) (sample_world sample_db))"
  by (rule api_jobs_never_succeeds) (simp add: HasPrefix_def)

end
