(* ===== verification/Control_Loops.thy ===== *)
theory Control_Loops
  imports Control_Publish Dht_Net
begin

text \<open>
  The background work of the control server, \<open>cmd/control/main.go\<close>: restoring queued jobs at a
  start, requeueing expired leases, re-announcing queued jobs, the snapshot log, and the
  start-up sequence itself with its \<open>-create\<close> flag. A loop is the list of the ticks its ticker
  delivers before the context ends; the circumstances of a tick (database server, clocks,
  random shards) are arguments.
\<close>

subsection \<open>Tasks from the command line\<close>

definition splitCSV :: "string \<Rightarrow> string list" where
  "splitCSV s =
     (if s = [] then [] else filter (\<lambda>p. p \<noteq> []) (map TrimSpace (split_on (CHR '','') s)))"

definition index_check :: "string \<Rightarrow> time \<Rightarrow> cas_check" where
  "index_check i now t prev =
     (let idx = (if \<not> payload_empty prev then fst (unmarshal zero_index dec_index prev) else zero_index)
      in if i \<in> set (ix_IDs idx)
         then (True, Doc (enc_index (idx\<lparr>ix_Version := ix_Version idx + 1, ix_UpdatedAt := now\<rparr>)), None)
         else (True, Doc (enc_index (idx\<lparr>ix_IDs := ix_IDs idx @ [i], ix_Version := ix_Version idx + 1,
                ix_UpdatedAt := now\<rparr>)), None))"

definition createTask ::
  "'n dht_cfg \<Rightarrow> string \<Rightarrow> string \<Rightarrow> string \<Rightarrow> string list \<Rightarrow> time \<Rightarrow> (nat \<Rightarrow> time) \<Rightarrow> (nat \<Rightarrow> nat) \<Rightarrow> 'n dht \<Rightarrow>
   go_error \<times> 'n dht" where
  "createTask c ns i img cmd now clk rnd d =
     (let (e1, d1) = PutJSON c (KeyMeta i) (enc_meta (new_meta i img cmd now)) d
      in case e1 of
           Some e \<Rightarrow> (Some e, d1)
         | None \<Rightarrow>
             (let (e2, d2) = PutJSON c (KeyState i) (enc_state (queued_state i now)) d1
              in case e2 of
                   Some e \<Rightarrow> (Some e, d2)
                 | None \<Rightarrow> (let (r, d3) = PutJSONCAS c (KeyIndex ns) (index_check i now) clk rnd d2 in (fst r, d3))))"

subsection \<open>Restoring queued jobs\<close>

definition restore_job :: "'n server \<Rightarrow> nat \<Rightarrow> (nat \<Rightarrow> time) \<Rightarrow> db_job \<Rightarrow> 'n world \<Rightarrow> 'n world" where
  "restore_job sv shard clk j w =
     (let c = sv_dht sv; i = j_ID j;
          d1 = snd (PutJSON c (KeyMeta i) (enc_meta (new_meta i (j_Image j) (j_Command j) (j_CreatedAt j))) (w_dht w));
          d2 = snd (PutJSON c (KeyState i) (enc_state (queued_state i (clk 0))) d1);
          d3 = snd (addToIndex c (sv_ns sv) i shard (clk 1) d2)
      in enqueue i (w\<lparr>w_dht := d3\<rparr>))"

fun restore_all :: "'n server \<Rightarrow> (nat \<Rightarrow> nat) \<Rightarrow> (nat \<Rightarrow> nat \<Rightarrow> time) \<Rightarrow> nat \<Rightarrow> db_job list \<Rightarrow> 'n world \<Rightarrow> 'n world" where
  "restore_all sv shards clk n [] w = w"
| "restore_all sv shards clk n (j # js) w =
     restore_all sv shards clk (Suc n) js (restore_job sv (shards n) (clk n) j w)"

definition restoreJobsFromDemand ::
  "'n server \<Rightarrow> dbenv \<Rightarrow> (nat \<Rightarrow> nat) \<Rightarrow> (nat \<Rightarrow> nat \<Rightarrow> time) \<Rightarrow> 'n world \<Rightarrow> 'n world" where
  "restoreJobsFromDemand sv e shards clk w =
     (case ListQueued e (w_db w) of
        Inl _ \<Rightarrow> w
      | Inr jobs \<Rightarrow> if jobs = [] then w else restore_all sv shards clk 0 jobs w)"

subsection \<open>Requeueing expired leases\<close>

definition maxRetry :: nat where "maxRetry = 5"

definition updateDHTStateQueued :: "'n dht_cfg \<Rightarrow> string \<Rightarrow> time \<Rightarrow> 'n dht \<Rightarrow> 'n dht" where
  "updateDHTStateQueued c i now d =
     (let ((st, _), d1) = GetJSON c zero_state dec_state (KeyState i) (2 * second) d
      in snd (PutJSON c (KeyState i)
           (enc_state (st\<lparr>ts_ID := i, ts_Status := StatusQueued, ts_AssignedTo := [], ts_UpdatedAt := now,
              ts_Version := ts_Version st + 1\<rparr>)) d1))"

definition requeue_one :: "'n server \<Rightarrow> dbenv \<Rightarrow> time \<Rightarrow> string \<Rightarrow> 'n world \<Rightarrow> 'n world" where
  "requeue_one sv e now i w =
     (case SetStatusQueued e i (w_db w) of
        (Some _, db') \<Rightarrow> w\<lparr>w_db := db'\<rparr>
      | (None, db') \<Rightarrow>
          enqueue i (w\<lparr>w_db := db',
            w_dht := updateDHTStateQueued (sv_dht sv) i now (snd (DelJSON (sv_dht sv) (KeyLease i) (w_dht w)))\<rparr>))"

fun requeue_all :: "'n server \<Rightarrow> (nat \<Rightarrow> dbenv) \<Rightarrow> time \<Rightarrow> nat \<Rightarrow> string list \<Rightarrow> 'n world \<Rightarrow> 'n world" where
  "requeue_all sv es now n [] w = w"
| "requeue_all sv es now n (i # ids) w = requeue_all sv es now (Suc n) ids (requeue_one sv (es n) now i w)"

text \<open>The body of the tick: \<open>e\<close> serves the query, \<open>es n\<close> the update of the \<open>n\<close>-th job.\<close>

definition requeue_pass :: "'n server \<Rightarrow> dbenv \<Rightarrow> (nat \<Rightarrow> dbenv) \<Rightarrow> time \<Rightarrow> 'n world \<Rightarrow> 'n world" where
  "requeue_pass sv e es now w =
     (case ListExpiredLeases e (now - 3 * second) (w_db w) of
        Inl _ \<Rightarrow> w
      | Inr expired \<Rightarrow> requeue_all sv es now 0 expired w)"

fun requeueLoop :: "'n server \<Rightarrow> (dbenv \<times> (nat \<Rightarrow> dbenv) \<times> time) list \<Rightarrow> 'n world \<Rightarrow> 'n world" where
  "requeueLoop sv [] w = w"
| "requeueLoop sv ((e, es, now) # ticks) w = requeueLoop sv ticks (requeue_pass sv e es now w)"

subsection \<open>Re-announcing and snapshots\<close>

definition reannounce_pass :: "dbenv \<Rightarrow> 'n world \<Rightarrow> 'n world" where
  "reannounce_pass e w =
     (case ListQueued e (w_db w) of
        Inl _ \<Rightarrow> w
      | Inr jobs \<Rightarrow> fold (\<lambda>j. enqueue (j_ID j)) jobs w)"

fun reannounceQueuedLoop :: "dbenv list \<Rightarrow> 'n world \<Rightarrow> 'n world" where
  "reannounceQueuedLoop [] w = w"
| "reannounceQueuedLoop (e # es) w = reannounceQueuedLoop es (reannounce_pass e w)"

text \<open>The lines one tick of the snapshot loop logs.\<close>

definition snapshot_lines :: "dbenv \<Rightarrow> db \<Rightarrow> string list" where
  "snapshot_lines e db =
     (case ListAll e db of
        Inl err \<Rightarrow> [''[snapshot] list from db failed: '' @ err_text err]
      | Inr jobs \<Rightarrow>
          map (\<lambda>j. ''[snapshot] job='' @ j_ID j @ '' status='' @ j_Status j)
            (filter (\<lambda>j. j_Status j = ''succeeded'' \<or> j_Status j = ''failed'') jobs))"

text \<open>The log of the loop: every tick reads the table it finds.\<close>

fun snapshotLoop :: "(dbenv \<times> db) list \<Rightarrow> string list" where
  "snapshotLoop [] = []"
| "snapshotLoop ((e, db) # ticks) = snapshot_lines e db @ snapshotLoop ticks"

subsection \<open>Start-up\<close>

record flags =
  fl_ns :: string
  fl_bootstrap :: string
  fl_create :: string
  fl_image :: string
  fl_cmd :: string

definition trimmed_parts :: "string \<Rightarrow> string list" where
  "trimmed_parts s = filter (\<lambda>p. p \<noteq> []) (map TrimSpace (split_on (CHR '','') s))"

text \<open>One task of the \<open>-create\<close> flag: the DHT first, then the database whatever the DHT said.\<close>

definition create_one ::
  "'n server \<Rightarrow> string \<Rightarrow> string list \<Rightarrow> dbenv \<Rightarrow> (nat \<Rightarrow> time) \<Rightarrow> (nat \<Rightarrow> time) \<Rightarrow> (nat \<Rightarrow> nat) \<Rightarrow> string \<Rightarrow>
   'n world \<Rightarrow> 'n world" where
  "create_one sv img cmd e now clk rnd i w =
     (let d1 = snd (createTask (sv_dht sv) (sv_ns sv) i img cmd (now 0) clk rnd (w_dht w));
          db' = snd (CreateJob e (new_job i img cmd (now 1)) (w_db w))
      in enqueue i (w\<lparr>w_dht := d1, w_db := db'\<rparr>))"

fun create_all ::
  "'n server \<Rightarrow> string \<Rightarrow> string list \<Rightarrow> (nat \<Rightarrow> dbenv) \<Rightarrow> (nat \<Rightarrow> nat \<Rightarrow> time) \<Rightarrow> (nat \<Rightarrow> nat \<Rightarrow> time) \<Rightarrow>
   (nat \<Rightarrow> nat \<Rightarrow> nat) \<Rightarrow> nat \<Rightarrow> string list \<Rightarrow> 'n world \<Rightarrow> 'n world" where
  "create_all sv img cmd es now clk rnd n [] w = w"
| "create_all sv img cmd es now clk rnd n (i # ids) w =
     create_all sv img cmd es now clk rnd (Suc n) ids (create_one sv img cmd (es n) (now n) (clk n) (rnd n) i w)"

text \<open>\<open>NewPGStore\<close>, with the errors of opening and of the first ping.\<close>

definition NewPGStore :: "(string \<Rightarrow> go_error) \<Rightarrow> (string \<Rightarrow> go_error) \<Rightarrow> string \<Rightarrow> go_error" where
  "NewPGStore opens pings dsn =
     (case opens dsn of
        Some e \<Rightarrow> Some e
      | None \<Rightarrow> (case pings dsn of Some e \<Rightarrow> Some e | None \<Rightarrow> None))"

text \<open>\<open>main\<close> up to the point where it waits forever: the server it mounts and the world it leaves,
  the message it dies with, or \<open>None\<close> if the node never comes up. \<open>e\<close>, \<open>shards\<close> and \<open>rclk\<close> are
  for the restore, \<open>es\<close> to \<open>rnd\<close> for \<open>-create\<close>. The database and the DHT are those the process
  finds; the manager is new.\<close>

definition control_main ::
  "flags \<Rightarrow> (string \<Rightarrow> string) \<Rightarrow> (string \<Rightarrow> go_error) \<Rightarrow> (string \<Rightarrow> go_error) \<Rightarrow> 'm multi \<Rightarrow> ('l, 'm, 'n) libp2p \<Rightarrow>
   iface list \<Rightarrow> (string \<Rightarrow> go_error) \<Rightarrow> dbenv \<Rightarrow> (nat \<Rightarrow> nat) \<Rightarrow> (nat \<Rightarrow> nat \<Rightarrow> time) \<Rightarrow>
   (nat \<Rightarrow> dbenv) \<Rightarrow> (nat \<Rightarrow> nat \<Rightarrow> time) \<Rightarrow> (nat \<Rightarrow> nat \<Rightarrow> time) \<Rightarrow> (nat \<Rightarrow> nat \<Rightarrow> nat) \<Rightarrow> db \<Rightarrow> 'n dht \<Rightarrow> 'l \<Rightarrow>
   (string + 'n server \<times> 'n world) option" where
  "control_main fl env opens pings M L ifaces peer e shards rclk es now clk rnd db d l =
     (if env ''MC_DB_DSN'' = [] then Some (Inl ''MC_DB_DSN is empty (postgres dsn needed)'')
      else (case NewPGStore opens pings (env ''MC_DB_DSN'') of
         Some m \<Rightarrow> Some (Inl (''connect postgres failed: '' @ m))
       | None \<Rightarrow>
           (case NewNode M L ifaces (fl_ns fl) (splitCSV (fl_bootstrap fl)) l of
              None \<Rightarrow> None
            | Some (Inl m, _) \<Rightarrow> Some (Inl m)
            | Some (Inr node, _) \<Rightarrow>
                (let sv = \<lparr>sv_dht = nd_cfg node, sv_ns = fl_ns fl, sv_env = env, sv_peer = peer,
                           sv_maddr = (\<lambda>s. case mu_parse M s of Inr _ \<Rightarrow> True | Inl _ \<Rightarrow> False)\<rparr>;
                     w0 = \<lparr>w_db = db, w_dht = d, w_mgr = NewAnnounceManager (fl_ns fl) (30 * second) (3 * second)\<rparr>;
                     w1 = restoreJobsFromDemand sv e shards rclk w0
                 in Some (Inr (sv,
                      if fl_create fl \<noteq> []
                      then create_all sv (fl_image fl) (trimmed_parts (fl_cmd fl)) es now clk rnd 0
                             (trimmed_parts (fl_create fl)) w1
                      else w1))))))"

text \<open>A job that is back in the queue everywhere: in the database, in the DHT and for announcement.\<close>

definition back_in_queue :: "'n server \<Rightarrow> ('n \<Rightarrow> string \<rightharpoonup> payload) \<Rightarrow> string \<Rightarrow> 'n world \<Rightarrow> bool" where
  "back_in_queue sv view i w \<longleftrightarrow>
     (\<exists>r. row_of (w_db w) i = Some r \<and> r_status r = ''queued'' \<and> r_lease_agent r = None \<and> r_lease_expires_at r = None) \<and>
     lease_of (docs sv view w (KeyLease i)) = zero_lease \<and>
     ts_Status (state_of (docs sv view w (KeyState i))) = StatusQueued \<and>
     ts_AssignedTo (state_of (docs sv view w (KeyState i))) = [] \<and>
     i \<in> set (am_dirty (w_mgr w))"

text \<open>A job that agents can find: metadata, a queued state, an index entry and a pending announcement.\<close>

definition published :: "'n server \<Rightarrow> ('n \<Rightarrow> string \<rightharpoonup> payload) \<Rightarrow> db_job \<Rightarrow> 'n world \<Rightarrow> bool" where
  "published sv view j w \<longleftrightarrow>
     docs sv view w (KeyMeta (j_ID j)) =
       Some (Doc (enc_meta (new_meta (j_ID j) (j_Image j) (j_Command j) (j_CreatedAt j)))) \<and>
     (\<exists>t. docs sv view w (KeyState (j_ID j)) = Some (Doc (enc_state (queued_state (j_ID j) t)))) \<and>
     (\<exists>s<TaskIndexShardCount. j_ID j \<in> set (ix_IDs (index_at (docs sv view w (KeyIndexShard (sv_ns sv) s))))) \<and>
     j_ID j \<in> set (am_dirty (w_mgr w))"

subsection \<open>A requeue pass\<close>

lemma updateDHTStateQueued_docs:
  assumes "dht_up c view"
  shows "doc c view (updateDHTStateQueued c i now d) =
    (doc c view d)(KeyState i \<mapsto> Doc (enc_state ((state_of (doc c view d (KeyState i)))\<lparr>ts_ID := i,
       ts_Status := StatusQueued, ts_AssignedTo := [], ts_UpdatedAt := now,
       ts_Version := ts_Version (state_of (doc c view d (KeyState i))) + 1\<rparr>)))"
  by (simp add: updateDHTStateQueued_def Let_def split_beta dht_up.PutJSON_put [OF assms]
      dht_net.GetJSON_value [OF dht_up.axioms(1) [OF assms]] dht_net.GetJSON_frame [OF dht_up.axioms(1) [OF assms]])

lemma requeue_one_ok: "db_ok (w_db w) \<Longrightarrow> db_ok (w_db (requeue_one sv e now i w))"
  using SetStatusQueued_ok [of "w_db w" e i]
  by (auto simp: requeue_one_def enqueue_def split: prod.splits option.splits)

lemma SetStatusQueued_frame:
  assumes "db_ok db" "j \<noteq> i"
  shows "row_of (snd (SetStatusQueued e i db)) j = row_of db j"
proof (cases "snd (SetStatusQueued e i db) = db")
  case False
  then have "row_step i (requeue_where e i) requeue_set db (snd (SetStatusQueued e i db))"
    using SetStatusQueued_effect [OF db_ok_distinct [OF assms(1)]] by blast
  then obtain r r' where r: "row_of db i = Some r" "requeue_set r = Some r'" "snd (SetStatusQueued e i db) = put_row r' db"
    by (auto simp: row_step_def)
  have "r_id r' = i" using requeue_set_id [OF r(2)] row_of_SomeD [OF r(1)] by simp
  with assms(2) show ?thesis by (simp add: r(3) row_of_put_row)
qed simp

lemma requeue_one_frame:
  assumes "dht_up (sv_dht sv) view" "db_ok (w_db w)" "j \<noteq> i"
  shows "row_of (w_db (requeue_one sv e now i w)) j = row_of (w_db w) j"
    and "docs sv view (requeue_one sv e now i w) (KeyLease j) = docs sv view w (KeyLease j)"
    and "docs sv view (requeue_one sv e now i w) (KeyState j) = docs sv view w (KeyState j)"
    and "set (am_dirty (w_mgr w)) \<subseteq> set (am_dirty (w_mgr (requeue_one sv e now i w)))"
proof -
  obtain err db' where s: "SetStatusQueued e i (w_db w) = (err, db')" by fastforce
  show "row_of (w_db (requeue_one sv e now i w)) j = row_of (w_db w) j"
    using SetStatusQueued_frame [OF assms(2,3), of e] s by (cases err) (simp_all add: requeue_one_def enqueue_def)
  show "docs sv view (requeue_one sv e now i w) (KeyLease j) = docs sv view w (KeyLease j)"
    "docs sv view (requeue_one sv e now i w) (KeyState j) = docs sv view w (KeyState j)"
    using s assms(3) by (cases err; simp add: requeue_one_def enqueue_def updateDHTStateQueued_docs [OF assms(1)]
        dht_up.DelJSON_put [OF assms(1)])+
  show "set (am_dirty (w_mgr w)) \<subseteq> set (am_dirty (w_mgr (requeue_one sv e now i w)))"
    using s by (cases err) (auto simp: requeue_one_def enqueue_def Enqueue_def)
qed

lemma requeue_one_recovers:
  assumes "dht_up (sv_dht sv) view" "db_ok (w_db w)" "db_up e" "row_of (w_db w) i = Some r"
    "r_status r \<in> {''assigned'', ''running''}" "r_lease_expires_at r = Some x" "x < stmt_now e 0"
    "sint (r_retry_count r) < 2 ^ 31 - 1"
  shows "back_in_queue sv view i (requeue_one sv e now i w)"
proof -
  have s: "SetStatusQueued e i (w_db w) = (None, put_row (requeued_row r) (w_db w))"
    by (rule SetStatusQueued_up [OF assms(2-8)])
  have "row_of (put_row (requeued_row r) (w_db w)) i = Some (requeued_row r)"
    using assms(4) row_of_SomeD [OF assms(4)] by (simp add: row_of_put_row requeued_row_def)
  then have "\<exists>r'. row_of (put_row (requeued_row r) (w_db w)) i = Some r' \<and> r_status r' = ''queued'' \<and>
      r_lease_agent r' = None \<and> r_lease_expires_at r' = None" by (simp add: requeued_row_def)
  then show ?thesis
    by (simp add: back_in_queue_def requeue_one_def s enqueue_def Enqueue_def updateDHTStateQueued_docs [OF assms(1)]
        dht_up.DelJSON_put [OF assms(1)] read_as_Doc dec_lease_def)
qed

lemma back_in_queue_frame:
  assumes "dht_up (sv_dht sv) view" "db_ok (w_db w)" "j \<noteq> i" "back_in_queue sv view j w"
  shows "back_in_queue sv view j (requeue_one sv e now i w)"
  using assms(4) requeue_one_frame [OF assms(1-3), of e now] by (auto simp: back_in_queue_def)

lemma requeue_all_frame:
  assumes "dht_up (sv_dht sv) view" "db_ok (w_db w)" "j \<notin> set ids"
  shows "row_of (w_db (requeue_all sv es now n ids w)) j = row_of (w_db w) j \<and>
    docs sv view (requeue_all sv es now n ids w) (KeyLease j) = docs sv view w (KeyLease j) \<and>
    docs sv view (requeue_all sv es now n ids w) (KeyState j) = docs sv view w (KeyState j) \<and>
    (back_in_queue sv view j w \<longrightarrow> back_in_queue sv view j (requeue_all sv es now n ids w))"
  using assms(2,3)
proof (induction ids arbitrary: n w)
  case (Cons i ids)
  have ji: "j \<noteq> i" "j \<notin> set ids" using Cons.prems(2) by auto
  show ?case
    using Cons.IH [OF requeue_one_ok [OF Cons.prems(1)] ji(2), of "Suc n" sv "es n" now i]
      requeue_one_frame [OF assms(1) Cons.prems(1) ji(1), of "es n" now]
      back_in_queue_frame [OF assms(1) Cons.prems(1) ji(1), of "es n" now] by simp
qed simp

lemma requeue_all_recovers:
  assumes "dht_up (sv_dht sv) view" "\<And>n. db_up (es n)" "\<And>n. x < stmt_now (es n) 0"
    and "db_ok (w_db w)" "distinct ids" "i \<in> set ids" "row_of (w_db w) i = Some r"
    "r_status r \<in> {''assigned'', ''running''}" "r_lease_expires_at r = Some x" "sint (r_retry_count r) < 2 ^ 31 - 1"
  shows "back_in_queue sv view i (requeue_all sv es now n ids w)"
  using assms(4-7)
proof (induction ids arbitrary: n w)
  case (Cons j ids)
  note ok = requeue_one_ok [OF Cons.prems(1), of sv "es n" now j]
  show ?case
  proof (cases "i = j")
    case True
    have "back_in_queue sv view i (requeue_one sv (es n) now j w)"
      using requeue_one_recovers [OF assms(1) Cons.prems(1) assms(2) Cons.prems(4) assms(8,9) assms(3) assms(10)] True
      by simp
    with requeue_all_frame [OF assms(1) ok, of i ids] Cons.prems(2) True show ?thesis by simp
  next
    case False
    with Cons.IH [OF ok] Cons.prems requeue_one_frame(1) [OF assms(1) Cons.prems(1) False] show ?thesis by simp
  qed
qed simp

lemma ListExpiredLeases_ids:
  assumes "db_up e"
  shows "ListExpiredLeases e cutoff db =
    Inr (map r_id (scan_order e (filter (\<lambda>r. holds (expired_where (stmt_now e 0) r)) db)))"
  by (simp add: ListExpiredLeases_def db_up_simps [OF assms] sql_scan_def)

lemma scanned_ids_distinct:
  assumes "db_up e" "db_ok db"
  shows "distinct (map r_id (scan_order e (filter P db)))"
proof -
  have "distinct (map r_id (filter P db))"
    using db_ok_distinct [OF assms(2)] by (simp add: distinct_map_filter)
  then show ?thesis
    using scan_order_up(1) [OF assms(1), of "filter P db"] by (metis mset_map mset_eq_imp_distinct_iff)
qed

text \<open>C22: a requeue pass returns every expired job to the queue. Whatever the other jobs are and in
  whatever order they come, a job whose lease has passed on the database clock is afterwards
  queued without a lease in the database, has an empty lease document and an unassigned queued
  state in the DHT, and waits for its announcement. There is no grace period: the cutoff of three
  seconds that the loop computes has no effect.\<close>

theorem requeue_pass_recovers:
  assumes "dht_up (sv_dht sv) view" "db_ok (w_db w)" "db_up e" "\<And>n. db_up (es n)"
    and "row_of (w_db w) i = Some r" "r_status r \<in> {''assigned'', ''running''}" "r_lease_expires_at r = Some x"
    and "x < stmt_now e 0" "\<And>n. x < stmt_now (es n) 0" "sint (r_retry_count r) < 2 ^ 31 - 1"
  shows "back_in_queue sv view i (requeue_pass sv e es now w)"
proof -
  let ?ids = "map r_id (scan_order e (filter (\<lambda>r. holds (expired_where (stmt_now e 0) r)) (w_db w)))"
  have "distinct ?ids" by (rule scanned_ids_distinct [OF assms(3,2)])
  moreover have "i \<in> set ?ids"
    using row_of_SomeD [OF assms(5)] assms(6-8) by (auto simp: expired_point scan_order_up [OF assms(3)])
  ultimately show ?thesis
    using requeue_all_recovers [where ids = ?ids and now = now and n = 0 and es = es, OF assms(1,4,9,2) _ _ assms(5,6,7,10)]
    by (simp add: requeue_pass_def ListExpiredLeases_ids [OF assms(3)])
qed

text \<open>A requeue pass spares the living. A job that holds a lease not yet passed, or none, keeps its
  row and its lease and state documents.\<close>

lemma requeue_pass_spares:
  assumes "dht_up (sv_dht sv) view" "db_ok (w_db w)" "db_up e"
    and "row_of (w_db w) i = Some r" "\<forall>x. r_lease_expires_at r = Some x \<longrightarrow> stmt_now e 0 \<le> x"
  shows "row_of (w_db (requeue_pass sv e es now w)) i = Some r \<and>
    docs sv view (requeue_pass sv e es now w) (KeyLease i) = docs sv view w (KeyLease i) \<and>
    docs sv view (requeue_pass sv e es now w) (KeyState i) = docs sv view w (KeyState i)"
proof -
  let ?ids = "map r_id (scan_order e (filter (\<lambda>r. holds (expired_where (stmt_now e 0) r)) (w_db w)))"
  have "i \<notin> set ?ids"
  proof
    assume "i \<in> set ?ids"
    then obtain r' where r': "r' \<in> set (w_db w)" "r_id r' = i" "holds (expired_where (stmt_now e 0) r')"
      by (auto simp: scan_order_up [OF assms(3)])
    then have "r' = r" using row_of_unique [OF db_ok_distinct [OF assms(2)], of r' i] assms(4) by simp
    with r'(3) assms(5) show False by (auto simp: expired_point)
  qed
  from requeue_all_frame [OF assms(1,2) this, of es now 0] assms(4) show ?thesis
    by (simp add: requeue_pass_def ListExpiredLeases_ids [OF assms(3)])
qed

subsection \<open>Restoring\<close>

lemma restore_job_docs:
  assumes "dht_up (sv_dht sv) view"
  shows "docs sv view (restore_job sv shard clk j w) (KeyMeta (j_ID j)) =
      Some (Doc (enc_meta (new_meta (j_ID j) (j_Image j) (j_Command j) (j_CreatedAt j))))"
    and "docs sv view (restore_job sv shard clk j w) (KeyState (j_ID j)) = Some (Doc (enc_state (queued_state (j_ID j) (clk 0))))"
    and "j_ID j \<in> set (ix_IDs (index_at (docs sv view (restore_job sv shard clk j w) (KeyIndexShard (sv_ns sv) shard))))"
    and "j_ID j \<in> set (am_dirty (w_mgr (restore_job sv shard clk j w)))"
  by (simp_all add: restore_job_def Let_def enqueue_def Enqueue_def addToIndex_docs [OF assms] dht_up.PutJSON_put [OF assms])

lemma restore_job_frame:
  assumes "dht_up (sv_dht sv) view"
  shows "i \<noteq> j_ID j \<Longrightarrow> docs sv view (restore_job sv shard clk j w) (KeyMeta i) = docs sv view w (KeyMeta i)"
    and "i \<noteq> j_ID j \<Longrightarrow> docs sv view (restore_job sv shard clk j w) (KeyState i) = docs sv view w (KeyState i)"
    and "set (ix_IDs (index_at (docs sv view w (KeyIndexShard ns n)))) \<subseteq>
      set (ix_IDs (index_at (docs sv view (restore_job sv shard clk j w) (KeyIndexShard ns n))))"
    and "set (am_dirty (w_mgr w)) \<subseteq> set (am_dirty (w_mgr (restore_job sv shard clk j w)))"
    and "w_db (restore_job sv shard clk j w) = w_db w"
proof -
  let ?d2 = "snd (PutJSON (sv_dht sv) (KeyState (j_ID j)) (enc_state (queued_state (j_ID j) (clk 0)))
    (snd (PutJSON (sv_dht sv) (KeyMeta (j_ID j)) (enc_meta (new_meta (j_ID j) (j_Image j) (j_Command j) (j_CreatedAt j)))
      (w_dht w))))"
  show "docs sv view (restore_job sv shard clk j w) (KeyMeta i) = docs sv view w (KeyMeta i)"
    "docs sv view (restore_job sv shard clk j w) (KeyState i) = docs sv view w (KeyState i)" if "i \<noteq> j_ID j"
    using that by (simp_all add: restore_job_def Let_def enqueue_def addToIndex_docs [OF assms] dht_up.PutJSON_put [OF assms])
  show "set (am_dirty (w_mgr w)) \<subseteq> set (am_dirty (w_mgr (restore_job sv shard clk j w)))"
    "w_db (restore_job sv shard clk j w) = w_db w"
    by (auto simp: restore_job_def Let_def enqueue_def Enqueue_def)
  show "set (ix_IDs (index_at (docs sv view w (KeyIndexShard ns n)))) \<subseteq>
      set (ix_IDs (index_at (docs sv view (restore_job sv shard clk j w) (KeyIndexShard ns n))))"
    using addToIndex_docs(3) [where d = ?d2 and ns = "sv_ns sv" and shard = shard and i = "j_ID j" and
        now = "clk 1", OF assms]
    by (cases "KeyIndexShard ns n = KeyIndexShard (sv_ns sv) shard")
      (simp_all add: restore_job_def Let_def enqueue_def dht_up.PutJSON_put [OF assms] addToIndex_docs(4) [OF assms])
qed

lemma published_frame:
  assumes "dht_up (sv_dht sv) view" "published sv view i w" "j_ID i \<noteq> j_ID j"
  shows "published sv view i (restore_job sv shard clk j w)"
proof -
  let ?w' = "restore_job sv shard clk j w"
  obtain s where s: "s < TaskIndexShardCount"
    "j_ID i \<in> set (ix_IDs (index_at (docs sv view w (KeyIndexShard (sv_ns sv) s))))"
    using assms(2) by (auto simp: published_def)
  then have "j_ID i \<in> set (ix_IDs (index_at (docs sv view ?w' (KeyIndexShard (sv_ns sv) s))))"
    using restore_job_frame(3) [where ns = "sv_ns sv" and n = s and w = w and j = j, OF assms(1)] by blast
  moreover have "j_ID i \<in> set (am_dirty (w_mgr ?w'))"
    using assms(2) restore_job_frame(4) [where w = w and j = j, OF assms(1)] by (auto simp: published_def)
  ultimately show ?thesis
    using assms(2) s(1) by (auto simp: published_def restore_job_frame(1,2) [OF assms(1,3)])
qed

lemma restore_all_publishes:
  assumes "dht_up (sv_dht sv) view" "\<And>n. shards n < TaskIndexShardCount"
    and "distinct (map j_ID jobs)" "j \<in> set jobs"
  shows "published sv view j (restore_all sv shards clk n jobs w)"
proof -
  have keep: "published sv view i (restore_all sv shards clk n js w)"
    if "published sv view i w" "j_ID i \<notin> j_ID ` set js" for i js n w
    using that by (induction js arbitrary: n w) (auto simp: published_frame [OF assms(1)])
  show ?thesis
    using assms(3,4)
  proof (induction jobs arbitrary: n w)
    case (Cons i jobs)
    have "published sv view i (restore_job sv (shards n) (clk n) i w)"
      using restore_job_docs [where shard = "shards n" and clk = "clk n" and j = i and w = w, OF assms(1)] assms(2)
      by (auto simp: published_def)
    with Cons keep show ?case by auto
  qed simp
qed

lemma restore_all_db: "w_db (restore_all sv shards clk n jobs w) = w_db w"
  by (induction jobs arbitrary: n w) (simp_all add: restore_job_def Let_def enqueue_def)

text \<open>After a restart every queued job can be found again. Whatever the DHT holds when the server
  comes up, restoring publishes the metadata, a queued state and an index entry of every job that is
  queued in the database and schedules its announcement; the database is not touched.\<close>

lemma restore_publishes_queued:
  assumes "dht_up (sv_dht sv) view" "db_ok (w_db w)" "db_up e" "\<And>n. shards n < TaskIndexShardCount"
    and "row_of (w_db w) i = Some r" "r_status r = ''queued''"
  shows "published sv view (job_of_row r) (restoreJobsFromDemand sv e shards clk w) \<and>
    w_db (restoreJobsFromDemand sv e shards clk w) = w_db w"
proof -
  let ?f = "\<lambda>r. (job_of_row r)\<lparr>j_RetryCount := 0\<rparr>"
  let ?qs = "scan_order e (filter (\<lambda>r. r_status r = ''queued'') (w_db w))"
  let ?rs = "sort_key r_created_at ?qs"
  have q: "ListQueued e (w_db w) = Inr (map ?f ?rs)"
    by (simp add: ListQueued_def db_up_simps [OF assms(3)] sql_scan_def)
  have r: "r \<in> set ?rs" using row_of_SomeD [OF assms(5)] assms(6) by (simp add: scan_order_up [OF assms(3)])
  have "distinct (map r_id ?qs)" by (rule scanned_ids_distinct [OF assms(3,2)])
  then have "distinct (map r_id ?rs)" by (simp add: distinct_map)
  then have "distinct (map j_ID (map ?f ?rs))" by (simp add: comp_def job_of_row_def)
  from restore_all_publishes [OF assms(1,4) this, of "?f r"] r
  have "published sv view (?f r) (restore_all sv shards clk 0 (map ?f ?rs) w)" by simp
  moreover have "restoreJobsFromDemand sv e shards clk w = restore_all sv shards clk 0 (map ?f ?rs) w"
    using r by (auto simp: restoreJobsFromDemand_def q)
  ultimately show ?thesis by (simp add: published_def restore_all_db)
qed

subsection \<open>Snapshots\<close>

text \<open>With the database up, the loop logs exactly the finished jobs of the tables its ticks find.\<close>

lemma snapshot_lines_finished:
  assumes "db_up e"
  shows "set (snapshot_lines e db) =
    (\<lambda>r. ''[snapshot] job='' @ r_id r @ '' status='' @ r_status r) ` {r \<in> set db. r_status r \<in> {''succeeded'', ''failed''}}"
  using scan_order_up(2) [OF assms, of db]
  by (simp add: snapshot_lines_def ListAll_def sql_scan_def db_up_simps [OF assms] job_of_row_def filter_map comp_def image_image)

lemma snapshotLoop_finished:
  assumes "list_all (\<lambda>(e, _). db_up e) ticks"
  shows "set (snapshotLoop ticks) = (\<Union>(_, db)\<in>set ticks.
    (\<lambda>r. ''[snapshot] job='' @ r_id r @ '' status='' @ r_status r) ` {r \<in> set db. r_status r \<in> {''succeeded'', ''failed''}})"
  using assms by (induction ticks rule: snapshotLoop.induct) (simp_all add: snapshot_lines_finished)

subsection \<open>Examples\<close>

lemma sample_running_lease:
  "r_status sample_running \<in> {''assigned'', ''running''}" "r_lease_expires_at sample_running = Some 100"
  "sint (r_retry_count sample_running) < 2 ^ 31 - 1"
  by (simp_all add: sample_simps)

theorem requeue_pass_recovers_witness:
  "back_in_queue sample_server (\<lambda>m. m) ''r''
     (requeue_pass sample_server (up_env 101) (\<lambda>_. up_env 102) 7 (sample_world sample_db))"
  by (rule requeue_pass_recovers [OF sample_server_up sample_world_ok(1) _ _ sample_world_ok(3) sample_running_lease(1,2)
    _ _ sample_running_lease(3)]) simp_all

lemma requeue_pass_spares_witness:
  "row_of (w_db (requeue_pass sample_server (up_env 100) (\<lambda>_. up_env 102) 7 (sample_world sample_db))) ''r'' = Some sample_running"
  using requeue_pass_spares [OF sample_server_up sample_world_ok(1) _ sample_world_ok(3), of "up_env 100" "\<lambda>_. up_env 102" 7]
    sample_running_lease(2) by simp

lemma restore_publishes_queued_witness:
  "published sample_server (\<lambda>m. m) (job_of_row sample_queued)
     (restoreJobsFromDemand sample_server (up_env 5) (\<lambda>n. 31) (\<lambda>n k. 9) (sample_world sample_db))"
proof -
  have "r_status sample_queued = ''queued''" by (simp add: sample_simps)
  with restore_publishes_queued [OF sample_server_up sample_world_ok(1) _ _ sample_world_ok(2),
      of "up_env 5" "\<lambda>n. 31" "\<lambda>n k. 9"]
  show ?thesis by (simp add: TaskIndexShardCount_def)
qed

end
