(* ===== verification/Agent_Server.thy ===== *)
theory Agent_Server
  imports Agent_Run Control_Loops
begin

text \<open>
  Agent and control server together. A link carries the requests of an agent to the server: the
  locale \<open>control_link\<close> says what it promises, \<open>direct\<close> is the link on which requests arrive in the
  order they are sent, and the theorems follow a job from the claim to its end through the
  agent's clients on one side and the server's handlers on the other.

  The state of the link is the number of requests the server has served and its world. Between two
  requests of the agent others may act on the world; what they do is the argument \<open>oth\<close>.
\<close>

subsection \<open>Requests and replies\<close>

definition url_char :: "char \<Rightarrow> bool" where
  "url_char c \<longleftrightarrow> (let n = of_char c :: nat in 48 \<le> n \<and> n \<le> 57 \<or> 65 \<le> n \<and> n \<le> 90 \<or> 97 \<le> n \<and> n \<le> 122) \<or>
     c \<in> set ''/-_.~''"

definition safe_id :: "string \<Rightarrow> bool" where
  "safe_id i \<longleftrightarrow> plain_seg i \<and> list_all url_char i \<and> i \<noteq> ''logs''"

definition request_of :: "string \<Rightarrow> http_call \<Rightarrow> request" where
  "request_of path call =
     \<lparr>rq_method = hc_method call, rq_path = path, rq_query = (\<lambda>_. []), rq_header = hc_header call, rq_body = hc_body call\<rparr>"

definition body_payload :: "resp_body \<Rightarrow> payload" where
  "body_payload b = (case b of NoBody \<Rightarrow> Raw [] | Plain s \<Rightarrow> Raw s | JsonBody j \<Rightarrow> Doc j | Moved u \<Rightarrow> Raw [])"

definition auth_of :: "string \<Rightarrow> string" where
  "auth_of token = (if token \<noteq> [] then ''Bearer '' @ token else [])"

definition direct ::
  "'n server \<Rightarrow> (nat \<Rightarrow> callenv) \<Rightarrow> (nat \<Rightarrow> 'n world \<Rightarrow> 'n world) \<Rightarrow> string \<Rightarrow> (nat \<times> 'n world) http" where
  "direct sv ce oth base call x =
     (let (n, w) = x in
      if HasPrefix (hc_url call) base
      then (case mountHTTP sv (ce n) (request_of (drop (length base) (hc_url call)) call) (oth n w) of
              (Panic, w1) \<Rightarrow> (NetErr ''EOF'', Suc n, w1)
            | (Resp code b, w1) \<Rightarrow> (Reply code (dec code) (body_payload b), Suc n, w1))
      else (NetErr ''no such host'', n, w))"

text \<open>Nobody else touches the job.\<close>

definition undisturbed :: "string \<Rightarrow> (nat \<Rightarrow> 'n world \<Rightarrow> 'n world) \<Rightarrow> bool" where
  "undisturbed i oth \<longleftrightarrow>
     (\<forall>n w. row_of (w_db (oth n w)) i = row_of (w_db w) i \<and> (db_ok (w_db w) \<longrightarrow> db_ok (w_db (oth n w))))"

text \<open>A server that serves the agent for the job: database and DHT are up, the token is the agent's,
  and nobody else touches the job.\<close>

definition serving ::
  "'n server \<Rightarrow> (nat \<Rightarrow> callenv) \<Rightarrow> (nat \<Rightarrow> 'n world \<Rightarrow> 'n world) \<Rightarrow> ('n \<Rightarrow> string \<rightharpoonup> payload) \<Rightarrow> string \<Rightarrow> string \<Rightarrow> bool" where
  "serving sv ce oth view t i \<longleftrightarrow>
     dht_up (sv_dht sv) view \<and> (\<forall>n. db_up (ce_db (ce n))) \<and> sv_env sv ''CONTROL_TOKEN'' = t \<and> t \<noteq> [] \<and>
     safe_id i \<and> undisturbed i oth"

text \<open>A clock that advances by the pause of the wait, and an agent with a usable configuration.\<close>

definition steady :: "jobenv \<Rightarrow> bool" where
  "steady je \<longleftrightarrow> je_start je \<le> je_clk je 0 \<and> (\<forall>k. je_clk je k + 500 * millisecond \<le> je_clk je (Suc k))"

definition configured :: "agent_cfg \<Rightarrow> string \<Rightarrow> bool" where
  "configured cfg base \<longleftrightarrow> ag_controlURL cfg = base \<and> ag_id cfg \<noteq> [] \<and> 0 < ag_hb cfg \<and> in_i64 (seconds_of (ag_ttl cfg))"

text \<open>The job is leased to the agent with the token.\<close>

definition held :: "string \<Rightarrow> string \<Rightarrow> i64 \<Rightarrow> nat \<times> 'n world \<Rightarrow> bool" where
  "held i a tok x \<longleftrightarrow> db_ok (w_db (snd x)) \<and>
     (\<exists>row. row_of (w_db (snd x)) i = Some row \<and> r_lease_agent row = Some a \<and> r_lease_token row = tok)"

text \<open>The job has the row and the row has no lease.\<close>

definition settled :: "string \<Rightarrow> job_row \<Rightarrow> nat \<times> 'n world \<Rightarrow> bool" where
  "settled i row x \<longleftrightarrow> db_ok (w_db (snd x)) \<and> row_of (w_db (snd x)) i = Some row \<and> r_lease_agent row = None"

text \<open>The request of the wait for a manifest.\<close>

definition get_call :: "string \<Rightarrow> string \<Rightarrow> string \<Rightarrow> http_call" where
  "get_call base t i =
     \<lparr>hc_method = ''GET'', hc_url = base @ ''/api/tasks/'' @ i, hc_header = set_auth t (\<lambda>_. []), hc_body = Raw []\<rparr>"

text \<open>The job has the row, and its manifest in the DHT is \<open>m\<close>.\<close>

definition waiting ::
  "'n server \<Rightarrow> ('n \<Rightarrow> string \<rightharpoonup> payload) \<Rightarrow> string \<Rightarrow> job_row \<Rightarrow> manifest \<Rightarrow> nat \<times> 'n world \<Rightarrow> bool" where
  "waiting sv view i row m x \<longleftrightarrow> db_ok (w_db (snd x)) \<and> row_of (w_db (snd x)) i = Some row \<and>
     docs sv view (snd x) (KeyManifest i) = Some (Doc (enc_manifest m))"

text \<open>What an agent makes of a job, as a function of the documents it reads and of its machine: whether
  it reports success, and with which metrics; nothing if it crashes while fetching.\<close>

definition inputs_report ::
  "('w, 'f, 'h) machine \<Rightarrow> string \<Rightarrow> manifest \<Rightarrow> task_meta \<Rightarrow> 'f \<times> 'h \<Rightarrow> (bool \<times> (string \<times> json) list) option" where
  "inputs_report M i man meta x =
     (case fetch_inputs M i man x of
        (Crashed, _) \<Rightarrow> None
      | (Returned (Some _), _) \<Rightarrow> Some (False, [(''error_stage'', JStr ''fetch_input'')])
      | (Returned None, f', _) \<Rightarrow>
          (let res = fst (RunInContainer M (''./work/'' @ i) (tm_Image meta) (tm_Command meta) f')
           in Some (fst (run_status res) = ''succeeded'', run_metrics res)))"

definition job_report ::
  "('w, 'f, 'h) machine \<Rightarrow> (string \<rightharpoonup> payload) \<Rightarrow> string \<Rightarrow> 'f \<times> 'h \<Rightarrow> (bool \<times> (string \<times> json) list) option" where
  "job_report M seen i x =
     (let m = seen (KeyManifest i); meta = seen (KeyMeta i) in
      if \<not> readable zero_manifest dec_manifest m \<or> mf_RootCID (manifest_at m) = []
      then Some (False, [(''error_stage'', JStr ''manifest_check''), (''reason'', JStr ''manifest_not_found'')])
      else if \<not> readable zero_meta dec_meta meta then Some (False, [(''error_stage'', JStr ''get_meta'')])
      else inputs_report M i (manifest_at m) (read_as zero_meta dec_meta meta) x)"

text \<open>The job is finished in the database with an outcome and metrics.\<close>

definition finished_with :: "string \<Rightarrow> bool \<Rightarrow> (string \<times> json) list \<Rightarrow> nat \<times> 'n world \<Rightarrow> bool" where
  "finished_with i succ mets x \<longleftrightarrow>
     (\<exists>row. settled i row x \<and> r_status row = finish_status succ \<and> r_metrics row = Some (JObj mets))"

text \<open>An agent on a direct link to the server of the examples, with files in memory and a \<open>docker\<close> on
  which everything succeeds, and documents it may read.\<close>

definition sample_link :: "(nat \<times> (string \<rightharpoonup> payload) world) http" where
  "sample_link = direct sample_server (\<lambda>_. sample_call) (\<lambda>_ w. w) ''http://127.0.0.1:8080''"

definition sample_agent :: "(nat \<times> (string \<rightharpoonup> payload) world, string \<rightharpoonup> string, string \<rightharpoonup> string) machine" where
  "sample_agent =
     \<lparr>mc_http = sample_link, mc_fs = mem_fs, mc_p2p = sample_p2p, mc_lookpath = (\<lambda>_. None), mc_abs = Inr,
      mc_docker = (\<lambda>_ f. ((Exited 0, ''hello'', [], 3 * millisecond), f))\<rparr>"

definition sample_astate :: "(nat \<times> (string \<rightharpoonup> payload) world, string \<rightharpoonup> string, string \<rightharpoonup> string) astate" where
  "sample_astate = \<lparr>as_web = (0, sample_world sample_db), as_files = Map.empty, as_host = Map.empty, as_jobs = 0\<rparr>"

definition sample_docs :: "string \<Rightarrow> (string \<rightharpoonup> payload) dht" where
  "sample_docs i =
     (let c = solo_cfg ''mc'' in
      snd (PutJSON c (KeyMeta i) (enc_meta (new_meta i ''alpine'' [''echo''] 9))
        (snd (PutJSON c (KeyManifest i) (enc_manifest (noop_manifest 9)) fresh_dht))))"

definition sample_jobenv :: jobenv where
  "sample_jobenv = \<lparr>je_start = 0, je_clk = (\<lambda>n. int n * (500 * millisecond)), je_beats = (\<lambda>_. 2), je_after = 1\<rparr>"

subsection \<open>The agent's requests\<close>

lemma auth_accepted:
  assumes "sv_env sv ''CONTROL_TOKEN'' = t" "t \<noteq> []"
  shows "requireAuth (sv_env sv) (claim_request i a n (auth_of t))"
    "requireAuth (sv_env sv) (heartbeat_request i a nonce n ver (auth_of t))"
    "requireAuth (sv_env sv) (finish_request i a tok st mets err (auth_of t))"
    "requireAuth (sv_env sv) (get_request i (auth_of t))"
  using assms
  by (simp_all add: requireAuth_def Let_def claim_request_def heartbeat_request_def finish_request_def get_request_def
      json_header_def agent_header_def auth_of_def)

lemma post_header:
  "set_auth t ((\<lambda>_. [])(''Content-Type'' := ''application/json'')) = json_header (auth_of t) [] []"
  by (auto simp: set_auth_def json_header_def agent_header_def auth_of_def fun_eq_iff)

lemma finish_header_eq:
  "finish_header cl a tok = json_header (auth_of (cl_Token cl)) a (if 0 < sint tok then fmt_d (sint tok) else [])"
  unfolding finish_header_def post_header Let_def
  by (auto simp: json_header_def agent_header_def fun_eq_iff)

lemma get_header: "set_auth t (\<lambda>_. []) = agent_header (auth_of t) [] []"
  by (auto simp: set_auth_def agent_header_def auth_of_def fun_eq_iff)

lemma lease_out_ok: "dec_lease_out (JObj [(''ok'', JBool True)]) = (zero_lease_out\<lparr>lo_OK := True\<rparr>, True)"
  by (simp add: dec_lease_out_def set_lease_out_def)

lemma servingD:
  assumes "serving sv ce oth view t i"
  shows "dht_up (sv_dht sv) view" "db_up (ce_db (ce n))" "plain_seg i" "sv_env sv ''CONTROL_TOKEN'' = t" "t \<noteq> []"
    "db_ok (w_db w) \<Longrightarrow> db_ok (w_db (oth n w))" "row_of (w_db (oth n w)) i = row_of (w_db w) i"
    "list_all url_char (''/api/tasks/'' @ i @ ''/try-claim'')" "list_all url_char (''/api/tasks/'' @ i @ ''/heartbeat'')"
    "list_all url_char (''/jobs/'' @ i @ ''/finish'')" "list_all url_char (''/api/tasks/'' @ i)" "i \<noteq> ''logs''"
  using assms by (simp_all add: serving_def safe_id_def undisturbed_def url_char_def Let_def)

lemma held_cases:
  assumes "held i a tok x"
  obtains row where "row_of (w_db (snd x)) i = Some row" "r_lease_agent row = Some a" "r_lease_token row = tok"
    "db_ok (w_db (snd x))" "0 < sint tok"
proof -
  from assms obtain row where r: "row_of (w_db (snd x)) i = Some row" "r_lease_agent row = Some a" "r_lease_token row = tok"
    "db_ok (w_db (snd x))" by (auto simp: held_def)
  from db_ok_rowD [OF r(4,1)] r(2,3) have "0 < sint tok" by (auto simp: row_ok_def split: if_splits)
  with r that show thesis by blast
qed

lemma get_request_handler:
  assumes "plain_seg i" "i \<noteq> ''logs''"
  shows "mountHTTP sv ce (get_request i auth) w = getTaskHandler sv ce (get_request i auth) w"
proof -
  let ?r = "get_request i auth"
  have p: "rq_path ?r = ''/api/tasks/'' @ i" "rq_method ?r = ''GET''" by (simp_all add: get_request_def)
  have "CHR ''/'' \<notin> set i" using assms(1) by (simp add: plain_seg_def)
  then have "\<not> HasSuffix (rq_path ?r) ''/logs''"
    using last_seg_suffix [of i "''logs''" "''/api/tasks''"] assms(2) by (simp add: p)
  then show ?thesis using mount_task [OF assms(1) p(1)] by (simp add: tasks_sub_def p)
qed

lemma get_request_db:
  assumes "plain_seg i" "i \<noteq> ''logs''"
  shows "w_db (snd (mountHTTP sv ce (get_request i auth) w)) = w_db w"
  by (simp add: get_request_handler [OF assms] getTaskHandler_def Let_def split_beta http_defs split: sum.splits)

lemma get_request_docs:
  assumes "dht_up (sv_dht sv) view" "plain_seg i" "i \<noteq> ''logs''"
  shows "docs sv view (snd (mountHTTP sv ce (get_request i auth) w)) = docs sv view w"
proof -
  obtain err d' where "GetJSON (sv_dht sv) zero_manifest dec_manifest (KeyManifest i) (2 * second) (w_dht w) =
      ((manifest_at (docs sv view w (KeyManifest i)), err), d')" "doc (sv_dht sv) view d' = docs sv view w"
    by (rule dht_net.GetJSON_cases [OF dht_up.axioms(1) [OF assms(1)]])
  moreover have "TrimPrefix (rq_path (get_request i auth)) ''/api/tasks/'' = i"
    using TrimPrefix_append [of "''/api/tasks/''" i] by (simp add: get_request_def)
  ultimately show ?thesis
    by (simp add: get_request_handler [OF assms(2,3)] getTaskHandler_def Let_def http_defs split: sum.splits)
qed

text \<open>The manifest an agent reads from the view of a task has no secret.\<close>

lemma dec_manifest_out:
  "dec_manifest (enc_manifest_out (out_of_manifest m)) = (m\<lparr>mf_EncMeta := []\<rparr>, True)"
  by (simp add: dec_manifest_def enc_manifest_out_def manifest_out_members_def out_of_manifest_def copy_provider_def
      set_manifest_def zero_manifest_def decode_steps put_list_enc comp_def list_all_iff del: decode_members.simps(2))

lemma ToLower_view_names [simp]: "ToLower ''meta'' = ''meta''" "ToLower ''state'' = ''state''"
  by code_simp+

lemma ready_task_view:
  assumes "mf_RootCID m \<noteq> []"
  shows "ready_manifest (Reply 200 st (Doc (task_view job (Some (out_of_manifest m))))) =
    (if mf_Providers m = [] then None else Some (m\<lparr>mf_EncMeta := []\<rparr>))"
  using assms dec_manifest_out [of m]
  by (simp add: ready_manifest_def task_view_def unmarshal_Doc set_wait_out_def enc_manifest_out_def)

lemma ready_task_view_none: "ready_manifest (Reply 200 st (Doc (task_view job None))) = None"
  by (simp add: ready_manifest_def task_view_def unmarshal_Doc set_wait_out_def)

subsection \<open>The link\<close>

locale control_link =
  fixes h :: "(nat \<times> 'n world) http" and base :: string and sv :: "'n server" and ce :: "nat \<Rightarrow> callenv"
    and oth :: "nat \<Rightarrow> 'n world \<Rightarrow> 'n world"
  assumes answered: "hc_url call = base @ path \<Longrightarrow> list_all url_char path \<Longrightarrow>
      mountHTTP sv (ce n) (request_of path call) (oth n w) = (Resp code b, w1) \<Longrightarrow> code div 100 \<noteq> 3 \<Longrightarrow>
      \<exists>st. h call (n, w) = (Reply code st (body_payload b), Suc n, w1)"
    and dropped: "hc_url call = base @ path \<Longrightarrow> list_all url_char path \<Longrightarrow>
      mountHTTP sv (ce n) (request_of path call) (oth n w) = (Panic, w1) \<Longrightarrow>
      \<exists>e. h call (n, w) = (NetErr e, Suc n, w1)"
begin

lemma claim_post_answered:
  assumes "request_of path \<lparr>hc_method = ''POST'', hc_url = base @ path, hc_header = json_header (auth_of t) [] [], hc_body = Doc inp\<rparr> = r"
    and "list_all url_char path" "mountHTTP sv (ce n) r (oth n w) = (Resp code b, w1)" "code div 100 \<noteq> 3"
  shows "\<exists>st. claim_post h \<lparr>cl_BaseURL = base, cl_Token = t\<rparr> path inp z decf (n, w) =
    (if code div 100 \<noteq> 2 then Returned (z, Some (''http '' @ path @ '': '' @ st)) else Returned (unmarshal z decf (body_payload b)), Suc n, w1)"
  using answered [OF _ assms(2), of "\<lparr>hc_method = ''POST'', hc_url = base @ path, hc_header = json_header (auth_of t) [] [], hc_body = Doc inp\<rparr>"
      n w code b w1] assms(1,3,4)
  by (auto simp: claim_post_def post_header)

lemma TryClaim_granted_link:
  assumes "serving sv ce oth view t i" "db_ok (w_db w)" "a \<noteq> []" "in_i64 (seconds_of ttl)"
    and "row_of (w_db w) i = Some row" "r_status row = ''queued''" "sint (r_lease_token row) < 2 ^ 63 - 1"
  shows "\<exists>l x. Agent_Client.TryClaim h \<lparr>cl_BaseURL = base, cl_Token = t\<rparr> i a ttl (n, w) = (Returned (Inr l), x) \<and>
    held i a (r_lease_token row + 1) x \<and> tl_Version l = r_lease_token row + 1 \<and>
    tl_Expires l = stmt_now (ce_db (ce n)) 0 + ttlOrDefault (seconds_of ttl)"
proof -
  let ?w = "oth n w" and ?n = "seconds_of ttl"
  let ?x = "stmt_now (ce_db (ce n)) 0 + ttlOrDefault ?n"
  let ?l = "\<lparr>le_AgentID = a, le_ExpireAt = ?x, le_FencingToken = r_lease_token row + 1\<rparr>"
  note sv = servingD [OF assms(1)]
  have w: "db_ok (w_db ?w)" "row_of (w_db ?w) i = Some row" using assms(2,5) sv(6,7) by simp_all
  let ?w1 = "?w\<lparr>w_db := put_row (claimed_row a ?x row) (w_db ?w)\<rparr>"
  let ?r = "claim_dht sv (ce n) i a (Some ?l) ?w1"
  have tc: "Lease_Store.TryClaim (ce_db (ce n)) i a (ttlOrDefault ?n) (w_db ?w) = (Inr ?l, put_row (claimed_row a ?x row) (w_db ?w))"
    using TryClaim_queued [OF w(1) sv(2) w(2) assms(6,7), of n a "ttlOrDefault ?n"] by (simp add: seconds_ttlOrDefault)
  have "mountHTTP sv (ce n) (claim_request i a ?n (auth_of t)) ?w = ?r"
    by (simp add: claim_request_routed [OF sv(3) auth_accepted(1) [OF sv(4,5)] assms(4,3)] tc)
  then have m: "mountHTTP sv (ce n) (claim_request i a ?n (auth_of t)) ?w =
      (Resp 200 (JsonBody (enc_lease_out \<lparr>lo_OK = True, lo_Lease = lease_doc a ?l\<rparr>)), snd ?r)"
    by (simp add: prod_eq_iff claim_dht_reply http_defs)
  have "row_of (w_db (snd ?r)) i = Some (claimed_row a ?x row)"
    using row_of_SomeD [OF w(2)] w(2) by (simp add: claim_dht_reply row_of_put_row claimed_row_def)
  moreover have "db_ok (w_db (snd ?r))"
    using TryClaim_ok [OF w(1), of "ce_db (ce n)" i a "ttlOrDefault ?n"] tc by (simp add: claim_dht_reply)
  ultimately have "held i a (r_lease_token row + 1) (Suc n, snd ?r)" by (simp add: held_def claimed_row_def)
  moreover obtain st where "claim_post h \<lparr>cl_BaseURL = base, cl_Token = t\<rparr> (''/api/tasks/'' @ i @ ''/try-claim'')
      (JObj [(''agent_id'', JStr a), (''ttl_sec'', JNum ?n)]) zero_lease_out dec_lease_out (n, w) =
      (Returned (unmarshal zero_lease_out dec_lease_out (Doc (enc_lease_out \<lparr>lo_OK = True, lo_Lease = lease_doc a ?l\<rparr>))), Suc n, snd ?r)"
    using claim_post_answered [OF _ sv(8) m, of t "JObj [(''agent_id'', JStr a), (''ttl_sec'', JNum ?n)]" zero_lease_out dec_lease_out]
    by (auto simp: request_of_def claim_request_def body_payload_def)
  ultimately show ?thesis
    by (simp add: Agent_Client.TryClaim_def unmarshal_Doc lease_doc_def)
qed

lemma heartbeat_post:
  assumes "serving sv ce oth view t i" "in_i64 n'" "0 < sint tok"
    and "Lease_Store.Heartbeat (ce_db (ce n)) i a tok (ttlOrDefault n') (w_db (oth n w)) = (err, db')"
  shows "\<exists>st w1. w_db w1 = db' \<and> claim_post h \<lparr>cl_BaseURL = base, cl_Token = t\<rparr> (''/api/tasks/'' @ i @ ''/heartbeat'')
      (JObj [(''agent_id'', JStr a), (''lease_version'', JNum (sint tok)), (''nonce'', JStr nonce), (''ttl_sec'', JNum n')])
      zero_lease_out dec_lease_out (n, w) =
    (Returned (if err = None then (zero_lease_out\<lparr>lo_OK := True\<rparr>, None)
       else (zero_lease_out, Some (''http '' @ (''/api/tasks/'' @ i @ ''/heartbeat'') @ '': '' @ st))), Suc n, w1)"
proof -
  note sv = servingD [OF assms(1)]
  let ?r = "heartbeat_request i a nonce n' tok (auth_of t)"
  let ?b = "if err = None then JsonBody (JObj [(''ok'', JBool True)]) else Plain (''heartbeat failed: '' @ err_text (the err))"
  obtain w1 where m: "mountHTTP sv (ce n) ?r (oth n w) = (Resp (if err = None then 200 else 409) ?b, w1)" "w_db w1 = db'"
    using heartbeat_request_routed [OF sv(3) auth_accepted(2) [OF sv(4,5)] assms(2,3), of "ce n" a nonce "oth n w"] assms(4)
    by (cases err) (auto simp: http_defs Let_def split_beta)
  from claim_post_answered [OF _ sv(9) m(1), of t "JObj [(''agent_id'', JStr a), (''lease_version'', JNum (sint tok)),
      (''nonce'', JStr nonce), (''ttl_sec'', JNum n')]" zero_lease_out dec_lease_out] m(2)
  show ?thesis
    by (cases err) (auto simp: request_of_def heartbeat_request_def body_payload_def unmarshal_Doc lease_out_ok)
qed

lemma Heartbeat_held:
  assumes "serving sv ce oth view t i" "in_i64 (seconds_of ttl)" "held i a tok x"
  shows "\<exists>l x'. Agent_Client.Heartbeat h \<lparr>cl_BaseURL = base, cl_Token = t\<rparr> i a nonce ttl tok x = (Returned (Inr l), x') \<and> held i a tok x'"
proof -
  note sv = servingD [OF assms(1)]
  obtain n w where x: "x = (n, w)" by fastforce
  from assms(3) obtain row where r: "row_of (w_db w) i = Some row" "r_lease_agent row = Some a" "r_lease_token row = tok"
    "db_ok (w_db w)" "0 < sint tok" by (rule held_cases) (simp add: x)
  let ?w = "oth n w" and ?n = "seconds_of ttl"
  let ?row' = "row\<lparr>r_lease_expires_at := Some (stmt_now (ce_db (ce n)) 0 + ttlOrDefault ?n), r_status := ''running''\<rparr>"
  have w: "db_ok (w_db ?w)" "row_of (w_db ?w) i = Some row" using r sv(6,7) by simp_all
  have hb: "Lease_Store.Heartbeat (ce_db (ce n)) i a tok (ttlOrDefault ?n) (w_db ?w) = (None, put_row ?row' (w_db ?w))"
    using Heartbeat_holder [OF w(1) sv(2) w(2) r(2), of n "ttlOrDefault ?n"] r(3) by (simp add: seconds_ttlOrDefault)
  have "row_of (put_row ?row' (w_db ?w)) i = Some ?row'" using w(2) row_of_SomeD [OF w(2)] by (simp add: row_of_put_row)
  moreover have "db_ok (put_row ?row' (w_db ?w))"
    using Heartbeat_ok [OF w(1), of "ce_db (ce n)" i a tok "ttlOrDefault ?n"] hb by simp
  ultimately show ?thesis
    using heartbeat_post [OF assms(1,2) r(5) hb, of nonce] r
    by (auto simp: Agent_Client.Heartbeat_def x held_def)
qed

lemma Heartbeat_settled:
  assumes "serving sv ce oth view t i" "in_i64 (seconds_of ttl)" "settled i row x" "0 < sint tok"
  shows "\<exists>e x'. Agent_Client.Heartbeat h \<lparr>cl_BaseURL = base, cl_Token = t\<rparr> i a nonce ttl tok x = (Returned (Inl e), x') \<and> settled i row x'"
proof -
  note sv = servingD [OF assms(1)]
  obtain n w where x: "x = (n, w)" by fastforce
  have w: "db_ok (w_db (oth n w))" "row_of (w_db (oth n w)) i = Some row" "r_lease_agent row = None"
    using assms(3) sv(6,7) by (simp_all add: settled_def x)
  have hb: "Lease_Store.Heartbeat (ce_db (ce n)) i a tok (ttlOrDefault (seconds_of ttl)) (w_db (oth n w)) = (Some ErrBadToken, w_db (oth n w))"
    by (rule Heartbeat_other [OF w(1) sv(2)]) (simp add: w)
  from heartbeat_post [OF assms(1,2,4) hb, of nonce] w show ?thesis
    by (auto simp: Agent_Client.Heartbeat_def x settled_def)
qed

lemma Report_held:
  assumes "serving sv ce oth view t i" "held i a tok x"
  shows "\<exists>row x'. Report h \<lparr>cl_BaseURL = base, cl_Token = t\<rparr> i st mets [] [] err a tok x = (Returned None, x') \<and>
    settled i row x' \<and> r_status row = finish_status (ToLower st = ''succeeded'') \<and> r_metrics row = Some (JObj mets)"
proof -
  note sv = servingD [OF assms(1)]
  obtain n w where x: "x = (n, w)" by fastforce
  from assms(2) obtain row where r: "row_of (w_db w) i = Some row" "r_lease_agent row = Some a" "r_lease_token row = tok"
    "db_ok (w_db w)" "0 < sint tok" by (rule held_cases) (simp add: x)
  have w: "db_ok (w_db (oth n w))" "row_of (w_db (oth n w)) i = Some row" using r sv(6,7) by simp_all
  let ?succ = "ToLower st = ''succeeded''"
  let ?row' = "row\<lparr>r_status := finish_status ?succ, r_result_root_cid := Some [],
        r_artifacts := Some (toJSON (Some (enc_strs []))), r_metrics := Some (toJSON (Some (JObj mets))),
        r_lease_agent := None, r_lease_expires_at := None\<rparr>"
  have f: "Finish (ce_db (ce n)) i a tok ?succ [] [] (JObj mets) (w_db (oth n w)) = (None, put_row ?row' (w_db (oth n w)))"
    by (rule Finish_holder [OF w(1) sv(2) w(2)]) (simp_all add: r)
  obtain w1 where m: "mountHTTP sv (ce n) (finish_request i a tok st mets err (auth_of t)) (oth n w) = (Resp 204 NoBody, w1)"
    "w_db w1 = put_row ?row' (w_db (oth n w))"
    using finish_request_routed [OF sv(3) auth_accepted(3) [OF sv(4,5)] r(5) f] by simp
  let ?call = "\<lparr>hc_method = ''POST'', hc_url = base @ ''/jobs/'' @ i @ ''/finish'',
      hc_header = json_header (auth_of t) a (if 0 < sint tok then fmt_d (sint tok) else []),
      hc_body = rq_body (finish_request i a tok st mets err (auth_of t))\<rparr>"
  have "request_of (''/jobs/'' @ i @ ''/finish'') ?call = finish_request i a tok st mets err (auth_of t)"
    by (simp add: request_of_def finish_request_def)
  then obtain sl where "h ?call (n, w) = (Reply 204 sl (Raw []), Suc n, w1)"
    using answered [of ?call "''/jobs/'' @ i @ ''/finish''" n w 204 NoBody w1] m(1) sv(10) by (auto simp: body_payload_def)
  then have "Report h \<lparr>cl_BaseURL = base, cl_Token = t\<rparr> i st mets [] [] err a tok (n, w) = (Returned None, Suc n, w1)"
    by (simp add: Report_def finish_post_def finish_header_eq finish_request_def enc_strs_def r(5))
  moreover have "row_of (w_db w1) i = Some ?row'"
    using w(2) row_of_SomeD [OF w(2)] by (simp add: m(2) row_of_put_row)
  moreover have "db_ok (w_db w1)"
    using Finish_ok [OF w(1), of "ce_db (ce n)" i a tok ?succ "[]" "[]" "JObj mets"] f by (simp add: m(2))
  ultimately show ?thesis
    by (intro exI [of _ ?row'] exI [of _ "(Suc n, w1)"]) (simp add: x settled_def toJSON_def)
qed

lemma get_answer:
  assumes "serving sv ce oth view t i" "db_ok (w_db w)" "row_of (w_db w) i = Some row"
  shows "\<exists>st w1. h (get_call base t i) (n, w) =
      (Reply 200 st (Doc (task_view (job_of_row row) (shown_manifest (docs sv view (oth n w) (KeyManifest i))))), Suc n, w1) \<and>
    w_db w1 = w_db (oth n w) \<and> docs sv view w1 = docs sv view (oth n w)"
proof -
  note sv = servingD [OF assms(1)]
  have w: "db_ok (w_db (oth n w))" "row_of (w_db (oth n w)) i = Some row" using assms(2,3) sv(6,7) by simp_all
  have rq: "request_of (''/api/tasks/'' @ i) (get_call base t i) = get_request i (auth_of t)"
    by (simp add: request_of_def get_request_def get_header get_call_def)
  let ?v = "JsonBody (task_view (job_of_row row) (shown_manifest (docs sv view (oth n w) (KeyManifest i))))"
  obtain w1 where m: "mountHTTP sv (ce n) (get_request i (auth_of t)) (oth n w) = (Resp 200 ?v, w1)"
    using get_request_reply [OF sv(1) w(1) sv(2) sv(3) sv(12) auth_accepted(4) [OF sv(4,5)] w(2)] by (metis prod.collapse)
  have "w_db w1 = w_db (oth n w)" using get_request_db [OF sv(3,12), of sv "ce n" "auth_of t" "oth n w"] m by simp
  moreover have "docs sv view w1 = docs sv view (oth n w)"
    using get_request_docs [OF sv(1,3,12), of "ce n" "auth_of t" "oth n w"] m by simp
  moreover obtain st where "h (get_call base t i) (n, w) = (Reply 200 st (body_payload ?v), Suc n, w1)"
    using answered [of "get_call base t i" "''/api/tasks/'' @ i" n w 200 ?v w1] m sv(11) rq by (auto simp: get_call_def)
  ultimately show ?thesis by (simp add: body_payload_def)
qed

lemma get_held:
  assumes "serving sv ce oth view t i" "held i a tok x"
  shows "held i a tok (snd (h (get_call base t i) x))"
proof -
  obtain n w where x: "x = (n, w)" by fastforce
  from assms(2) obtain row where r: "row_of (w_db w) i = Some row" "r_lease_agent row = Some a" "r_lease_token row = tok"
    "db_ok (w_db w)" "0 < sint tok" by (rule held_cases) (simp add: x)
  have "db_ok (w_db (oth n w))" "row_of (w_db (oth n w)) i = Some row" using r servingD(6,7) [OF assms(1)] by simp_all
  with get_answer [OF assms(1) r(4,1), of n] r show ?thesis by (auto simp: x held_def)
qed

lemma get_unready:
  assumes "serving sv ce oth view t i" "\<And>n w. docs sv view (oth n w) (KeyManifest i) = docs sv view w (KeyManifest i)"
    and "mf_Providers m = []" "waiting sv view i row m x"
  shows "ready_manifest (fst (h (get_call base t i) x)) = None \<and> (\<forall>e. fst (h (get_call base t i) x) \<noteq> BadURL e) \<and>
    waiting sv view i row m (snd (h (get_call base t i) x))"
proof -
  obtain n w where x: "x = (n, w)" by fastforce
  have w: "db_ok (w_db w)" "row_of (w_db w) i = Some row" "docs sv view w (KeyManifest i) = Some (Doc (enc_manifest m))"
    using assms(4) by (simp_all add: waiting_def x)
  have o: "db_ok (w_db (oth n w))" "row_of (w_db (oth n w)) i = Some row" using w servingD(6,7) [OF assms(1)] by simp_all
  have shown: "shown_manifest (Some (Doc (enc_manifest m))) = (if mf_RootCID m = [] then None else Some (out_of_manifest m))"
    by (simp add: shown_manifest_def readable_Doc read_as_Doc)
  have "ready_manifest (Reply 200 st (Doc (task_view (job_of_row row) (shown_manifest (Some (Doc (enc_manifest m))))))) = None" for st
    using ready_task_view [of m st "job_of_row row"] assms(3) ready_task_view_none [of st "job_of_row row"] by (simp add: shown)
  with get_answer [OF assms(1) w(1,2), of n] w o assms(2) show ?thesis by (auto simp: x waiting_def)
qed

text \<open>The heartbeats of a job that is held are all accepted, those of a settled one change nothing.\<close>

lemma hb_ticks_held:
  assumes "serving sv ce oth view t i" "in_i64 (seconds_of (ag_ttl cfg))" "held i (ag_id cfg) (tl_Version l) x"
  shows "\<exists>k' x'. hb_ticks h cfg \<lparr>cl_BaseURL = base, cl_Token = t\<rparr> i l n (k, x) = Returned (k', x') \<and> held i (ag_id cfg) (tl_Version l) x'"
proof (rule hb_ticks_invariant [where Q = "held i (ag_id cfg) (tl_Version l)", OF _ assms(3)])
  fix k and x :: "nat \<times> 'n world" assume "held i (ag_id cfg) (tl_Version l) x"
  from Heartbeat_held [OF assms(1,2) this, of "tl_Nonce l"]
  show "\<exists>k' w'. hb_tick h cfg \<lparr>cl_BaseURL = base, cl_Token = t\<rparr> i l (Some k, x) = Returned (k', w') \<and> held i (ag_id cfg) (tl_Version l) w'"
    by (auto simp: hb_tick_def)
qed

lemma hb_ticks_settled:
  assumes "serving sv ce oth view t i" "in_i64 (seconds_of (ag_ttl cfg))" "settled i row x" "0 < sint (tl_Version l)"
  shows "\<exists>k' x'. hb_ticks h cfg \<lparr>cl_BaseURL = base, cl_Token = t\<rparr> i l n (k, x) = Returned (k', x') \<and> settled i row x'"
proof (rule hb_ticks_invariant [where Q = "settled i row", OF _ assms(3)])
  fix k and x :: "nat \<times> 'n world" assume "settled i row x"
  from Heartbeat_settled [OF assms(1,2) this assms(4), of "ag_id cfg" "tl_Nonce l"]
  show "\<exists>k' w'. hb_tick h cfg \<lparr>cl_BaseURL = base, cl_Token = t\<rparr> i l (Some k, x) = Returned (k', w') \<and> settled i row w'"
    by (auto simp: hb_tick_def)
qed

lemma give_up_held:
  assumes "serving sv ce oth view t i" "in_i64 (seconds_of (ag_ttl cfg))" "held i (ag_id cfg) (tl_Version l) x"
  shows "\<exists>x'. give_up h cfg \<lparr>cl_BaseURL = base, cl_Token = t\<rparr> je i l mets msg (k, x) = Some x' \<and> finished_with i False mets x'"
proof -
  have "0 < sint (tl_Version l)" using assms(3) by (rule held_cases)
  obtain k1 x1 where 1: "hb_ticks h cfg \<lparr>cl_BaseURL = base, cl_Token = t\<rparr> i l (je_beats je 4) (k, x) = Returned (k1, x1)"
    "held i (ag_id cfg) (tl_Version l) x1" using hb_ticks_held [OF assms] by blast
  have lower: "ToLower ''failed'' \<noteq> ''succeeded''" by code_simp
  obtain row x2 where 2: "Report h \<lparr>cl_BaseURL = base, cl_Token = t\<rparr> i ''failed'' mets [] [] msg (ag_id cfg) (tl_Version l) x1 = (Returned None, x2)"
    "settled i row x2" "r_status row = finish_status False" "r_metrics row = Some (JObj mets)"
    using Report_held [OF assms(1) 1(2), of "''failed''" mets msg] lower by auto
  obtain k3 x3 where "hb_ticks h cfg \<lparr>cl_BaseURL = base, cl_Token = t\<rparr> i l (je_after je) (k1, x2) = Returned (k3, x3)" "settled i row x3"
    using hb_ticks_settled [OF assms(1,2) 2(2) \<open>0 < sint (tl_Version l)\<close>] by blast
  with 1 2 show ?thesis by (auto simp: give_up_def finished_with_def)
qed

lemma execute_held:
  assumes "serving sv ce oth view t i" "in_i64 (seconds_of (ag_ttl cfg))" "held i (ag_id cfg) (tl_Version l) (as_web s)" "mc_http M = h"
    and "fst (RunInContainer M (''./work/'' @ i) (tm_Image meta) (tm_Command meta) (as_files s)) = res"
  shows "\<exists>s'. execute M cfg \<lparr>cl_BaseURL = base, cl_Token = t\<rparr> je i l meta k s = Some s' \<and>
    finished_with i (fst (run_status res) = ''succeeded'') (run_metrics res) (as_web s')"
proof -
  let ?cl = "\<lparr>cl_BaseURL = base, cl_Token = t\<rparr>"
  have "0 < sint (tl_Version l)" using assms(3) by (rule held_cases)
  obtain st msg where st: "run_status res = (st, msg)" by fastforce
  obtain f1 where run: "RunInContainer M (''./work/'' @ i) (tm_Image meta) (tm_Command meta) (as_files s) = (res, f1)"
    using assms(5) by (metis prod.collapse)
  have "ToLower ''failed'' \<noteq> ''succeeded''" "ToLower ''succeeded'' = ''succeeded''" by code_simp+
  moreover have "st \<in> {''succeeded'', ''failed''}" using st by (auto simp: run_status_def split: sum.splits if_splits)
  ultimately have lower: "ToLower st = ''succeeded'' \<longleftrightarrow> st = ''succeeded''" by auto
  obtain k1 x1 where 1: "hb_ticks h cfg ?cl i l (je_beats je 3) (k, as_web s) = Returned (k1, x1)"
    "held i (ag_id cfg) (tl_Version l) x1" using hb_ticks_held [OF assms(1-3)] by blast
  obtain k2 x2 where 2: "hb_ticks h cfg ?cl i l (je_beats je 4) (k1, x1) = Returned (k2, x2)"
    "held i (ag_id cfg) (tl_Version l) x2" using hb_ticks_held [OF assms(1,2) 1(2)] by blast
  obtain row x3 where 3: "Report h ?cl i st (run_metrics res) [] [] msg (ag_id cfg) (tl_Version l) x2 = (Returned None, x3)"
    "settled i row x3" "r_status row = finish_status (st = ''succeeded'')" "r_metrics row = Some (JObj (run_metrics res))"
    using Report_held [OF assms(1) 2(2), of st "run_metrics res" msg] lower by auto
  obtain k4 x4 where 4: "hb_ticks h cfg ?cl i l (je_after je) (k2, x3) = Returned (k4, x4)" "settled i row x4"
    using hb_ticks_settled [OF assms(1,2) 3(2) \<open>0 < sint (tl_Version l)\<close>] by blast
  have "finish_loop (\<lambda>(hb, w). let (r, w') = Report h ?cl i st (run_metrics res) [] [] msg (ag_id cfg) (tl_Version l) w in (r, (hb, w')))
      (\<lambda>n. hb_ticks h cfg ?cl i l (je_beats je (4 + n))) (Suc 19) 0 None (k1, x1) = Returned (None, Suc 0, (k2, x3))"
    by (rule finish_loop_first, simp add: 2(1), simp add: 3(1))
  with run st 1 3 4 show ?thesis
    by (simp add: execute_def Let_def assms(4) maxFinishRetries_def finished_with_def) blast
qed

lemma fail_job_held:
  assumes "serving sv ce oth view t i" "in_i64 (seconds_of (ag_ttl cfg))" "held i (ag_id cfg) (tl_Version l) x" "mc_http M = h"
  shows "\<exists>s'. fail_job M cfg \<lparr>cl_BaseURL = base, cl_Token = t\<rparr> je i l mets msg (k, x) s = Some s' \<and> finished_with i False mets (as_web s')"
  using give_up_held [OF assms(1-3), of je mets msg k] by (auto simp: fail_job_def assms(4))

lemma fetch_and_run_held:
  assumes "serving sv ce oth view t i" "in_i64 (seconds_of (ag_ttl cfg))" "held i (ag_id cfg) (tl_Version l) x" "mc_http M = h"
    and "inputs_report M i man meta (as_files s, as_host s) = Some (succ, mets)"
  shows "\<exists>s'. fetch_and_run M cfg \<lparr>cl_BaseURL = base, cl_Token = t\<rparr> je i l man meta (k, x) s = Some s' \<and> finished_with i succ mets (as_web s')"
proof -
  obtain k1 x1 where 1: "hb_ticks h cfg \<lparr>cl_BaseURL = base, cl_Token = t\<rparr> i l (je_beats je 2) (k, x) = Returned (k1, x1)"
    "held i (ag_id cfg) (tl_Version l) x1" using hb_ticks_held [OF assms(1-3)] by blast
  obtain fe f' h' where f: "fetch_inputs M i man (as_files s, as_host s) = (Returned fe, f', h')"
    using assms(5) by (cases "fetch_inputs M i man (as_files s, as_host s)") (auto simp: inputs_report_def split: outcome.splits)
  let ?s = "s\<lparr>as_web := x1, as_files := f', as_host := h'\<rparr>"
  show ?thesis
  proof (cases fe)
    case (Some e)
    with f 1 assms(5) fail_job_held [OF assms(1,2) 1(2) assms(4), where s = ?s and je = je and k = k1
        and mets = "[(''error_stage'', JStr ''fetch_input'')]" and msg = "''fetch failed: '' @ e"]
    show ?thesis by (simp add: fetch_and_run_def inputs_report_def assms(4))
  next
    case None
    have "held i (ag_id cfg) (tl_Version l) (as_web ?s)" using 1(2) by simp
    from execute_held [OF assms(1,2) this assms(4) refl, where meta = meta and je = je and k = k1] None f 1 assms(5)
    show ?thesis by (auto simp: fetch_and_run_def inputs_report_def assms(4) Let_def)
  qed
qed

lemma run_job_held:
  assumes "serving sv ce oth view t i" "in_i64 (seconds_of (ag_ttl cfg))" "held i (ag_id cfg) (tl_Version l) (as_web s)" "mc_http M = h"
    and "dht_net c view'" "0 < ag_hb cfg" "job_report M (doc c view' d) i (as_files s, as_host s) = Some (succ, mets)"
  shows "\<exists>d' s'. run_job M c cfg \<lparr>cl_BaseURL = base, cl_Token = t\<rparr> je i l (d, s) = Some (d', s') \<and> finished_with i succ mets (as_web s')"
proof -
  let ?cl = "\<lparr>cl_BaseURL = base, cl_Token = t\<rparr>" and ?held = "held i (ag_id cfg) (tl_Version l)"
  let ?m = "doc c view' d (KeyManifest i)" and ?t = "doc c view' d (KeyMeta i)"
  obtain e1 d1 where g1: "GetJSON c zero_manifest dec_manifest (KeyManifest i) (3 * second) d = ((manifest_at ?m, e1), d1)"
    "e1 = None \<longleftrightarrow> readable zero_manifest dec_manifest ?m" "doc c view' d1 = doc c view' d"
    by (rule dht_net.GetJSON_cases [OF assms(5)])
  obtain e2 d2 where g2: "GetJSON c zero_meta dec_meta (KeyMeta i) (3 * second) d1 = ((read_as zero_meta dec_meta ?t, e2), d2)"
    "e2 = None \<longleftrightarrow> readable zero_meta dec_meta ?t"
    using g1(3) by (metis dht_net.GetJSON_cases [OF assms(5)])
  obtain k1 x1 where 1: "hb_ticks h cfg ?cl i l (je_beats je 0) (Some 0, as_web s) = Returned (k1, x1)" "?held x1"
    using hb_ticks_held [OF assms(1-3)] by blast
  obtain k2 x2 where 2: "hb_ticks h cfg ?cl i l (je_beats je (Suc 0)) (k1, x1) = Returned (k2, x2)" "?held x2"
    using hb_ticks_held [OF assms(1,2) 1(2)] by blast
  note fail = fail_job_held [OF assms(1,2) _ assms(4)]
  consider "e1 \<noteq> None \<or> mf_RootCID (manifest_at ?m) = []"
    | e where "\<not> (e1 \<noteq> None \<or> mf_RootCID (manifest_at ?m) = [])" "e2 = Some e"
    | "\<not> (e1 \<noteq> None \<or> mf_RootCID (manifest_at ?m) = [])" "e2 = None" by blast
  then show ?thesis
  proof cases
    case 1
    with assms(6,7) g1 \<open>hb_ticks _ _ _ _ _ (je_beats je 0) _ = _\<close> fail [OF \<open>?held x1\<close>]
    show ?thesis by (fastforce simp: run_job_def job_report_def Let_def assms(4))
  next
    case 2
    with assms(6,7) g1 g2 1 \<open>hb_ticks _ _ _ _ _ (je_beats je (Suc 0)) _ = _\<close> fail [OF \<open>?held x2\<close>]
    show ?thesis by (fastforce simp: run_job_def job_report_def Let_def assms(4))
  next
    case 3
    with assms(7) g1 g2 have "inputs_report M i (manifest_at ?m) (read_as zero_meta dec_meta ?t) (as_files s, as_host s) = Some (succ, mets)"
      by (simp add: job_report_def Let_def)
    from fetch_and_run_held [OF assms(1,2) \<open>?held x2\<close> assms(4) this, of je k2] 3 assms(6) g1 g2 1 2
    show ?thesis by (auto simp: run_job_def Let_def assms(4))
  qed
qed

lemma onCandidate_settles:
  assumes "mc_http M = h" "serving sv ce oth view (ag_token cfg) i" "dht_net c view'"
    and "configured cfg base" "url \<in> {[], base}"
    and "as_web s = (n, w)" "db_ok (w_db w)" "row_of (w_db w) i = Some row" "r_status row = ''queued''" "sint (r_lease_token row) < 2 ^ 63 - 1"
    and "steady (jes (as_jobs s))" "job_report M (doc c view' d) i (as_files s, as_host s) = Some (succ, mets)"
  shows "\<exists>d' s' row'. onCandidate M c cfg jes i ps url (d, s) = Some (d', s') \<and>
    row_of (w_db (snd (as_web s'))) i = Some row' \<and> r_lease_agent row' = None \<and>
    r_status row' = (if succ then ''succeeded'' else ''failed'') \<and> r_metrics row' = Some (JObj mets)"
proof -
  let ?je = "jes (as_jobs s)" and ?t = "ag_token cfg" and ?a = "ag_id cfg"
  have cfg: "ag_controlURL cfg = base" "ag_id cfg \<noteq> []" "0 < ag_hb cfg" "in_i64 (seconds_of (ag_ttl cfg))"
    using assms(4) by (simp_all add: configured_def)
  have clk: "je_start ?je \<le> je_clk ?je 0" "\<And>k. je_clk ?je k + 500 * millisecond \<le> je_clk ?je (Suc k)"
    using assms(11) by (simp_all add: steady_def)
  let ?cl = "\<lparr>cl_BaseURL = base, cl_Token = ?t\<rparr>"
  let ?get = "get_call base ?t i"
  obtain l x1 where 1: "Agent_Client.TryClaim h ?cl i ?a (ag_ttl cfg) (n, w) = (Returned (Inr l), x1)" "held i ?a (tl_Version l) x1"
    using TryClaim_granted_link [OF assms(2,7) cfg(2,4) assms(8-10)] by metis
  let ?k = "nat (15 * second div (500 * millisecond) + 1)"
  have dl: "je_start ?je + 15 * second < je_clk ?je (0 + ?k)" using deadline_passed [OF clk, of "15 * second"] by simp
  have keep: "\<And>x. held i ?a (tl_Version l) x \<Longrightarrow> held i ?a (tl_Version l) (snd (h ?get x))"
    by (rule get_held [OF assms(2)])
  obtain r m x2 where 2: "WaitForManifest h base ?t i (15 * second) (je_start ?je) (je_clk ?je) (\<lambda>_. None) x1 = Some (r, m, x2)"
    "held i ?a (tl_Version l) x2"
    using wait_loop_invariant [where Q = "held i ?a (tl_Version l)" and h = h and req = ?get and k = ?k and n = 0 and clk = "je_clk ?je" and dn = "\<lambda>_. None", OF keep 1(2) dl]
    unfolding WaitForManifest_def get_call_def by blast
  let ?s = "s\<lparr>as_jobs := Suc (as_jobs s), as_web := x2\<rparr>"
  have "held i ?a (tl_Version l) (as_web ?s)" "job_report M (doc c view' d) i (as_files ?s, as_host ?s) = Some (succ, mets)"
    using 2(2) assms(12) by simp_all
  then obtain d' s' where "run_job M c cfg ?cl ?je i l (d, ?s) = Some (d', s')" "finished_with i succ mets (as_web s')"
    using run_job_held [OF assms(2) cfg(4) _ assms(1,3) cfg(3)] by blast
  moreover have "(if url \<noteq> [] then url else ag_controlURL cfg) = base" using assms(5) cfg(1) by auto
  ultimately show ?thesis
    using 1 2 assms(1,6) cfg(1) by (auto simp: onCandidate_def Let_def finished_with_def settled_def finish_status_def)
qed

end

interpretation wire: control_link "direct sv ce oth base" base sv ce oth for sv ce oth base
  by unfold_locales (auto simp: direct_def)

subsection \<open>Properties\<close>

text \<open>C5: a job from offer to end. An agent that is offered a queued job, by a server that serves it while
  nobody else touches the job, claims it, keeps it with however many heartbeats come in between,
  and comes back with the job finished in the database: the outcome and the metrics are those of
  the specification \<open>job_report\<close> on every branch (no manifest, no metadata, inputs that cannot be
  fetched, container failed, container succeeded), and no lease is left.\<close>

theorem agent_settles_job:
  assumes "control_link (mc_http M) base sv ce oth" "serving sv ce oth view (ag_token cfg) i" "dht_net c view'"
    and "configured cfg base" "url \<in> {[], base}"
    and "as_web s = (n, w)" "db_ok (w_db w)" "row_of (w_db w) i = Some row" "r_status row = ''queued''" "sint (r_lease_token row) < 2 ^ 63 - 1"
    and "steady (jes (as_jobs s))" "job_report M (doc c view' d) i (as_files s, as_host s) = Some (succ, mets)"
  shows "\<exists>d' s' row'. onCandidate M c cfg jes i ps url (d, s) = Some (d', s') \<and>
    row_of (w_db (snd (as_web s'))) i = Some row' \<and> r_lease_agent row' = None \<and>
    r_status row' = (if succ then ''succeeded'' else ''failed'') \<and> r_metrics row' = Some (JObj mets)"
  by (rule control_link.onCandidate_settles [where jes = jes, OF assms(1) refl assms(2-12)])

text \<open>C36: waiting for the manifest of a job without providers outlasts its lease. The agent waits for a
  manifest with providers before it starts its heartbeats; for a job that has none (every job
  without inputs) the wait always runs into its deadline of 15 seconds. A lease of at most 15
  seconds has then expired, untouched, and the next scan for expired leases finds the job.\<close>

theorem noop_wait_outlasts_lease:
  assumes "control_link h base sv ce oth" "serving sv ce oth view t i"
    and "\<And>n w. docs sv view (oth n w) (KeyManifest i) = docs sv view w (KeyManifest i)"
    and "mf_Providers m = []" "waiting sv view i row m x"
    and "r_status row \<in> {''assigned'', ''running''}" "r_lease_expires_at row = Some ex" "ex \<le> start + 15 * second"
    and "start \<le> clk 0" "\<And>k. clk k + 500 * millisecond \<le> clk (Suc k)"
  shows "\<exists>k x'. WaitForManifest h base t i (15 * second) start clk (\<lambda>_. None) x = Some (Inl ''manifest not ready'', k, x') \<and>
    row_of (w_db (snd x')) i = Some row \<and>
    (\<forall>e cutoff. db_up e \<longrightarrow> clk k \<le> stmt_now e 0 \<longrightarrow>
       (\<exists>ids. ListExpiredLeases e cutoff (w_db (snd x')) = Inr ids \<and> i \<in> set ids))"
proof -
  let ?k = "nat (15 * second div (500 * millisecond) + 1)"
  have dl: "start + 15 * second < clk (0 + ?k)" using deadline_passed [OF assms(9,10), of "15 * second"] by simp
  obtain k x' where w: "WaitForManifest h base t i (15 * second) start clk (\<lambda>_. None) x = Some (Inl ''manifest not ready'', k, x')"
    "start + 15 * second < clk k" "waiting sv view i row m x'"
    using wait_loop_times_out [where Q = "waiting sv view i row m" and h = h and req = "get_call base t i" and n = 0 and k = ?k and clk = clk,
        OF dl assms(5) control_link.get_unready [OF assms(1-4)]]
    unfolding WaitForManifest_def get_call_def by blast
  have "row_of (w_db (snd x')) i = Some row" using w(3) by (simp add: waiting_def)
  moreover have "\<exists>ids. ListExpiredLeases e cutoff (w_db (snd x')) = Inr ids \<and> i \<in> set ids"
    if "db_up e" "clk k \<le> stmt_now e 0" for e cutoff
    using ListExpiredLeases_up [OF that(1), of cutoff "w_db (snd x')"] row_of_SomeD [OF calculation] assms(6-8) w(2) that(2) by fastforce
  ultimately show ?thesis using w(1) by blast
qed

subsection \<open>Examples\<close>

lemma sample_link_ok: "control_link sample_link ''http://127.0.0.1:8080'' sample_server (\<lambda>_. sample_call) (\<lambda>_ w. w)"
  unfolding sample_link_def by (rule wire.control_link_axioms)

lemma sample_serving: "safe_id i \<Longrightarrow> serving sample_server (\<lambda>_. sample_call) (\<lambda>_ w. w) (\<lambda>m. m) ''s'' i"
  using sample_server_up sample_call_up by (simp add: serving_def undisturbed_def) (simp add: sample_server_def)

lemma sample_steady: "steady sample_jobenv"
  by (simp add: steady_def sample_jobenv_def algebra_simps)

lemma sample_configured: "configured sample_cfg ''http://127.0.0.1:8080''"
  using seconds_of_mult [of 15] by (simp add: configured_def sample_cfg_def in_i64_def)

lemma sample_docs_doc:
  "doc (solo_cfg ''mc'') (\<lambda>m. m) (sample_docs i) (KeyManifest i) = Some (Doc (enc_manifest (noop_manifest 9)))"
  "doc (solo_cfg ''mc'') (\<lambda>m. m) (sample_docs i) (KeyMeta i) = Some (Doc (enc_meta (new_meta i ''alpine'' [''echo''] 9)))"
  by (simp_all add: sample_docs_def Let_def)

lemma sample_job_report:
  assumes "seen (KeyManifest i) = Some (Doc (enc_manifest (noop_manifest t)))" "seen (KeyMeta i) = Some (Doc (enc_meta (new_meta i img cmd u)))"
  shows "\<exists>mets. job_report sample_agent seen i (f, h) = Some (True, mets)"
proof -
  have "EqualFold ''noop'' ''noop''" by (simp add: EqualFold_def)
  then have "fetch_inputs sample_agent i (noop_manifest t) (f, h) = (Returned None, f, h)"
    by (simp add: fetch_inputs_def noop_manifest_def Let_def) (simp add: sample_agent_def mem_fs_def)
  moreover have "fst (run_status (fst (RunInContainer sample_agent wd img cmd f))) = ''succeeded''" for wd img cmd
    by (simp add: RunInContainer_def run_status_def exit_code_def sample_agent_def Let_def split_beta)
  moreover have "mf_RootCID (noop_manifest t) \<noteq> []" by (simp add: noop_manifest_def)
  moreover have "dec_meta (enc_meta (new_meta i img cmd u)) = (new_meta i img cmd u, True)"
    by (rule dec_enc_meta) (simp add: new_meta_def zero_meta_def in_i64_def)
  ultimately show ?thesis
    by (simp add: job_report_def assms readable_Doc read_as_Doc inputs_report_def Let_def)
qed

theorem agent_settles_job_witness:
  "\<exists>d' s' row'. onCandidate sample_agent (solo_cfg ''mc'') sample_cfg (\<lambda>_. sample_jobenv) ''q'' [] []
       (sample_docs ''q'', sample_astate) = Some (d', s') \<and>
     row_of (w_db (snd (as_web s'))) ''q'' = Some row' \<and> r_status row' = ''succeeded'' \<and> r_lease_agent row' = None"
proof -
  let ?s = sample_astate
  obtain mets where jr: "job_report sample_agent (doc (solo_cfg ''mc'') (\<lambda>m. m) (sample_docs ''q'')) ''q'' (as_files ?s, as_host ?s) = Some (True, mets)"
    using sample_job_report [where seen = "doc (solo_cfg ''mc'') (\<lambda>m. m) (sample_docs ''q'')", OF sample_docs_doc] by blast
  have "safe_id ''q''" by (simp add: safe_id_def plain_seg_def url_char_def)
  then have sv: "serving sample_server (\<lambda>_. sample_call) (\<lambda>_ w. w) (\<lambda>m. m) (ag_token sample_cfg) ''q''"
    using sample_serving by (simp add: sample_cfg_def)
  have link: "control_link (mc_http sample_agent) ''http://127.0.0.1:8080'' sample_server (\<lambda>_. sample_call) (\<lambda>_ w. w)"
    using sample_link_ok by (simp add: sample_agent_def)
  have row: "r_status sample_queued = ''queued''" "sint (r_lease_token sample_queued) < 2 ^ 63 - 1" by (simp_all add: sample_simps)
  show ?thesis
    using agent_settles_job [where s = ?s and n = 0 and jes = "\<lambda>_. sample_jobenv" and url = "[]" and ps = "[]",
        OF link sv solo.dht_net_axioms sample_configured _ _ sample_world_ok(1,2) row sample_steady jr]
    by (auto simp: sample_astate_def)
qed

theorem noop_wait_outlasts_lease_witness:
  "\<exists>k x'. WaitForManifest sample_link ''http://127.0.0.1:8080'' ''s'' ''r'' (15 * second) 0 (\<lambda>n. int n * (500 * millisecond)) (\<lambda>_. None)
     (0, (sample_world sample_db)\<lparr>w_dht := snd (PutJSON (sv_dht sample_server) (KeyManifest ''r'') (enc_manifest (noop_manifest 9)) fresh_dht)\<rparr>) =
     Some (Inl ''manifest not ready'', k, x')"
proof -
  let ?w = "(sample_world sample_db)\<lparr>w_dht := snd (PutJSON (sv_dht sample_server) (KeyManifest ''r'') (enc_manifest (noop_manifest 9)) fresh_dht)\<rparr>"
  have "safe_id ''r''" by (simp add: safe_id_def plain_seg_def url_char_def)
  moreover have "waiting sample_server (\<lambda>m. m) ''r'' sample_running (noop_manifest 9) (0, ?w)"
    using sample_world_ok by (simp add: waiting_def dht_up.PutJSON_put [OF sample_server_up])
  moreover have "mf_Providers (noop_manifest 9) = []" by (simp add: noop_manifest_def zero_manifest_def)
  moreover have "r_status sample_running \<in> {''assigned'', ''running''}" "r_lease_expires_at sample_running = Some 100"
    by (simp_all add: sample_simps)
  ultimately show ?thesis
    using noop_wait_outlasts_lease [OF sample_link_ok sample_serving, where i = "''r''" and m = "noop_manifest 9" and row = sample_running
        and x = "(0, ?w)" and ex = 100 and start = 0 and clk = "\<lambda>n. int n * (500 * millisecond)"]
    by (auto simp: algebra_simps)
qed

end
