(* ===== verification/Seeder.thy ===== *)
theory Seeder
  imports P2P_Fetch Dht_Net
begin

text \<open>
  The seeder command, \<open>cmd/seeder/main.go\<close>: it starts a node and serves the files of a directory
  over the get protocol. A started seeder is the table of its stream handlers and the lines it
  prints.
\<close>

record seeder_flags =
  sd_ns :: string
  sd_bootstrap :: string
  sd_base :: string

definition seeder_boots :: "string \<Rightarrow> string list" where
  "seeder_boots bootstrap =
     (if bootstrap \<noteq> [] then filter (\<lambda>s. s \<noteq> []) (map TrimSpace (split_on (CHR '','') bootstrap)) else [])"

text \<open>\<open>SetStreamHandler\<close>: the stream is closed without an answer for any other protocol.\<close>

definition MountSeedHandler ::
  "'f fsys \<Rightarrow> SourceFS \<Rightarrow> string \<rightharpoonup> (nat option \<Rightarrow> nat \<Rightarrow> payload \<Rightarrow> 'f \<Rightarrow> string)" where
  "MountSeedHandler F src = [ProtoGet \<mapsto> seed_stream F src]"

definition seeder_info :: "seeder_flags \<Rightarrow> string \<Rightarrow> string list \<Rightarrow> string list" where
  "seeder_info fl pid addrs =
     (''[seeder] PeerID: '' @ pid) # map (\<lambda>a. ''[seeder] addr: '' @ a) addrs @
     [''[seeder] serving files under '' @ sd_base fl @ '' (name == root_cid)'',
      ''[seeder] register this PeerID/addr in providers[] when posting manifest'']"

definition seeder_main ::
  "'m multi \<Rightarrow> ('l, 'm, 'n) libp2p \<Rightarrow> iface list \<Rightarrow> 'f fsys \<Rightarrow> seeder_flags \<Rightarrow> 'l \<Rightarrow>
   (string + (string \<rightharpoonup> (nat option \<Rightarrow> nat \<Rightarrow> payload \<Rightarrow> 'f \<Rightarrow> string)) \<times> string list) option" where
  "seeder_main M L ifaces F fl l =
     (case NewNode M L ifaces (sd_ns fl) (seeder_boots (sd_bootstrap fl)) l of
        None \<Rightarrow> None
      | Some (Inl e, _) \<Rightarrow> Some (Inl (''[seeder] failed to create node: '' @ e))
      | Some (Inr node, l1) \<Rightarrow>
          Some (Inr (MountSeedHandler F \<lparr>sf_Base = sd_base fl\<rparr>, seeder_info fl (nd_ID node) (Multiaddrs M L node l1))))"

text \<open>A started seeder serves the files of its directory by name, and the addresses it asks to be
  registered are the advertised ones.\<close>

lemma seeder_serves:
  assumes "seeder_main M L ifaces F fl l = Some (Inr (handlers, info))" "file_system F content" "plain_seg x"
  shows "\<exists>serve. handlers ProtoGet = Some serve \<and>
    (content f (filepath_Join [sd_base fl, x]) = Some bs \<longrightarrow> serve None n (Doc (enc_GetRequest \<lparr>gr_RootCID = x\<rparr>)) f = bs)"
proof -
  have "handlers = MountSeedHandler F \<lparr>sf_Base = sd_base fl\<rparr>"
    using assms(1) by (auto simp: seeder_main_def split: option.splits sum.splits)
  moreover have "x \<noteq> []" using assms(3) by (simp add: plain_seg_def)
  ultimately show ?thesis using file_system.read_file [OF assms(2)] by (simp add: MountSeedHandler_def seed_stream_open)
qed

end
