(* ===== verification/Lease_Protocol.thy ===== *)
theory Lease_Protocol
  imports Lease_Store
begin

text \<open>
  The contract of the lease store, and that \<open>PGStore\<close> keeps it.

  \<open>lease_step\<close> is the abstract machine the README describes: per job a phase (waiting, held by
  an agent until an instant, done) and a fencing token. The locale \<open>lease_store\<close> is the Go
  interface \<open>lease.Store\<close> with the promise that every method is a step of that machine, or no
  step; \<open>PGStore\<close> interprets it.
\<close>

datatype phase = Waiting | Held string time | Done bool

record ajob =
  a_phase :: phase
  a_token :: int

type_synonym ajobs = "string \<rightharpoonup> ajob"

datatype event =
    ETau
  | ECreate string
  | EClaim string string time int
  | ERenew string string int time
  | EFinish string string int bool
  | ERequeue string

inductive lease_step :: "time \<Rightarrow> event \<Rightarrow> ajobs \<Rightarrow> ajobs \<Rightarrow> bool" for now where
  tau: "lease_step now ETau S S"
| create: "S i = None \<Longrightarrow> lease_step now (ECreate i) S (S(i \<mapsto> \<lparr>a_phase = Waiting, a_token = 0\<rparr>))"
| claim: "S i = Some \<lparr>a_phase = Waiting, a_token = k\<rparr> \<Longrightarrow>
    lease_step now (EClaim i a x (k + 1)) S (S(i \<mapsto> \<lparr>a_phase = Held a x, a_token = k + 1\<rparr>))"
| renew: "S i = Some \<lparr>a_phase = Held a x, a_token = k\<rparr> \<Longrightarrow>
    lease_step now (ERenew i a k x') S (S(i \<mapsto> \<lparr>a_phase = Held a x', a_token = k\<rparr>))"
| finish: "S i = Some \<lparr>a_phase = ph, a_token = k\<rparr> \<Longrightarrow> (\<forall>b x. ph = Held b x \<longrightarrow> b = a) \<Longrightarrow> k \<le> k' \<Longrightarrow>
    lease_step now (EFinish i a k' ok) S (S(i \<mapsto> \<lparr>a_phase = Done ok, a_token = k\<rparr>))"
| requeue: "S i = Some \<lparr>a_phase = Held a x, a_token = k\<rparr> \<Longrightarrow> x < now \<Longrightarrow>
    lease_step now (ERequeue i) S (S(i \<mapsto> \<lparr>a_phase = Waiting, a_token = k\<rparr>))"

inductive_cases tau_stepE: "lease_step now ETau S S'"
inductive_cases claim_stepE: "lease_step now (EClaim i a x k) S S'"
inductive_cases renew_stepE: "lease_step now (ERenew i a k x) S S'"
inductive_cases finish_stepE: "lease_step now (EFinish i a k ok) S S'"
inductive_cases requeue_stepE: "lease_step now (ERequeue i) S S'"

text \<open>The abstraction of a row and of the table.\<close>

definition abs_phase :: "job_row \<Rightarrow> phase" where
  "abs_phase r =
     (case r_lease_agent r of
        Some a \<Rightarrow> (case r_lease_expires_at r of Some t \<Rightarrow> Held a t | None \<Rightarrow> Waiting)
      | None \<Rightarrow> if r_status r = ''queued'' then Waiting else Done (r_status r = ''succeeded''))"

definition abs_row :: "job_row \<Rightarrow> ajob" where
  "abs_row r = \<lparr>a_phase = abs_phase r, a_token = sint (r_lease_token r)\<rparr>"

definition abs_db :: "db \<Rightarrow> ajobs" where
  "abs_db db i = map_option abs_row (row_of db i)"

subsection \<open>The abstract machine\<close>

lemma step_protects:
  assumes "lease_step now ev S S'" "S i = Some \<lparr>a_phase = Held a x, a_token = k\<rparr>" "now \<le> x"
  shows "S' i = Some \<lparr>a_phase = Held a x, a_token = k\<rparr> \<or>
    (\<exists>x'. ev = ERenew i a k x' \<and> S' i = Some \<lparr>a_phase = Held a x', a_token = k\<rparr>) \<or>
    (\<exists>k' ok. ev = EFinish i a k' ok \<and> k \<le> k')"
  using assms by (cases rule: lease_step.cases) (auto split: if_splits)

lemma step_token_mono:
  assumes "lease_step now ev S S'" "S i = Some j"
  shows "\<exists>j'. S' i = Some j' \<and> a_token j \<le> a_token j'"
  using assms by (cases rule: lease_step.cases) (auto split: if_splits)

lemma step_done:
  assumes "lease_step now ev S S'" "S i = Some \<lparr>a_phase = Done ok, a_token = k\<rparr>"
    and "\<forall>a k' ok'. ev \<noteq> EFinish i a k' ok'"
  shows "S' i = Some \<lparr>a_phase = Done ok, a_token = k\<rparr>"
  using assms by (cases rule: lease_step.cases) (auto split: if_splits)

lemma claim_step_token:
  assumes "lease_step now (EClaim i a x k) S S'"
  shows "\<exists>j. S i = Some j \<and> a_phase j = Waiting \<and> k = a_token j + 1 \<and>
    S' i = Some \<lparr>a_phase = Held a x, a_token = k\<rparr>"
  using assms by (auto elim: claim_stepE)

subsection \<open>The interface\<close>

locale lease_store =
  fixes inv :: "'s \<Rightarrow> bool" and abst :: "'s \<Rightarrow> ajobs"
    and create :: "dbenv \<Rightarrow> db_job \<Rightarrow> 's \<Rightarrow> store_err option \<times> 's"
    and attach :: "dbenv \<Rightarrow> string \<Rightarrow> db_manifest \<Rightarrow> 's \<Rightarrow> store_err option \<times> 's"
    and claim :: "dbenv \<Rightarrow> string \<Rightarrow> string \<Rightarrow> duration \<Rightarrow> 's \<Rightarrow> (store_err + db_lease) \<times> 's"
    and heartbeat :: "dbenv \<Rightarrow> string \<Rightarrow> string \<Rightarrow> i64 \<Rightarrow> duration \<Rightarrow> 's \<Rightarrow> store_err option \<times> 's"
    and finish :: "dbenv \<Rightarrow> string \<Rightarrow> string \<Rightarrow> i64 \<Rightarrow> bool \<Rightarrow> string \<Rightarrow> string list \<Rightarrow> json \<Rightarrow> 's \<Rightarrow>
      store_err option \<times> 's"
    and requeue :: "dbenv \<Rightarrow> string \<Rightarrow> 's \<Rightarrow> store_err option \<times> 's"
  assumes inv_create: "inv s \<Longrightarrow> j_Status job = ''queued'' \<Longrightarrow> inv (snd (create e job s))"
    and inv_attach: "inv s \<Longrightarrow> inv (snd (attach e i m s))"
    and inv_claim: "inv s \<Longrightarrow> inv (snd (claim e i a ttl s))"
    and inv_heartbeat: "inv s \<Longrightarrow> inv (snd (heartbeat e i a tok ttl s))"
    and inv_finish: "inv s \<Longrightarrow> inv (snd (finish e i a tok succ cid arts mets s))"
    and inv_requeue: "inv s \<Longrightarrow> inv (snd (requeue e i s))"
    and create_step: "inv s \<Longrightarrow> j_Status job = ''queued'' \<Longrightarrow>
      \<exists>ev\<in>{ETau, ECreate (j_ID job)}. lease_step (stmt_now e 0) ev (abst s) (abst (snd (create e job s)))"
    and attach_step: "inv s \<Longrightarrow> abst (snd (attach e i m s)) = abst s"
    and claim_step: "inv s \<Longrightarrow>
      \<exists>ev. (ev = ETau \<or> (\<exists>x k. ev = EClaim i a x k)) \<and>
        lease_step (stmt_now e 0) ev (abst s) (abst (snd (claim e i a ttl s)))"
    and claim_granted: "inv s \<Longrightarrow> claim e i a ttl s = (Inr l, s') \<Longrightarrow>
      le_AgentID l = a \<and> le_ExpireAt l = stmt_now e 0 + seconds_of ttl * second \<and>
      lease_step (stmt_now e 0) (EClaim i a (le_ExpireAt l) (sint (le_FencingToken l))) (abst s) (abst s')"
    and heartbeat_step: "inv s \<Longrightarrow>
      \<exists>ev. (ev = ETau \<or> (\<exists>x. ev = ERenew i a (sint tok) x)) \<and>
        lease_step (stmt_now e 0) ev (abst s) (abst (snd (heartbeat e i a tok ttl s)))"
    and finish_step: "inv s \<Longrightarrow>
      \<exists>ev\<in>{ETau, EFinish i a (sint tok) succ}.
        lease_step (stmt_now e 0) ev (abst s) (abst (snd (finish e i a tok succ cid arts mets s)))"
    and requeue_step: "inv s \<Longrightarrow>
      \<exists>ev\<in>{ETau, ERequeue i}. lease_step (stmt_now e 0) ev (abst s) (abst (snd (requeue e i s)))"
begin

lemma claim_refused_while_held:
  assumes "inv s" "abst s i = Some \<lparr>a_phase = Held a x, a_token = k\<rparr>"
  shows "\<exists>err. fst (claim e i b ttl s) = Inl err"
proof (cases "claim e i b ttl s")
  case (Pair r s')
  show ?thesis
  proof (cases r)
    case (Inr l)
    with assms Pair have "lease_step (stmt_now e 0)
        (EClaim i b (le_ExpireAt l) (sint (le_FencingToken l))) (abst s) (abst s')"
      using claim_granted by blast
    with assms(2) show ?thesis by (auto dest: claim_step_token)
  qed (use Pair in auto)
qed

lemma claim_token:
  assumes "inv s" "claim e i a ttl s = (Inr l, s')"
  shows "\<exists>j. abst s i = Some j \<and> sint (le_FencingToken l) = a_token j + 1 \<and>
    abst s' i = Some \<lparr>a_phase = Held a (le_ExpireAt l), a_token = sint (le_FencingToken l)\<rparr>"
  using claim_granted [OF assms] claim_step_token by blast

end

subsection \<open>\<open>PGStore\<close> implements the interface\<close>

lemma abs_db_put_row:
  "row_of db (r_id r') \<noteq> None \<Longrightarrow> abs_db (put_row r' db) = (abs_db db)(r_id r' \<mapsto> abs_row r')"
  by (auto simp: abs_db_def row_of_put_row fun_eq_iff)

lemma abs_db_new_row:
  "row_of db (r_id r) = None \<Longrightarrow> abs_db (db @ [r]) = (abs_db db)(r_id r \<mapsto> abs_row r)"
  by (auto simp: abs_db_def row_of_def find_append_absent fun_eq_iff split: option.splits)

lemma row_step_abs:
  assumes "row_step i W f db db'" "\<And>r. holds (W r) \<Longrightarrow> r_id r = i"
    "\<And>r r'. f r = Some r' \<Longrightarrow> r_id r' = r_id r"
  obtains r r' where "row_of db i = Some r" "holds (W r)" "f r = Some r'"
    "abs_db db' = (abs_db db)(i \<mapsto> abs_row r')" "abs_db db i = Some (abs_row r)"
proof -
  from assms(1) obtain r r' where r: "row_of db i = Some r" "holds (W r)" "f r = Some r'"
    "db' = put_row r' db" by (auto simp: row_step_def)
  with assms(2,3) have "r_id r' = i" by metis
  with r have "abs_db db' = (abs_db db)(i \<mapsto> abs_row r')" by (auto simp: abs_db_put_row)
  with r that show ?thesis by (simp add: abs_db_def)
qed

lemma claim_row_step:
  assumes "row_ok r" "holds (tryclaim_where i now r)" "tryclaim_set a s now r = Some r'"
  shows "abs_row r = \<lparr>a_phase = Waiting, a_token = sint (r_lease_token r)\<rparr>"
    and "abs_row r' = \<lparr>a_phase = Held a (now + s * second), a_token = sint (r_lease_token r) + 1\<rparr>"
    and "sint (r_lease_token r') = sint (r_lease_token r) + 1"
  using assms pg_add_SomeD [of "r_lease_token r" 1]
  by (auto simp: abs_row_def abs_phase_def row_ok_def tryclaim_point tryclaim_set_def split: option.splits)

lemma claim_effect_step:
  assumes "db_ok db" "claim_rewrite e i a ttl db db'"
  shows "\<exists>x k. lease_step (stmt_now e 0) (EClaim i a x k) (abs_db db) (abs_db db')"
proof -
  obtain r r' where r: "row_of db i = Some r" "holds (tryclaim_where i (stmt_now e 0) r)"
    "tryclaim_set a (seconds_of ttl) (stmt_now e 0) r = Some r'"
    "abs_db db' = (abs_db db)(i \<mapsto> abs_row r')" "abs_db db i = Some (abs_row r)"
    by (rule row_step_abs [OF assms(2)]) (auto simp: tryclaim_point tryclaim_set_id)
  note c = claim_row_step [OF db_ok_rowD [OF assms(1) r(1)] r(2,3)]
  have "lease_step (stmt_now e 0)
      (EClaim i a (stmt_now e 0 + seconds_of ttl * second) (sint (r_lease_token r) + 1)) (abs_db db) (abs_db db')"
    unfolding r(4) c(2) by (rule lease_step.claim) (simp add: r(5) c(1))
  then show ?thesis by blast
qed

lemma TryClaim_step:
  assumes "db_ok db"
  shows "\<exists>ev. (ev = ETau \<or> (\<exists>x k. ev = EClaim i a x k)) \<and>
     lease_step (stmt_now e 0) ev (abs_db db) (abs_db (snd (TryClaim e i a ttl db)))"
proof (cases "snd (TryClaim e i a ttl db) = db")
  case False
  then have "claim_rewrite e i a ttl db (snd (TryClaim e i a ttl db))"
    using TryClaim_effect [OF db_ok_distinct [OF assms]] by blast
  from claim_effect_step [OF assms this] show ?thesis by blast
qed (use lease_step.tau in auto)

lemma TryClaim_granted_step:
  assumes "db_ok db" "TryClaim e i a ttl db = (Inr l, db')"
  shows "le_AgentID l = a \<and> le_ExpireAt l = stmt_now e 0 + seconds_of ttl * second \<and>
    lease_step (stmt_now e 0) (EClaim i a (le_ExpireAt l) (sint (le_FencingToken l))) (abs_db db) (abs_db db')"
proof -
  obtain r r' where r: "row_of db i = Some r" "holds (tryclaim_where i (stmt_now e 0) r)"
    "tryclaim_set a (seconds_of ttl) (stmt_now e 0) r = Some r'" "db' = put_row r' db"
    and l: "l = \<lparr>le_AgentID = a, le_ExpireAt = stmt_now e 0 + seconds_of ttl * second,
      le_FencingToken = r_lease_token r'\<rparr>"
    by (rule TryClaim_granted [OF db_ok_distinct [OF assms(1)] assms(2)])
  note c = claim_row_step [OF db_ok_rowD [OF assms(1) r(1)] r(2,3)]
  have "r_id r' = i" using r(2,3) by (auto simp: tryclaim_point dest: tryclaim_set_id)
  then have "abs_db db' = (abs_db db)(i \<mapsto> abs_row r')" using r by (auto simp: abs_db_put_row)
  moreover have "abs_db db i = Some (abs_row r)" using r by (simp add: abs_db_def)
  ultimately have "lease_step (stmt_now e 0) (EClaim i a (stmt_now e 0 + seconds_of ttl * second)
      (sint (r_lease_token r) + 1)) (abs_db db) (abs_db db')"
    using lease_step.claim by (simp add: c)
  then show ?thesis by (simp add: l c)
qed

lemma Heartbeat_step:
  assumes "db_ok db"
  shows "\<exists>ev. (ev = ETau \<or> (\<exists>x. ev = ERenew i a (sint tok) x)) \<and>
     lease_step (stmt_now e 0) ev (abs_db db) (abs_db (snd (Heartbeat e i a tok ttl db)))"
    (is "\<exists>ev. _ \<and> lease_step _ ev _ (abs_db ?db')")
proof (cases "?db' = db")
  case False
  then have "row_step i (heartbeat_where i a tok) (renew_set e ttl) db ?db'"
    using Heartbeat_effect [OF db_ok_distinct [OF assms]] by blast
  then obtain r r' where r: "row_of db i = Some r" "holds (heartbeat_where i a tok r)"
    "renew_set e ttl r = Some r'" "abs_db ?db' = (abs_db db)(i \<mapsto> abs_row r')" "abs_db db i = Some (abs_row r)"
    by (rule row_step_abs) (auto simp: heartbeat_point)
  obtain x where "r_lease_expires_at r = Some x"
    using r(2) db_ok_rowD [OF assms r(1)] by (auto simp: heartbeat_point row_ok_def split: if_splits)
  with r(2,3) have c: "abs_row r = \<lparr>a_phase = Held a x, a_token = sint tok\<rparr>"
    "abs_row r' = \<lparr>a_phase = Held a (stmt_now e 0 + seconds_of ttl * second), a_token = sint tok\<rparr>"
    by (auto simp: heartbeat_point abs_row_def abs_phase_def)
  have "lease_step (stmt_now e 0) (ERenew i a (sint tok) (stmt_now e 0 + seconds_of ttl * second))
      (abs_db db) (abs_db ?db')"
    unfolding r(4) c(2) by (rule lease_step.renew) (simp add: r(5) c(1))
  then show ?thesis by blast
qed (use lease_step.tau in auto)

lemma Finish_step:
  assumes "db_ok db"
  shows "\<exists>ev\<in>{ETau, EFinish i a (sint tok) succ}.
     lease_step (stmt_now e 0) ev (abs_db db) (abs_db (snd (Finish e i a tok succ cid arts mets db)))"
    (is "\<exists>ev\<in>_. lease_step _ ev _ (abs_db ?db')")
proof (cases "?db' = db")
  case False
  then have "row_step i (finish_where i a tok) (finish_set succ cid arts mets) db ?db'"
    using Finish_effect [OF db_ok_distinct [OF assms]] by blast
  then obtain r r' where r: "row_of db i = Some r" "holds (finish_where i a tok r)"
    "finish_set succ cid arts mets r = Some r'" "abs_db ?db' = (abs_db db)(i \<mapsto> abs_row r')"
    "abs_db db i = Some (abs_row r)"
    by (rule row_step_abs) (auto simp: finish_point)
  have "abs_row r' = \<lparr>a_phase = Done succ, a_token = sint (r_lease_token r)\<rparr>"
    using r(3) by (cases succ) (auto simp: abs_row_def abs_phase_def finish_status_def)
  moreover have "abs_db db i = Some \<lparr>a_phase = abs_phase r, a_token = sint (r_lease_token r)\<rparr>"
    using r(5) by (simp add: abs_row_def)
  moreover have "\<forall>b x. abs_phase r = Held b x \<longrightarrow> b = a" "sint (r_lease_token r) \<le> sint tok"
    using r(2) by (auto simp: finish_point abs_phase_def split: option.splits if_splits)
  ultimately have "lease_step (stmt_now e 0) (EFinish i a (sint tok) succ) (abs_db db) (abs_db ?db')"
    unfolding r(4) by (simp add: lease_step.finish)
  then show ?thesis by blast
qed (use lease_step.tau in auto)

lemma SetStatusQueued_step:
  assumes "db_ok db"
  shows "\<exists>ev\<in>{ETau, ERequeue i}.
     lease_step (stmt_now e 0) ev (abs_db db) (abs_db (snd (SetStatusQueued e i db)))"
    (is "\<exists>ev\<in>_. lease_step _ ev _ (abs_db ?db')")
proof (cases "?db' = db")
  case False
  then have "row_step i (requeue_where e i) requeue_set db ?db'"
    using SetStatusQueued_effect [OF db_ok_distinct [OF assms]] by blast
  then obtain r r' where r: "row_of db i = Some r" "holds (requeue_where e i r)"
    "requeue_set r = Some r'" "abs_db ?db' = (abs_db db)(i \<mapsto> abs_row r')" "abs_db db i = Some (abs_row r)"
    by (rule row_step_abs) (auto simp: requeue_set_id)
  obtain a x where l: "r_lease_agent r = Some a" "r_lease_expires_at r = Some x" "x < stmt_now e 0"
    using r(2) db_ok_rowD [OF assms r(1)] by (auto simp: expired_point row_ok_def split: if_splits)
  from l r(3) have c: "abs_row r = \<lparr>a_phase = Held a x, a_token = sint (r_lease_token r)\<rparr>"
    "abs_row r' = \<lparr>a_phase = Waiting, a_token = sint (r_lease_token r)\<rparr>"
    by (auto simp: abs_row_def abs_phase_def requeue_set_def split: option.splits)
  have "lease_step (stmt_now e 0) (ERequeue i) (abs_db db) (abs_db ?db')"
    unfolding r(4) c(2) using l(3) by (rule lease_step.requeue [rotated]) (simp add: r(5) c(1))
  then show ?thesis by blast
qed (use lease_step.tau in auto)

lemma AttachManifest_abs:
  assumes "db_ok db"
  shows "abs_db (snd (AttachManifest e i m db)) = abs_db db" (is "abs_db ?db' = _")
proof (cases "?db' = db")
  case False
  then have "row_step i (id_is i) (attach_set m) db ?db'"
    using AttachManifest_effect [OF db_ok_distinct [OF assms]] by blast
  then obtain r r' where r: "row_of db i = Some r" "attach_set m r = Some r'"
    "abs_db ?db' = (abs_db db)(i \<mapsto> abs_row r')" "abs_db db i = Some (abs_row r)"
    by (rule row_step_abs) auto
  then have "abs_row r' = abs_row r" by (auto simp: abs_row_def abs_phase_def split: option.splits)
  then show ?thesis unfolding r(3) using r(4) by (simp add: fun_upd_idem)
qed simp

lemma CreateJob_step:
  assumes "j_Status job = ''queued''"
  shows "\<exists>ev\<in>{ETau, ECreate (j_ID job)}.
     lease_step (stmt_now e 0) ev (abs_db db) (abs_db (snd (CreateJob e job db)))"
proof (cases "snd (CreateJob e job db) = db")
  case False
  let ?r = "new_row job (stmt_now e 0)"
  from False have c: "row_of db (r_id ?r) = None" "snd (CreateJob e job db) = db @ [?r]"
    using CreateJob_effect [of e job db] by (auto simp: new_row_def)
  have "abs_row ?r = \<lparr>a_phase = Waiting, a_token = 0\<rparr>" "r_id ?r = j_ID job"
    using assms by (auto simp: abs_row_def abs_phase_def new_row_def)
  with c have "lease_step (stmt_now e 0) (ECreate (j_ID job)) (abs_db db) (abs_db (snd (CreateJob e job db)))"
    using lease_step.create [of "abs_db db" "j_ID job"] by (simp add: abs_db_new_row abs_db_def)
  then show ?thesis by blast
qed (use lease_step.tau in auto)

interpretation pg: lease_store db_ok abs_db CreateJob AttachManifest TryClaim Heartbeat Finish SetStatusQueued
  by (rule lease_store.intro; (rule CreateJob_ok AttachManifest_ok TryClaim_ok Heartbeat_ok Finish_ok
    SetStatusQueued_ok CreateJob_step AttachManifest_abs TryClaim_step TryClaim_granted_step
    Heartbeat_step Finish_step SetStatusQueued_step; assumption))

end
