(* ===== verification/Lease_Runs.thy ===== *)
theory Lease_Runs
  imports Lease_Protocol Lease_Spec
begin

text \<open>
  The consequences of the lease store's contract for any interleaving of callers. \<open>run_ops\<close>
  executes an arbitrary sequence of method calls by arbitrary callers, each with its own
  database clock and faults, and collects the leases that were granted.
\<close>

text \<open>Method calls of arbitrary callers, in the order the database serves them.\<close>

datatype store_op =
    OpCreate db_job
  | OpAttach string db_manifest
  | OpClaim string string duration
  | OpHeartbeat string string i64 duration
  | OpFinish string string i64 bool string "string list" json
  | OpRequeue string

record grant =
  g_id :: string
  g_agent :: string
  g_token :: i64
  g_expires :: time

fun apply_op :: "dbenv \<Rightarrow> store_op \<Rightarrow> db \<Rightarrow> grant option \<times> db" where
  "apply_op e (OpCreate job) db = (None, snd (CreateJob e job db))"
| "apply_op e (OpAttach i m) db = (None, snd (AttachManifest e i m db))"
| "apply_op e (OpClaim i a ttl) db =
     (case TryClaim e i a ttl db of
        (Inl _, db') \<Rightarrow> (None, db')
      | (Inr l, db') \<Rightarrow> (Some \<lparr>g_id = i, g_agent = le_AgentID l, g_token = le_FencingToken l,
                              g_expires = le_ExpireAt l\<rparr>, db'))"
| "apply_op e (OpHeartbeat i a tok ttl) db = (None, snd (Heartbeat e i a tok ttl db))"
| "apply_op e (OpFinish i a tok succ cid arts mets) db = (None, snd (Finish e i a tok succ cid arts mets db))"
| "apply_op e (OpRequeue i) db = (None, snd (SetStatusQueued e i db))"

fun run_ops :: "(dbenv \<times> store_op) list \<Rightarrow> db \<Rightarrow> grant list \<times> db" where
  "run_ops [] db = ([], db)"
| "run_ops ((e, op) # rest) db =
     (let (g, db1) = apply_op e op db; (gs, db2) = run_ops rest db1
      in ((case g of None \<Rightarrow> gs | Some x \<Rightarrow> x # gs), db2))"

text \<open>Jobs are created in the status \<open>queued\<close>, as every caller of \<open>CreateJob\<close> does.\<close>

fun op_ok :: "store_op \<Rightarrow> bool" where
  "op_ok (OpCreate job) = (j_Status job = ''queued'')"
| "op_ok _ = True"

text \<open>The calls that act for the holder \<open>a\<close> of the lease on \<open>i\<close>.\<close>

fun acts_for :: "string \<Rightarrow> string \<Rightarrow> store_op \<Rightarrow> bool" where
  "acts_for i a (OpHeartbeat j b tok ttl) = (j = i \<and> b = a)"
| "acts_for i a (OpFinish j b tok succ cid arts mets) = (j = i \<and> b = a)"
| "acts_for i a _ = False"

fun finishes :: "string \<Rightarrow> store_op \<Rightarrow> bool" where
  "finishes i (OpFinish j b tok succ cid arts mets) = (j = i)"
| "finishes i _ = False"

text \<open>What a call may be, seen from the abstract machine.\<close>

definition explains :: "store_op \<Rightarrow> grant option \<Rightarrow> event \<Rightarrow> bool" where
  "explains op g ev \<longleftrightarrow>
     (\<forall>i a k x. ev = ERenew i a k x \<longrightarrow> acts_for i a op) \<and>
     (\<forall>i a k ok. ev = EFinish i a k ok \<longrightarrow> acts_for i a op \<and> finishes i op) \<and>
     (\<forall>x. g = Some x \<longrightarrow> ev = EClaim (g_id x) (g_agent x) (g_expires x) (sint (g_token x)))"

text \<open>Runs for the examples: calls by another agent while the lease of \<open>A\<close> is alive, and calls for a
  job that is over.\<close>

definition sample_ops :: "(dbenv \<times> store_op) list" where
  "sample_ops =
     [(up_env 50, OpClaim ''r'' ''B'' (15 * second)),
      (up_env 60, OpHeartbeat ''r'' ''B'' 3 (15 * second)),
      (up_env 70, OpFinish ''r'' ''B'' 9 True [] [] JNull),
      (up_env 80, OpRequeue ''r'')]"

definition sample_done :: job_row where
  "sample_done = (new_row (sample_job ''d'') 0)\<lparr>r_status := ''succeeded'', r_lease_token := 2\<rparr>"

definition late_ops :: "(dbenv \<times> store_op) list" where
  "late_ops =
     [(up_env 50, OpClaim ''d'' ''B'' (15 * second)),
      (up_env 60, OpHeartbeat ''d'' ''A'' 2 (15 * second)),
      (up_env 70, OpRequeue ''d'')]"

subsection \<open>Every call is a step\<close>

lemma explains_renew: "explains op g (ERenew i a k x) \<Longrightarrow> acts_for i a op"
  by (simp add: explains_def)

lemma explains_finish: "explains op g (EFinish i a k ok) \<Longrightarrow> acts_for i a op \<and> finishes i op"
  by (simp add: explains_def)

lemma explains_grant:
  "explains op (Some x) ev \<Longrightarrow> ev = EClaim (g_id x) (g_agent x) (g_expires x) (sint (g_token x))"
  by (simp add: explains_def)

lemma explains_none:
  "(\<And>i a k x. ev = ERenew i a k x \<Longrightarrow> acts_for i a op) \<Longrightarrow>
   (\<And>i a k ok. ev = EFinish i a k ok \<Longrightarrow> acts_for i a op \<and> finishes i op) \<Longrightarrow> explains op None ev"
  by (auto simp: explains_def)

lemma apply_op_inv: "db_ok db \<Longrightarrow> op_ok op \<Longrightarrow> db_ok (snd (apply_op e op db))"
proof (cases op)
  case (OpClaim i a ttl)
  moreover assume "db_ok db"
  ultimately show ?thesis using pg.inv_claim [of db e i a ttl] by (auto split: prod.splits sum.splits)
qed (simp_all add: pg.inv_create pg.inv_attach pg.inv_heartbeat pg.inv_finish pg.inv_requeue)

lemma claim_op_step:
  assumes "db_ok db"
  shows "\<exists>ev. lease_step (stmt_now e 0) ev (abs_db db) (abs_db (snd (apply_op e (OpClaim i a ttl) db))) \<and>
    explains (OpClaim i a ttl) (fst (apply_op e (OpClaim i a ttl) db)) ev"
proof (cases "TryClaim e i a ttl db")
  case (Pair r db')
  show ?thesis
  proof (cases r)
    case (Inl err)
    obtain ev where "ev = ETau \<or> (\<exists>x k. ev = EClaim i a x k)"
      "lease_step (stmt_now e 0) ev (abs_db db) (abs_db db')"
      using pg.claim_step [OF assms, of i a e ttl] Pair by auto
    then show ?thesis using Pair Inl by (auto intro!: exI [of _ ev] explains_none)
  next
    case (Inr l)
    with Pair pg.claim_granted [OF assms, of e i a ttl l db'] show ?thesis
      by (auto simp: explains_def)
  qed
qed

lemma apply_op_step:
  assumes "db_ok db" "op_ok op"
  shows "\<exists>ev. lease_step (stmt_now e 0) ev (abs_db db) (abs_db (snd (apply_op e op db))) \<and>
    explains op (fst (apply_op e op db)) ev"
proof (cases op)
  case (OpCreate job)
  with assms(2) pg.create_step [OF assms(1), of job e] obtain ev where
    "ev \<in> {ETau, ECreate (j_ID job)}" "lease_step (stmt_now e 0) ev (abs_db db) (abs_db (snd (CreateJob e job db)))"
    by auto
  then show ?thesis using OpCreate by (auto intro!: exI [of _ ev] explains_none)
next
  case (OpAttach i m)
  then show ?thesis
    using pg.attach_step [OF assms(1), of e i m] lease_step.tau by (auto intro!: exI [of _ ETau] explains_none)
next
  case (OpClaim i a ttl)
  then show ?thesis using claim_op_step [OF assms(1)] by simp
next
  case (OpHeartbeat i a tok ttl)
  obtain ev where "ev = ETau \<or> (\<exists>x. ev = ERenew i a (sint tok) x)"
    "lease_step (stmt_now e 0) ev (abs_db db) (abs_db (snd (Heartbeat e i a tok ttl db)))"
    using pg.heartbeat_step [OF assms(1), of i a tok e ttl] by auto
  then show ?thesis using OpHeartbeat by (auto intro!: exI [of _ ev] explains_none)
next
  case (OpFinish i a tok succ cid arts mets)
  obtain ev where "ev \<in> {ETau, EFinish i a (sint tok) succ}"
    "lease_step (stmt_now e 0) ev (abs_db db) (abs_db (snd (Finish e i a tok succ cid arts mets db)))"
    using pg.finish_step [OF assms(1), of i a tok succ e cid arts mets] by blast
  then show ?thesis using OpFinish by (auto intro!: exI [of _ ev] explains_none)
next
  case (OpRequeue i)
  obtain ev where "ev \<in> {ETau, ERequeue i}"
    "lease_step (stmt_now e 0) ev (abs_db db) (abs_db (snd (SetStatusQueued e i db)))"
    using pg.requeue_step [OF assms(1), of i e] by blast
  then show ?thesis using OpRequeue by (auto intro!: exI [of _ ev] explains_none)
qed

lemma op_step:
  assumes "db_ok db" "op_ok op"
  obtains ev where "lease_step (stmt_now e 0) ev (abs_db db) (abs_db (snd (apply_op e op db)))"
    "explains op (fst (apply_op e op db)) ev" "db_ok (snd (apply_op e op db))"
  using apply_op_step [OF assms] apply_op_inv [OF assms] by blast

lemma op_grant:
  assumes "db_ok db" "op_ok op" "fst (apply_op e op db) = Some g"
  shows "\<exists>j. abs_db db (g_id g) = Some j \<and> a_phase j = Waiting \<and> sint (g_token g) = a_token j + 1 \<and>
    abs_db (snd (apply_op e op db)) (g_id g) =
      Some \<lparr>a_phase = Held (g_agent g) (g_expires g), a_token = sint (g_token g)\<rparr>"
  by (rule op_step [OF assms(1,2), of e]) (use assms(3) in \<open>auto dest!: explains_grant claim_step_token\<close>)

lemma op_protects:
  assumes "db_ok db" "op_ok op" "abs_db db i = Some \<lparr>a_phase = Held a x, a_token = k\<rparr>"
    "stmt_now e 0 \<le> x" "\<not> acts_for i a op"
  shows "abs_db (snd (apply_op e op db)) i = Some \<lparr>a_phase = Held a x, a_token = k\<rparr>"
  by (rule op_step [OF assms(1,2), of e])
    (use step_protects [where S = "abs_db db" and i = i, OF _ assms(3,4)] assms(5) explains_renew explains_finish in blast)

lemma op_keeps_done:
  assumes "db_ok db" "op_ok op" "abs_db db i = Some \<lparr>a_phase = Done ok, a_token = k\<rparr>" "\<not> finishes i op"
  shows "abs_db (snd (apply_op e op db)) i = Some \<lparr>a_phase = Done ok, a_token = k\<rparr>"
  by (rule op_step [OF assms(1,2), of e])
    (use step_done [where S = "abs_db db" and i = i, OF _ assms(3)] assms(4) explains_finish in blast)

lemma op_token_mono:
  assumes "db_ok db" "op_ok op" "abs_db db i = Some j"
  shows "\<exists>j'. abs_db (snd (apply_op e op db)) i = Some j' \<and> a_token j \<le> a_token j'"
  by (rule op_step [OF assms(1,2), of e]) (use step_token_mono [where S = "abs_db db" and i = i, OF _ assms(3)] in blast)

subsection \<open>Arbitrary interleavings\<close>

lemma run_ops_Cons:
  "run_ops ((e, op) # rest) db =
     ((case fst (apply_op e op db) of None \<Rightarrow> [] | Some g \<Rightarrow> [g]) @ fst (run_ops rest (snd (apply_op e op db))),
      snd (run_ops rest (snd (apply_op e op db))))"
  by (auto split: prod.splits option.splits)

declare run_ops.simps(2) [simp del]

lemma run_ops_append:
  "run_ops (xs @ ys) db =
     (fst (run_ops xs db) @ fst (run_ops ys (snd (run_ops xs db))), snd (run_ops ys (snd (run_ops xs db))))"
proof (induction xs arbitrary: db)
  case (Cons x xs)
  then show ?case by (cases x) (simp add: run_ops_Cons)
qed simp

lemma run_token_mono:
  assumes "db_ok db" "\<forall>(e, op)\<in>set ops. op_ok op" "abs_db db i = Some j"
  shows "\<exists>j'. abs_db (snd (run_ops ops db)) i = Some j' \<and> a_token j \<le> a_token j'"
  using assms
proof (induction ops arbitrary: db j)
  case (Cons eo rest)
  obtain e op where eo: "eo = (e, op)" by fastforce
  have ok: "db_ok db" "op_ok op" "\<forall>(e, op)\<in>set rest. op_ok op" "db_ok (snd (apply_op e op db))"
    using Cons.prems apply_op_inv by (auto simp: eo)
  obtain j' where "abs_db (snd (apply_op e op db)) i = Some j'" "a_token j \<le> a_token j'"
    using op_token_mono [OF ok(1,2) Cons.prems(3)] by blast
  with Cons.IH [OF ok(4,3)] show ?case by (fastforce simp: eo run_ops_Cons)
qed simp

text \<open>A grant in a run leaves its token, or a larger one, in the row.\<close>

lemma run_grant_floor:
  assumes "db_ok db" "\<forall>(e, op)\<in>set ops. op_ok op" "g \<in> set (fst (run_ops ops db))"
  shows "\<exists>j. abs_db (snd (run_ops ops db)) (g_id g) = Some j \<and> sint (g_token g) \<le> a_token j"
  using assms
proof (induction ops arbitrary: db)
  case (Cons eo rest)
  obtain e op where eo: "eo = (e, op)" by fastforce
  let ?db1 = "snd (apply_op e op db)"
  have ok: "db_ok db" "op_ok op" "\<forall>(e, op)\<in>set rest. op_ok op" "db_ok ?db1"
    using Cons.prems apply_op_inv by (auto simp: eo)
  consider "fst (apply_op e op db) = Some g" | "g \<in> set (fst (run_ops rest ?db1))"
    using Cons.prems(3) by (auto simp: eo run_ops_Cons split: option.splits)
  then show ?case
  proof cases
    case 1
    from op_grant [OF ok(1,2) this] run_token_mono [OF ok(4,3)] show ?thesis by (fastforce simp: eo run_ops_Cons)
  next
    case 2
    from Cons.IH [OF ok(4,3) 2] show ?thesis by (simp add: eo run_ops_Cons)
  qed
qed simp

lemma run_tokens_above:
  assumes "db_ok db" "\<forall>(e, op)\<in>set ops. op_ok op" "g \<in> set (fst (run_ops ops db))"
    and "abs_db db (g_id g) = Some j"
  shows "a_token j < sint (g_token g)"
  using assms
proof (induction ops arbitrary: db j)
  case (Cons eo rest)
  obtain e op where eo: "eo = (e, op)" by fastforce
  let ?db1 = "snd (apply_op e op db)"
  have ok: "db_ok db" "op_ok op" "\<forall>(e, op)\<in>set rest. op_ok op" "db_ok ?db1"
    using Cons.prems apply_op_inv by (auto simp: eo)
  consider "fst (apply_op e op db) = Some g" | "g \<in> set (fst (run_ops rest ?db1))"
    using Cons.prems(3) by (auto simp: eo run_ops_Cons split: option.splits)
  then show ?case
  proof cases
    case 1
    from op_grant [OF ok(1,2) this] Cons.prems(4) show ?thesis by auto
  next
    case 2
    obtain j' where "abs_db ?db1 (g_id g) = Some j'" "a_token j \<le> a_token j'"
      using op_token_mono [OF ok(1,2) Cons.prems(4)] by blast
    with Cons.IH [OF ok(4,3) 2] show ?thesis by fastforce
  qed
qed simp

text \<open>Whatever sequence of method calls the database serves, with whatever faults, every row
  keeps the agreement between its status and its lease columns, and ids stay unique.\<close>

lemma run_ops_inv:
  assumes "db_ok db" "\<forall>(e, op)\<in>set ops. op_ok op"
  shows "db_ok (snd (run_ops ops db))"
  using assms
proof (induction ops arbitrary: db)
  case (Cons eo rest)
  then show ?case by (cases eo) (auto simp: run_ops_Cons intro: apply_op_inv)
qed simp

text \<open>C6: refinement. Every call of a store method is a step of the abstract lease machine: a
  grant is a claim of a waiting job that raises its token by one, and only calls in the name of
  the holder renew or finish a held job.\<close>

theorem apply_op_refines:
  assumes "db_ok db" "op_ok op"
  shows "\<exists>ev. lease_step (stmt_now e 0) ev (abs_db db) (abs_db (snd (apply_op e op db))) \<and>
    explains op (fst (apply_op e op db)) ev"
  by (rule apply_op_step [OF assms])

text \<open>At most one executor. While the lease of an agent on a job has not expired by the
  database clock, no sequence of calls by others (claims by anyone, heartbeats, finishes and
  requeues in other names) grants the job again or changes its holder, expiry or token.\<close>

lemma lease_exclusive:
  assumes "db_ok db" "\<forall>(e, op)\<in>set ops. op_ok op \<and> stmt_now e 0 \<le> x \<and> \<not> acts_for i a op"
    and "abs_db db i = Some \<lparr>a_phase = Held a x, a_token = k\<rparr>"
  shows "abs_db (snd (run_ops ops db)) i = Some \<lparr>a_phase = Held a x, a_token = k\<rparr> \<and>
    (\<forall>g\<in>set (fst (run_ops ops db)). g_id g \<noteq> i)"
  using assms
proof (induction ops arbitrary: db)
  case (Cons eo rest)
  obtain e op where eo: "eo = (e, op)" by fastforce
  let ?db1 = "snd (apply_op e op db)"
  have ok: "db_ok db" "op_ok op" "db_ok ?db1" "stmt_now e 0 \<le> x" "\<not> acts_for i a op"
    and rest: "\<forall>(e, op)\<in>set rest. op_ok op \<and> stmt_now e 0 \<le> x \<and> \<not> acts_for i a op"
    using Cons.prems apply_op_inv by (auto simp: eo)
  note held = op_protects [OF ok(1,2) Cons.prems(3) ok(4,5)]
  have no: "g_id g \<noteq> i" if "fst (apply_op e op db) = Some g" for g
    using op_grant [OF ok(1,2) that] Cons.prems(3) by auto
  from Cons.IH [OF ok(3) rest held] no show ?case
    by (cases "fst (apply_op e op db)") (auto simp: eo run_ops_Cons)
qed simp

text \<open>Fencing. In every run, the tokens of the leases granted on one job are strictly
  increasing, so no two grants share a token and a later grant always outranks an earlier one.\<close>

lemma fencing_tokens_increase:
  assumes "db_ok db" "\<forall>(e, op)\<in>set ops. op_ok op"
  shows "sorted_wrt (\<lambda>g h. g_id g = g_id h \<longrightarrow> sint (g_token g) < sint (g_token h)) (fst (run_ops ops db))"
  using assms
proof (induction ops arbitrary: db)
  case (Cons eo rest)
  obtain e op where eo: "eo = (e, op)" by fastforce
  let ?db1 = "snd (apply_op e op db)"
  have ok: "db_ok db" "op_ok op" "db_ok ?db1" "\<forall>(e, op)\<in>set rest. op_ok op"
    using Cons.prems apply_op_inv by (auto simp: eo)
  have above: "sint (g_token g) < sint (g_token h)"
    if g: "fst (apply_op e op db) = Some g" and h: "h \<in> set (fst (run_ops rest ?db1))" "g_id g = g_id h" for g h
    using op_grant [OF ok(1,2) g] run_tokens_above [OF ok(3,4) h(1)] h(2) by auto
  from Cons.IH [OF ok(3,4)] above show ?case
    by (auto simp: eo run_ops_Cons sorted_wrt_append split: option.splits)
qed simp

text \<open>A finished job stays finished. As long as no further \<open>Finish\<close> is served for it, no
  sequence of calls claims it again, requeues it or changes its outcome.\<close>

lemma finished_absorbing:
  assumes "db_ok db" "\<forall>(e, op)\<in>set ops. op_ok op \<and> \<not> finishes i op"
    and "abs_db db i = Some \<lparr>a_phase = Done ok, a_token = k\<rparr>"
  shows "abs_db (snd (run_ops ops db)) i = Some \<lparr>a_phase = Done ok, a_token = k\<rparr> \<and>
    (\<forall>g\<in>set (fst (run_ops ops db)). g_id g \<noteq> i)"
  using assms
proof (induction ops arbitrary: db)
  case (Cons eo rest)
  obtain e op where eo: "eo = (e, op)" by fastforce
  let ?db1 = "snd (apply_op e op db)"
  have o: "db_ok db" "op_ok op" "db_ok ?db1" "\<not> finishes i op"
    and rest: "\<forall>(e, op)\<in>set rest. op_ok op \<and> \<not> finishes i op"
    using Cons.prems apply_op_inv by (auto simp: eo)
  note fin = op_keeps_done [OF o(1,2) Cons.prems(3) o(4)]
  have no: "g_id g \<noteq> i" if "fst (apply_op e op db) = Some g" for g
    using op_grant [OF o(1,2) that] Cons.prems(3) by auto
  from Cons.IH [OF o(3) rest fin] no show ?case
    by (cases "fst (apply_op e op db)") (auto simp: eo run_ops_Cons)
qed simp

text \<open>C14: a job never gets stuck behind a dead agent. Once the lease of an assigned or running job
  has passed on the database clock, \<open>ListExpiredLeases\<close> lists the job whatever cutoff it is
  given, \<open>SetStatusQueued\<close> returns it to the queue, and the next claim by any agent is granted
  with a larger token. The counters must not have reached the top of their column type.\<close>

theorem expired_lease_recovers:
  assumes "db_ok db" "row_of db i = Some r" "r_status r \<in> {''assigned'', ''running''}"
    "r_lease_expires_at r = Some x" "x < stmt_now e1 0" "x < stmt_now e2 0"
    "db_up e1" "db_up e2" "db_up e3"
    "sint (r_retry_count r) < 2 ^ 31 - 1" "sint (r_lease_token r) < 2 ^ 63 - 1"
  shows "(\<exists>ids. ListExpiredLeases e1 cutoff db = Inr ids \<and> i \<in> set ids) \<and>
    (\<exists>db2. SetStatusQueued e2 i db = (None, db2) \<and>
      (\<exists>l db3. TryClaim e3 i b ttl db2 = (Inr l, db3) \<and> le_AgentID l = b \<and>
         sint (le_FencingToken l) = sint (r_lease_token r) + 1))"
proof -
  have r: "r \<in> set db" "r_id r = i" using row_of_SomeD [OF assms(2)] by auto
  let ?db2 = "put_row (requeued_row r) db"
  have q: "SetStatusQueued e2 i db = (None, ?db2)"
    by (rule SetStatusQueued_up [OF assms(1,8,2,3,4,6,10)])
  have ok: "db_ok ?db2" using SetStatusQueued_ok [OF assms(1), of e2 i] by (simp only: q snd_conv)
  have row: "row_of ?db2 i = Some (requeued_row r)"
    using assms(2) r by (simp add: row_of_put_row requeued_row_def)
  note tok = sint_succ [OF assms(11)]
  have "TryClaim e3 i b ttl ?db2 = (Inr \<lparr>le_AgentID = b, le_ExpireAt = stmt_now e3 0 + seconds_of ttl * second,
      le_FencingToken = r_lease_token r + 1\<rparr>, put_row (claimed_row b (stmt_now e3 0 + seconds_of ttl * second)
      (requeued_row r)) ?db2)"
    using TryClaim_queued [OF ok assms(9) row, of b ttl] assms(11) by (simp add: requeued_row_def)
  moreover obtain ids where "ListExpiredLeases e1 cutoff db = Inr ids" "i \<in> set ids"
    using ListExpiredLeases_up [OF assms(7), of cutoff db] r assms(3-5) by blast
  ultimately show ?thesis using q tok by simp
qed

subsection \<open>Examples\<close>

lemma sample_abs:
  "abs_db sample_db ''r'' = Some \<lparr>a_phase = Held ''A'' 100, a_token = 3\<rparr>"
  "abs_db sample_db ''q'' = Some \<lparr>a_phase = Waiting, a_token = 0\<rparr>"
  by (simp_all add: abs_db_def sample_row_of abs_row_def abs_phase_def sample_simps)

lemma run_ops_inv_witness: "db_ok sample_db \<and> db_ok (snd (run_ops sample_ops sample_db))"
  using run_ops_inv [OF sample_ok, of sample_ops] by (simp add: sample_ops_def sample_ok)

theorem apply_op_refines_witness:
  "\<exists>ev. lease_step 50 ev (abs_db sample_db) (abs_db (snd (apply_op (up_env 50) (OpRequeue ''r'') sample_db)))"
  using apply_op_refines [OF sample_ok, of "OpRequeue ''r''" "up_env 50"] by auto

lemma lease_exclusive_witness:
  "abs_db sample_db ''r'' = Some \<lparr>a_phase = Held ''A'' 100, a_token = 3\<rparr> \<and>
   abs_db (snd (run_ops sample_ops sample_db)) ''r'' = Some \<lparr>a_phase = Held ''A'' 100, a_token = 3\<rparr>"
  using lease_exclusive [OF sample_ok _ sample_abs(1), of sample_ops] by (simp add: sample_abs sample_ops_def)

lemma fencing_tokens_increase_witness:
  "db_ok sample_db \<and>
   sorted_wrt (\<lambda>g h. g_id g = g_id h \<longrightarrow> sint (g_token g) < sint (g_token h)) (fst (run_ops sample_ops sample_db))"
  using fencing_tokens_increase [OF sample_ok, of sample_ops] by (simp add: sample_ok sample_ops_def)

lemma sample_done_ok:
  "db_ok [sample_done]" "abs_db [sample_done] ''d'' = Some \<lparr>a_phase = Done True, a_token = 2\<rparr>"
  by (simp_all add: db_ok_def row_ok_def abs_db_def row_of_def abs_row_def abs_phase_def sample_done_def sample_simps)

lemma finished_absorbing_witness:
  "abs_db [sample_done] ''d'' = Some \<lparr>a_phase = Done True, a_token = 2\<rparr> \<and>
   abs_db (snd (run_ops late_ops [sample_done])) ''d'' = Some \<lparr>a_phase = Done True, a_token = 2\<rparr>"
  using finished_absorbing [OF sample_done_ok(1) _ sample_done_ok(2), of late_ops]
  by (simp add: sample_done_ok late_ops_def)

theorem expired_lease_recovers_witness:
  "(\<exists>ids. ListExpiredLeases (up_env 200) 0 sample_db = Inr ids \<and> ''r'' \<in> set ids) \<and>
   (\<exists>db2. SetStatusQueued (up_env 201) ''r'' sample_db = (None, db2) \<and>
     (\<exists>l db3. TryClaim (up_env 202) ''r'' ''B'' (15 * second) db2 = (Inr l, db3) \<and> le_AgentID l = ''B'' \<and>
        sint (le_FencingToken l) = 4))"
  using expired_lease_recovers [OF sample_ok sample_row_of(2), of 100 "up_env 200" "up_env 201" "up_env 202" 0 "''B''"
    "15 * second"]
  by (simp add: sample_simps)

end
