(* ===== verification/Server_Runs.thy ===== *)
theory Server_Runs
  imports Control_Loops Agent_Client Lease_Runs
begin

text \<open>
  Runs of the control server. A run is any sequence of the things that happen to the server:
  requests that arrive at the multiplexer, ticks of the background loops, passes of the announce
  manager, a restart of the process, and whatever other nodes do to the DHT. The relation
  \<open>server_step\<close> has one rule for each; \<open>server_run\<close> records what happened and what was answered.

  Every step is a sequence of calls of the lease store (\<open>step_explained\<close>), so the guarantees of the
  store hold for what clients see: the leases in the server's answers.
\<close>

text \<open>What can happen. A tick and a request come with the circumstances of the handler or loop
  body: clock readings, faults of the database, random shards. \<open>Restart\<close> is a new process on the
  same database with the tasks of its \<open>-create\<close> flag, \<open>Others\<close> a change of the DHT from outside.\<close>

datatype 'n action =
    Serve callenv request
  | RequeueTick dbenv "nat \<Rightarrow> dbenv" time
  | ReannounceTick dbenv
  | AnnouncePass "string list \<Rightarrow> string list" time "nat \<Rightarrow> nat \<Rightarrow> time"
  | Restart dbenv "nat \<Rightarrow> nat" "nat \<Rightarrow> nat \<Rightarrow> time" string "string list" "string list"
      "nat \<Rightarrow> dbenv" "nat \<Rightarrow> nat \<Rightarrow> time" "nat \<Rightarrow> nat \<Rightarrow> time" "nat \<Rightarrow> nat \<Rightarrow> nat"
  | Others "'n dht"

text \<open>The world a new process works on after its start: the manager is empty, queued jobs are restored,
  the tasks of the command line are created.\<close>

definition restarted ::
  "'n server \<Rightarrow> dbenv \<Rightarrow> (nat \<Rightarrow> nat) \<Rightarrow> (nat \<Rightarrow> nat \<Rightarrow> time) \<Rightarrow> string \<Rightarrow> string list \<Rightarrow> string list \<Rightarrow>
   (nat \<Rightarrow> dbenv) \<Rightarrow> (nat \<Rightarrow> nat \<Rightarrow> time) \<Rightarrow> (nat \<Rightarrow> nat \<Rightarrow> time) \<Rightarrow> (nat \<Rightarrow> nat \<Rightarrow> nat) \<Rightarrow> 'n world \<Rightarrow> 'n world" where
  "restarted sv e shards rclk img cmd ids es now clk rnd w =
     create_all sv img cmd es now clk rnd 0 ids
       (restoreJobsFromDemand sv e shards rclk
          (w\<lparr>w_mgr := NewAnnounceManager (sv_ns sv) (30 * second) (3 * second)\<rparr>))"

definition announced :: "'n server \<Rightarrow> (string list \<Rightarrow> string list) \<Rightarrow> time \<Rightarrow> (nat \<Rightarrow> nat \<Rightarrow> time) \<Rightarrow> 'n world \<Rightarrow> 'n world" where
  "announced sv ord now clk w =
     (let (d, m) = process (sv_env sv) (sv_dht sv) ord now clk (w_dht w, w_mgr w) in w\<lparr>w_dht := d, w_mgr := m\<rparr>)"

inductive server_step :: "'n server \<Rightarrow> 'n action \<Rightarrow> response option \<Rightarrow> 'n world \<Rightarrow> 'n world \<Rightarrow> bool" for sv where
  serve: "mountHTTP sv ce r w = (resp, w') \<Longrightarrow> server_step sv (Serve ce r) (Some resp) w w'"
| requeue: "server_step sv (RequeueTick e es now) None w (requeue_pass sv e es now w)"
| reannounce: "server_step sv (ReannounceTick e) None w (reannounce_pass e w)"
| announce: "server_step sv (AnnouncePass ord now clk) None w (announced sv ord now clk w)"
| restart: "server_step sv (Restart e shards rclk img cmd ids es now clk rnd) None w
    (restarted sv e shards rclk img cmd ids es now clk rnd w)"
| others: "server_step sv (Others d) None w (w\<lparr>w_dht := d\<rparr>)"

type_synonym 'n history = "('n action \<times> response option) list"

inductive server_run :: "'n server \<Rightarrow> 'n history \<Rightarrow> 'n world \<Rightarrow> 'n world \<Rightarrow> bool" for sv where
  nil: "server_run sv [] w w"
| cons: "server_step sv a resp w w1 \<Longrightarrow> server_run sv h w1 w' \<Longrightarrow> server_run sv ((a, resp) # h) w w'"

text \<open>The job a request names, by the guards of the handlers.\<close>

abbreviation claim_target :: "request \<Rightarrow> string option" where
  "claim_target r \<equiv> route4 ''api'' ''tasks'' ''try-claim'' (rq_path r)"

abbreviation heartbeat_target :: "request \<Rightarrow> string option" where
  "heartbeat_target r \<equiv> route4 ''api'' ''tasks'' ''heartbeat'' (rq_path r)"

abbreviation finish_target :: "request \<Rightarrow> string option" where
  "finish_target r \<equiv> route3 ''jobs'' ''finish'' (rq_path r)"

text \<open>The lease a client reads from an answer, as \<open>HTTPClaimClient.TryClaim\<close> decodes it.\<close>

definition lease_in :: "response \<Rightarrow> task_lease option" where
  "lease_in resp =
     (case resp of
        Resp code (JsonBody j) \<Rightarrow>
          if code div 100 \<noteq> 2 then None
          else (case unmarshal zero_lease_out dec_lease_out (Doc j) of
                  (out, None) \<Rightarrow> if lo_OK out then Some (lo_Lease out) else None
                | (_, Some _) \<Rightarrow> None)
      | _ \<Rightarrow> None)"

text \<open>The leases that clients were granted, in order.\<close>

fun granted :: "'n action \<times> response option \<Rightarrow> grant list" where
  "granted (Serve ce r, Some resp) =
     (case (claim_target r, lease_in resp) of
        (Some i, Some l) \<Rightarrow> [\<lparr>g_id = i, g_agent = tl_Owner l, g_token = tl_Version l, g_expires = tl_Expires l\<rparr>]
      | _ \<Rightarrow> [])"
| "granted _ = []"

definition grants :: "'n history \<Rightarrow> grant list" where
  "grants h = concat (map granted h)"

abbreviation hb_body :: "request \<Rightarrow> hb_in" where
  "hb_body r \<equiv> fst (unmarshal zero_hb_in dec_hb_in (rq_body r))"

text \<open>A request that acts in the name of agent \<open>a\<close> on job \<open>i\<close>: a heartbeat or a finish report.\<close>

definition speaks_for :: "string \<Rightarrow> string \<Rightarrow> request \<Rightarrow> bool" where
  "speaks_for i a r \<longleftrightarrow>
     heartbeat_target r = Some i \<and> hb_AgentID (hb_body r) = a \<or>
     finish_target r = Some i \<and> rq_header r ''X-Agent-ID'' = a"

text \<open>A heartbeat or finish report for job \<open>i\<close> that carries the fencing token \<open>t\<close>, with any method,
  agent name and body.\<close>

definition carries :: "string \<Rightarrow> i64 \<Rightarrow> request \<Rightarrow> bool" where
  "carries i t r \<longleftrightarrow>
     rq_path r = ''/api/tasks/'' @ i @ ''/heartbeat'' \<and> hb_token (hb_body r) r = t \<or>
     rq_path r = ''/jobs/'' @ i @ ''/finish'' \<and> token_of (rq_header r ''X-Lease-Token'') = t"

text \<open>The calls of the store an action may make.\<close>

fun may_call :: "'n action \<Rightarrow> dbenv \<Rightarrow> store_op \<Rightarrow> bool" where
  "may_call (Serve ce r) e op \<longleftrightarrow> e = ce_db ce \<and>
     (\<forall>i a. acts_for i a op \<longrightarrow> speaks_for i a r) \<and> (\<forall>i. finishes i op \<longrightarrow> finish_target r = Some i)"
| "may_call (RequeueTick e es now) e' op \<longleftrightarrow> (\<exists>n i. e' = es n \<and> op = OpRequeue i)"
| "may_call (Restart e shards rclk img cmd ids es now clk rnd) e' op \<longleftrightarrow> (\<exists>n job. e' = es n \<and> op = OpCreate job)"
| "may_call _ e op \<longleftrightarrow> False"

definition calls_ok :: "'n action \<Rightarrow> (dbenv \<times> store_op) list \<Rightarrow> bool" where
  "calls_ok a ops \<longleftrightarrow> (\<forall>(e, op)\<in>set ops. op_ok op \<and> may_call a e op)"

text \<open>The database clock of every call of an action has not passed \<open>x\<close>.\<close>

fun clock_by :: "time \<Rightarrow> 'n action \<Rightarrow> bool" where
  "clock_by x (Serve ce r) \<longleftrightarrow> stmt_now (ce_db ce) 0 \<le> x"
| "clock_by x (RequeueTick e es now) \<longleftrightarrow> (\<forall>n. stmt_now (es n) 0 \<le> x)"
| "clock_by x (Restart e shards rclk img cmd ids es now clk rnd) \<longleftrightarrow> (\<forall>n. stmt_now (es n) 0 \<le> x)"
| "clock_by x _ \<longleftrightarrow> True"

text \<open>Actions in which nobody speaks for the agent about the job, and actions that finish no job \<open>i\<close>.\<close>

fun silent :: "string \<Rightarrow> string \<Rightarrow> 'n action \<Rightarrow> bool" where
  "silent i a (Serve ce r) \<longleftrightarrow> \<not> speaks_for i a r"
| "silent i a _ \<longleftrightarrow> True"

fun no_finish :: "string \<Rightarrow> 'n action \<Rightarrow> bool" where
  "no_finish i (Serve ce r) \<longleftrightarrow> finish_target r \<noteq> Some i"
| "no_finish i _ \<longleftrightarrow> True"

text \<open>A run for the examples: agent \<open>B\<close> claims the queued job, then the announce manager makes a pass.\<close>

definition sample_claim :: request where
  "sample_claim = claim_request ''q'' ''B'' 15 ''Bearer s''"

definition sample_answer :: "response \<times> (string \<rightharpoonup> payload) world" where
  "sample_answer = mountHTTP sample_server sample_call sample_claim (sample_world sample_db)"

definition sample_history :: "(string \<rightharpoonup> payload) history" where
  "sample_history = [(Serve sample_call sample_claim, Some (fst sample_answer)), (AnnouncePass (\<lambda>ids. ids) 60 (\<lambda>_ _. 60), None)]"

definition sample_after :: "(string \<rightharpoonup> payload) world" where
  "sample_after = announced sample_server (\<lambda>ids. ids) 60 (\<lambda>_ _. 60) (snd sample_answer)"

definition sample_grant :: grant where
  "sample_grant = \<lparr>g_id = ''q'', g_agent = ''B'', g_token = 1, g_expires = 50 + 15 * second\<rparr>"

text \<open>An action and its answer, explained by calls of the store.\<close>

definition explained :: "'n action \<Rightarrow> response option \<Rightarrow> db \<Rightarrow> db \<Rightarrow> bool" where
  "explained a resp db db' \<longleftrightarrow>
     (\<exists>ops. calls_ok a ops \<and> db' = snd (run_ops ops db) \<and> granted (a, resp) = fst (run_ops ops db))"

text \<open>What a handler does is explained by the calls it makes.\<close>

abbreviation explains_handler :: "'n handler \<Rightarrow> 'n server \<Rightarrow> callenv \<Rightarrow> request \<Rightarrow> 'n world \<Rightarrow> bool" where
  "explains_handler h sv ce r w \<equiv>
     explained (Serve ce r :: 'n action) (Some (fst (h sv ce r w))) (w_db w) (w_db (snd (h sv ce r w)))"

subsection \<open>Answers\<close>

lemma lease_in_simps [simp]:
  "lease_in Panic = None" "lease_in (Resp code NoBody) = None" "lease_in (Resp code (Plain s)) = None"
  "lease_in (Resp code (Moved s)) = None"
  by (simp_all add: lease_in_def)

lemma lease_in_writeJSON:
  "code div 100 = 2 \<Longrightarrow> lease_in (writeJSON code j) =
     (case dec_lease_out j of (out, ok) \<Rightarrow> if ok \<and> lo_OK out then Some (lo_Lease out) else None)"
  by (auto simp: lease_in_def writeJSON_def unmarshal_def split: prod.splits bool.splits)

lemma lease_in_error [simp]: "lease_in (httpError s code) = None" "lease_in NotFound = None"
  by (simp_all add: httpError_def NotFound_def)

lemma route4_unique: "route4 a b z p = Some i \<Longrightarrow> route4 a b z' p = Some j \<Longrightarrow> z = z'"
  by (auto simp: route4_def split: list.splits if_splits)

lemma route3_4: "route3 a z p = Some i \<Longrightarrow> route4 a' b z' p = None"
  by (auto simp: route3_def route4_def split: list.splits if_splits)

text \<open>The member names of the other answers are not those of a lease.\<close>

lemma other_names:
  "\<forall>k\<in>set [''job_id'', ''manifest'', ''meta'', ''state'', ''endpoint'', ''token'', ''id'', ''lease_expires'', ''lease_owner'', ''lease_ver'', ''owner'', ''status'', ''updated_at'', ''assigned'', ''failed'', ''queued'', ''running'', ''succeeded'']. ToLower k \<noteq> ''ok'' \<and> ToLower k \<noteq> ''lease''"
  by code_simp

lemma skip_other: "k \<in> set [''job_id'', ''manifest'', ''meta'', ''state'', ''endpoint'', ''token'', ''id'', ''lease_expires'', ''lease_owner'', ''lease_ver'', ''owner'', ''status'', ''updated_at'', ''assigned'', ''failed'', ''queued'', ''running'', ''succeeded''] \<Longrightarrow> set_lease_out k v x = (x, True)"
  using other_names by (auto simp: set_lease_out_def Let_def)

lemma no_lease_in_views:
  "lease_in (writeJSON 200 (task_view job om)) = None"
  "lease_in (writeJSON 200 (JArr js)) = None"
  "lease_in (writeJSON 201 (JObj [(''job_id'', JStr i)])) = None"
  "lease_in (writeJSON 200 (JObj [(''endpoint'', endp), (''token'', tkn)])) = None"
  by (simp_all add: lease_in_writeJSON dec_lease_out_def skip_other zero_lease_out_def task_view_def Let_def
      decode_struct_def split: option.splits)

lemma no_lease_in_reports:
  "lease_in (writeJSON 200 (JObj [(''id'', a), (''lease_expires'', b), (''lease_owner'', c), (''lease_ver'', d),
     (''owner'', e), (''status'', f), (''updated_at'', g)])) = None"
  "lease_in (writeJSON 200 (JObj [(''assigned'', a), (''failed'', b), (''queued'', c), (''running'', d), (''succeeded'', e)])) = None"
  by (simp_all add: lease_in_writeJSON dec_lease_out_def skip_other zero_lease_out_def Let_def)

lemma lease_in_lease [simp]:
  "lease_in (writeJSON 200 (enc_lease_out x)) = (if lo_OK x then Some (lo_Lease x) else None)"
  by (simp add: lease_in_writeJSON)

subsection \<open>Calls of the store\<close>

lemma explained_quiet: "granted (a, resp) = [] \<Longrightarrow> explained a resp db db"
  unfolding explained_def by (intro exI [of _ "[]"]) (simp add: calls_ok_def)

lemma explained_call:
  assumes "op_ok op" "may_call a e op" "granted (a, resp) = (case fst (apply_op e op db) of None \<Rightarrow> [] | Some g \<Rightarrow> [g])"
  shows "explained a resp db (snd (apply_op e op db))"
  unfolding explained_def using assms by (intro exI [of _ "[(e, op)]"]) (simp add: calls_ok_def run_ops_Cons)

lemma granted_none: "lease_in resp = None \<or> claim_target r = None \<Longrightarrow> granted (Serve ce r, Some resp) = []"
  by (auto split: option.splits)

lemma quiet_handlers:
  "w_db (snd (getTaskHandler sv ce r w)) = w_db w" "lease_in (fst (getTaskHandler sv ce r w)) = None"
  "w_db (snd (listTasksHandler sv ce r w)) = w_db w" "lease_in (fst (listTasksHandler sv ce r w)) = None"
  "w_db (snd (statsHandler sv ce r w)) = w_db w" "lease_in (fst (statsHandler sv ce r w)) = None"
  "w_db (snd (forceRequeueHandler sv ce r w)) = w_db w" "lease_in (fst (forceRequeueHandler sv ce r w)) = None"
  "w_db (snd (debugLeaseHandler sv ce r w)) = w_db w" "lease_in (fst (debugLeaseHandler sv ce r w)) = None"
  "w_db (snd (logsHandler sv ce r w)) = w_db w" "lease_in (fst (logsHandler sv ce r w)) = None"
  "w_db (snd (healthHandler sv ce r w)) = w_db w"
  by (simp_all add: getTaskHandler_def listTasksHandler_def statsHandler_def forceRequeueHandler_def debugLeaseHandler_def
      logsHandler_def healthHandler_def unauthorized_def bad_method_def Let_def split_beta enqueue_def
      no_lease_in_views no_lease_in_reports split: sum.splits)

lemma explained_silent [simp]: "lease_in resp = None \<Longrightarrow> explained (Serve ce r) (Some resp) db db"
  by (intro explained_quiet granted_none) simp

lemma handler_quiet:
  assumes "w_db (snd (h sv ce r w)) = w_db w" "lease_in (fst (h sv ce r w)) = None \<or> claim_target r = None"
  shows "explains_handler h sv ce r w"
  unfolding assms(1) by (rule explained_quiet, rule granted_none) (rule assms(2))

lemma quiet_explained:
  "explains_handler getTaskHandler sv ce r w" "explains_handler listTasksHandler sv ce r w"
  "explains_handler statsHandler sv ce r w" "explains_handler forceRequeueHandler sv ce r w"
  "explains_handler debugLeaseHandler sv ce r w" "explains_handler logsHandler sv ce r w"
  by (rule handler_quiet; simp add: quiet_handlers)+

lemma release_explained: "explains_handler releaseHandler sv ce r w"
proof (rule handler_quiet)
  show "w_db (snd (releaseHandler sv ce r w)) = w_db w"
    by (simp add: releaseHandler_def http_defs Let_def split_beta split: option.splits)
  show "lease_in (fst (releaseHandler sv ce r w)) = None \<or> claim_target r = None"
  proof (cases "route4 ''api'' ''tasks'' ''release'' (rq_path r)")
    case None
    then show ?thesis by (simp add: releaseHandler_def http_defs)
  next
    case (Some i)
    then have "claim_target r = None" using route4_unique [of "''api''" "''tasks''" "''release''" _ i "''try-claim''"] by fastforce
    then show ?thesis ..
  qed
qed

lemma finishHandler_db:
  assumes "finish_target r = Some i"
  shows "w_db (snd (finishHandler sv ce r w)) = w_db w \<or>
    (\<exists>succ cid arts mets. w_db (snd (finishHandler sv ce r w)) =
       snd (Finish (ce_db ce) i (rq_header r ''X-Agent-ID'') (token_of (rq_header r ''X-Lease-Token'')) succ cid arts mets (w_db w)))"
proof -
  let ?x = "finishHandler sv ce r w" let ?inp = "fst (unmarshal zero_finish_in dec_finish_in (rq_body r))"
  have "w_db (snd ?x) = w_db w \<or>
    w_db (snd ?x) = snd (Finish (ce_db ce) i (rq_header r ''X-Agent-ID'') (token_of (rq_header r ''X-Lease-Token''))
       (ToLower (fi_Status ?inp) = ''succeeded'') (fi_ResultCID ?inp) (fi_Artifacts ?inp) (JObj (fi_Metrics ?inp)) (w_db w))"
    by (simp add: finishHandler_def http_defs assms Let_def split_beta split: option.split)
  then show ?thesis by blast
qed

lemma finish_explained: "explains_handler finishHandler sv ce r w"
proof (cases "finish_target r")
  case None
  then have "snd (finishHandler sv ce r w) = w \<and> lease_in (fst (finishHandler sv ce r w)) = None"
    by (simp add: finishHandler_def http_defs)
  then show ?thesis by (intro handler_quiet) simp_all
next
  case (Some i)
  let ?x = "finishHandler sv ce r w"
  have c: "claim_target r = None" using route3_4 [OF Some] .
  from finishHandler_db [OF Some] consider "w_db (snd ?x) = w_db w" | succ cid arts mets where
    "w_db (snd ?x) = snd (Finish (ce_db ce) i (rq_header r ''X-Agent-ID'') (token_of (rq_header r ''X-Lease-Token''))
       succ cid arts mets (w_db w))" by blast
  then show ?thesis
  proof cases
    case 1
    then show ?thesis using c by (intro handler_quiet) simp_all
  next
    case (2 succ cid arts mets)
    let ?op = "OpFinish i (rq_header r ''X-Agent-ID'') (token_of (rq_header r ''X-Lease-Token'')) succ cid arts mets"
    have "explained (Serve ce r :: 'a action) (Some (fst ?x)) (w_db w) (snd (apply_op (ce_db ce) ?op (w_db w)))"
      by (rule explained_call) (simp_all add: granted_none c Some speaks_for_def del: granted.simps)
    then show ?thesis by (simp add: 2)
  qed
qed

lemma heartbeatHandler_db:
  assumes "heartbeat_target r = Some i"
  shows "w_db (snd (heartbeatHandler sv ce r w)) = w_db w \<and> (\<exists>code b. fst (heartbeatHandler sv ce r w) = Resp code b \<and> 400 \<le> code) \<or>
    (let t = Lease_Store.Heartbeat (ce_db ce) i (hb_AgentID (hb_body r)) (hb_token (hb_body r) r) (ttlOrDefault (hb_TTLSec (hb_body r))) (w_db w)
     in w_db (snd (heartbeatHandler sv ce r w)) = snd t \<and>
        (fst t \<noteq> None \<longrightarrow> (\<exists>code b. fst (heartbeatHandler sv ce r w) = Resp code b \<and> 400 \<le> code)))"
  by (simp add: heartbeatHandler_def http_defs assms Let_def split_beta split: option.split)

lemma heartbeat_explained: "explains_handler heartbeatHandler sv ce r w"
proof (cases "heartbeat_target r")
  case None
  then have "snd (heartbeatHandler sv ce r w) = w \<and> lease_in (fst (heartbeatHandler sv ce r w)) = None"
    by (simp add: heartbeatHandler_def http_defs)
  then show ?thesis by (intro handler_quiet) simp_all
next
  case (Some i)
  let ?x = "heartbeatHandler sv ce r w" let ?a = "hb_AgentID (hb_body r)"
  have c: "claim_target r = None" using route4_unique [OF Some] by fastforce
  from heartbeatHandler_db [OF Some, where sv = sv and ce = ce and w = w] consider "w_db (snd ?x) = w_db w" | tok ttl where "w_db (snd ?x) = snd (Lease_Store.Heartbeat (ce_db ce) i ?a tok ttl (w_db w))"
    by (auto simp: Let_def)
  then show ?thesis
  proof cases
    case 1
    then show ?thesis using c by (intro handler_quiet) simp_all
  next
    case (2 tok ttl)
    have "explained (Serve ce r :: 'a action) (Some (fst ?x)) (w_db w) (snd (apply_op (ce_db ce) (OpHeartbeat i ?a tok ttl) (w_db w)))"
      by (rule explained_call) (simp_all add: granted_none c Some speaks_for_def del: granted.simps)
    then show ?thesis by (simp add: 2)
  qed
qed

lemma create_explained: "explains_handler createTaskHandler sv ce r w"
proof -
  let ?x = "createTaskHandler sv ce r w" let ?req = "fst (unmarshal zero_create_req dec_create_req (rq_body r))"
  let ?job = "new_job (cr_ID ?req) (cr_Image ?req) (cr_Command ?req) (ce_now ce 0)"
  have n: "lease_in (fst (publish_task sv ce req now v)) = None" "w_db (snd (publish_task sv ce req now v)) = w_db v" for req now v
    by (simp_all add: publish_task_def Let_def split_beta enqueue_def no_lease_in_views split: option.split)
  then have l: "lease_in (fst ?x) = None"
    by (simp add: createTaskHandler_def http_defs Let_def split_beta split: option.split)
  have "snd ?x = w \<or> w_db (snd ?x) = snd (CreateJob (ce_db ce) ?job (w_db w))"
    by (simp add: createTaskHandler_def http_defs Let_def split_beta n split: option.split)
  then show ?thesis
  proof
    assume "snd ?x = w"
    with l show ?thesis by (intro handler_quiet) simp_all
  next
    assume db: "w_db (snd ?x) = snd (CreateJob (ce_db ce) ?job (w_db w))"
    have "explained (Serve ce r :: 'a action) (Some (fst ?x)) (w_db w) (snd (apply_op (ce_db ce) (OpCreate ?job) (w_db w)))"
      by (rule explained_call) (simp_all add: granted_none l new_job_def del: granted.simps)
    with db show ?thesis by simp
  qed
qed

lemma store_manifest_db:
  "w_db (snd (store_manifest sv ce i inp w)) = w_db w \<or>
   (\<exists>m. w_db (snd (store_manifest sv ce i inp w)) = snd (AttachManifest (ce_db ce) i m (w_db w)))"
  "lease_in (fst (store_manifest sv ce i inp w)) = None"
  by (auto simp: store_manifest_def Let_def split_beta enqueue_def split: option.split)

lemma manifest_explained: "explains_handler manifestHandler sv ce r w"
proof -
  let ?x = "manifestHandler sv ce r w"
  have l: "lease_in (fst ?x) = None"
    by (simp add: manifestHandler_def http_defs split_beta store_manifest_db split: option.split)
  have "w_db (snd ?x) = w_db w \<or> (\<exists>i m. w_db (snd ?x) = snd (AttachManifest (ce_db ce) i m (w_db w)))"
    using store_manifest_db(1) by (fastforce simp: manifestHandler_def http_defs split_beta split: option.split)
  then show ?thesis
  proof (elim disjE exE)
    assume "w_db (snd ?x) = w_db w"
    with l show ?thesis by (intro handler_quiet) simp_all
  next
    fix i m assume db: "w_db (snd ?x) = snd (AttachManifest (ce_db ce) i m (w_db w))"
    have "explained (Serve ce r :: 'a action) (Some (fst ?x)) (w_db w) (snd (apply_op (ce_db ce) (OpAttach i m) (w_db w)))"
      by (rule explained_call) (simp_all add: granted_none l del: granted.simps)
    with db show ?thesis by simp
  qed
qed

lemma TryClaim_agent: "fst (Lease_Store.TryClaim e i a ttl db) = Inr l \<Longrightarrow> le_AgentID l = a"
  by (auto simp: Lease_Store.TryClaim_def split_beta split: sum.splits list.splits option.splits)

lemma claim_explained: "explains_handler tryClaimHandler sv ce r w"
proof (cases "claim_target r")
  case None
  then have "snd (tryClaimHandler sv ce r w) = w" by (simp add: tryClaimHandler_def http_defs)
  with None show ?thesis by (intro handler_quiet) simp_all
next
  case (Some i)
  let ?x = "tryClaimHandler sv ce r w" let ?inp = "fst (unmarshal zero_claim_in dec_claim_in (rq_body r))"
  let ?a = "ci_AgentID ?inp" let ?ttl = "ttlOrDefault (ci_TTLSec ?inp)"
  let ?t = "Lease_Store.TryClaim (ce_db ce) i ?a ?ttl (w_db w)"
  note le = TryClaim_agent [of "ce_db ce" i ?a ?ttl "w_db w"]
  have "snd ?x = w \<and> lease_in (fst ?x) = None \<or> w_db (snd ?x) = snd ?t \<and>
      lease_in (fst ?x) = (case fst ?t of Inl _ \<Rightarrow> None | Inr l \<Rightarrow> Some (lease_doc ?a l))"
    by (simp add: tryClaimHandler_def unauthorized_def bad_json_def Some Let_def split_beta claim_dht_reply zero_lease_out_def
        split: option.split sum.split)
  then show ?thesis
  proof
    assume "snd ?x = w \<and> lease_in (fst ?x) = None"
    then show ?thesis by (intro handler_quiet) simp_all
  next
    assume db: "w_db (snd ?x) = snd ?t \<and> lease_in (fst ?x) = (case fst ?t of Inl _ \<Rightarrow> None | Inr l \<Rightarrow> Some (lease_doc ?a l))"
    have "explained (Serve ce r :: 'a action) (Some (fst ?x)) (w_db w) (snd (apply_op (ce_db ce) (OpClaim i ?a ?ttl) (w_db w)))"
      by (rule explained_call) (use db Some le in \<open>auto simp: lease_doc_def split_beta split: sum.splits\<close>)
    with db show ?thesis by (simp add: split_beta split: sum.splits)
  qed
qed

subsection \<open>Every step is a sequence of calls\<close>

lemma subtrees_explained:
  assumes "(pat, h) \<in> set subtrees"
  shows "explains_handler h sv ce r w"
  using assms
  by (auto simp: subtrees_def tasks_sub_def jobs_sub_def api_jobs_sub_def claim_explained heartbeat_explained
      release_explained quiet_explained manifest_explained finish_explained)

lemma exact_explained:
  assumes "map_of exact_paths (rq_path r) = Some h"
  shows "explains_handler h sv ce r w"
proof -
  have "explains_handler healthHandler sv ce r w" if "rq_path r = ''/api/health''"
  proof (rule handler_quiet)
    show "lease_in (fst (healthHandler sv ce r w)) = None \<or> claim_target r = None" unfolding that by (rule disjI2) code_simp
  qed (rule quiet_handlers)
  with assms show ?thesis
    by (auto simp: exact_paths_def tasks_root_def create_explained quiet_explained bad_method_def split: if_splits)
qed

lemma mount_explained: "explains_handler mountHTTP sv ce r w"
proof -
  let ?sub = "find (\<lambda>(pat, _). HasPrefix (rq_path r) pat) (subtrees :: (string \<times> 'a handler) list)"
  show ?thesis
  proof (cases "cleanPath (rq_path r) = rq_path r")
    case False
    then show ?thesis by (simp add: mountHTTP_def Let_def)
  next
    case True
    show ?thesis
    proof (cases "map_of exact_paths (rq_path r) :: 'a handler option")
      case (Some h)
      with True exact_explained [OF Some, where sv = sv and ce = ce and w = w] show ?thesis by (simp add: mountHTTP_def Let_def)
    next
      case None
      then show ?thesis
        using True subtrees_explained [where sv = sv and ce = ce and r = r and w = w] find_SomeD [where xs = subtrees]
        by (cases ?sub) (fastforce simp: mountHTTP_def Let_def)+
    qed
  qed
qed

lemma requeue_one_db: "w_db (requeue_one sv e now i w) = snd (SetStatusQueued e i (w_db w))"
  by (auto simp: requeue_one_def enqueue_def split: prod.splits option.splits)

lemma requeue_all_calls:
  "\<exists>ops. (\<forall>(e, op)\<in>set ops. op_ok op \<and> (\<exists>n i. e = es n \<and> op = OpRequeue i)) \<and>
     w_db (requeue_all sv es now n ids w) = snd (run_ops ops (w_db w)) \<and> [] = fst (run_ops ops (w_db w))"
proof (induction ids arbitrary: n w)
  case (Cons i ids)
  obtain ops where ops: "\<forall>(e, op)\<in>set ops. op_ok op \<and> (\<exists>n i. e = es n \<and> op = OpRequeue i)"
    "w_db (requeue_all sv es now (Suc n) ids (requeue_one sv (es n) now i w)) =
       snd (run_ops ops (snd (SetStatusQueued (es n) i (w_db w))))"
    "[] = fst (run_ops ops (snd (SetStatusQueued (es n) i (w_db w))))"
    using Cons.IH [of "Suc n" "requeue_one sv (es n) now i w"] by (auto simp: requeue_one_db)
  then show ?case by (intro exI [of _ "(es n, OpRequeue i) # ops"]) (auto simp: run_ops_Cons)
qed (auto intro: exI [of _ "[]"])

lemma create_all_calls:
  "\<exists>ops. (\<forall>(e, op)\<in>set ops. op_ok op \<and> (\<exists>n job. e = es n \<and> op = OpCreate job)) \<and>
     w_db (create_all sv img cmd es now clk rnd n ids w) = snd (run_ops ops (w_db w)) \<and> [] = fst (run_ops ops (w_db w))"
proof (induction ids arbitrary: n w)
  case (Cons i ids)
  let ?w1 = "create_one sv img cmd (es n) (now n) (clk n) (rnd n) i w" let ?job = "new_job i img cmd (now n 1)"
  have w1: "w_db ?w1 = snd (CreateJob (es n) ?job (w_db w))" by (simp add: create_one_def enqueue_def Let_def)
  obtain ops where ops: "\<forall>(e, op)\<in>set ops. op_ok op \<and> (\<exists>n job. e = es n \<and> op = OpCreate job)"
    "w_db (create_all sv img cmd es now clk rnd (Suc n) ids ?w1) = snd (run_ops ops (w_db ?w1))"
    "[] = fst (run_ops ops (w_db ?w1))"
    using Cons.IH [of "Suc n" ?w1] by blast
  have "op_ok (OpCreate ?job)" by (simp add: new_job_def)
  with ops show ?case by (intro exI [of _ "(es n, OpCreate ?job) # ops"]) (auto simp: run_ops_Cons w1)
qed (auto intro: exI [of _ "[]"])

lemma passes_db [simp]:
  "w_db (announced sv ord now clk w) = w_db w"
  "w_db (reannounce_pass e w) = w_db w"
  "w_db (restoreJobsFromDemand sv e shards rclk w) = w_db w"
proof -
  have "w_db (fold (\<lambda>j. enqueue (j_ID j)) js v) = w_db v" for js :: "db_job list" and v :: "'a world"
    by (induction js arbitrary: v) (simp_all add: enqueue_def)
  then show "w_db (reannounce_pass e w) = w_db w" by (simp add: reannounce_pass_def split: sum.split)
  have "w_db (restore_all sv shards rclk n js v) = w_db v" for n js v
    by (induction js arbitrary: n v) (simp_all add: restore_job_def enqueue_def Let_def)
  then show "w_db (restoreJobsFromDemand sv e shards rclk w) = w_db w" by (simp add: restoreJobsFromDemand_def split: sum.split)
qed (simp add: announced_def split_beta)

lemma step_explained: "server_step sv a resp w w' \<Longrightarrow> explained a resp (w_db w) (w_db w')"
proof (induction rule: server_step.induct)
  case (serve ce r w resp w')
  with mount_explained [of ce r sv w] show ?case by simp
next
  case (requeue e es now w)
  show ?case
    using requeue_all_calls [of es sv now 0 _ w]
    by (auto simp: requeue_pass_def explained_def calls_ok_def split: sum.split intro: exI [of _ "[]"])
next
  case (restart e shards rclk img cmd ids es now clk rnd w)
  let ?w = "restoreJobsFromDemand sv e shards rclk (w\<lparr>w_mgr := NewAnnounceManager (sv_ns sv) (30 * second) (3 * second)\<rparr>)"
  show ?case
    using create_all_calls [of es sv img cmd now clk rnd 0 ids ?w]
    by (auto simp: restarted_def explained_def calls_ok_def)
qed (simp_all add: explained_quiet)

lemma run_calls:
  assumes "server_run sv h w w'"
  shows "\<exists>ops. (\<forall>(e, op)\<in>set ops. op_ok op \<and> (\<exists>x\<in>set h. may_call (fst x) e op)) \<and>
    w_db w' = snd (run_ops ops (w_db w)) \<and> grants h = fst (run_ops ops (w_db w))"
  using assms
proof induction
  case (nil w)
  show ?case by (intro exI [of _ "[]"]) (simp add: grants_def)
next
  case (cons a resp w w1 h w')
  obtain xs where "calls_ok a xs" "w_db w1 = snd (run_ops xs (w_db w))" "granted (a, resp) = fst (run_ops xs (w_db w))"
    using step_explained [OF cons.hyps(1)] by (auto simp: explained_def)
  moreover from cons.IH obtain ys where "\<forall>(e, op)\<in>set ys. op_ok op \<and> (\<exists>x\<in>set h. may_call (fst x) e op)"
    "w_db w' = snd (run_ops ys (w_db w1))" "grants h = fst (run_ops ys (w_db w1))" by blast
  ultimately show ?case
    by (intro exI [of _ "xs @ ys"]) (auto simp: run_ops_append grants_def calls_ok_def)
qed

lemma may_call_clock: "may_call a e op \<Longrightarrow> clock_by x a \<Longrightarrow> stmt_now e 0 \<le> x"
  by (cases a) auto

lemma may_call_silent: "may_call a e op \<Longrightarrow> silent i b a \<Longrightarrow> \<not> acts_for i b op"
  by (cases a) auto

lemma may_call_no_finish: "may_call a e op \<Longrightarrow> no_finish i a \<Longrightarrow> \<not> finishes i op"
  by (cases a) auto

subsection \<open>Stale tokens\<close>

lemma Heartbeat_fenced:
  assumes "db_ok db" "row_of db i = Some r" "r_lease_token r \<noteq> tok"
  shows "\<exists>err. Lease_Store.Heartbeat e i a tok ttl db = (Some err, db)"
  using assms
  by (cases "stmt_fault e 0") (simp_all add: Lease_Store.Heartbeat_def run_stmt_def heartbeat_update [OF assms(1)])

lemma Finish_fenced:
  assumes "db_ok db" "row_of db i = Some r" "sint tok < sint (r_lease_token r)"
  shows "snd (Finish e i a tok succ cid arts mets db) = db"
  using assms
  by (cases "stmt_fault e 0") (simp_all add: Finish_def run_stmt_def finish_update [OF assms(1)])

lemma carried_stale:
  assumes "db_ok (w_db w)" "row_of (w_db w) i = Some r" "sint t < sint (r_lease_token r)" "plain_seg i" "carries i t rq"
  shows "w_db (snd (mountHTTP sv ce rq w)) = w_db w"
    and "rq_path rq = ''/api/tasks/'' @ i @ ''/heartbeat'' \<Longrightarrow> rq_method rq = ''POST'' \<Longrightarrow>
      \<exists>code b. fst (mountHTTP sv ce rq w) = Resp code b \<and> 400 \<le> code"
proof -
  have hb: "w_db (snd (heartbeatHandler sv ce rq w)) = w_db w \<and> (\<exists>code b. fst (heartbeatHandler sv ce rq w) = Resp code b \<and> 400 \<le> code)"
    if "rq_path rq = ''/api/tasks/'' @ i @ ''/heartbeat''"
  proof -
    have "heartbeat_target rq = Some i"
      using route4_path [of i "''api''" "''tasks''" "''heartbeat''"] assms(4) that by (simp add: plain_seg_def)
    moreover have "hb_token (hb_body rq) rq = t" using assms(5) that by (auto simp: carries_def)
    moreover obtain err where "Lease_Store.Heartbeat (ce_db ce) i (hb_AgentID (hb_body rq)) t
        (ttlOrDefault (hb_TTLSec (hb_body rq))) (w_db w) = (Some err, w_db w)"
      using Heartbeat_fenced [OF assms(1,2), of t "ce_db ce"] assms(3) by fastforce
    ultimately show ?thesis using heartbeatHandler_db [of rq i sv ce w] by (simp add: Let_def)
  qed
  have t: "mountHTTP sv ce rq w = tasks_sub sv ce rq w \<and> (rq_method rq = ''POST'' \<longrightarrow> tasks_sub sv ce rq w = heartbeatHandler sv ce rq w) \<and>
      (rq_method rq \<noteq> ''POST'' \<longrightarrow> tasks_sub sv ce rq w = getTaskHandler sv ce rq w)"
    if p: "rq_path rq = ''/api/tasks/'' @ i @ ''/heartbeat''"
  proof -
    have "HasSuffix (rq_path rq) ''/heartbeat''" "\<not> HasSuffix (rq_path rq) ''/try-claim''" "\<not> HasSuffix (rq_path rq) ''/logs''"
      using HasSuffix_append [of "''/api/tasks/'' @ i" "''/heartbeat''"] by (simp_all add: p HasSuffix_iff)
    moreover have "mountHTTP sv ce rq w = tasks_sub sv ce rq w"
      by (rule mount_tasks_sub [OF assms(4), of "''heartbeat''"]) (simp_all add: p plain_seg_def)
    ultimately show ?thesis by (simp add: tasks_sub_def)
  qed
  have f: "w_db (snd (mountHTTP sv ce rq w)) = w_db w"
    if p: "rq_path rq = ''/jobs/'' @ i @ ''/finish''" "token_of (rq_header rq ''X-Lease-Token'') = t"
  proof -
    have "HasSuffix (rq_path rq) ''/finish''" "\<not> HasSuffix (rq_path rq) ''/manifest''"
      using HasSuffix_append [of "''/jobs/'' @ i" "''/finish''"] by (simp_all add: p HasSuffix_iff)
    moreover have "mountHTTP sv ce rq w = jobs_sub sv ce rq w"
      by (rule mount_jobs_sub [OF assms(4), of "''finish''"]) (simp_all add: p plain_seg_def)
    moreover have "finish_target rq = Some i"
      using route3_path [of i "''jobs''" "''finish''"] assms(4) p by (simp add: plain_seg_def)
    ultimately show ?thesis
      using finishHandler_db [of rq i sv ce w] Finish_fenced [OF assms(1,2,3), of "ce_db ce"] p(2) by (auto simp: jobs_sub_def)
  qed
  from assms(5) hb t f quiet_handlers(1) [of sv ce rq w] show "w_db (snd (mountHTTP sv ce rq w)) = w_db w"
    unfolding carries_def by metis
  show "\<exists>code b. fst (mountHTTP sv ce rq w) = Resp code b \<and> 400 \<le> code"
    if "rq_path rq = ''/api/tasks/'' @ i @ ''/heartbeat''" "rq_method rq = ''POST''"
    using hb [OF that(1)] t [OF that(1)] that(2) by simp
qed

subsection \<open>Properties\<close>

text \<open>C7: the table stays consistent. Whatever requests the server receives and in whatever order, with
  whatever background ticks, restarts, faults of the database and changes of the DHT in between,
  ids stay unique and the status of every row agrees with its lease columns.\<close>

theorem server_keeps_table:
  assumes "server_run sv h w w'" "db_ok (w_db w)"
  shows "db_ok (w_db w')"
proof -
  obtain ops where "\<forall>(e, op)\<in>set ops. op_ok op \<and> (\<exists>x\<in>set h. may_call (fst x) e op)" "w_db w' = snd (run_ops ops (w_db w))"
    using run_calls [OF assms(1)] by blast
  with run_ops_inv [OF assms(2), of ops] show ?thesis by auto
qed

text \<open>C2: at most one executor, as clients see it. While the lease of an agent on a job has not expired
  on the database clock, no answer of the server grants the job to anyone, and its holder, expiry
  and token stay, whatever requests arrive from others and whatever the loops and a restart do.\<close>

theorem server_grants_exclusive:
  assumes "server_run sv h w w'" "db_ok (w_db w)" "abs_db (w_db w) i = Some \<lparr>a_phase = Held a x, a_token = k\<rparr>"
    and "\<forall>(act, resp)\<in>set h. clock_by x act \<and> silent i a act"
  shows "abs_db (w_db w') i = Some \<lparr>a_phase = Held a x, a_token = k\<rparr> \<and> (\<forall>g\<in>set (grants h). g_id g \<noteq> i)"
proof -
  obtain ops where ops: "\<forall>(e, op)\<in>set ops. op_ok op \<and> (\<exists>x\<in>set h. may_call (fst x) e op)"
    "w_db w' = snd (run_ops ops (w_db w))" "grants h = fst (run_ops ops (w_db w))"
    using run_calls [OF assms(1)] by blast
  have "\<forall>(e, op)\<in>set ops. op_ok op \<and> stmt_now e 0 \<le> x \<and> \<not> acts_for i a op"
    using ops(1) assms(4) may_call_clock may_call_silent by fastforce
  from lease_exclusive [OF assms(2) this assms(3)] show ?thesis by (simp add: ops(2,3))
qed

text \<open>C3: fencing, as clients see it. In every run of the server the tokens of the leases its answers
  grant on one job strictly increase.\<close>

theorem server_tokens_increase:
  assumes "server_run sv h w w'" "db_ok (w_db w)"
  shows "sorted_wrt (\<lambda>g g'. g_id g = g_id g' \<longrightarrow> sint (g_token g) < sint (g_token g')) (grants h)"
proof -
  obtain ops where ops: "\<forall>(e, op)\<in>set ops. op_ok op \<and> (\<exists>x\<in>set h. may_call (fst x) e op)"
    "grants h = fst (run_ops ops (w_db w))"
    using run_calls [OF assms(1)] by blast
  with fencing_tokens_increase [OF assms(2), of ops] show ?thesis by auto
qed

text \<open>C4: a superseded agent is powerless. Once a run of the server has granted a lease on a job, no
  heartbeat and no finish report with a smaller token changes the database, at any later time,
  whoever sends it, whatever it contains; and a heartbeat with it is answered with an error, so
  the agent learns that its lease is gone.\<close>

theorem stale_token_powerless:
  assumes "server_run sv h w w'" "db_ok (w_db w)" "g \<in> set (grants h)" "sint t < sint (g_token g)"
    and "plain_seg (g_id g)" "carries (g_id g) t rq"
  shows "w_db (snd (mountHTTP sv ce rq w')) = w_db w' \<and>
    (rq_path rq = ''/api/tasks/'' @ g_id g @ ''/heartbeat'' \<longrightarrow> rq_method rq = ''POST'' \<longrightarrow>
      (\<exists>code b. fst (mountHTTP sv ce rq w') = Resp code b \<and> 400 \<le> code))"
proof -
  obtain ops where ops: "\<forall>(e, op)\<in>set ops. op_ok op \<and> (\<exists>x\<in>set h. may_call (fst x) e op)"
    "w_db w' = snd (run_ops ops (w_db w))" "grants h = fst (run_ops ops (w_db w))"
    using run_calls [OF assms(1)] by blast
  then have ok: "\<forall>(e, op)\<in>set ops. op_ok op" by auto
  have db: "db_ok (w_db w')" using run_ops_inv [OF assms(2) ok] ops(2) by simp
  obtain j where "abs_db (w_db w') (g_id g) = Some j" "sint (g_token g) \<le> a_token j"
    using run_grant_floor [OF assms(2) ok, of g] assms(3) ops(2,3) by auto
  then obtain row where row: "row_of (w_db w') (g_id g) = Some row" "sint t < sint (r_lease_token row)"
    using assms(4) by (auto simp: abs_db_def abs_row_def)
  from carried_stale [OF db row assms(5,6)] show ?thesis by blast
qed

text \<open>C10: tokens do not wrap around. The fencing token is a 64-bit column, and PostgreSQL refuses an addition
  that leaves its range; so a run grants a job at most as often as there are tokens above the job's
  present one, and a job whose token is the largest is never granted again.\<close>

theorem server_grants_bounded:
  assumes "server_run sv h w w'" "db_ok (w_db w)" "row_of (w_db w) i = Some r"
  shows "int (length (filter (\<lambda>g. g_id g = i) (grants h))) \<le> 2 ^ 63 - 1 - sint (r_lease_token r)"
proof -
  let ?ts = "map (\<lambda>g. sint (g_token g)) (filter (\<lambda>g. g_id g = i) (grants h))"
  obtain ops where ops: "\<forall>(e, op)\<in>set ops. op_ok op" "grants h = fst (run_ops ops (w_db w))"
    using run_calls [OF assms(1)] by fastforce
  have above: "sint (r_lease_token r) < sint (g_token g)" if "g \<in> set (grants h)" "g_id g = i" for g
    using run_tokens_above [OF assms(2) ops(1), of g "abs_row r"] that assms(3) by (simp add: ops(2) abs_db_def abs_row_def)
  have "sorted_wrt (\<lambda>g g'. sint (g_token g) < sint (g_token g')) (filter (\<lambda>g. g_id g = i) (grants h))"
    using sorted_wrt_filter [OF fencing_tokens_increase [OF assms(2) ops(1)], of "\<lambda>g. g_id g = i"] ops(2)
    by (auto intro: sorted_wrt_mono_rel [rotated])
  then have "sorted_wrt (<) ?ts" by (simp only: sorted_wrt_map)
  then have "distinct ?ts" by (simp only: strict_sorted_iff)
  then have "length ?ts = card (set ?ts)" by (rule distinct_card [symmetric])
  also have "\<dots> \<le> card {sint (r_lease_token r) + 1..2 ^ 63 - 1}"
  proof (rule card_mono)
    have "sint (r_lease_token r) + 1 \<le> sint (g_token g) \<and> sint (g_token g) \<le> 2 ^ 63 - 1"
      if "g \<in> set (grants h)" "g_id g = i" for g using above [OF that] i64_max [of "g_token g"] by simp
    then show "set ?ts \<subseteq> {sint (r_lease_token r) + 1..2 ^ 63 - 1}" by auto
  qed simp
  also have "\<dots> = nat (2 ^ 63 - 1 - sint (r_lease_token r))" by simp
  finally show ?thesis using i64_max [of "r_lease_token r"] by simp
qed

text \<open>C9: a finished job stays finished, as clients see it. As long as nobody sends a finish report for
  it, no answer grants the job, and its outcome and token stay.\<close>

theorem server_finished_stays:
  assumes "server_run sv h w w'" "db_ok (w_db w)" "abs_db (w_db w) i = Some \<lparr>a_phase = Done ok, a_token = k\<rparr>"
    and "\<forall>(act, resp)\<in>set h. no_finish i act"
  shows "abs_db (w_db w') i = Some \<lparr>a_phase = Done ok, a_token = k\<rparr> \<and> (\<forall>g\<in>set (grants h). g_id g \<noteq> i)"
proof -
  obtain ops where ops: "\<forall>(e, op)\<in>set ops. op_ok op \<and> (\<exists>x\<in>set h. may_call (fst x) e op)"
    "w_db w' = snd (run_ops ops (w_db w))" "grants h = fst (run_ops ops (w_db w))"
    using run_calls [OF assms(1)] by blast
  have "\<forall>(e, op)\<in>set ops. op_ok op \<and> \<not> finishes i op"
    using ops(1) assms(4) may_call_no_finish by fastforce
  from finished_absorbing [OF assms(2) this assms(3)] show ?thesis by (simp add: ops(2,3))
qed

subsection \<open>The start of the process\<close>

text \<open>A process that comes up has restarted the world it found.\<close>

lemma control_main_restarts:
  assumes "control_main fl env opens pings M L ifaces peer e shards rclk es now clk rnd db d l = Some (Inr (sv, w'))"
  shows "\<exists>ids. w' = restarted sv e shards rclk (fl_image fl) (trimmed_parts (fl_cmd fl)) ids es now clk rnd
    \<lparr>w_db = db, w_dht = d, w_mgr = m\<rparr>"
proof -
  have "w' = restarted sv e shards rclk (fl_image fl) (trimmed_parts (fl_cmd fl))
      (if fl_create fl \<noteq> [] then trimmed_parts (fl_create fl) else []) es now clk rnd \<lparr>w_db = db, w_dht = d, w_mgr = m\<rparr>"
    using assms by (auto simp: control_main_def restarted_def Let_def split: if_splits option.splits sum.splits prod.splits)
  then show ?thesis by blast
qed

subsection \<open>Examples\<close>

lemma sample_run: "server_run sample_server sample_history (sample_world sample_db) sample_after"
proof -
  have "server_step sample_server (Serve sample_call sample_claim) (Some (fst sample_answer)) (sample_world sample_db) (snd sample_answer)"
    by (rule server_step.serve) (simp add: sample_answer_def)
  then show ?thesis
    unfolding sample_history_def sample_after_def by (rule server_run.cons) (rule server_run.cons [OF server_step.announce server_run.nil])
qed

lemma sample_grants: "grants sample_history = [sample_grant]"
proof -
  let ?w = "sample_world sample_db :: (string \<rightharpoonup> payload) world"
  have db: "w_db ?w = sample_db" by (simp add: sample_world_def)
  have e: "ce_db sample_call = up_env 50" by (simp add: sample_call_def)
  have "Lease_Store.TryClaim (up_env 50) ''q'' ''B'' (ttlOrDefault 15) sample_db =
      (Inr \<lparr>le_AgentID = ''B'', le_ExpireAt = 50 + 15 * second, le_FencingToken = 1\<rparr>,
       put_row (claimed_row ''B'' (50 + 15 * second) sample_queued) sample_db)"
    using TryClaim_queued [OF sample_ok up_env_simps(2) sample_row_of(1), of 50 "''B''" "ttlOrDefault 15"]
    by (simp add: sample_simps seconds_ttlOrDefault) (simp add: ttlOrDefault_def)
  then have "fst sample_answer = writeJSON 200 (enc_lease_out \<lparr>lo_OK = True,
      lo_Lease = \<lparr>tl_Owner = ''B'', tl_Nonce = [], tl_Expires = 50 + 15 * second, tl_Version = 1\<rparr>\<rparr>)"
    unfolding sample_answer_def sample_claim_def
    by (subst claim_request_routed)
      (simp_all add: plain_seg_def in_i64_def requireAuth_def sample_server_def claim_request_def json_header_def agent_header_def
        db e claim_dht_reply lease_doc_def)
  moreover have "claim_target sample_claim = Some ''q''"
    unfolding sample_claim_def claim_request_def by code_simp
  ultimately show ?thesis by (simp add: grants_def sample_history_def sample_grant_def)
qed

theorem server_keeps_table_witness: "db_ok sample_db \<and> db_ok (w_db sample_after)"
  using server_keeps_table [OF sample_run] sample_ok by (simp add: sample_world_def)

theorem server_grants_exclusive_witness:
  "abs_db (w_db sample_after) ''r'' = Some \<lparr>a_phase = Held ''A'' 100, a_token = 3\<rparr> \<and>
   list_all (\<lambda>g. g_id g \<noteq> ''r'') (grants sample_history)"
proof -
  have "db_ok (w_db (sample_world sample_db))" "abs_db (w_db (sample_world sample_db)) ''r'' = Some \<lparr>a_phase = Held ''A'' 100, a_token = 3\<rparr>"
    by (simp_all add: sample_world_def sample_ok sample_abs)
  moreover have "heartbeat_target sample_claim = None" "finish_target sample_claim = None"
    unfolding sample_claim_def claim_request_def by code_simp+
  then have "\<forall>(act, resp)\<in>set sample_history. clock_by 100 act \<and> silent ''r'' ''A'' act"
    by (simp add: sample_history_def sample_call_def speaks_for_def)
  ultimately show ?thesis unfolding list_all_iff by (rule server_grants_exclusive [OF sample_run])
qed

theorem server_tokens_increase_witness:
  "grants sample_history = [sample_grant] \<and>
   sorted_wrt (\<lambda>g g'. if g_id g = g_id g' then sint (g_token g) < sint (g_token g') else True) (grants sample_history)"
  using server_tokens_increase [OF sample_run] sample_ok sample_grants by (simp add: sample_world_def if_bool_eq_conj)

theorem server_grants_bounded_witness:
  "int (length (filter (\<lambda>g. g_id g = ''r'') (grants sample_history))) \<le> 2 ^ 63 - 4"
proof -
  have "row_of (w_db (sample_world sample_db)) ''r'' = Some sample_running" "sint (r_lease_token sample_running) = 3"
    by (simp_all add: sample_world_def sample_row_of) (simp add: sample_simps)
  with server_grants_bounded [OF sample_run _ this(1)] sample_ok show ?thesis by (simp add: sample_world_def)
qed

theorem stale_token_powerless_witness:
  "w_db (snd (mountHTTP sample_server sample_call (finish_request ''q'' ''A'' 0 ''succeeded'' [] [] ''Bearer s'') sample_after)) =
   w_db sample_after"
proof -
  have "carries (g_id sample_grant) 0 (finish_request ''q'' ''A'' 0 ''succeeded'' [] [] ''Bearer s'')"
    by (simp add: carries_def sample_grant_def finish_request_def json_header_def agent_header_def token_of_def)
  then show ?thesis
    using stale_token_powerless [OF sample_run, of sample_grant 0 "finish_request ''q'' ''A'' 0 ''succeeded'' [] [] ''Bearer s''" sample_call]
      sample_grants sample_ok
    by (simp add: sample_world_def sample_grant_def plain_seg_def)
qed

theorem server_finished_stays_witness:
  "\<exists>w'. server_run sample_server [(ReannounceTick (up_env 60), None), (RequeueTick (up_env 60) (\<lambda>_. up_env 61) 60, None)]
     (sample_world [sample_done]) w' \<and>
   abs_db (w_db w') ''d'' = Some \<lparr>a_phase = Done True, a_token = 2\<rparr>"
proof -
  let ?h = "[(ReannounceTick (up_env 60), None), (RequeueTick (up_env 60) (\<lambda>_. up_env 61) 60, None)]"
  let ?w = "sample_world [sample_done] :: (string \<rightharpoonup> payload) world"
  let ?w' = "requeue_pass sample_server (up_env 60) (\<lambda>_. up_env 61) 60 (reannounce_pass (up_env 60) ?w)"
  have "server_run sample_server ?h ?w ?w'" by (rule server_run.cons [OF server_step.reannounce server_run.cons [OF server_step.requeue server_run.nil]])
  moreover from server_finished_stays [OF this, of "''d''" True 2]
  have "abs_db (w_db ?w') ''d'' = Some \<lparr>a_phase = Done True, a_token = 2\<rparr>"
    by (simp add: sample_world_def sample_done_ok)
  ultimately show ?thesis by blast
qed

end
