(* ===== verification/Server_Documents.thy ===== *)
theory Server_Documents
  imports Server_Runs Agent_Discover
begin

text \<open>
  The documents the control server leaves in the DHT, in every run: each of them can be decoded as
  what its key says it is, by the server and by agents. Go's decoder reports an error for a member
  of the wrong type, so this is the typing invariant of the shared store.
\<close>

text \<open>A key holds nothing, or a value that decodes without error.\<close>

definition fits :: "'a \<Rightarrow> (json \<Rightarrow> 'a \<times> bool) \<Rightarrow> payload option \<Rightarrow> bool" where
  "fits z decf v \<longleftrightarrow> v = None \<or> readable z decf v"

definition typed_docs :: "(string \<rightharpoonup> payload) \<Rightarrow> bool" where
  "typed_docs seen \<longleftrightarrow>
     (\<forall>i. fits zero_meta dec_meta (seen (KeyMeta i)) \<and> fits zero_state dec_state (seen (KeyState i)) \<and>
          fits zero_lease dec_lease (seen (KeyLease i)) \<and> fits zero_manifest dec_manifest (seen (KeyManifest i)) \<and>
          fits zero_ManifestAd dec_ManifestAd (seen (KeyP2PManifestMirror i))) \<and>
     (\<forall>ns i. fits zero_TaskAd dec_TaskAd (seen (KeyTaskAd ns i))) \<and>
     (\<forall>ns s. fits zero_index dec_index (seen (KeyIndexShard ns s))) \<and> (\<forall>ns. fits zero_index dec_index (seen (KeyIndex ns)))"

text \<open>A value that may be stored under a key.\<close>

definition typed_at :: "string \<Rightarrow> json \<Rightarrow> bool" where
  "typed_at k j \<longleftrightarrow>
     (\<forall>i. (k = KeyMeta i \<longrightarrow> snd (dec_meta j)) \<and> (k = KeyState i \<longrightarrow> snd (dec_state j)) \<and>
          (k = KeyLease i \<longrightarrow> snd (dec_lease j)) \<and> (k = KeyManifest i \<longrightarrow> snd (dec_manifest j)) \<and>
          (k = KeyP2PManifestMirror i \<longrightarrow> snd (dec_ManifestAd j))) \<and>
     (\<forall>ns i. k = KeyTaskAd ns i \<longrightarrow> snd (dec_TaskAd j)) \<and>
     (\<forall>ns s. k = KeyIndexShard ns s \<longrightarrow> snd (dec_index j)) \<and> (\<forall>ns. k = KeyIndex ns \<longrightarrow> snd (dec_index j))"

text \<open>Steps in which other nodes, if they write, write documents of the right type.\<close>

fun friendly :: "'n server \<Rightarrow> ('n \<Rightarrow> string \<rightharpoonup> payload) \<Rightarrow> 'n action \<Rightarrow> bool" where
  "friendly sv view (Others d) \<longleftrightarrow> typed_docs (doc (sv_dht sv) view d)"
| "friendly sv view _ \<longleftrightarrow> True"

abbreviation typed_world :: "'n server \<Rightarrow> ('n \<Rightarrow> string \<rightharpoonup> payload) \<Rightarrow> 'n world \<Rightarrow> bool" where
  "typed_world sv view w \<equiv> typed_docs (docs sv view w)"

subsection \<open>Values and keys\<close>

lemma readable_iff: "readable z decf (Some (Doc j)) \<longleftrightarrow> snd (decf j)"
  by (auto simp: readable_def unmarshal_def split: prod.splits bool.splits)

lemma fits_upd: "fits z decf (seen k') \<Longrightarrow> (k = k' \<longrightarrow> snd (decf j)) \<Longrightarrow> fits z decf ((seen(k \<mapsto> Doc j)) k')"
  by (simp add: fits_def readable_iff)

lemma typed_put: "typed_docs seen \<Longrightarrow> typed_at k j \<Longrightarrow> typed_docs (seen(k \<mapsto> Doc j))"
  unfolding typed_docs_def typed_at_def by (intro conjI allI fits_upd) blast+

lemma agent_keys: "KeyTaskAd = keyTaskAd" "KeyP2PManifestMirror = keyP2PManifestMirror"
  by (simp_all add: fun_eq_iff KeyTaskAd_def KeyP2PManifestMirror_def keyTaskAd_def keyP2PManifestMirror_def)

lemma index_key_disjoint [simp]:
  "KeyIndex ns \<noteq> KeyMeta i" "KeyIndex ns \<noteq> KeyState i" "KeyIndex ns \<noteq> KeyLease i" "KeyIndex ns \<noteq> KeyManifest i"
  "KeyIndex ns \<noteq> keyTaskAd ns' i" "KeyIndex ns \<noteq> keyP2PManifestMirror i"
  "KeyMeta i \<noteq> KeyIndex ns" "KeyState i \<noteq> KeyIndex ns" "KeyLease i \<noteq> KeyIndex ns" "KeyManifest i \<noteq> KeyIndex ns"
  "keyTaskAd ns' i \<noteq> KeyIndex ns" "keyP2PManifestMirror i \<noteq> KeyIndex ns"
  by (auto simp: keyTaskAd_def keyP2PManifestMirror_def key_defs KeyIndex_def)

lemma token_key_disjoint:
  "KeyWS i @ ''_token'' \<noteq> KeyMeta j" "KeyWS i @ ''_token'' \<noteq> KeyState j" "KeyWS i @ ''_token'' \<noteq> KeyLease j"
  "KeyWS i @ ''_token'' \<noteq> KeyManifest j" "KeyWS i @ ''_token'' \<noteq> keyTaskAd ns j" "KeyWS i @ ''_token'' \<noteq> keyP2PManifestMirror j"
  "KeyWS i @ ''_token'' \<noteq> KeyIndexShard ns s" "KeyWS i @ ''_token'' \<noteq> KeyIndex ns"
proof -
  have ne: "x \<noteq> y" if "rev x \<noteq> rev y" for x y :: string using that by auto
  show "KeyWS i @ ''_token'' \<noteq> KeyMeta j" "KeyWS i @ ''_token'' \<noteq> KeyState j" "KeyWS i @ ''_token'' \<noteq> KeyLease j"
    "KeyWS i @ ''_token'' \<noteq> KeyManifest j"
    by (rule ne, simp add: key_defs)+
qed (simp_all add: KeyWS_def keyTaskAd_def keyP2PManifestMirror_def KeyIndexShard_def KeyIndex_def)

lemma ad_names [simp]: "ToLower ''ns'' = ''ns''" "ToLower ''demand_url'' = ''demand_url''" "ToLower ''topic'' = ''topic''"
  "ToLower ''exp'' = ''exp''" "ToLower ''sig'' = ''sig''" "ToLower ''job_id'' = ''job_id''"
  by code_simp+

lemma typed_values:
  "state_ok s \<Longrightarrow> typed_at (KeyState i) (enc_state s)" "typed_at (KeyLease i) (enc_lease l)"
  "in_i64 (tm_TimeoutSec m) \<Longrightarrow> typed_at (KeyMeta i) (enc_meta m)" "typed_at (KeyManifest i) (enc_manifest mf)"
  "typed_at (KeyIndexShard ns sh) (enc_index x)" "typed_at (KeyIndex ns) (enc_index x)"
  "typed_at (KeyWS i @ ''_token'') j"
  by (simp_all add: typed_at_def agent_keys dec_enc_state_ok dec_enc_meta token_key_disjoint token_key_disjoint [symmetric])

lemma typed_tombstone: "typed_at k (JObj [])"
  by (simp add: typed_at_def dec_meta_def dec_state_def dec_lease_def dec_manifest_def dec_ManifestAd_def dec_TaskAd_def dec_index_def)

lemma typed_ad: "typed_at (keyTaskAd ns i) (enc_task_ad a)"
proof -
  have "snd (dec_TaskAd (enc_task_ad a))"
    by (simp add: dec_TaskAd_def enc_task_ad_def set_TaskAd_def zero_TaskAd_def omit_def)
  then show ?thesis by (simp add: typed_at_def agent_keys)
qed

lemma typed_mirror: "typed_at (keyP2PManifestMirror i) (enc_mirror m)"
proof -
  have "snd (dec_ManifestAd (enc_mirror m))"
    by (simp add: dec_ManifestAd_def enc_mirror_def set_ManifestAd_def zero_ManifestAd_def list_all_iff)
  then show ?thesis by (simp add: typed_at_def agent_keys)
qed

lemma index_check_index: "\<exists>x. index_check i now t prev = (True, Doc (enc_index x), None)"
proof -
  let ?idx = "if \<not> payload_empty prev then fst (unmarshal zero_index dec_index prev) else zero_index"
  show ?thesis by (cases "i \<in> set (ix_IDs ?idx)") (simp_all only: index_check_def Let_def if_True if_False prod.inject payload.inject, blast+)
qed

lemmas typed_writes = typed_values typed_tombstone typed_ad typed_mirror

subsection \<open>Operations of the node\<close>

context dht_up
begin

lemma typed_PutJSON: "typed_docs (doc c view d) \<Longrightarrow> typed_at k j \<Longrightarrow> typed_docs (doc c view (snd (PutJSON c k j d)))"
  by (simp add: typed_put)

lemma typed_DelJSON: "typed_docs (doc c view d) \<Longrightarrow> typed_docs (doc c view (snd (DelJSON c k d)))"
  by (simp add: typed_put typed_tombstone)

lemma typed_GetJSON: "typed_docs (doc c view d) \<Longrightarrow> typed_docs (doc c view (snd (GetJSON c z decf k t d)))"
  by simp

lemma got_state_ok: "state_ok (fst (fst (GetJSON c zero_state dec_state k t d)))"
  by simp

lemmas typed_ops = typed_PutJSON typed_DelJSON typed_GetJSON got_state_ok typed_writes

lemma typed_announceOnce: "typed_docs (doc c view (fst s)) \<Longrightarrow> typed_docs (doc c view (fst (announceOnce env c i clk s)))"
  by (simp add: announceOnce_def announceAds_def Let_def split_beta typed_put typed_writes)

lemma typed_announce_all: "typed_docs (doc c view (fst s)) \<Longrightarrow> typed_docs (doc c view (fst (announce_all env c clk n ids s)))"
  by (induction ids arbitrary: n s) (simp_all add: typed_announceOnce)

lemma typed_addToIndex: "typed_docs (doc c view d) \<Longrightarrow> typed_docs (doc c view (snd (addToIndex c ns i shard now d)))"
  by (simp add: addToIndex_def Let_def split_beta typed_put typed_writes)

lemma typed_finish_dht: "typed_docs (doc c view d) \<Longrightarrow> typed_docs (doc c view (finish_dht c ns i succ now d))"
  unfolding finish_dht_def Let_def split_beta by (intro typed_ops) (simp_all add: finished_state_ok)

lemma typed_updateDHTStateQueued: "typed_docs (doc c view d) \<Longrightarrow> typed_docs (doc c view (updateDHTStateQueued c i now d))"
  unfolding updateDHTStateQueued_def Let_def split_beta by (intro typed_ops) (simp_all)

lemma typed_createTask: "typed_docs (doc c view d) \<Longrightarrow> typed_docs (doc c view (snd (createTask c ns i img cmd now clk rnd d)))"
proof -
  assume t: "typed_docs (doc c view d)"
  have m: "in_i64 (tm_TimeoutSec (new_meta i img cmd now))" "state_ok (queued_state i now)"
    by (simp_all add: new_meta_def zero_meta_def in_i64_def queued_state_def)
  let ?d1 = "snd (PutJSON c (KeyMeta i) (enc_meta (new_meta i img cmd now)) d)"
  let ?d2 = "snd (PutJSON c (KeyState i) (enc_state (queued_state i now)) ?d1)"
  have t2: "typed_docs (doc c view ?d2)" by (intro typed_ops t m)
  obtain x where "index_check i now (clk 0) (stored_or_nil (doc c view ?d2 (KeyIndex ns))) = (True, Doc (enc_index x), None)"
    using index_check_index by blast
  from PutJSONCAS_installs [where check = "index_check i now" and clk = clk and rnd = rnd, OF this] obtain d' where
    "PutJSONCAS c (KeyIndex ns) (index_check i now) clk rnd ?d2 = ((None, 0), d')"
    "doc c view d' = (doc c view ?d2)(KeyIndex ns \<mapsto> Doc (enc_index x))" by blast
  with t2 show ?thesis by (simp add: createTask_def split_beta typed_put typed_writes)
qed

end

subsection \<open>Handlers and passes\<close>

lemma new_docs_ok: "in_i64 (tm_TimeoutSec (new_meta i img cmd now))" "state_ok (queued_state i now)"
  by (simp_all add: new_meta_def zero_meta_def in_i64_def queued_state_def)

lemma typed_handlers:
  assumes up: "dht_up (sv_dht sv) view" and t: "typed_world sv view w"
  shows "typed_world sv view (snd (finishHandler sv ce r w))" "typed_world sv view (snd (createTaskHandler sv ce r w))"
    "typed_world sv view (snd (getTaskHandler sv ce r w))" "typed_world sv view (snd (listTasksHandler sv ce r w))"
    "typed_world sv view (snd (statsHandler sv ce r w))" "typed_world sv view (snd (manifestHandler sv ce r w))"
    "typed_world sv view (snd (tryClaimHandler sv ce r w))" "typed_world sv view (snd (releaseHandler sv ce r w))"
    "typed_world sv view (snd (heartbeatHandler sv ce r w))" "typed_world sv view (snd (forceRequeueHandler sv ce r w))"
    "typed_world sv view (snd (debugLeaseHandler sv ce r w))" "typed_world sv view (snd (logsHandler sv ce r w))"
    "typed_world sv view (snd (healthHandler sv ce r w))"
proof -
  note net = dht_up.axioms(1) [OF up]
  note rules = t dht_up.PutJSON_put [OF up] dht_up.DelJSON_put [OF up] dht_up.PutJSON_ok [OF up] dht_net.GetJSON_frame [OF net]
    dht_net.GetJSON_value [OF net] typed_put typed_writes
  note defs = Let_def split_beta unauthorized_def bad_method_def bad_path_def bad_json_def enqueue_def
  have claim: "typed_world sv view (snd (claim_dht sv ce i a ol v))" if "typed_world sv view v" for i a ol v
    using that by (simp add: claim_dht_def defs rules assigned_state_ok split: option.split)
  show "typed_world sv view (snd (finishHandler sv ce r w))"
    by (simp add: finishHandler_def defs t dht_up.typed_finish_dht [OF up] split: option.split)
  show "typed_world sv view (snd (createTaskHandler sv ce r w))"
    by (simp add: createTaskHandler_def publish_task_def defs rules dht_up.typed_addToIndex [OF up] new_docs_ok split: option.split)
  show "typed_world sv view (snd (tryClaimHandler sv ce r w))"
    using claim by (simp add: tryClaimHandler_def defs t split: option.split sum.split)
  show "typed_world sv view (snd (manifestHandler sv ce r w))"
    by (simp add: manifestHandler_def store_manifest_def defs rules split: option.split)
  show "typed_world sv view (snd (releaseHandler sv ce r w))"
    by (simp add: releaseHandler_def release_dht_def defs rules requeued_state_ok split: option.split)
  show "typed_world sv view (snd (heartbeatHandler sv ce r w))"
    by (simp add: heartbeatHandler_def defs rules split: option.split)
  show "typed_world sv view (snd (forceRequeueHandler sv ce r w))"
    by (simp add: forceRequeueHandler_def defs rules requeued_state_ok)
qed (simp_all add: getTaskHandler_def listTasksHandler_def statsHandler_def debugLeaseHandler_def logsHandler_def healthHandler_def
    Let_def split_beta unauthorized_def bad_method_def t dht_up.PutJSON_put [OF up] dht_net.GetJSON_frame [OF dht_up.axioms(1) [OF up]]
    typed_put typed_writes split: sum.split)

lemma typed_mount:
  assumes "dht_up (sv_dht sv) view" "typed_world sv view w"
  shows "typed_world sv view (snd (mountHTTP sv ce r w))"
proof -
  note hs = typed_handlers [OF assms]
  have sub: "typed_world sv view (snd (h sv ce r w))" if "find (\<lambda>(pat, _). HasPrefix (rq_path r) pat) subtrees = Some (pat, h)" for pat h
    using find_SomeD [OF that] hs assms(2) by (auto simp: subtrees_def tasks_sub_def jobs_sub_def api_jobs_sub_def)
  have ex: "typed_world sv view (snd (h sv ce r w))" if "map_of exact_paths (rq_path r) = Some h" for h
    using that hs assms(2) by (auto simp: exact_paths_def tasks_root_def bad_method_def split: if_splits)
  show ?thesis using sub ex assms(2) by (auto simp: mountHTTP_def Let_def split: option.split)
qed

lemma typed_passes:
  assumes up: "dht_up (sv_dht sv) view" and t: "typed_world sv view w"
  shows "typed_world sv view (requeue_pass sv e es now w)" "typed_world sv view (reannounce_pass e w)"
    "typed_world sv view (announced sv ord now clk w)" "typed_world sv view (restoreJobsFromDemand sv e shards rclk w)"
    "typed_world sv view (create_all sv img cmd es' nows clks rnds n ids w)"
proof -
  have "typed_world sv view (requeue_all sv es now n ids v)" if "typed_world sv view v" for n ids v
    using that
  proof (induction ids arbitrary: n v)
    case (Cons i ids)
    have "typed_world sv view (requeue_one sv (es n) now i v)"
      using Cons.prems dht_up.typed_updateDHTStateQueued [OF up] dht_up.typed_DelJSON [OF up]
      by (simp add: requeue_one_def enqueue_def split: prod.split option.split)
    then show ?case using Cons.IH by simp
  qed simp
  with t show "typed_world sv view (requeue_pass sv e es now w)" by (simp add: requeue_pass_def split: sum.split)
  have "docs sv view (fold (\<lambda>j. enqueue (j_ID j)) js v) = docs sv view v" for js :: "db_job list" and v
    by (induction js arbitrary: v) (simp_all add: enqueue_def)
  with t show "typed_world sv view (reannounce_pass e w)" by (simp add: reannounce_pass_def split: sum.split)
  show "typed_world sv view (announced sv ord now clk w)"
    using t dht_up.typed_announce_all [OF up] by (simp add: announced_def process_def split_beta)
  have "typed_world sv view (restore_all sv shards rclk n js v)" if "typed_world sv view v" for n js v
    using that
  proof (induction js arbitrary: n v)
    case (Cons j js)
    have "typed_world sv view (restore_job sv (shards n) (rclk n) j v)"
      using Cons.prems dht_up.typed_addToIndex [OF up] dht_up.PutJSON_put [OF up] new_docs_ok
      by (simp add: restore_job_def enqueue_def Let_def typed_put typed_writes)
    then show ?case using Cons.IH by simp
  qed simp
  with t show "typed_world sv view (restoreJobsFromDemand sv e shards rclk w)"
    by (simp add: restoreJobsFromDemand_def split: sum.split)
  show "typed_world sv view (create_all sv img cmd es' nows clks rnds n ids w)"
    using t
  proof (induction ids arbitrary: n w)
    case (Cons i ids)
    then show ?case using dht_up.typed_createTask [OF up] by (simp add: create_one_def enqueue_def Let_def)
  qed simp
qed

lemma typed_step:
  assumes "server_step sv a resp w w'" "dht_up (sv_dht sv) view" "friendly sv view a" "typed_world sv view w"
  shows "typed_world sv view w'"
  using assms
proof (induction rule: server_step.induct)
  case (serve ce r w resp w')
  with typed_mount [of sv view w ce r] show ?case by simp
next
  case (restart e shards rclk img cmd ids es now clk rnd w)
  then show ?case unfolding restarted_def by (intro typed_passes) simp_all
qed (simp_all add: typed_passes)

subsection \<open>Properties\<close>

text \<open>C8: typing of the shared store. In every run of the server, requests with arbitrary bodies included,
  every document under a key of the program stays decodable as what the key stands for: metadata,
  state, lease, manifest, index shard, advertisement and mirror, erased documents included. A
  reader of such a key gets its value or finds nothing, never a decoding error.\<close>

theorem server_documents_typed:
  assumes "server_run sv h w w'" "dht_up (sv_dht sv) view" "typed_docs (docs sv view w)"
    and "\<forall>(act, resp)\<in>set h. friendly sv view act"
  shows "typed_docs (docs sv view w')"
  using assms(1,3,4)
proof induction
  case (cons a resp w w1 h w')
  from typed_step [OF cons.hyps(1) assms(2)] cons.prems have "typed_world sv view w1" by auto
  with cons.IH cons.prems show ?case by auto
qed

subsection \<open>Examples\<close>

theorem server_documents_typed_witness:
  "typed_docs (docs sample_server (\<lambda>m. m) (sample_world sample_db)) \<and> typed_docs (docs sample_server (\<lambda>m. m) sample_after)"
proof
  show t: "typed_docs (docs sample_server (\<lambda>m. m) (sample_world sample_db))"
    by (simp add: typed_docs_def fits_def sample_world_def doc_def fresh_dht_def)
  have "\<forall>(act, resp)\<in>set sample_history. friendly sample_server (\<lambda>m. m) act" by (simp add: sample_history_def)
  then show "typed_docs (docs sample_server (\<lambda>m. m) sample_after)"
    by (rule server_documents_typed [OF sample_run sample_server_up t])
qed

end
