(* ===== verification/Go_Random.thy ===== *)
theory Go_Random
  imports MC_Prelude
begin

text \<open>
  The random names the program makes: \<open>randNonce\<close> of \<open>internal/task/claim.go\<close> and \<open>newNonce\<close> of
  \<open>cmd/control/control_http.go\<close>, with the encodings of \<open>encoding/hex\<close> and \<open>encoding/base64\<close> they use. The
  bytes \<open>crypto/rand\<close> fills in are an argument.
\<close>

type_synonym byte = "8 word"

definition hextable :: string where
  "hextable = ''0123456789abcdef''"

text \<open>\<open>hex.EncodeToString\<close>: the high and the low four bits of every byte.\<close>

definition hex_byte :: "byte \<Rightarrow> string" where
  "hex_byte v = [hextable ! (unat v div 16), hextable ! (unat v mod 16)]"

definition EncodeToString :: "byte list \<Rightarrow> string" where
  "EncodeToString bs = concat (map hex_byte bs)"

definition randNonce :: "byte list \<Rightarrow> string" where
  "randNonce b = EncodeToString b"

definition encodeURL :: string where
  "encodeURL = ''ABCDEFGHIJKLMNOPQRSTUVWXYZabcdefghijklmnopqrstuvwxyz0123456789-_''"

text \<open>\<open>base64.RawURLEncoding.EncodeToString\<close>: three bytes are a number of 24 bits and four characters of
  six bits each; one or two bytes at the end give two or three characters, without padding.\<close>

definition b64_digit :: "nat \<Rightarrow> nat \<Rightarrow> char" where
  "b64_digit k val = encodeURL ! (val div 64 ^ k mod 64)"

fun RawURLEncoding :: "byte list \<Rightarrow> string" where
  "RawURLEncoding [] = []"
| "RawURLEncoding [a] = (let val = unat a * 65536 in [b64_digit 3 val, b64_digit 2 val])"
| "RawURLEncoding [a, b] = (let val = unat a * 65536 + unat b * 256 in [b64_digit 3 val, b64_digit 2 val, b64_digit 1 val])"
| "RawURLEncoding (a # b # c # rest) =
     (let val = unat a * 65536 + unat b * 256 + unat c
      in b64_digit 3 val # b64_digit 2 val # b64_digit 1 val # b64_digit 0 val # RawURLEncoding rest)"

text \<open>The error of \<open>rand.Read\<close>, or the bytes it filled in.\<close>

definition newNonce :: "string + byte list \<Rightarrow> string \<times> go_error" where
  "newNonce r = (case r of Inl err \<Rightarrow> ([], Some err) | Inr b \<Rightarrow> (RawURLEncoding b, None))"

subsection \<open>Encodings\<close>

lemma hextable_distinct: "distinct hextable" "length hextable = 16"
  by (simp_all add: hextable_def)

lemma encodeURL_distinct: "distinct encodeURL" "length encodeURL = 64"
  by code_simp+

lemma byte_bound: "unat (v :: byte) < 256"
  using unsigned_less [of v] by simp

lemma hex_byte_inj: "hex_byte v = hex_byte w \<longleftrightarrow> v = w"
proof
  assume "hex_byte v = hex_byte w"
  moreover have "unat v div 16 < 16" "unat w div 16 < 16" using byte_bound [of v] byte_bound [of w] by simp_all
  ultimately have "unat v div 16 = unat w div 16" "unat v mod 16 = unat w mod 16"
    by (simp_all add: hex_byte_def nth_eq_iff_index_eq [OF hextable_distinct(1)] hextable_distinct(2))
  then have "unat v = unat w" by (metis div_mult_mod_eq)
  then show "v = w" by (rule unsigned_word_eqI)
qed simp

lemma EncodeToString_inj: "EncodeToString bs = EncodeToString cs \<longleftrightarrow> bs = cs"
proof (induction bs arbitrary: cs)
  case Nil
  show ?case by (cases cs) (simp_all add: EncodeToString_def hex_byte_def)
next
  case (Cons b bs)
  have l: "length (hex_byte v) = 2" for v by (simp add: hex_byte_def)
  show ?case
  proof (cases cs)
    case Nil
    then show ?thesis by (simp add: EncodeToString_def hex_byte_def)
  next
    case (Cons c cs')
    then show ?thesis using Cons.IH [of cs'] by (simp add: EncodeToString_def l hex_byte_inj)
  qed
qed

lemma EncodeToString_chars: "length (EncodeToString bs) = 2 * length bs" "set (EncodeToString bs) \<subseteq> set hextable"
proof -
  show "length (EncodeToString bs) = 2 * length bs" by (induction bs) (simp_all add: EncodeToString_def hex_byte_def)
  have "unat v div 16 < 16" for v :: byte using byte_bound [of v] by simp
  then have "set (hex_byte v) \<subseteq> set hextable" for v by (simp add: hex_byte_def hextable_distinct(2))
  then show "set (EncodeToString bs) \<subseteq> set hextable" by (auto simp: EncodeToString_def)
qed

lemma b64_digit_eq: "b64_digit k x = b64_digit k y \<longleftrightarrow> x div 64 ^ k mod 64 = y div 64 ^ k mod 64"
  by (simp add: b64_digit_def nth_eq_iff_index_eq [OF encodeURL_distinct(1)] encodeURL_distinct(2))

lemma RawURLEncoding_length: "length (RawURLEncoding bs) = (4 * length bs + 2) div 3"
  by (induction bs rule: RawURLEncoding.induct) (simp_all add: Let_def)

text \<open>The leading digits of two numbers of 24 bits determine the leading bits.\<close>

lemma digits_up: "m div 64 = n div 64 \<Longrightarrow> m mod 64 = n mod 64 \<Longrightarrow> m = (n :: nat)"
  by (metis div_mult_mod_eq)

lemma leading_digits:
  assumes "x < 16777216" "y < 16777216" "b64_digit 3 x = b64_digit 3 y" "b64_digit 2 x = b64_digit 2 y"
  shows "x div 4096 = y div 4096"
    and "b64_digit 1 x = b64_digit 1 y \<Longrightarrow> x div 64 = y div 64"
    and "b64_digit 1 x = b64_digit 1 y \<Longrightarrow> b64_digit 0 x = b64_digit 0 y \<Longrightarrow> x = y"
proof -
  have "x div 262144 < 64" "y div 262144 < 64" using assms(1,2) by (simp_all add: less_mult_imp_div_less)
  then have "x div 262144 = y div 262144" using assms(3) by (simp add: b64_digit_eq)
  then show 2: "x div 4096 = y div 4096"
    using assms(4) by - (rule digits_up, simp_all add: b64_digit_eq div_mult2_eq [symmetric])
  show 1: "x div 64 = y div 64" if "b64_digit 1 x = b64_digit 1 y"
    using 2 that by - (rule digits_up, simp_all add: b64_digit_eq div_mult2_eq [symmetric])
  show "x = y" if "b64_digit 1 x = b64_digit 1 y" "b64_digit 0 x = b64_digit 0 y"
    using 1 that by - (rule digits_up, simp_all add: b64_digit_eq div_mult2_eq [symmetric])
qed

lemma group_bound: "unat (a :: byte) * 65536 + unat (b :: byte) * 256 + unat (c :: byte) < 16777216"
  using byte_bound [of a] byte_bound [of b] byte_bound [of c] by linarith

lemma group_inj:
  fixes a b c a' b' c' :: byte
  assumes "unat a * 65536 + unat b * 256 + unat c = unat a' * 65536 + unat b' * 256 + unat c'"
  shows "a = a' \<and> b = b' \<and> c = c'"
proof -
  note bounds = byte_bound [of a] byte_bound [of b] byte_bound [of c] byte_bound [of a'] byte_bound [of b'] byte_bound [of c']
  have 1: "unat a = unat a'" by (cases "unat a" "unat a'" rule: linorder_cases) (use assms bounds in linarith)+
  have 2: "unat b = unat b'" by (cases "unat b" "unat b'" rule: linorder_cases) (use assms bounds 1 in linarith)+
  have "unat c = unat c'" using assms 1 2 by linarith
  with 1 2 show ?thesis by (auto intro: unsigned_word_eqI)
qed

lemmas RawURLEncoding_steps = RawURLEncoding.simps Let_def list.inject

lemma RawURLEncoding_inj: "length bs = length cs \<Longrightarrow> RawURLEncoding bs = RawURLEncoding cs \<Longrightarrow> bs = cs"
proof (induction bs arbitrary: cs rule: RawURLEncoding.induct)
  case (2 a)
  then obtain a' where cs: "cs = [a']" by (cases cs) auto
  have "(unat a * 65536) div 4096 = (unat a' * 65536) div 4096"
    using "2.prems"(2) group_bound [of a 0 0] group_bound [of a' 0 0]
    by (intro leading_digits(1)) (simp_all add: cs Let_def)
  then have "unat a * 16 = unat a' * 16" by simp
  then show ?case by (auto simp: cs intro: unsigned_word_eqI)
next
  case (3 a b)
  then obtain a' b' where cs: "cs = [a', b']" by (cases cs; cases "tl cs") auto
  let ?x = "unat a * 65536 + unat b * 256" let ?y = "unat a' * 65536 + unat b' * 256"
  have "?x div 64 = ?y div 64"
    using "3.prems"(2) group_bound [of a b 0] group_bound [of a' b' 0]
    by (intro leading_digits(2)) (simp_all add: cs Let_def)
  moreover have "?x = 64 * (unat a * 1024 + unat b * 4)" "?y = 64 * (unat a' * 1024 + unat b' * 4)" by simp_all
  ultimately have "?x = ?y" by (metis nonzero_mult_div_cancel_left zero_neq_numeral)
  then show ?case using group_inj [of a b 0 a' b' 0] by (simp add: cs)
next
  case (4 a b c rest)
  then obtain a' b' c' rest' where cs: "cs = a' # b' # c' # rest'" "length rest = length rest'"
    by (cases cs; cases "tl cs"; cases "tl (tl cs)") auto
  have "unat a * 65536 + unat b * 256 + unat c = unat a' * 65536 + unat b' * 256 + unat c'"
    using "4.prems"(2) group_bound [of a b c] group_bound [of a' b' c']
    by (intro leading_digits(3)) (simp_all add: cs Let_def)
  from group_inj [OF this] "4.IH" [OF refl cs(2)] "4.prems"(2) show ?case
    by (simp only: cs RawURLEncoding_steps)
qed simp

subsection \<open>Nonces\<close>

lemma randNonce_inj: "randNonce b = randNonce b' \<longleftrightarrow> b = b'"
  by (simp add: randNonce_def EncodeToString_inj)

lemma randNonce_chars: "length (randNonce b) = 2 * length b" "x \<in> set (randNonce b) \<Longrightarrow> x \<in> set hextable"
  using EncodeToString_chars [of b] by (auto simp: randNonce_def)

lemma newNonce_token:
  "length b = 32 \<Longrightarrow> \<exists>n. newNonce (Inr b) = (n, None) \<and> length n = 43"
  "length b = length b' \<Longrightarrow> newNonce (Inr b) = newNonce (Inr b') \<Longrightarrow> b = b'"
  by (auto simp: newNonce_def RawURLEncoding_length intro: RawURLEncoding_inj)

end
