(* ===== verification/Task_Claim.thy ===== *)
theory Task_Claim
  imports Dht_Node Go_Random
begin

text \<open>
  \<open>internal/task/claim.go\<close>: leases kept in the DHT alone, taken, renewed and released through
  the compare-and-swap loop. \<open>clk i\<close> is the clock the callback reads at attempt \<open>i\<close>, \<open>b\<close>
  the bytes \<open>crypto/rand\<close> gives the fresh nonce.
\<close>

definition ErrLeaseBusy :: string where "ErrLeaseBusy = ''lease busy''"
definition ErrLeaseStolen :: string where "ErrLeaseStolen = ''lease stolen by another peer''"

definition DefaultLeaseTTL :: duration where "DefaultLeaseTTL = 20 * second"

text \<open>\<open>internal/heartbeat/lease.go\<close>.\<close>

definition DefaultHeartbeatGap :: duration where "DefaultHeartbeatGap = 7 * second"

definition lease_ttl :: "duration \<Rightarrow> duration" where
  "lease_ttl ttl = (if ttl \<le> 0 then DefaultLeaseTTL else ttl)"

definition lease_live :: "task_lease \<Rightarrow> time \<Rightarrow> bool" where
  "lease_live l now \<longleftrightarrow> tl_Owner l \<noteq> [] \<and> tl_Expires l \<noteq> 0 \<and> tl_Expires l > now"

definition claim_old :: "payload \<Rightarrow> task_lease" where
  "claim_old prev =
     (if payload_empty prev then zero_lease
      else (case unmarshal zero_lease dec_lease prev of
              (l, None) \<Rightarrow> l
            | (_, Some _) \<Rightarrow> zero_lease))"

definition claim_check :: "string \<Rightarrow> string \<Rightarrow> duration \<Rightarrow> cas_check" where
  "claim_check myPeer nonce ttl now prev =
     (let old = claim_old prev in
      if lease_live old now then (False, Raw [], Some ErrLeaseBusy)
      else (True, Doc (enc_lease \<lparr>tl_Owner = myPeer, tl_Nonce = nonce, tl_Expires = now + ttl,
                                  tl_Version = tl_Version old + 1\<rparr>), None))"

definition Claim ::
  "'n dht_cfg \<Rightarrow> string \<Rightarrow> string \<Rightarrow> duration \<Rightarrow> byte list \<Rightarrow> (nat \<Rightarrow> time) \<Rightarrow> (nat \<Rightarrow> nat) \<Rightarrow> 'n dht \<Rightarrow>
   (string \<times> go_error) \<times> 'n dht" where
  "Claim c taskID myPeer ttl b clk rnd d =
     (let nonce = randNonce b in
      case PutJSONCAS c (KeyLease taskID) (claim_check myPeer nonce (lease_ttl ttl)) clk rnd d of
        ((Some e, _), d') \<Rightarrow> (([], Some e), d')
      | ((None, _), d') \<Rightarrow> ((nonce, None), d'))"

definition heartbeat_check :: "string \<Rightarrow> string \<Rightarrow> duration \<Rightarrow> cas_check" where
  "heartbeat_check myPeer myNonce ttl now prev =
     (if payload_empty prev then (False, Raw [], None)
      else (case unmarshal zero_lease dec_lease prev of
              (_, Some e) \<Rightarrow> (False, Raw [], Some e)
            | (cur, None) \<Rightarrow>
                if tl_Owner cur \<noteq> myPeer \<or> tl_Nonce cur \<noteq> myNonce
                then (False, Raw [], Some ErrLeaseStolen)
                else (True, Doc (enc_lease (cur\<lparr>tl_Expires := now + ttl, tl_Version := tl_Version cur + 1\<rparr>)), None)))"

definition Heartbeat ::
  "'n dht_cfg \<Rightarrow> string \<Rightarrow> string \<Rightarrow> string \<Rightarrow> duration \<Rightarrow> (nat \<Rightarrow> time) \<Rightarrow> (nat \<Rightarrow> nat) \<Rightarrow> 'n dht \<Rightarrow>
   go_error \<times> 'n dht" where
  "Heartbeat c taskID myPeer myNonce ttl clk rnd d =
     (let (r, d') = PutJSONCAS c (KeyLease taskID) (heartbeat_check myPeer myNonce (lease_ttl ttl)) clk rnd d
      in (fst r, d'))"

definition release_check :: "string \<Rightarrow> string \<Rightarrow> cas_check" where
  "release_check myPeer myNonce now prev =
     (if payload_empty prev then (False, Raw [], None)
      else (case unmarshal zero_lease dec_lease prev of
              (_, Some e) \<Rightarrow> (False, Raw [], Some e)
            | (cur, None) \<Rightarrow>
                if tl_Owner cur \<noteq> myPeer \<or> tl_Nonce cur \<noteq> myNonce
                then (False, Raw [], Some ErrLeaseStolen)
                else (True, Doc (enc_lease (cur\<lparr>tl_Owner := [], tl_Nonce := [], tl_Expires := 0,
                                               tl_Version := tl_Version cur + 1\<rparr>)), None)))"

definition Release ::
  "'n dht_cfg \<Rightarrow> string \<Rightarrow> string \<Rightarrow> string \<Rightarrow> (nat \<Rightarrow> time) \<Rightarrow> (nat \<Rightarrow> nat) \<Rightarrow> 'n dht \<Rightarrow> go_error \<times> 'n dht" where
  "Release c taskID myPeer myNonce clk rnd d =
     (let (r, d') = PutJSONCAS c (KeyLease taskID) (release_check myPeer myNonce) clk rnd d
      in (fst r, d'))"

text \<open>The lease a key holds, as \<open>Claim\<close> reads it: an absent or unreadable value is no lease.\<close>

definition held :: "payload option \<Rightarrow> task_lease" where
  "held v = claim_old (stored_or_nil v)"

subsection \<open>What each operation does to the stored lease\<close>

lemma held_Doc [simp]: "held (Some (Doc (enc_lease l))) = l"
  by (simp add: held_def claim_old_def stored_or_nil_def payload_empty_def unmarshal_Doc)

lemma held_None [simp]: "held None = zero_lease"
  by (simp add: held_def claim_old_def stored_or_nil_def payload_empty_def)

lemma check_Doc_lease:
  "heartbeat_check p n ttl now (stored_or_nil (Some (Doc (enc_lease l)))) =
     (if tl_Owner l \<noteq> p \<or> tl_Nonce l \<noteq> n then (False, Raw [], Some ErrLeaseStolen)
      else (True, Doc (enc_lease (l\<lparr>tl_Expires := now + ttl, tl_Version := tl_Version l + 1\<rparr>)), None))"
  "release_check p n now (stored_or_nil (Some (Doc (enc_lease l)))) =
     (if tl_Owner l \<noteq> p \<or> tl_Nonce l \<noteq> n then (False, Raw [], Some ErrLeaseStolen)
      else (True, Doc (enc_lease (l\<lparr>tl_Owner := [], tl_Nonce := [], tl_Expires := 0,
         tl_Version := tl_Version l + 1\<rparr>)), None))"
  by (simp_all add: heartbeat_check_def release_check_def stored_or_nil_def payload_empty_def unmarshal_Doc)

lemma check_None:
  "heartbeat_check p n ttl now (stored_or_nil None) = (False, Raw [], None)"
  "release_check p n now (stored_or_nil None) = (False, Raw [], None)"
  by (simp_all add: heartbeat_check_def release_check_def stored_or_nil_def payload_empty_def)

context dht_up
begin

lemma Claim_busy:
  assumes "lease_live (held (doc c view d (KeyLease i))) (clk 0)"
  shows "\<exists>d'. Claim c i p ttl b clk rnd d = (([], Some ErrLeaseBusy), d') \<and> doc c view d' = doc c view d"
  using PutJSONCAS_error [of "claim_check p (randNonce b) (lease_ttl ttl)" clk d "KeyLease i" False "Raw []" ErrLeaseBusy rnd]
    assms
  by (auto simp: Claim_def Let_def claim_check_def held_def)

lemma Claim_free:
  assumes "\<not> lease_live (held (doc c view d (KeyLease i))) (clk 0)"
  shows "\<exists>d'. Claim c i p ttl b clk rnd d = ((randNonce b, None), d') \<and>
    doc c view d' = (doc c view d)(KeyLease i \<mapsto> Doc (enc_lease
      \<lparr>tl_Owner = p, tl_Nonce = randNonce b, tl_Expires = clk 0 + lease_ttl ttl,
       tl_Version = tl_Version (held (doc c view d (KeyLease i))) + 1\<rparr>))"
  using PutJSONCAS_installs [of "claim_check p (randNonce b) (lease_ttl ttl)" clk d "KeyLease i" _ rnd] assms
  by (auto simp: Claim_def Let_def claim_check_def held_def)

lemma Heartbeat_mine:
  assumes "doc c view d (KeyLease i) = Some (Doc (enc_lease l))" "tl_Owner l = p" "tl_Nonce l = n"
  shows "\<exists>d'. Heartbeat c i p n ttl clk rnd d = (None, d') \<and>
    doc c view d' = (doc c view d)(KeyLease i \<mapsto>
      Doc (enc_lease (l\<lparr>tl_Expires := clk 0 + lease_ttl ttl, tl_Version := tl_Version l + 1\<rparr>)))"
  using PutJSONCAS_installs [of "heartbeat_check p n (lease_ttl ttl)" clk d "KeyLease i" _ rnd] assms
  by (auto simp: Heartbeat_def check_Doc_lease)

lemma Heartbeat_stolen:
  assumes "doc c view d (KeyLease i) = Some (Doc (enc_lease l))" "tl_Owner l \<noteq> p \<or> tl_Nonce l \<noteq> n"
  shows "\<exists>d'. Heartbeat c i p n ttl clk rnd d = (Some ErrLeaseStolen, d') \<and> doc c view d' = doc c view d"
  using PutJSONCAS_error [of "heartbeat_check p n (lease_ttl ttl)" clk d "KeyLease i" False "Raw []" ErrLeaseStolen rnd]
    assms
  by (auto simp: Heartbeat_def check_Doc_lease)

lemma Release_mine:
  assumes "doc c view d (KeyLease i) = Some (Doc (enc_lease l))" "tl_Owner l = p" "tl_Nonce l = n"
  shows "\<exists>d'. Release c i p n clk rnd d = (None, d') \<and>
    doc c view d' = (doc c view d)(KeyLease i \<mapsto>
      Doc (enc_lease (l\<lparr>tl_Owner := [], tl_Nonce := [], tl_Expires := 0, tl_Version := tl_Version l + 1\<rparr>)))"
  using PutJSONCAS_installs [of "release_check p n" clk d "KeyLease i" _ rnd] assms
  by (auto simp: Release_def check_Doc_lease)

lemma Release_stolen:
  assumes "doc c view d (KeyLease i) = Some (Doc (enc_lease l))" "tl_Owner l \<noteq> p \<or> tl_Nonce l \<noteq> n"
  shows "\<exists>d'. Release c i p n clk rnd d = (Some ErrLeaseStolen, d') \<and> doc c view d' = doc c view d"
  using PutJSONCAS_error [of "release_check p n" clk d "KeyLease i" False "Raw []" ErrLeaseStolen rnd] assms
  by (auto simp: Release_def check_Doc_lease)

lemma Heartbeat_nothing:
  assumes "doc c view d (KeyLease i) = None"
  shows "\<exists>d'. Heartbeat c i p n ttl clk rnd d = (Some ErrCASConflict, d') \<and> doc c view d' = doc c view d"
proof -
  have "\<And>j. \<exists>nxt. heartbeat_check p n (lease_ttl ttl) (clk j) (stored_or_nil (doc c view d (KeyLease i)))
      = (False, nxt, None)" by (simp add: assms check_None)
  from PutJSONCAS_refused [of "heartbeat_check p n (lease_ttl ttl)" clk d "KeyLease i" rnd] this
  show ?thesis by (auto simp: Heartbeat_def)
qed

text \<open>A renewal with the default time to live keeps the lease through the next two heartbeats.\<close>

lemma Heartbeat_gap:
  assumes "doc c view d (KeyLease i) = Some (Doc (enc_lease l))" "tl_Owner l = p" "tl_Nonce l = n" "p \<noteq> []" "0 \<le> clk 0"
    and "Heartbeat c i p n 0 clk rnd d = (e, d')" "t \<le> clk 0 + 2 * DefaultHeartbeatGap"
  shows "e = None \<and> lease_live (held (doc c view d' (KeyLease i))) t"
  using Heartbeat_mine [OF assms(1-3), of 0 clk rnd] assms(2-)
  by (auto simp: lease_live_def lease_ttl_def DefaultLeaseTTL_def DefaultHeartbeatGap_def)

text \<open>The lease handed out by a claim is live for its whole time to live, so a second claim
  within it is turned away; a release makes the key free again.\<close>

lemma Claim_then_Claim:
  assumes "\<not> lease_live (held (doc c view d (KeyLease i))) (clk 0)"
    and "Claim c i p ttl b clk rnd d = ((randNonce b, None), d1)"
    and "p \<noteq> []" "clk 0 + lease_ttl ttl \<noteq> 0" "clk2 0 < clk 0 + lease_ttl ttl"
  shows "\<exists>d2. Claim c i q ttl2 b2 clk2 rnd2 d1 = (([], Some ErrLeaseBusy), d2) \<and>
    doc c view d2 = doc c view d1"
proof (rule Claim_busy)
  obtain d' where "Claim c i p ttl b clk rnd d = ((randNonce b, None), d')"
    "doc c view d' = (doc c view d)(KeyLease i \<mapsto> Doc (enc_lease
      \<lparr>tl_Owner = p, tl_Nonce = randNonce b, tl_Expires = clk 0 + lease_ttl ttl,
       tl_Version = tl_Version (held (doc c view d (KeyLease i))) + 1\<rparr>))"
    using Claim_free [where clk = clk, OF assms(1)] by blast
  with assms show "lease_live (held (doc c view d1 (KeyLease i))) (clk2 0)"
    by (simp add: lease_live_def)
qed

end

subsection \<open>Properties\<close>


lemma randNonce_12: "randNonce [1, 2] = ''0102''"
  by (simp add: randNonce_def EncodeToString_def hex_byte_def hextable_def)


text \<open>The life of a DHT lease. Its owner, and only with the nonce of the claim, renews it and
  releases it; anyone else gets \<open>ErrLeaseStolen\<close> and changes nothing; a released lease is free for
  the next claim at any time.\<close>

lemma lease_lifecycle:
  assumes "dht_up c view" "doc c view d (KeyLease i) = Some (Doc (enc_lease l))"
  shows "if tl_Owner l = p \<and> tl_Nonce l = n
     then (\<exists>d'. Heartbeat c i p n ttl clk rnd d = (None, d') \<and>
            tl_Expires (held (doc c view d' (KeyLease i))) = clk 0 + lease_ttl ttl) \<and>
          (\<exists>d'. Release c i p n clk rnd d = (None, d') \<and>
            (\<forall>now. \<not> lease_live (held (doc c view d' (KeyLease i))) now))
     else (\<exists>d'. Heartbeat c i p n ttl clk rnd d = (Some ErrLeaseStolen, d') \<and> doc c view d' = doc c view d) \<and>
          (\<exists>d'. Release c i p n clk rnd d = (Some ErrLeaseStolen, d') \<and> doc c view d' = doc c view d)"
  using dht_up.Heartbeat_mine [OF assms, of p n ttl clk rnd] dht_up.Release_mine [OF assms, of p n clk rnd]
    dht_up.Heartbeat_stolen [OF assms, of p n ttl clk rnd] dht_up.Release_stolen [OF assms, of p n clk rnd]
  by (auto simp: lease_live_def)

lemma lease_lifecycle_witness:
  "\<exists>d'. Task_Claim.Release (lan_cfg ''mc'') ''t'' ''B'' ''n1'' (\<lambda>_. 2) (\<lambda>_. 0)
     (snd (PutJSON (lan_cfg ''mc'') (KeyLease ''t'') (enc_lease (zero_lease\<lparr>tl_Owner := ''A'', tl_Nonce := ''n1''\<rparr>)) fresh_dht))
     = (Some ErrLeaseStolen, d')"
  using lease_lifecycle [OF lan_dht_up, of "''mc''" "snd (PutJSON (lan_cfg ''mc'') (KeyLease ''t'')
      (enc_lease (zero_lease\<lparr>tl_Owner := ''A'', tl_Nonce := ''n1''\<rparr>)) fresh_dht)" "''t''"
      "zero_lease\<lparr>tl_Owner := ''A'', tl_Nonce := ''n1''\<rparr>" "''B''" "''n1''" 0 "\<lambda>_. 2" "\<lambda>_. 0"]
  by auto

text \<open>C31: the nonce of a claim is its proof of ownership. After a successful \<open>Claim\<close>, a renewal is accepted
  exactly from the same peer with the nonce made of the same random bytes; with any other nonce of
  \<open>randNonce\<close>, or from any other peer, it gets \<open>ErrLeaseStolen\<close> and the lease stays as it was. With
  the 16 bytes the code draws, the nonce is 32 characters of the hex alphabet.\<close>

theorem nonce_guards_lease:
  assumes "dht_up c view" "Claim c i p ttl b clk rnd d = ((n, None), d1)" "length b = 16"
  shows "length n = 32 \<and> set n \<subseteq> set hextable \<and>
    (\<exists>d2. Heartbeat c i q (randNonce b') ttl2 clk2 rnd2 d1 = (if q = p \<and> b' = b then None else Some ErrLeaseStolen, d2) \<and>
       tl_Owner (held (doc c view d2 (KeyLease i))) = p \<and> tl_Nonce (held (doc c view d2 (KeyLease i))) = n)"
proof -
  have free: "\<not> lease_live (held (doc c view d (KeyLease i))) (clk 0)"
    using dht_up.Claim_busy [where clk = clk, OF assms(1), of d i p ttl b rnd] assms(2) by auto
  obtain l where l: "doc c view d1 (KeyLease i) = Some (Doc (enc_lease l))" "tl_Owner l = p" "tl_Nonce l = randNonce b"
    and n: "n = randNonce b"
    using dht_up.Claim_free [where clk = clk, OF assms(1) free, of p ttl b rnd] assms(2) by auto
  show ?thesis
  proof (cases "q = p \<and> b' = b")
    case True
    with dht_up.Heartbeat_mine [OF assms(1) l(1), of p "randNonce b" ttl2 clk2 rnd2] l n assms(3) show ?thesis
      by (auto simp: randNonce_chars)
  next
    case False
    with dht_up.Heartbeat_stolen [OF assms(1) l(1), of q "randNonce b'" ttl2 clk2 rnd2] l n assms(3) show ?thesis
      by (auto simp: randNonce_chars randNonce_inj)
  qed
qed

theorem nonce_guards_lease_witness:
  "\<exists>d1 d2. Claim (solo_cfg ''mc'') ''t'' ''A'' (20 * second) (replicate 16 7) (\<lambda>_. 1) (\<lambda>_. 0) fresh_dht
       = ((randNonce (replicate 16 7), None), d1) \<and>
     Heartbeat (solo_cfg ''mc'') ''t'' ''A'' (randNonce (replicate 16 8)) 0 (\<lambda>_. 2) (\<lambda>_. 0) d1 = (Some ErrLeaseStolen, d2)"
proof -
  have up: "dht_up (solo_cfg ''mc'') (\<lambda>m. m)" by (rule solo_dht_up) simp_all
  have "\<not> lease_live (held (doc (solo_cfg ''mc'') (\<lambda>m. m) fresh_dht (KeyLease ''t''))) 1"
    by (simp add: doc_def fresh_dht_def lease_live_def zero_lease_def)
  from dht_up.Claim_free [where clk = "\<lambda>_. 1", OF up this, of "''A''" "20 * second" "replicate 16 7" "\<lambda>_. 0"]
  obtain d1 where c: "Claim (solo_cfg ''mc'') ''t'' ''A'' (20 * second) (replicate 16 7) (\<lambda>_. 1) (\<lambda>_. 0) fresh_dht
       = ((randNonce (replicate 16 7), None), d1)"
    by (elim exE conjE)
  have ne: "replicate 16 (8 :: byte) \<noteq> replicate 16 7" by (simp only: replicate_eq_replicate) simp
  from nonce_guards_lease [OF up c, of "''A''" "replicate 16 8" 0 "\<lambda>_. 2" "\<lambda>_. 0"] c ne show ?thesis by auto
qed

end
