(* ===== verification/Dht_Races.thy ===== *)
theory Dht_Races
  imports Task_Claim Control_Publish
begin

text \<open>
  Concurrent callers of the DHT node. A handler runs in its own goroutine and agents run on their own
  machines, so the reads and writes of \<open>PutJSONCAS\<close> (\<open>internal/dht/node.go\<close>) and of \<open>addToIndex\<close>
  (\<open>cmd/control/control_http.go\<close>) interleave. Here both are machines that make one access to the
  store per step. Run alone they are the functions of \<open>Dht_Node\<close> and \<open>Control_Http\<close>; under a schedule of
  several callers the theorems say what remains: a call always ends, and updates can be lost.
\<close>

subsection \<open>The compare-and-swap loop, one access at a time\<close>

text \<open>Where a call is: before the read of attempt \<open>i\<close> with the last error and the time slept, before the
  write, before the verifying read, or returned.\<close>

datatype cas_pc =
    CasRead nat go_error duration
  | CasPut nat payload duration
  | CasVerify nat payload duration
  | CasDone "go_error \<times> duration"

fun cas_step ::
  "'n dht_cfg \<Rightarrow> string \<Rightarrow> cas_check \<Rightarrow> (nat \<Rightarrow> time) \<Rightarrow> (nat \<Rightarrow> nat) \<Rightarrow> cas_pc \<times> 'n dht \<Rightarrow> cas_pc \<times> 'n dht" where
  "cas_step c nsk check clk rnd (CasRead i lastErr slept, d) =
     (if i \<ge> 5 then (CasDone (Some (case lastErr of None \<Rightarrow> ErrCASConflict | Some e \<Rightarrow> e), slept), d)
      else (let (r, d1) = read_fallback c (withTimeout (3 * second)) nsk d;
                prev = (case r of Inr v \<Rightarrow> v | Inl _ \<Rightarrow> Raw []);
                (ok, nxt, err) = check (clk i) prev
            in case err of
                 Some e \<Rightarrow> (CasDone (Some e, slept), d1)
               | None \<Rightarrow> if \<not> ok then (CasRead (Suc i) (Some ErrCASConflict) (slept + jitterBackoff i (rnd i)), d1)
                         else (CasPut i nxt slept, d1)))"
| "cas_step c nsk check clk rnd (CasPut i nxt slept, d) =
     (case kad_put (cf_kad c) (withTimeout (5 * second)) nsk nxt (net d) of
        (Some e, n2) \<Rightarrow>
          if no_peers e then (CasDone (None, slept), d\<lparr>net := n2, localStore := (localStore d)(nsk \<mapsto> nxt)\<rparr>)
          else (CasRead (Suc i) (Some e) (slept + jitterBackoff i (rnd i)), d\<lparr>net := n2\<rparr>)
      | (None, n2) \<Rightarrow> (CasVerify i nxt slept, d\<lparr>net := n2\<rparr>))"
| "cas_step c nsk check clk rnd (CasVerify i nxt slept, d) =
     (case read_fallback c (withTimeout (3 * second)) nsk d of
        (Inl e, d3) \<Rightarrow> (CasRead (Suc i) (Some e) (slept + jitterBackoff i (rnd i)), d3)
      | (Inr aft, d3) \<Rightarrow>
          if aft \<noteq> nxt then (CasRead (Suc i) (Some ErrCASConflict) (slept + jitterBackoff i (rnd i)), d3)
          else (CasDone (None, slept), d3))"
| "cas_step c nsk check clk rnd (CasDone r, d) = (CasDone r, d)"

text \<open>Several callers on one store: at every step the schedule says whose access comes next.\<close>

fun cas_sched ::
  "'n dht_cfg \<Rightarrow> string \<Rightarrow> ('p \<Rightarrow> cas_check) \<Rightarrow> ('p \<Rightarrow> nat \<Rightarrow> time) \<Rightarrow> ('p \<Rightarrow> nat \<Rightarrow> nat) \<Rightarrow> 'p list \<Rightarrow>
   ('p \<Rightarrow> cas_pc) \<times> 'n dht \<Rightarrow> ('p \<Rightarrow> cas_pc) \<times> 'n dht" where
  "cas_sched c nsk check clk rnd [] s = s"
| "cas_sched c nsk check clk rnd (p # ps) (pcs, d) =
     (let (pc, d') = cas_step c nsk (check p) (clk p) (rnd p) (pcs p, d)
      in cas_sched c nsk check clk rnd ps (pcs(p := pc), d'))"

definition cas_start :: "'p \<Rightarrow> cas_pc" where
  "cas_start p = CasRead 0 None 0"

text \<open>The accesses a call has left at most.\<close>

fun cas_left :: "cas_pc \<Rightarrow> nat" where
  "cas_left (CasRead i _ _) = 3 * (5 - i) + 1"
| "cas_left (CasPut i _ _) = 3 * (5 - i)"
| "cas_left (CasVerify i _ _) = 3 * (5 - i) - 1"
| "cas_left (CasDone _) = 0"

text \<open>Attempts are numbered below five between the accesses.\<close>

fun cas_wf :: "cas_pc \<Rightarrow> bool" where
  "cas_wf (CasRead i _ _) \<longleftrightarrow> i \<le> 5"
| "cas_wf (CasPut i _ _) \<longleftrightarrow> i < 5"
| "cas_wf (CasVerify i _ _) \<longleftrightarrow> i < 5"
| "cas_wf (CasDone _) \<longleftrightarrow> True"

subsection \<open>Adding to the index, one access at a time\<close>

datatype idx_pc = IdxRead | IdxWrite task_index | IdxDone go_error

fun idx_step :: "'n dht_cfg \<Rightarrow> string \<Rightarrow> nat \<Rightarrow> string \<Rightarrow> time \<Rightarrow> idx_pc \<times> 'n dht \<Rightarrow> idx_pc \<times> 'n dht" where
  "idx_step c ns shard i now (IdxRead, d) =
     (let ((idx, _), d1) = GetJSON c zero_index dec_index (KeyIndexShard ns shard) (2 * second) d
      in (if i \<in> set (ix_IDs idx) then IdxDone None else IdxWrite idx, d1))"
| "idx_step c ns shard i now (IdxWrite idx, d) =
     (let (e, d1) = PutJSON c (KeyIndexShard ns shard)
            (enc_index (idx\<lparr>ix_IDs := ix_IDs idx @ [i], ix_UpdatedAt := now, ix_Version := ix_Version idx + 1\<rparr>)) d
      in (IdxDone e, d1))"
| "idx_step c ns shard i now (IdxDone e, d) = (IdxDone e, d)"

text \<open>Concurrent requests: caller \<open>p\<close> adds the id \<open>ids p\<close> to the same shard.\<close>

fun idx_sched ::
  "'n dht_cfg \<Rightarrow> string \<Rightarrow> nat \<Rightarrow> ('p \<Rightarrow> string) \<Rightarrow> ('p \<Rightarrow> time) \<Rightarrow> 'p list \<Rightarrow> ('p \<Rightarrow> idx_pc) \<times> 'n dht \<Rightarrow> ('p \<Rightarrow> idx_pc) \<times> 'n dht" where
  "idx_sched c ns shard ids now [] s = s"
| "idx_sched c ns shard ids now (p # ps) (pcs, d) =
     (let (pc, d') = idx_step c ns shard (ids p) (now p) (pcs p, d)
      in idx_sched c ns shard ids now ps (pcs(p := pc), d'))"

subsection \<open>Alone\<close>

lemma cas_attempt_steps:
  assumes "i < 5"
  shows "\<exists>m. (cas_step c nsk check clk rnd ^^ m) (CasRead i lastErr slept, d) =
    (case cas_attempt c nsk check (clk i) d of
       (CasReturn e, d') \<Rightarrow> (CasDone (e, slept), d')
     | (CasRetry e, d') \<Rightarrow> (CasRead (Suc i) (Some e) (slept + jitterBackoff i (rnd i)), d'))"
proof -
  obtain r d1 where r: "read_fallback c (withTimeout 3000000000) nsk d = (r, d1)" by fastforce
  obtain ok nxt err where ch: "check (clk i) (case r of Inr v \<Rightarrow> v | Inl _ \<Rightarrow> Raw []) = (ok, nxt, err)" by (rule prod_cases3)
  obtain pe n2 where p: "kad_put (cf_kad c) (withTimeout 5000000000) nsk nxt (net d1) = (pe, n2)" by fastforce
  note rw = cas_attempt_def Let_def r ch p
  consider "err \<noteq> None \<or> \<not> ok" | e where "err = None" "ok" "pe = Some e" | "err = None" "ok" "pe = None" by fastforce
  then show ?thesis
  proof cases
    case 1
    then show ?thesis using assms by (intro exI [of _ "Suc 0"]) (auto simp: rw split: option.split)
  next
    case (2 e)
    then show ?thesis using assms by (intro exI [of _ "Suc (Suc 0)"]) (simp add: rw)
  next
    case 3
    then show ?thesis
      using assms by (intro exI [of _ "Suc (Suc (Suc 0))"]) (simp add: rw cas_verify_def split: prod.split sum.split)
  qed
qed

lemma cas_alone:
  assumes "k = 5 - i" "i \<le> 5"
  shows "\<exists>n. (cas_step c nsk check clk rnd ^^ n) (CasRead i lastErr slept, d) =
    (CasDone (fst (cas_loop c nsk check clk rnd k i lastErr slept d)), snd (cas_loop c nsk check clk rnd k i lastErr slept d))"
  using assms
proof (induction k arbitrary: i lastErr slept d)
  case 0
  then show ?case by (intro exI [of _ 1]) simp
next
  case (Suc k)
  let ?S = "cas_step c nsk check clk rnd"
  have i: "i < 5" "k = 5 - Suc i" "Suc i \<le> 5" using Suc.prems by auto
  obtain res d' where a: "cas_attempt c nsk check (clk i) d = (res, d')" by fastforce
  with cas_attempt_steps [OF i(1), of c nsk check clk rnd lastErr slept d] obtain m where
    m: "(?S ^^ m) (CasRead i lastErr slept, d) =
      (case res of CasReturn e \<Rightarrow> (CasDone (e, slept), d')
       | CasRetry e \<Rightarrow> (CasRead (Suc i) (Some e) (slept + jitterBackoff i (rnd i)), d'))"
    by auto
  show ?case
  proof (cases res)
    case (CasReturn e)
    then show ?thesis using a m by (intro exI [of _ m]) simp
  next
    case (CasRetry e)
    obtain n where "(?S ^^ n) (CasRead (Suc i) (Some e) (slept + jitterBackoff i (rnd i)), d') =
      (CasDone (fst (cas_loop c nsk check clk rnd k (Suc i) (Some e) (slept + jitterBackoff i (rnd i)) d')),
       snd (cas_loop c nsk check clk rnd k (Suc i) (Some e) (slept + jitterBackoff i (rnd i)) d'))"
      using Suc.IH [OF i(2,3)] by blast
    then show ?thesis using a m CasRetry by (intro exI [of _ "n + m"]) (simp add: funpow_add)
  qed
qed

lemma idx_alone:
  "(idx_step c ns shard i now ^^ 2) (IdxRead, d) =
     (IdxDone (fst (addToIndex c ns i shard now d)), snd (addToIndex c ns i shard now d))"
  by (simp add: numeral_2_eq_2 addToIndex_def Let_def split_beta)

lemma cas_step_wf: "cas_wf (fst s) \<Longrightarrow> cas_wf (fst (cas_step c nsk check clk rnd s))"
  by (cases s; cases "fst s") (auto simp: Let_def split: prod.splits option.splits sum.splits)

lemma cas_step_left: "cas_wf (fst s) \<Longrightarrow> cas_left (fst (cas_step c nsk check clk rnd s)) \<le> cas_left (fst s) - 1"
  by (cases s; cases "fst s") (auto simp: Let_def split: prod.splits option.splits sum.splits)

lemma cas_left_0: "cas_left pc = 0 \<Longrightarrow> cas_wf pc \<Longrightarrow> \<exists>r. pc = CasDone r"
  by (cases pc) auto

lemma cas_sched_left:
  assumes "\<forall>q. cas_wf (pcs q)"
  shows "(\<forall>q. cas_wf (fst (cas_sched c nsk check clk rnd ps (pcs, d)) q)) \<and>
    cas_left (fst (cas_sched c nsk check clk rnd ps (pcs, d)) p) \<le> cas_left (pcs p) - count_list ps p"
  using assms
proof (induction ps arbitrary: pcs d)
  case (Cons q ps)
  obtain pc d' where st: "cas_step c nsk (check q) (clk q) (rnd q) (pcs q, d) = (pc, d')" by fastforce
  have pc: "cas_wf pc" "cas_left pc \<le> cas_left (pcs q) - 1"
    using cas_step_wf [of "(pcs q, d)" c nsk "check q" "clk q" "rnd q"] cas_step_left [of "(pcs q, d)" c nsk "check q" "clk q" "rnd q"]
      Cons.prems st by simp_all
  define pcs' where "pcs' = pcs(q := pc)"
  have run: "cas_sched c nsk check clk rnd (q # ps) (pcs, d) = cas_sched c nsk check clk rnd ps (pcs', d')"
    by (simp add: st pcs'_def)
  have "\<forall>q'. cas_wf (pcs' q')" using Cons.prems pc(1) by (simp add: pcs'_def)
  moreover have "cas_left (pcs' p) \<le> cas_left (pcs p) - (if q = p then 1 else 0)" using pc(2) by (auto simp: pcs'_def)
  ultimately show ?case using Cons.IH [of pcs' d'] unfolding run by (auto split: if_splits)
qed simp

subsection \<open>One access on a network that is up\<close>

context dht_up
begin

lemma cas_step_reads:
  assumes "check (clk 0) (stored_or_nil (doc c view d k)) = (True, nxt, None)"
  shows "\<exists>d'. cas_step c (nsKey (cf_ns c) k) check clk rnd (CasRead 0 l s, d) = (CasPut 0 nxt s, d') \<and> doc c view d' = doc c view d"
proof -
  obtain r d1 where g: "read_fallback c (withTimeout (3 * second)) (nsKey (cf_ns c) k) d = (r, d1)" by fastforce
  then show ?thesis using cas_read [OF g] assms read_fallback_frame [OF g] by simp
qed

lemma cas_step_writes:
  "\<exists>d'. cas_step c (nsKey (cf_ns c) k) check clk rnd (cas_step c (nsKey (cf_ns c) k) check clk rnd (CasPut i nxt s, d)) =
     (CasDone (None, s), d') \<and> doc c view d' = (doc c view d)(k \<mapsto> nxt)"
proof -
  let ?K = "nsKey (cf_ns c) k"
  obtain e n2 where p: "kad_put (cf_kad c) (withTimeout (5 * second)) ?K nxt (net d) = (e, n2)" by fastforce
  have e: "\<forall>m. e = Some m \<longrightarrow> no_peers m" using put_ok [of "withTimeout (5 * second)" k nxt "net d"] p by simp
  have v: "view n2 = (view (net d))(?K \<mapsto> nxt)" using put_stored [OF p e] .
  show ?thesis
  proof (cases e)
    case (Some m)
    have "doc c view (d\<lparr>net := n2, localStore := (localStore d)(?K \<mapsto> nxt)\<rparr>) = (doc c view d)(k \<mapsto> nxt)"
      by (rule doc_stored [where n' = n2]) (use v in auto)
    then show ?thesis using p e Some by simp
  next
    case None
    have d2: "doc c view (d\<lparr>net := n2\<rparr>) = (doc c view d)(k \<mapsto> nxt)" by (rule doc_stored [where n' = n2]) (use v in auto)
    obtain r3 d3 where g3: "read_fallback c (withTimeout (3 * second)) ?K (d\<lparr>net := n2\<rparr>) = (r3, d3)" by fastforce
    have "r3 = Inr nxt" using read_fallback_doc [of "withTimeout (3 * second)" k "d\<lparr>net := n2\<rparr>"] g3 d2 by auto
    then show ?thesis using p None g3 read_fallback_frame [OF g3] d2 by simp
  qed
qed

text \<open>The compare-and-swap does not compare. Two callers whose callbacks both accept the stored value can
  both return without error: each reads before the other writes, and each verifies before the other
  writes. The second value is computed from what was there before the first, which is lost.\<close>

lemma cas_race:
  assumes "a \<noteq> b"
    and "check a (clk a 0) (stored_or_nil (doc c view d k)) = (True, va, None)"
    and "check b (clk b 0) (stored_or_nil (doc c view d k)) = (True, vb, None)"
  shows "\<exists>pcs d'. cas_sched c (nsKey (cf_ns c) k) check clk rnd [a, b, a, a, b, b] (cas_start, d) = (pcs, d') \<and>
    pcs a = CasDone (None, 0) \<and> pcs b = CasDone (None, 0) \<and> doc c view d' = (doc c view d)(k \<mapsto> vb)"
proof -
  let ?S = "\<lambda>p. cas_step c (nsKey (cf_ns c) k) (check p) (clk p) (rnd p)"
  obtain d1 where 1: "?S a (CasRead 0 None 0, d) = (CasPut 0 va 0, d1)" "doc c view d1 = doc c view d"
    using cas_step_reads [where check = "check a" and clk = "clk a" and d = d, OF assms(2)] by blast
  have cb: "check b (clk b 0) (stored_or_nil (doc c view d1 k)) = (True, vb, None)" using assms(3) 1(2) by simp
  obtain d2 where 2: "?S b (CasRead 0 None 0, d1) = (CasPut 0 vb 0, d2)" "doc c view d2 = doc c view d"
    using cas_step_reads [where check = "check b" and clk = "clk b" and d = d1, OF cb] unfolding 1(2) by blast
  obtain pa d3 d4 where 3: "?S a (CasPut 0 va 0, d2) = (pa, d3)" "?S a (pa, d3) = (CasDone (None, 0), d4)"
    "doc c view d4 = (doc c view d)(k \<mapsto> va)"
    using cas_step_writes [where check = "check a" and clk = "clk a" and rnd = "rnd a" and d = d2 and nxt = va and i = 0 and s = 0 and k = k] 2(2)
    by (metis prod.exhaust)
  obtain pb d5 d6 where 4: "?S b (CasPut 0 vb 0, d4) = (pb, d5)" "?S b (pb, d5) = (CasDone (None, 0), d6)"
    "doc c view d6 = (doc c view d)(k \<mapsto> vb)"
    using cas_step_writes [where check = "check b" and clk = "clk b" and rnd = "rnd b" and d = d4 and nxt = vb and i = 0 and s = 0 and k = k] 3(3)
    by (metis prod.exhaust fun_upd_upd)
  show ?thesis
    using assms(1) by (simp add: cas_start_def 1(1) 2(1) 3(1,2) 4 del: cas_step.simps)
qed

lemma idx_race:
  assumes "a \<noteq> b" "ids a \<noteq> ids b"
    and "ids a \<notin> set (ix_IDs (read_as zero_index dec_index (doc c view d (KeyIndexShard ns shard))))"
    and "ids b \<notin> set (ix_IDs (read_as zero_index dec_index (doc c view d (KeyIndexShard ns shard))))"
  shows "\<exists>pcs d'. idx_sched c ns shard ids now [a, b, a, b] (\<lambda>_. IdxRead, d) = (pcs, d') \<and>
    pcs a = IdxDone None \<and> pcs b = IdxDone None \<and>
    ids a \<notin> set (ix_IDs (read_as zero_index dec_index (doc c view d' (KeyIndexShard ns shard)))) \<and>
    ids b \<in> set (ix_IDs (read_as zero_index dec_index (doc c view d' (KeyIndexShard ns shard))))"
  using assms by (simp add: Let_def split_beta read_as_Doc)

end

subsection \<open>Properties\<close>


text \<open>C25: a call always ends. However many callers share the store, whatever the network answers and in
  whatever order their accesses come, a caller has returned after sixteen accesses of its own:
  five attempts of a read, a write and a verification, and the end of the loop.\<close>

theorem cas_returns:
  assumes "16 \<le> count_list ps p"
  shows "\<exists>r. fst (cas_sched c nsk check clk rnd ps (cas_start, d)) p = CasDone r"
proof -
  have "\<forall>q. cas_wf (cas_start q)" "cas_left (cas_start p) = 16" by (simp_all add: cas_start_def)
  with cas_sched_left [of cas_start c nsk check clk rnd ps d p] assms cas_left_0 show ?thesis by fastforce
qed

text \<open>C26: two agents can claim the same task from the DHT. When the lease of a task is free for both, both
  calls of \<open>Claim\<close> can return their nonce, with the same fencing token; the document then names the
  second, while the first believes it holds the task until its own lease runs out.\<close>

theorem claims_race:
  assumes "dht_up c view" "a \<noteq> b"
    and "\<not> lease_live (held (doc c view d (KeyLease i))) (now a)" "\<not> lease_live (held (doc c view d (KeyLease i))) (now b)"
  shows "\<exists>pcs d'. cas_sched c (nsKey (cf_ns c) (KeyLease i)) (\<lambda>p. claim_check (peer p) (nonce p) (lease_ttl (ttl p)))
      (\<lambda>p _. now p) rnd [a, b, a, a, b, b] (cas_start, d) = (pcs, d') \<and>
    pcs a = CasDone (None, 0) \<and> pcs b = CasDone (None, 0) \<and> tl_Owner (held (doc c view d' (KeyLease i))) = peer b"
proof -
  let ?l = "\<lambda>p. \<lparr>tl_Owner = peer p, tl_Nonce = nonce p, tl_Expires = now p + lease_ttl (ttl p),
    tl_Version = tl_Version (held (doc c view d (KeyLease i))) + 1\<rparr>"
  have "claim_check (peer p) (nonce p) (lease_ttl (ttl p)) (now p) (stored_or_nil (doc c view d (KeyLease i))) =
      (True, Doc (enc_lease (?l p)), None)" if "p = a \<or> p = b" for p
    using assms(3,4) that by (auto simp: claim_check_def held_def)
  then show ?thesis
    using dht_up.cas_race [where check = "\<lambda>p. claim_check (peer p) (nonce p) (lease_ttl (ttl p))" and clk = "\<lambda>p _. now p" and d = d
        and k = "KeyLease i" and rnd = rnd, OF assms(1,2), of "Doc (enc_lease (?l a))" "Doc (enc_lease (?l b))"]
    by auto
qed

text \<open>C27: concurrent requests can drop a task from the index. Two tasks that are added to the same shard at
  the same time are both reported as added, but when each request reads the shard before the other
  writes it, the first id is not in the shard afterwards: no agent that scans the index finds it.\<close>

theorem index_loses_task:
  assumes "dht_up c view" "a \<noteq> b" "ids a \<noteq> ids b"
    and "ids a \<notin> set (ix_IDs (read_as zero_index dec_index (doc c view d (KeyIndexShard ns shard))))"
    and "ids b \<notin> set (ix_IDs (read_as zero_index dec_index (doc c view d (KeyIndexShard ns shard))))"
  shows "\<exists>pcs d'. idx_sched c ns shard ids now [a, b, a, b] (\<lambda>_. IdxRead, d) = (pcs, d') \<and>
    pcs a = IdxDone None \<and> pcs b = IdxDone None \<and>
    ids a \<notin> set (ix_IDs (read_as zero_index dec_index (doc c view d' (KeyIndexShard ns shard)))) \<and>
    ids b \<in> set (ix_IDs (read_as zero_index dec_index (doc c view d' (KeyIndexShard ns shard))))"
  by (rule dht_up.idx_race [OF assms])

subsection \<open>Examples\<close>

theorem cas_returns_witness:
  "\<exists>r. fst (cas_sched (solo_cfg ''mc'') ''/mc/k'' (\<lambda>_ now prev. (False, Raw [], None)) (\<lambda>_ _. 0) (\<lambda>_ _. 0)
     (concat (replicate 16 [True, False])) (cas_start, fresh_dht)) True = CasDone r"
  by (rule cas_returns) code_simp

theorem claims_race_witness:
  "\<exists>pcs d'. cas_sched (solo_cfg ''mc'') (nsKey (cf_ns (solo_cfg ''mc'')) (KeyLease ''t''))
      (\<lambda>p. claim_check (if p then ''A'' else ''B'') (if p then ''n'' else ''m'') (lease_ttl 0)) (\<lambda>p _. 7) (\<lambda>_ _. 0)
      [True, False, True, True, False, False] (cas_start, fresh_dht) = (pcs, d') \<and>
    pcs True = CasDone (None, 0) \<and> pcs False = CasDone (None, 0) \<and>
    tl_Owner (held (doc (solo_cfg ''mc'') (\<lambda>m. m) d' (KeyLease ''t''))) = ''B''"
proof -
  have "doc (solo_cfg ''mc'') (\<lambda>m. m) fresh_dht (KeyLease ''t'') = None" by (simp add: doc_def fresh_dht_def)
  then show ?thesis
    using claims_race [where a = True and b = False and d = fresh_dht and i = "''t''" and now = "\<lambda>_. 7" and rnd = "\<lambda>_ _. 0"
        and peer = "\<lambda>p. if p then ''A'' else ''B''" and nonce = "\<lambda>p. if p then ''n'' else ''m''" and ttl = "\<lambda>_. 0",
        OF solo.dht_up_axioms]
    by (simp add: lease_live_def zero_lease_def)
qed

theorem index_loses_task_witness:
  "\<exists>pcs d'. idx_sched (solo_cfg ''mc'') ''mc'' 3 (\<lambda>p. if p then ''t1'' else ''t2'') (\<lambda>_. 9) [True, False, True, False]
      (\<lambda>_. IdxRead, fresh_dht) = (pcs, d') \<and> pcs True = IdxDone None \<and>
    ''t1'' \<notin> set (ix_IDs (read_as zero_index dec_index (doc (solo_cfg ''mc'') (\<lambda>m. m) d' (KeyIndexShard ''mc'' 3))))"
proof -
  have "doc (solo_cfg ''mc'') (\<lambda>m. m) fresh_dht (KeyIndexShard ''mc'' 3) = None" by (simp add: doc_def fresh_dht_def)
  then show ?thesis
    using index_loses_task [where a = True and b = False and d = fresh_dht and ns = "''mc''" and shard = 3
        and ids = "\<lambda>p. if p then ''t1'' else ''t2''" and now = "\<lambda>_. 9", OF solo.dht_up_axioms]
    by (auto simp: read_as_def zero_index_def)
qed

end
