(* ===== verification/Kad_Replicas.thy ===== *)
theory Kad_Replicas
  imports Dht_Node
begin

text \<open>
  The values of the Kademlia DHT as the vendored go-libp2p-kad-dht stores them, under the validator
  that \<open>NewNode\<close> configures. Every node has a datastore; \<open>PutValue\<close> writes the node's own and pushes the
  record to the peers its lookup finds, \<open>GetValue\<close> collects the node's own record and those of the
  peers, keeps the best one by the validator's \<open>Select\<close>, and pushes it to the peers that do not have
  it.

  The state of the network is the datastore of every node. A \<open>lookup\<close> describes what one call finds:
  the peers of its lookup or the error, which peers answer, and whether its deadline has passed.
  Routing, the age of records and the encoding of messages are not part of it.
\<close>

type_synonym 'p stores = "'p \<Rightarrow> string \<rightharpoonup> payload"

record 'p lookup =
  lk_self :: 'p
  lk_peers :: "string \<Rightarrow> string + 'p list"
  lk_reach :: "string \<Rightarrow> 'p \<Rightarrow> bool"
  lk_late :: "string \<Rightarrow> bool"

definition ErrNotFound :: string where
  "ErrNotFound = ''routing: not found''"

text \<open>\<open>getRecordFromDatastore\<close>: an invalid record counts as none.\<close>

definition getLocal :: "NamespacedValidator \<Rightarrow> string \<Rightarrow> (string \<rightharpoonup> payload) \<Rightarrow> payload option" where
  "getLocal V key st = (case st key of None \<Rightarrow> None | Some v \<Rightarrow> if Validate V key v = None then Some v else None)"

definition handlePutValue :: "NamespacedValidator \<Rightarrow> string \<Rightarrow> payload \<Rightarrow> (string \<rightharpoonup> payload) \<Rightarrow> (string \<rightharpoonup> payload)" where
  "handlePutValue V key v st =
     (case Validate V key v of
        Some e \<Rightarrow> st
      | None \<Rightarrow>
          (case getLocal V key st of
             None \<Rightarrow> st(key \<mapsto> v)
           | Some existing \<Rightarrow>
               (case Select V key [v, existing] of
                  (i, Some e) \<Rightarrow> st
                | (i, None) \<Rightarrow> if i \<noteq> 0 then st else st(key \<mapsto> v))))"

text \<open>The record goes to every peer that can be reached; failures are not reported.\<close>

fun push :: "NamespacedValidator \<Rightarrow> ('p \<Rightarrow> bool) \<Rightarrow> string \<Rightarrow> payload \<Rightarrow> 'p list \<Rightarrow> 'p stores \<Rightarrow> 'p stores" where
  "push V reach key v [] n = n"
| "push V reach key v (p # ps) n =
     push V reach key v ps (if reach p then n(p := handlePutValue V key v (n p)) else n)"

definition PutValue :: "NamespacedValidator \<Rightarrow> 'p lookup \<Rightarrow> duration \<Rightarrow> string \<Rightarrow> payload \<Rightarrow> 'p stores \<Rightarrow> go_error \<times> 'p stores" where
  "PutValue V L t key v n =
     (case Validate V key v of
        Some e \<Rightarrow> (Some e, n)
      | None \<Rightarrow>
          (let sel = (case getLocal V key (n (lk_self L)) of
                        None \<Rightarrow> None
                      | Some old \<Rightarrow>
                          if old = v then None
                          else (case Select V key [v, old] of
                                  (i, Some e) \<Rightarrow> Some e
                                | (i, None) \<Rightarrow>
                                    if i \<noteq> 0 then Some ''can't replace a newer value with an older value'' else None));
               n1 = n(lk_self L := (n (lk_self L))(key \<mapsto> v))
           in case sel of
                Some e \<Rightarrow> (Some e, n)
              | None \<Rightarrow>
                  (case lk_peers L key of
                     Inl e \<Rightarrow> (Some e, n1)
                   | Inr ps \<Rightarrow> (None, push V (lk_reach L key) key v ps n1))))"

text \<open>The values that arrive, with their senders: the node's own first, then those of the peers.\<close>

definition peer_values :: "NamespacedValidator \<Rightarrow> 'p lookup \<Rightarrow> string \<Rightarrow> 'p stores \<Rightarrow> 'p list \<Rightarrow> ('p \<times> payload) list" where
  "peer_values V L key n ps =
     map (\<lambda>p. (p, the (n p key)))
       (filter (\<lambda>p. lk_reach L key p \<and> (\<exists>v\<in>set_option (n p key). Validate V key v = None)) ps)"

definition getValues :: "NamespacedValidator \<Rightarrow> 'p lookup \<Rightarrow> string \<Rightarrow> 'p stores \<Rightarrow> ('p \<times> payload) list" where
  "getValues V L key n =
     (case getLocal V key (n (lk_self L)) of None \<Rightarrow> [] | Some v \<Rightarrow> [(lk_self L, v)]) @
     (case lk_peers L key of Inl _ \<Rightarrow> [] | Inr ps \<Rightarrow> peer_values V L key n ps)"

text \<open>The best value so far with the peers that have it. The program asks for no quorum, so every
  value is processed.\<close>

fun processValues :: "NamespacedValidator \<Rightarrow> string \<Rightarrow> ('p \<times> payload) list \<Rightarrow> (payload \<times> 'p list) option \<Rightarrow> (payload \<times> 'p list) option" where
  "processValues V key [] best = best"
| "processValues V key ((p, v) # vs) None = processValues V key vs (Some (v, [p]))"
| "processValues V key ((p, v) # vs) (Some (b, withBest)) =
     (if b = v then processValues V key vs (Some (b, p # withBest))
      else (case Select V key [b, v] of
              (sel, Some e) \<Rightarrow> processValues V key vs (Some (b, withBest))
            | (sel, None) \<Rightarrow>
                if sel \<noteq> 1 then processValues V key vs (Some (b, withBest))
                else processValues V key vs (Some (v, [p]))))"

text \<open>\<open>GetValue\<close> with \<open>SearchValue\<close> and \<open>updatePeerValues\<close>. When the deadline passes during the call, Go may
  send the update to the peers or leave it out; here it is sent.\<close>

definition GetValue :: "NamespacedValidator \<Rightarrow> 'p lookup \<Rightarrow> duration \<Rightarrow> string \<Rightarrow> 'p stores \<Rightarrow> (string + payload) \<times> 'p stores" where
  "GetValue V L t key n =
     (case processValues V key (getValues V L key n) None of
        None \<Rightarrow> (Inl (if lk_late L key then ''context deadline exceeded'' else ErrNotFound), n)
      | Some (best, withBest) \<Rightarrow>
          (if lk_late L key then Inl ''context deadline exceeded'' else Inr best,
           case lk_peers L key of
             Inl _ \<Rightarrow> n
           | Inr ps \<Rightarrow> push V (lk_reach L key) key best (filter (\<lambda>p. p \<notin> set withBest) ps) n))"

definition replica_cfg :: "string \<Rightarrow> 'p lookup \<Rightarrow> 'p stores dht_cfg" where
  "replica_cfg ns L =
     \<lparr>cf_ns = ns, cf_kad = \<lparr>kad_put = PutValue (node_validator ns) L, kad_get = GetValue (node_validator ns) L\<rparr>\<rparr>"

text \<open>A node whose lookups find the same peers every time, in time: those of the list but itself.\<close>

definition mesh :: "'p \<Rightarrow> 'p list \<Rightarrow> ('p \<Rightarrow> bool) \<Rightarrow> 'p lookup" where
  "mesh self others reach =
     \<lparr>lk_self = self,
      lk_peers = (\<lambda>_. let ps = filter (\<lambda>p. p \<noteq> self) others in if ps = [] then Inl ErrLookupFailure else Inr ps),
      lk_reach = (\<lambda>_. reach), lk_late = (\<lambda>_. False)\<rparr>"

text \<open>What a node of a mesh reads: its own record, or the first that a peer sends.\<close>

definition mesh_view :: "'p \<Rightarrow> 'p list \<Rightarrow> ('p \<Rightarrow> bool) \<Rightarrow> 'p stores \<Rightarrow> string \<rightharpoonup> payload" where
  "mesh_view self others reach n k =
     (case n self k of
        Some v \<Rightarrow> Some v
      | None \<Rightarrow> (case filter (\<lambda>p. p \<noteq> self \<and> reach p \<and> n p k \<noteq> None) others of [] \<Rightarrow> None | p # _ \<Rightarrow> n p k))"

text \<open>Calls of several nodes, one after another, and the same calls on one map that all share, the network
  of \<open>lan_cfg\<close>.\<close>

datatype kad_call = KadPut string payload | KadGet string

datatype kad_answer = Wrote go_error | Got "string + payload"

fun kad_calls :: "('p \<Rightarrow> 'p lookup) \<Rightarrow> ('p \<times> kad_call) list \<Rightarrow> 'p stores \<Rightarrow> kad_answer list \<times> 'p stores" where
  "kad_calls L [] n = ([], n)"
| "kad_calls L ((p, KadPut k v) # cs) n =
     (let (e, n1) = PutValue (node_validator ''mc'') (L p) (5 * second) (nsKey ''mc'' k) v n;
          (as, n2) = kad_calls L cs n1
      in (Wrote e # as, n2))"
| "kad_calls L ((p, KadGet k) # cs) n =
     (let (r, n1) = GetValue (node_validator ''mc'') (L p) (3 * second) (nsKey ''mc'' k) n;
          (as, n2) = kad_calls L cs n1
      in (Got r # as, n2))"

fun map_calls :: "kad_call list \<Rightarrow> (string \<rightharpoonup> payload) \<Rightarrow> kad_answer list \<times> (string \<rightharpoonup> payload)" where
  "map_calls [] m = ([], m)"
| "map_calls (KadPut k v # cs) m =
     (let (e, m1) = lan_put ''mc'' (5 * second) (nsKey ''mc'' k) v m; (as, m2) = map_calls cs m1 in (Wrote e # as, m2))"
| "map_calls (KadGet k # cs) m =
     (let (r, m1) = map_get (3 * second) (nsKey ''mc'' k) m; (as, m2) = map_calls cs m1 in (Got r # as, m2))"

subsection \<open>The validator never prefers a newer record\<close>

lemma valid_key [simp]: "Validate (node_validator ''mc'') (nsKey ''mc'' k) v = None"
  by (rule Validate_nsKey) simp_all

lemma select_first [simp]: "vs \<noteq> [] \<Longrightarrow> Select (node_validator ''mc'') (nsKey ''mc'' k) vs = (0, None)"
  by (rule Select_nsKey) simp_all

lemma getLocal_key [simp]: "getLocal (node_validator ''mc'') (nsKey ''mc'' k) st = st (nsKey ''mc'' k)"
  by (simp add: getLocal_def split: option.split)

lemma handlePutValue_key [simp]: "handlePutValue (node_validator ''mc'') (nsKey ''mc'' k) v st = st(nsKey ''mc'' k \<mapsto> v)"
  by (simp add: handlePutValue_def split: option.split)

lemma push_key:
  "push (node_validator ''mc'') reach (nsKey ''mc'' k) v ps n =
     (\<lambda>p. if p \<in> set ps \<and> reach p then (n p)(nsKey ''mc'' k \<mapsto> v) else n p)"
  by (induction ps arbitrary: n) (auto simp: fun_eq_iff)

lemma processValues_first:
  "\<exists>ps. processValues (node_validator ''mc'') (nsKey ''mc'' k) vs (Some (b, qs)) = Some (b, ps) \<and>
     set ps = set qs \<union> {p. (p, b) \<in> set vs}"
proof (induction vs arbitrary: qs)
  case (Cons pv vs)
  obtain p v where pv: "pv = (p, v)" by fastforce
  show ?case
  proof (cases "b = v")
    case True
    with Cons.IH [of "p # qs"] show ?thesis by (auto simp: pv)
  next
    case False
    with Cons.IH [of qs] show ?thesis by (auto simp: pv)
  qed
qed simp

subsection \<open>A node of a mesh\<close>

lemma mesh_simps [simp]: "lk_self (mesh self others reach) = self" "lk_reach (mesh self others reach) k = reach"
  "\<not> lk_late (mesh self others reach) k"
  by (simp_all add: mesh_def)

lemma mesh_peers:
  "lk_peers (mesh self others reach) k =
     (let ps = filter (\<lambda>p. p \<noteq> self) others in if ps = [] then Inl ErrLookupFailure else Inr ps)"
  by (simp add: mesh_def)

lemma peer_values_key:
  "peer_values (node_validator ''mc'') L (nsKey ''mc'' k) n ps =
     map (\<lambda>p. (p, the (n p (nsKey ''mc'' k)))) (filter (\<lambda>p. lk_reach L (nsKey ''mc'' k) p \<and> n p (nsKey ''mc'' k) \<noteq> None) ps)"
proof -
  have "(\<exists>v\<in>set_option x. Validate (node_validator ''mc'') (nsKey ''mc'' k) v = None) = (x \<noteq> None)" for x
    by (cases x) simp_all
  then show ?thesis by (simp add: peer_values_def)
qed

lemma mesh_values:
  "getValues (node_validator ''mc'') (mesh self others reach) (nsKey ''mc'' k) n =
     (case n self (nsKey ''mc'' k) of None \<Rightarrow> [] | Some v \<Rightarrow> [(self, v)]) @
     map (\<lambda>p. (p, the (n p (nsKey ''mc'' k)))) (filter (\<lambda>p. p \<noteq> self \<and> reach p \<and> n p (nsKey ''mc'' k) \<noteq> None) others)"
proof -
  have f: "filter P (filter (\<lambda>p. p \<noteq> self) others) = filter (\<lambda>p. p \<noteq> self \<and> P p) others" for P by simp
  have e: "filter (\<lambda>p. p \<noteq> self \<and> P p) others = []" if "filter (\<lambda>p. p \<noteq> self) others = []" for P
    using that by (auto simp: filter_empty_conv)
  show ?thesis
    by (cases "filter (\<lambda>p. p \<noteq> self) others = []")
      (simp_all add: getValues_def mesh_peers Let_def peer_values_key f e del: filter_filter split: option.split)
qed

lemma mesh_first:
  "map_option snd (case getValues (node_validator ''mc'') (mesh self others reach) (nsKey ''mc'' k) n of [] \<Rightarrow> None | x # _ \<Rightarrow> Some x) =
     mesh_view self others reach n (nsKey ''mc'' k)"
proof (cases "n self (nsKey ''mc'' k)")
  case None
  show ?thesis
  proof (cases "filter (\<lambda>p. p \<noteq> self \<and> reach p \<and> n p (nsKey ''mc'' k) \<noteq> None) others")
    case (Cons p ps)
    then have "p \<in> set (filter (\<lambda>p. p \<noteq> self \<and> reach p \<and> n p (nsKey ''mc'' k) \<noteq> None) others)" by simp
    then have "n p (nsKey ''mc'' k) \<noteq> None" by auto
    with None Cons show ?thesis by (auto simp: mesh_values mesh_view_def)
  qed (simp add: None mesh_values mesh_view_def)
qed (simp add: mesh_values mesh_view_def)

lemma mesh_get:
  "GetValue (node_validator ''mc'') (mesh self others reach) t (nsKey ''mc'' k) n =
     (case mesh_view self others reach n (nsKey ''mc'' k) of
        None \<Rightarrow> (Inl ErrNotFound, n)
      | Some v \<Rightarrow> (Inr v, \<lambda>p. if p \<in> set others \<and> p \<noteq> self \<and> reach p then (n p)(nsKey ''mc'' k \<mapsto> v) else n p))"
proof -
  let ?V = "node_validator ''mc''" let ?K = "nsKey ''mc'' k" let ?vs = "getValues ?V (mesh self others reach) ?K n"
  show ?thesis
  proof (cases ?vs)
    case Nil
    then show ?thesis using mesh_first [of self others reach k n] by (simp add: GetValue_def)
  next
    case (Cons x vs)
    obtain p v where x: "x = (p, v)" by fastforce
    have v: "mesh_view self others reach n ?K = Some v" using mesh_first [of self others reach k n] Cons x by simp
    obtain qs where qs: "processValues ?V ?K vs (Some (v, [p])) = Some (v, qs)" "set qs = {p} \<union> {q. (q, v) \<in> set vs}"
      using processValues_first [of k vs v "[p]"] by auto
    then have "set qs = {q. (q, v) \<in> set ?vs}" using Cons x by auto
    also have "\<dots> = {q. n q ?K = Some v \<and> (q = self \<or> q \<in> set others \<and> reach q)}"
      unfolding mesh_values by (auto split: option.splits)
    finally have w: "set qs = {q. n q ?K = Some v \<and> (q = self \<or> q \<in> set others \<and> reach q)}" .
    have same: "(n q)(?K \<mapsto> v) = n q" if "n q ?K = Some v" for q using that by auto
    show ?thesis
      using Cons x qs(1) v
      by (auto simp: GetValue_def mesh_peers Let_def push_key w fun_eq_iff same filter_empty_conv)
  qed
qed

lemma mesh_put:
  "PutValue (node_validator ''mc'') (mesh self others reach) t (nsKey ''mc'' k) v n =
     (if filter (\<lambda>p. p \<noteq> self) others = [] then Some ErrLookupFailure else None,
      \<lambda>p. if p = self \<or> p \<in> set others \<and> reach p then (n p)(nsKey ''mc'' k \<mapsto> v) else n p)"
  by (auto simp: PutValue_def mesh_peers Let_def push_key fun_eq_iff filter_empty_conv split: option.split)

lemma mesh_view_cong: "(\<And>p. n p k = n' p k) \<Longrightarrow> mesh_view self others reach n k = mesh_view self others reach n' k"
  by (simp add: mesh_view_def cong: option.case_cong list.case_cong)

lemma mesh_view_put:
  "mesh_view self others reach (\<lambda>p. if p = self \<or> p \<in> set others \<and> reach p then (n p)(nsKey ''mc'' k \<mapsto> v) else n p) =
     (mesh_view self others reach n)(nsKey ''mc'' k \<mapsto> v)"
proof
  fix k'
  show "mesh_view self others reach (\<lambda>p. if p = self \<or> p \<in> set others \<and> reach p then (n p)(nsKey ''mc'' k \<mapsto> v) else n p) k' =
     ((mesh_view self others reach n)(nsKey ''mc'' k \<mapsto> v)) k'"
  proof (cases "k' = nsKey ''mc'' k")
    case True
    then show ?thesis by (simp add: mesh_view_def)
  next
    case False
    then have "mesh_view self others reach (\<lambda>p. if p = self \<or> p \<in> set others \<and> reach p then (n p)(nsKey ''mc'' k \<mapsto> v) else n p) k' =
        mesh_view self others reach n k'" by (intro mesh_view_cong) simp
    with False show ?thesis by simp
  qed
qed

lemma mesh_view_get:
  assumes "mesh_view self others reach n (nsKey ''mc'' k) = Some v"
  shows "mesh_view self others reach (\<lambda>p. if p \<in> set others \<and> p \<noteq> self \<and> reach p then (n p)(nsKey ''mc'' k \<mapsto> v) else n p) =
    mesh_view self others reach n" (is "mesh_view self others reach ?n = _")
proof
  fix k'
  show "mesh_view self others reach ?n k' = mesh_view self others reach n k'"
  proof (cases "k' = nsKey ''mc'' k")
    case False
    then show ?thesis by (intro mesh_view_cong) simp
  next
    case True
    show ?thesis
    proof (cases "n self k'")
      case None
      then obtain p ps where ps: "filter (\<lambda>p. p \<noteq> self \<and> reach p \<and> n p k' \<noteq> None) others = p # ps"
        using assms True by (auto simp: mesh_view_def split: list.splits)
      then have "p \<in> set (filter (\<lambda>p. p \<noteq> self \<and> reach p \<and> n p k' \<noteq> None) others)" by simp
      then have "\<exists>q\<in>set others. q \<noteq> self \<and> reach q" by auto
      then obtain q qs where qs: "filter (\<lambda>q. q \<noteq> self \<and> reach q) others = q # qs"
        by (metis (mono_tags, lifting) filter_empty_conv list.exhaust)
      have "filter (\<lambda>q. q \<noteq> self \<and> reach q \<and> ?n q k' \<noteq> None) others = filter (\<lambda>q. q \<noteq> self \<and> reach q) others"
        by (rule filter_cong) (auto simp: True)
      moreover have "q \<in> set (filter (\<lambda>q. q \<noteq> self \<and> reach q) others)" by (simp add: qs)
      then have "?n q k' = Some v" by (auto simp: True)
      ultimately have "mesh_view self others reach ?n k' = Some v" using None qs by (simp add: mesh_view_def True)
      then show ?thesis using assms True by simp
    qed (simp add: mesh_view_def)
  qed
qed

interpretation mesh_node: dht_up "replica_cfg ''mc'' (mesh self others reach)" "mesh_view self others reach" for self others reach
proof unfold_locales
  fix t k v n e n'
  assume "kad_put (cf_kad (replica_cfg ''mc'' (mesh self others reach))) t (nsKey (cf_ns (replica_cfg ''mc'' (mesh self others reach))) k) v n = (e, n')"
  then show "mesh_view self others reach n' = (mesh_view self others reach n)(nsKey (cf_ns (replica_cfg ''mc'' (mesh self others reach))) k \<mapsto> v)"
    using mesh_view_put [of self others reach n k v] by (auto simp: replica_cfg_def mesh_put)
next
  fix t k n r n'
  assume "kad_get (cf_kad (replica_cfg ''mc'' (mesh self others reach))) t (nsKey (cf_ns (replica_cfg ''mc'' (mesh self others reach))) k) n = (r, n')"
  then show "mesh_view self others reach n' = mesh_view self others reach n"
    using mesh_view_get [of self others reach n k] by (auto simp: replica_cfg_def mesh_get split: option.splits)
qed (auto simp: replica_cfg_def mesh_get mesh_put split: option.splits if_splits)

subsection \<open>Everybody reachable\<close>

text \<open>A step of one node keeps all datastores equal to the map.\<close>

lemma agree_put:
  assumes "p \<in> set nodes" "q \<in> set nodes" "p \<noteq> q" "\<forall>r\<in>set nodes. n r = m"
  shows "\<exists>e n' m'. PutValue (node_validator ''mc'') (mesh p nodes (\<lambda>_. True)) t (nsKey ''mc'' k) v n = (e, n') \<and>
    lan_put ''mc'' t (nsKey ''mc'' k) v m = (e, m') \<and> (\<forall>r\<in>set nodes. n' r = m')"
  using assms by (auto simp: mesh_put lan_put_def filter_empty_conv)

lemma agree_get:
  assumes "p \<in> set nodes" "\<forall>r\<in>set nodes. n r = m"
  shows "\<exists>r n'. GetValue (node_validator ''mc'') (mesh p nodes (\<lambda>_. True)) t (nsKey ''mc'' k) n = (r, n') \<and>
    map_get t (nsKey ''mc'' k) m = (r, m) \<and> (\<forall>q\<in>set nodes. n' q = m)"
proof -
  have f: "filter (\<lambda>q. q \<noteq> p \<and> n q (nsKey ''mc'' k) \<noteq> None) nodes = []" if "m (nsKey ''mc'' k) = None"
    using assms(2) that by (auto simp: filter_empty_conv)
  have "mesh_view p nodes (\<lambda>_. True) n (nsKey ''mc'' k) = m (nsKey ''mc'' k)"
    using assms f by (simp add: mesh_view_def split: option.split)
  with assms show ?thesis by (auto simp: mesh_get map_get_def ErrNotFound_def fun_upd_idem split: option.split)
qed

subsection \<open>Properties\<close>

text \<open>C28: replication is invisible while messages arrive. If all nodes start with the same documents and every
  node reaches every other, then any sequence of reads and writes by any of the nodes is answered as
  one shared map would answer it, and leaves all nodes with that map.\<close>

theorem replicas_refine_map:
  assumes "set (map fst cs) \<subseteq> set nodes" "\<forall>p\<in>set nodes. \<exists>q\<in>set nodes. p \<noteq> q" "\<forall>p\<in>set nodes. n p = m"
  shows "fst (kad_calls (\<lambda>p. mesh p nodes (\<lambda>_. True)) cs n) = fst (map_calls (map snd cs) m) \<and>
    (\<forall>p\<in>set nodes. snd (kad_calls (\<lambda>p. mesh p nodes (\<lambda>_. True)) cs n) p = snd (map_calls (map snd cs) m))"
  using assms(1,3)
proof (induction cs arbitrary: n m)
  case (Cons c cs)
  obtain p op where c: "c = (p, op)" by fastforce
  with Cons.prems have p: "p \<in> set nodes" and cs: "set (map fst cs) \<subseteq> set nodes" by auto
  from p assms(2) obtain q where q: "q \<in> set nodes" "p \<noteq> q" by auto
  show ?case
  proof (cases op)
    case (KadPut k v)
    from agree_put [OF p q Cons.prems(2), of "5 * second" k v] obtain e n' m' where
      n': "PutValue (node_validator ''mc'') (mesh p nodes (\<lambda>_. True)) (5 * second) (nsKey ''mc'' k) v n = (e, n')"
        "lan_put ''mc'' (5 * second) (nsKey ''mc'' k) v m = (e, m')" "\<forall>r\<in>set nodes. n' r = m'" by blast
    from Cons.IH [OF cs n'(3)] show ?thesis using n'(1,2) by (simp add: c KadPut split_beta)
  next
    case (KadGet k)
    from agree_get [OF p Cons.prems(2), of "3 * second" k] obtain r n' where
      n': "GetValue (node_validator ''mc'') (mesh p nodes (\<lambda>_. True)) (3 * second) (nsKey ''mc'' k) n = (r, n')"
        "map_get (3 * second) (nsKey ''mc'' k) m = (r, m)" "\<forall>q\<in>set nodes. n' q = m" by blast
    from Cons.IH [OF cs n'(3)] show ?thesis using n'(1,2) by (simp add: c KadGet split_beta)
  qed
qed simp


text \<open>A write that arrives is read. After a node's write that reached a peer, that peer reads the written
  value, whatever it had before and whatever other nodes hold.\<close>

lemma delivered_write_read:
  assumes "p \<noteq> q" "p \<in> set others" "reach p"
    and "PutValue (node_validator ''mc'') (mesh q others reach) t (nsKey ''mc'' k) v n = (e, n')"
  shows "fst (GetValue (node_validator ''mc'') (mesh p others' reach') t' (nsKey ''mc'' k) n') = Inr v"
  using assms by (auto simp: mesh_put mesh_get mesh_view_def)

text \<open>C29: a read can undo a newer write. A writer's push to a peer is lost; the writer is told that the write
  succeeded. When the peer, which still has the old document, reads the key, it gets the old
  document, because the validator's selection always keeps the first value and that is its own;
  and the read pushes the old document to the writer, which from then on reads the old document
  itself. The versions inside the documents play no part.\<close>

theorem stale_read_undoes_write:
  assumes "p \<noteq> q" "n p (nsKey ''mc'' k) = Some (Doc old)" "decf old = (x, True)"
    and "PutJSON (replica_cfg ''mc'' (mesh q [p] (\<lambda>_. False))) k new \<lparr>net = n, localStore = lq\<rparr> = (e, d1)"
    and "GetJSON (replica_cfg ''mc'' (mesh p [q] (\<lambda>_. True))) z decf k t (d1\<lparr>localStore := lp\<rparr>) = (r2, d2)"
    and "GetJSON (replica_cfg ''mc'' (mesh q [p] (\<lambda>_. True))) z decf k t (d2\<lparr>localStore := lq\<rparr>) = (r3, d3)"
  shows "e = None \<and> net d1 q (nsKey ''mc'' k) = Some (Doc new) \<and> r2 = (x, None) \<and> r3 = (x, None)"
  using assms(1-6)
  by (auto simp: PutJSON_def GetJSON_def read_fallback_def replica_cfg_def mesh_put mesh_get mesh_view_def unmarshal_Doc split: if_splits)

subsection \<open>Examples\<close>

theorem replicas_refine_map_witness:
  "fst (kad_calls (\<lambda>p. mesh p [''a'', ''b'', ''c''] (\<lambda>_. True))
     [(''a'', KadPut ''k'' (Doc JNull)), (''b'', KadGet ''k''), (''b'', KadPut ''k'' (Raw ''x'')), (''c'', KadGet ''k''), (''a'', KadGet ''j'')]
     (\<lambda>_. Map.empty)) = [Wrote None, Got (Inr (Doc JNull)), Wrote None, Got (Inr (Raw ''x'')), Got (Inl ErrNotFound)]"
  using replicas_refine_map [of "[(''a'', KadPut ''k'' (Doc JNull)), (''b'', KadGet ''k''), (''b'', KadPut ''k'' (Raw ''x'')),
      (''c'', KadGet ''k''), (''a'', KadGet ''j'')]" "[''a'', ''b'', ''c'']" "\<lambda>_. Map.empty" Map.empty]
  by (simp add: nsKey_inj lan_put_def map_get_def ErrNotFound_def)

lemma delivered_write_read_witness:
  "fst (GetValue (node_validator ''mc'') (mesh ''p'' [''q''] (\<lambda>_. True)) 1 (nsKey ''mc'' ''k'')
     (snd (PutValue (node_validator ''mc'') (mesh ''q'' [''p''] (\<lambda>_. True)) 1 (nsKey ''mc'' ''k'') (Doc JNull) (\<lambda>_. Map.empty)))) =
   Inr (Doc JNull)"
  using delivered_write_read [of "''p''" "''q''" "[''p'']" "\<lambda>_. True" 1 "''k''" "Doc JNull" "\<lambda>_. Map.empty"] by (simp add: prod_eq_iff)

theorem stale_read_undoes_write_witness:
  "\<exists>d1 d2 r3 d3. PutJSON (replica_cfg ''mc'' (mesh ''q'' [''p''] (\<lambda>_. False))) ''k'' (enc_index (zero_index\<lparr>ix_Version := 1\<rparr>))
       \<lparr>net = (\<lambda>_. [nsKey ''mc'' ''k'' \<mapsto> Doc (enc_index zero_index)]), localStore = Map.empty\<rparr> = (None, d1) \<and>
     GetJSON (replica_cfg ''mc'' (mesh ''p'' [''q''] (\<lambda>_. True))) zero_index dec_index ''k'' 1 (d1\<lparr>localStore := Map.empty\<rparr>) =
       ((zero_index, None), d2) \<and>
     GetJSON (replica_cfg ''mc'' (mesh ''q'' [''p''] (\<lambda>_. True))) zero_index dec_index ''k'' 1 (d2\<lparr>localStore := Map.empty\<rparr>) = (r3, d3) \<and>
     r3 = (zero_index, None)"
proof -
  let ?d = "\<lparr>net = (\<lambda>_ :: string. [nsKey ''mc'' ''k'' \<mapsto> Doc (enc_index zero_index)]), localStore = Map.empty\<rparr>"
  obtain e d1 where 1: "PutJSON (replica_cfg ''mc'' (mesh ''q'' [''p''] (\<lambda>_. False))) ''k'' (enc_index (zero_index\<lparr>ix_Version := 1\<rparr>)) ?d = (e, d1)"
    by fastforce
  obtain r2 d2 where 2: "GetJSON (replica_cfg ''mc'' (mesh ''p'' [''q''] (\<lambda>_. True))) zero_index dec_index ''k'' 1 (d1\<lparr>localStore := Map.empty\<rparr>) = (r2, d2)"
    by fastforce
  obtain r3 d3 where 3: "GetJSON (replica_cfg ''mc'' (mesh ''q'' [''p''] (\<lambda>_. True))) zero_index dec_index ''k'' 1 (d2\<lparr>localStore := Map.empty\<rparr>) = (r3, d3)"
    by fastforce
  from stale_read_undoes_write [where x = zero_index and decf = dec_index, OF _ _ _ 1 2 3] 1 2 3 show ?thesis by simp
qed

end
