(* ===== verification/Dht_Keeps.thy ===== *)
theory Dht_Keeps
  imports Server_Runs
begin

text \<open>
  Properties of the network and the fallback store that the program keeps. The locale \<open>dht_keeps\<close> says
  that a property survives one write and one read of the network, and the removal of a key from the
  fallback store. Every access of the control server to documents is composed of those, so the property
  survives every handler, every pass of the loops and every run of the server.
\<close>

locale dht_keeps =
  fixes c :: "'n dht_cfg" and I :: "'n dht \<Rightarrow> bool"
  assumes keeps_put: "I d \<Longrightarrow> kad_put (cf_kad c) t (nsKey (cf_ns c) k) v (net d) = (e, n') \<Longrightarrow>
      (case e of
         None \<Rightarrow> I (d\<lparr>net := n'\<rparr>)
       | Some m \<Rightarrow> if no_peers m then I (d\<lparr>net := n', localStore := (localStore d)(nsKey (cf_ns c) k \<mapsto> v)\<rparr>) else I (d\<lparr>net := n'\<rparr>))"
    and keeps_get: "I d \<Longrightarrow> kad_get (cf_kad c) t (nsKey (cf_ns c) k) (net d) = (r, n') \<Longrightarrow> I (d\<lparr>net := n'\<rparr>)"
    and keeps_forget: "I d \<Longrightarrow> I (d\<lparr>localStore := (localStore d)(nsKey (cf_ns c) k := None)\<rparr>)"
begin

lemma keeps_PutJSON: "I d \<Longrightarrow> I (snd (PutJSON c k j d))"
  using keeps_put [of d "withTimeout (5 * second)" k "Doc j"]
  by (cases "kad_put (cf_kad c) (withTimeout (5 * second)) (nsKey (cf_ns c) k) (Doc j) (net d)") (auto simp: PutJSON_def split: option.splits)

lemma keeps_DelJSON: "I d \<Longrightarrow> I (snd (DelJSON c k d))"
  using keeps_PutJSON [of d k "JObj []"] keeps_forget
  by (cases "PutJSON c k (JObj []) d") (auto simp: DelJSON_def split: option.splits)

lemma keeps_read: "I d \<Longrightarrow> I (snd (read_fallback c t (nsKey (cf_ns c) k) d))"
  using keeps_get [of d t k]
  by (cases "kad_get (cf_kad c) t (nsKey (cf_ns c) k) (net d)") (auto simp: read_fallback_def split: sum.splits option.splits)

lemma keeps_GetJSON: "I d \<Longrightarrow> I (snd (GetJSON c z decf k t d))"
  using keeps_read [of d "withTimeout t" k] by (auto simp: GetJSON_def split: prod.splits sum.splits)

lemma keeps_cas_attempt:
  assumes "I d"
  shows "I (snd (cas_attempt c (nsKey (cf_ns c) k) check now d))"
proof -
  obtain r d1 where r: "read_fallback c (withTimeout 3000000000) (nsKey (cf_ns c) k) d = (r, d1)" by fastforce
  then have d1: "I d1" using keeps_read [OF assms, of "withTimeout 3000000000" k] by simp
  obtain ok nxt err where ch: "check now (case r of Inr v \<Rightarrow> v | Inl _ \<Rightarrow> Raw []) = (ok, nxt, err)" by (metis prod_cases3)
  obtain e n2 where put: "kad_put (cf_kad c) (withTimeout 5000000000) (nsKey (cf_ns c) k) nxt (net d1) = (e, n2)" by fastforce
  obtain r3 d3 where r3: "read_fallback c (withTimeout 3000000000) (nsKey (cf_ns c) k) (d1\<lparr>net := n2\<rparr>) = (r3, d3)" by fastforce
  note d2 = keeps_put [OF d1 put]
  have "I d3" if "e = None" using keeps_read [of "d1\<lparr>net := n2\<rparr>" "withTimeout 3000000000" k] d2 that by (simp add: r3)
  with d1 d2 show ?thesis
    by (cases e; cases r3; cases err) (simp_all add: cas_attempt_def Let_def r ch put r3)
qed

lemma keeps_cas_loop: "I d \<Longrightarrow> I (snd (cas_loop c (nsKey (cf_ns c) k) check clk rnd m i lastErr slept d))"
proof (induction m arbitrary: i lastErr slept d)
  case (Suc m)
  from keeps_cas_attempt [OF Suc.prems, of k check "clk i"] Suc.IH show ?case
    by (cases "cas_attempt c (nsKey (cf_ns c) k) check (clk i) d") (auto split: cas_outcome.splits)
qed simp

lemma keeps_PutJSONCAS: "I d \<Longrightarrow> I (snd (PutJSONCAS c k check clk rnd d))"
  by (simp add: PutJSONCAS_def keeps_cas_loop)

lemmas keeps_ops = keeps_PutJSON keeps_DelJSON keeps_GetJSON keeps_PutJSONCAS

lemma keeps_announceOnce: "I (fst s) \<Longrightarrow> I (fst (announceOnce env c i clk s))"
  by (simp add: announceOnce_def announceAds_def Let_def split_beta keeps_ops)

lemma keeps_announce_all: "I (fst s) \<Longrightarrow> I (fst (announce_all env c clk n ids s))"
  by (induction ids arbitrary: n s) (simp_all add: keeps_announceOnce)

lemma keeps_addToIndex: "I d \<Longrightarrow> I (snd (addToIndex c ns i shard now d))"
  by (simp add: addToIndex_def Let_def split_beta keeps_ops)

lemma keeps_finish_dht: "I d \<Longrightarrow> I (finish_dht c ns i succ now d)"
  by (simp add: finish_dht_def Let_def split_beta keeps_ops)

lemma keeps_updateDHTStateQueued: "I d \<Longrightarrow> I (updateDHTStateQueued c i now d)"
  by (simp add: updateDHTStateQueued_def Let_def split_beta keeps_ops)

lemma keeps_createTask: "I d \<Longrightarrow> I (snd (createTask c ns i img cmd now clk rnd d))"
  by (simp add: createTask_def split_beta keeps_ops split: option.split)

lemma keeps_claim_dht: "sv_dht sv = c \<Longrightarrow> I (w_dht w) \<Longrightarrow> I (w_dht (snd (claim_dht sv ce i a ol w)))"
  by (simp add: claim_dht_def Let_def split_beta keeps_ops split: option.split)

lemma keeps_handlers:
  assumes "sv_dht sv = c" "I (w_dht w)"
  shows "I (w_dht (snd (finishHandler sv ce r w)))" "I (w_dht (snd (createTaskHandler sv ce r w)))"
    "I (w_dht (snd (getTaskHandler sv ce r w)))" "I (w_dht (snd (listTasksHandler sv ce r w)))"
    "I (w_dht (snd (statsHandler sv ce r w)))" "I (w_dht (snd (manifestHandler sv ce r w)))"
    "I (w_dht (snd (tryClaimHandler sv ce r w)))" "I (w_dht (snd (releaseHandler sv ce r w)))"
    "I (w_dht (snd (heartbeatHandler sv ce r w)))" "I (w_dht (snd (forceRequeueHandler sv ce r w)))"
    "I (w_dht (snd (debugLeaseHandler sv ce r w)))" "I (w_dht (snd (logsHandler sv ce r w)))"
    "I (w_dht (snd (healthHandler sv ce r w)))"
proof -
  note defs = Let_def split_beta unauthorized_def bad_method_def bad_path_def bad_json_def enqueue_def
  note rules = assms keeps_ops keeps_addToIndex keeps_finish_dht keeps_claim_dht
  show "I (w_dht (snd (finishHandler sv ce r w)))" by (simp add: finishHandler_def defs rules split: option.split)
  show "I (w_dht (snd (createTaskHandler sv ce r w)))"
    by (simp add: createTaskHandler_def publish_task_def defs rules split: option.split)
  show "I (w_dht (snd (getTaskHandler sv ce r w)))" by (simp add: getTaskHandler_def defs rules split: sum.split)
  show "I (w_dht (snd (listTasksHandler sv ce r w)))" by (simp add: listTasksHandler_def defs rules split: sum.split)
  show "I (w_dht (snd (statsHandler sv ce r w)))" by (simp add: statsHandler_def defs rules split: sum.split)
  show "I (w_dht (snd (manifestHandler sv ce r w)))"
    by (simp add: manifestHandler_def store_manifest_def defs rules split: option.split)
  show "I (w_dht (snd (tryClaimHandler sv ce r w)))"
    by (simp add: tryClaimHandler_def defs rules split: option.split sum.split)
  show "I (w_dht (snd (releaseHandler sv ce r w)))"
    by (simp add: releaseHandler_def release_dht_def defs rules split: option.split)
  show "I (w_dht (snd (heartbeatHandler sv ce r w)))" by (simp add: heartbeatHandler_def defs rules split: option.split)
  show "I (w_dht (snd (forceRequeueHandler sv ce r w)))" by (simp add: forceRequeueHandler_def defs rules)
  show "I (w_dht (snd (debugLeaseHandler sv ce r w)))" by (simp add: debugLeaseHandler_def defs rules)
  show "I (w_dht (snd (logsHandler sv ce r w)))" by (simp add: logsHandler_def defs rules)
  show "I (w_dht (snd (healthHandler sv ce r w)))" by (simp add: healthHandler_def defs rules)
qed

lemma keeps_mount:
  assumes "sv_dht sv = c" "I (w_dht w)"
  shows "I (w_dht (snd (mountHTTP sv ce r w)))"
proof -
  note hs = keeps_handlers [OF assms]
  have sub: "I (w_dht (snd (h sv ce r w)))" if "find (\<lambda>(pat, _). HasPrefix (rq_path r) pat) subtrees = Some (pat, h)" for pat h
    using find_SomeD [OF that] hs assms(2) by (auto simp: subtrees_def tasks_sub_def jobs_sub_def api_jobs_sub_def)
  have ex: "I (w_dht (snd (h sv ce r w)))" if "map_of exact_paths (rq_path r) = Some h" for h
    using that hs assms(2) by (auto simp: exact_paths_def tasks_root_def bad_method_def split: if_splits)
  show ?thesis using sub ex assms(2) by (auto simp: mountHTTP_def Let_def split: option.split)
qed

lemma keeps_requeue_all:
  assumes "sv_dht sv = c" "I (w_dht w)"
  shows "I (w_dht (requeue_all sv es now n ids w))"
  using assms(2)
proof (induction ids arbitrary: n w)
  case (Cons i ids)
  then have "I (w_dht (requeue_one sv (es n) now i w))"
    by (simp add: requeue_one_def assms(1) enqueue_def keeps_updateDHTStateQueued keeps_ops split: prod.split option.split)
  then show ?case using Cons.IH by simp
qed simp

lemma keeps_restore_all:
  assumes "sv_dht sv = c" "I (w_dht w)"
  shows "I (w_dht (restore_all sv shards rclk n js w))"
  using assms(2)
proof (induction js arbitrary: n w)
  case (Cons j js)
  then have "I (w_dht (restore_job sv (shards n) (rclk n) j w))"
    by (simp add: restore_job_def assms(1) enqueue_def Let_def keeps_addToIndex keeps_ops)
  then show ?case using Cons.IH by simp
qed simp

lemma keeps_create_all:
  assumes "sv_dht sv = c" "I (w_dht w)"
  shows "I (w_dht (create_all sv img cmd es nows clks rnds n ids w))"
  using assms(2)
proof (induction ids arbitrary: n w)
  case (Cons i ids)
  then show ?case by (simp add: create_one_def assms(1) enqueue_def Let_def keeps_createTask)
qed simp

lemma keeps_passes:
  assumes "sv_dht sv = c" "I (w_dht w)"
  shows "I (w_dht (requeue_pass sv e es now w))" "I (w_dht (reannounce_pass e w))" "I (w_dht (announced sv ord now clk w))"
    "I (w_dht (restoreJobsFromDemand sv e shards rclk w))"
proof -
  have "w_dht (fold (\<lambda>j. enqueue (j_ID j)) js v) = w_dht v" for js :: "db_job list" and v :: "'n world"
    by (induction js arbitrary: v) (simp_all add: enqueue_def)
  then show "I (w_dht (reannounce_pass e w))" by (simp add: reannounce_pass_def assms split: sum.split)
qed (simp_all add: requeue_pass_def announced_def process_def restoreJobsFromDemand_def split_beta assms keeps_requeue_all
    keeps_restore_all keeps_announce_all split: sum.split)

lemma keeps_step:
  assumes "server_step sv a resp w w'" "sv_dht sv = c" "I (w_dht w)" "\<And>d. a = Others d \<Longrightarrow> I d"
  shows "I (w_dht w')"
  using assms
proof (induction rule: server_step.induct)
  case (serve ce r w resp w')
  with keeps_mount [of sv w ce r] show ?case by simp
next
  case (restart e shards rclk img cmd ids es now clk rnd w)
  then show ?case unfolding restarted_def by (intro keeps_create_all keeps_passes) simp_all
qed (simp_all add: keeps_passes)

lemma keeps_run:
  assumes "server_run sv h w w'" "sv_dht sv = c" "I (w_dht w)" "\<And>d resp. (Others d, resp) \<in> set h \<Longrightarrow> I d"
  shows "I (w_dht w')"
  using assms(1,3,4)
proof induction
  case (cons a resp w w1 h w')
  from keeps_step [OF cons.hyps(1) assms(2)] cons.prems have "I (w_dht w1)" by auto
  with cons.IH cons.prems show ?case by auto
qed

end

end
