(* ===== verification/Kad_Agree.thy ===== *)
theory Kad_Agree
  imports Kad_Replicas Dht_Keeps
begin

text \<open>
  The replicas of a DHT whose nodes reach each other agree: the locale \<open>dht_keeps\<close> interpreted for the
  agreement of all datastores of a mesh, so every run of the control server leaves all nodes with the
  same documents.
\<close>

text \<open>All datastores of the mesh are the same and nothing had to go to the fallback store.\<close>

definition agreed :: "'p list \<Rightarrow> 'p stores dht \<Rightarrow> bool" where
  "agreed nodes d \<longleftrightarrow> (\<forall>p\<in>set nodes. \<forall>q\<in>set nodes. net d p = net d q) \<and> localStore d = Map.empty"

text \<open>A node of the mesh that has a peer.\<close>

definition connected :: "'p \<Rightarrow> 'p list \<Rightarrow> bool" where
  "connected p nodes \<longleftrightarrow> p \<in> set nodes \<and> (\<exists>q\<in>set nodes. q \<noteq> p)"

abbreviation replica :: "'p list \<Rightarrow> 'p \<Rightarrow> 'p stores dht_cfg" where
  "replica nodes p \<equiv> replica_cfg ''mc'' (mesh p nodes (\<lambda>_. True))"

abbreviation replica_view :: "'p list \<Rightarrow> 'p \<Rightarrow> 'p stores \<Rightarrow> string \<rightharpoonup> payload" where
  "replica_view nodes p \<equiv> mesh_view p nodes (\<lambda>_. True)"

text \<open>A server for the examples, on a node \<open>s\<close> of a DHT with another node \<open>a\<close>.\<close>

definition replica_server :: "(string stores) server" where
  "replica_server =
     \<lparr>sv_dht = replica [''s'', ''a''] ''s'', sv_ns = ''mc'', sv_env = sv_env sample_server, sv_peer = sv_peer sample_server,
      sv_maddr = sv_maddr sample_server\<rparr>"

definition replica_world :: "(string stores) world" where
  "replica_world = \<lparr>w_db = [], w_dht = \<lparr>net = (\<lambda>_. Map.empty), localStore = Map.empty\<rparr>,
     w_mgr = NewAnnounceManager ''mc'' (30 * second) (3 * second)\<rparr>"

lemma agreed_same: "agreed nodes d \<Longrightarrow> p \<in> set nodes \<Longrightarrow> q \<in> set nodes \<Longrightarrow> net d q = net d p"
  unfolding agreed_def by blast

lemma agreed_iff: "p \<in> set nodes \<Longrightarrow> agreed nodes d \<longleftrightarrow> (\<forall>q\<in>set nodes. net d q = net d p) \<and> localStore d = Map.empty"
  unfolding agreed_def by metis

lemma agreed_put:
  assumes "connected p nodes" "agreed nodes d"
    and "PutValue (node_validator ''mc'') (mesh p nodes (\<lambda>_. True)) t (nsKey ''mc'' k) v (net d) = (e, n')"
  shows "e = None \<and> agreed nodes (d\<lparr>net := n'\<rparr>)"
proof -
  obtain q where p: "p \<in> set nodes" "q \<in> set nodes" "p \<noteq> q" using assms(1) by (auto simp: connected_def)
  have d: "\<forall>q\<in>set nodes. net d q = net d p" "localStore d = Map.empty" using assms(2) agreed_iff [OF p(1)] by auto
  from agree_put [OF p d(1), of t k v] assms(3) d(2) show ?thesis by (auto simp: lan_put_def agreed_def)
qed

lemma agreed_get:
  assumes "connected p nodes" "agreed nodes d"
    and "GetValue (node_validator ''mc'') (mesh p nodes (\<lambda>_. True)) t (nsKey ''mc'' k) (net d) = (r, n')"
  shows "agreed nodes (d\<lparr>net := n'\<rparr>)"
proof -
  have p: "p \<in> set nodes" using assms(1) by (simp add: connected_def)
  have d: "\<forall>q\<in>set nodes. net d q = net d p" "localStore d = Map.empty" using assms(2) agreed_iff [OF p] by auto
  from agree_get [OF p d(1), of t k] assms(3) d(2) show ?thesis by (auto simp: agreed_def)
qed

lemma agreed_forget: "agreed nodes d \<Longrightarrow> agreed nodes (d\<lparr>localStore := (localStore d)(k := None)\<rparr>)"
proof -
  assume a: "agreed nodes d"
  then have "localStore d = Map.empty" unfolding agreed_def by blast
  then have "d\<lparr>localStore := (localStore d)(k := None)\<rparr> = d" by (cases d) simp
  with a show ?thesis by simp
qed

interpretation mesh_keeps: dht_keeps "replica nodes p" "\<lambda>d. connected p nodes \<longrightarrow> agreed nodes d" for nodes p
proof unfold_locales
  fix d t k v e n'
  assume "connected p nodes \<longrightarrow> agreed nodes d" "kad_put (cf_kad (replica nodes p)) t (nsKey (cf_ns (replica nodes p)) k) v (net d) = (e, n')"
  with agreed_put [of p nodes d t k v e n']
  show "case e of
      None \<Rightarrow> connected p nodes \<longrightarrow> agreed nodes (d\<lparr>net := n'\<rparr>)
    | Some m \<Rightarrow> if no_peers m
        then connected p nodes \<longrightarrow> agreed nodes (d\<lparr>net := n', localStore := (localStore d)(nsKey (cf_ns (replica nodes p)) k \<mapsto> v)\<rparr>)
        else connected p nodes \<longrightarrow> agreed nodes (d\<lparr>net := n'\<rparr>)"
    by (auto simp: replica_cfg_def split: option.split)
next
  fix d t k r n'
  assume "connected p nodes \<longrightarrow> agreed nodes d" "kad_get (cf_kad (replica nodes p)) t (nsKey (cf_ns (replica nodes p)) k) (net d) = (r, n')"
  with agreed_get [of p nodes d t k r n'] show "connected p nodes \<longrightarrow> agreed nodes (d\<lparr>net := n'\<rparr>)" by (simp add: replica_cfg_def)
next
  fix d k
  show "connected p nodes \<longrightarrow> agreed nodes (d\<lparr>localStore := (localStore d)(nsKey (cf_ns (replica nodes p)) k := None)\<rparr>)"
    if "connected p nodes \<longrightarrow> agreed nodes d" using that agreed_forget by blast
qed

text \<open>Where all datastores agree, every node reads the same documents.\<close>

lemma agreed_view:
  assumes "agreed nodes d" "p \<in> set nodes"
  shows "replica_view nodes p (net d) = net d p"
proof
  fix k
  show "replica_view nodes p (net d) k = net d p k"
  proof (cases "net d p k")
    case None
    then have "filter (\<lambda>q. q \<noteq> p \<and> net d q k \<noteq> None) nodes = []"
      using agreed_same [OF assms] by (auto simp: filter_empty_conv)
    with None show ?thesis by (simp add: mesh_view_def)
  qed (simp add: mesh_view_def)
qed

lemma agreed_docs:
  assumes "agreed nodes d" "p \<in> set nodes" "q \<in> set nodes"
  shows "doc (replica nodes p) (replica_view nodes p) d = doc (replica nodes q) (replica_view nodes q) d"
proof -
  have "net d p = net d q" by (rule agreed_same [OF assms(1,3,2)])
  moreover have "cf_ns (replica nodes r) = ''mc''" for r by (simp add: replica_cfg_def)
  ultimately show ?thesis by (simp only: fun_eq_iff doc_def agreed_view [OF assms(1,2)] agreed_view [OF assms(1,3)]) simp
qed

subsection \<open>Properties\<close>



end
