(* ===== verification/Api_Views.thy ===== *)
theory Api_Views
  imports Control_Publish
begin

text \<open>
  The wire types the repository declares for its readers: the job view of \<open>internal/lease/types.go\<close>, the
  endpoint of \<open>internal/task/types.go\<close>, the response header of \<open>pkg/p2p/protocol.go\<close>, the manifest
  advertisement of \<open>cmd/control/control_http.go\<close>, and the job statuses of \<open>internal/lease/store.go\<close>. Their
  encoders and decoders are the ones \<open>encoding/json\<close> derives from the struct tags. No code of the
  repository fills them in; the properties relate them to what the server does answer.
\<close>

definition job_statuses :: "string list" where
  "job_statuses = [''queued'', ''assigned'', ''running'', ''succeeded'', ''failed'']"

record job_meta =
  jm_ID :: string
  jm_Image :: string
  jm_Command :: "string list"
  jm_CreatedAt :: time
  jm_RetryCount :: int

record job_state =
  js_ID :: string
  js_Status :: string
  js_UpdatedAt :: time
  js_Version :: i64
  js_AssignedTo :: string
  js_LeaseExpiresAt :: time
  js_FencingToken :: string

type_synonym metric_kv = "(string \<times> json) list"

record job_artifact =
  ja_Name :: string
  ja_CID :: string

record job_result =
  jr_Status :: string
  jr_FinalMetrics :: metric_kv
  jr_ResultRootCID :: string
  jr_Artifacts :: "job_artifact list"

record job =
  jb_Meta :: "job_meta option"
  jb_State :: "job_state option"
  jb_Result :: "job_result option"

record task_endpoint =
  te_TaskID :: string
  te_Proto :: string
  te_Endpoint :: string
  te_Updated :: time

record get_response =
  gs_Size :: i64
  gs_Err :: string

record manifest_ad =
  mn_RootCID :: string
  mn_Providers :: "provider list"
  mn_Rendezvous :: string
  mn_Transports :: "string list"
  mn_Exp :: time

definition zero_job_meta :: job_meta where
  "zero_job_meta = \<lparr>jm_ID = [], jm_Image = [], jm_Command = [], jm_CreatedAt = 0, jm_RetryCount = 0\<rparr>"

definition zero_job_state :: job_state where
  "zero_job_state = \<lparr>js_ID = [], js_Status = [], js_UpdatedAt = 0, js_Version = 0, js_AssignedTo = [],
     js_LeaseExpiresAt = 0, js_FencingToken = []\<rparr>"

definition zero_job_result :: job_result where
  "zero_job_result = \<lparr>jr_Status = [], jr_FinalMetrics = [], jr_ResultRootCID = [], jr_Artifacts = []\<rparr>"

definition zero_job :: job where
  "zero_job = \<lparr>jb_Meta = None, jb_State = None, jb_Result = None\<rparr>"

subsection \<open>Encoders\<close>

text \<open>\<open>RetryCount\<close> has no tag and keeps its own name; \<open>omitempty\<close> never leaves out a \<open>time.Time\<close>, which is
  a struct.\<close>

definition enc_job_meta :: "job_meta \<Rightarrow> json" where
  "enc_job_meta m = JObj [(''id'', JStr (jm_ID m)), (''image'', JStr (jm_Image m)), (''command'', enc_strs (jm_Command m)),
     (''createdAt'', JTime (jm_CreatedAt m)), (''RetryCount'', JNum (jm_RetryCount m))]"

definition enc_job_state :: "job_state \<Rightarrow> json" where
  "enc_job_state s = JObj (
     (''id'', JStr (js_ID s)) #
     (''status'', JStr (js_Status s)) #
     (''updatedAt'', JTime (js_UpdatedAt s)) #
     (''version'', JNum (sint (js_Version s))) #
     omit (js_AssignedTo s = []) ''assignedTo'' (JStr (js_AssignedTo s)) @
     (''leaseExpiresAt'', JTime (js_LeaseExpiresAt s)) #
     omit (js_FencingToken s = []) ''fencingToken'' (JStr (js_FencingToken s)) @ [])"

definition enc_job_artifact :: "job_artifact \<Rightarrow> json" where
  "enc_job_artifact a = JObj [(''name'', JStr (ja_Name a)), (''cid'', JStr (ja_CID a))]"

definition enc_job_result :: "job_result \<Rightarrow> json" where
  "enc_job_result r = JObj (
     (''status'', JStr (jr_Status r)) #
     omit (jr_FinalMetrics r = []) ''final_metrics'' (JObj (jr_FinalMetrics r)) @
     omit (jr_ResultRootCID r = []) ''result_root_cid'' (JStr (jr_ResultRootCID r)) @
     omit (jr_Artifacts r = []) ''artifacts'' (JArr (map enc_job_artifact (jr_Artifacts r))) @ [])"

definition enc_job :: "job \<Rightarrow> json" where
  "enc_job j = JObj (
     (''meta'', enc_opt enc_job_meta (jb_Meta j)) #
     (''state'', enc_opt enc_job_state (jb_State j)) #
     omit (jb_Result j = None) ''result'' (enc_opt enc_job_result (jb_Result j)) @ [])"

definition enc_task_endpoint :: "task_endpoint \<Rightarrow> json" where
  "enc_task_endpoint e = JObj [(''task_id'', JStr (te_TaskID e)), (''proto'', JStr (te_Proto e)),
     (''endpoint'', JStr (te_Endpoint e)), (''updated'', JTime (te_Updated e))]"

definition enc_get_response :: "get_response \<Rightarrow> json" where
  "enc_get_response r = JObj (
     omit (gs_Size r = 0) ''size'' (JNum (sint (gs_Size r))) @
     omit (gs_Err r = []) ''err'' (JStr (gs_Err r)) @ [])"

definition enc_manifest_ad :: "manifest_ad \<Rightarrow> json" where
  "enc_manifest_ad m = JObj (
     (''root_cid'', JStr (mn_RootCID m)) #
     (''providers'', JArr (map enc_provider (mn_Providers m))) #
     omit (mn_Rendezvous m = []) ''rendezvous'' (JStr (mn_Rendezvous m)) @
     omit (mn_Transports m = []) ''transports'' (enc_strs (mn_Transports m)) @
     (''exp'', JTime (mn_Exp m)) # [])"

subsection \<open>Decoders\<close>

definition set_job_meta :: "job_meta setter" where
  "set_job_meta k v m = (let n = ToLower k in
     if n = ''id'' then put_str v (\<lambda>s. m\<lparr>jm_ID := s\<rparr>) m
     else if n = ''image'' then put_str v (\<lambda>s. m\<lparr>jm_Image := s\<rparr>) m
     else if n = ''command'' then put_list decode_str v (\<lambda>ss. m\<lparr>jm_Command := ss\<rparr>) m
     else if n = ''createdat'' then put_time v (\<lambda>t. m\<lparr>jm_CreatedAt := t\<rparr>) m
     else if n = ''retrycount'' then put_int v (\<lambda>i. m\<lparr>jm_RetryCount := i\<rparr>) m
     else (m, True))"

definition set_job_state :: "job_state setter" where
  "set_job_state k v s = (let n = ToLower k in
     if n = ''id'' then put_str v (\<lambda>x. s\<lparr>js_ID := x\<rparr>) s
     else if n = ''status'' then put_str v (\<lambda>x. s\<lparr>js_Status := x\<rparr>) s
     else if n = ''updatedat'' then put_time v (\<lambda>x. s\<lparr>js_UpdatedAt := x\<rparr>) s
     else if n = ''version'' then put_i64 v (\<lambda>x. s\<lparr>js_Version := x\<rparr>) s
     else if n = ''assignedto'' then put_str v (\<lambda>x. s\<lparr>js_AssignedTo := x\<rparr>) s
     else if n = ''leaseexpiresat'' then put_time v (\<lambda>x. s\<lparr>js_LeaseExpiresAt := x\<rparr>) s
     else if n = ''fencingtoken'' then put_str v (\<lambda>x. s\<lparr>js_FencingToken := x\<rparr>) s
     else (s, True))"

definition set_job_artifact :: "job_artifact setter" where
  "set_job_artifact k v a = (let n = ToLower k in
     if n = ''name'' then put_str v (\<lambda>s. a\<lparr>ja_Name := s\<rparr>) a
     else if n = ''cid'' then put_str v (\<lambda>s. a\<lparr>ja_CID := s\<rparr>) a
     else (a, True))"

definition dec_job_artifact :: "json \<Rightarrow> job_artifact \<times> bool" where
  "dec_job_artifact j = decode_struct \<lparr>ja_Name = [], ja_CID = []\<rparr> set_job_artifact j"

definition set_job_result :: "job_result setter" where
  "set_job_result k v r = (let n = ToLower k in
     if n = ''status'' then put_str v (\<lambda>s. r\<lparr>jr_Status := s\<rparr>) r
     else if n = ''final_metrics'' then put_map v (\<lambda>ms. r\<lparr>jr_FinalMetrics := ms\<rparr>) r
     else if n = ''result_root_cid'' then put_str v (\<lambda>s. r\<lparr>jr_ResultRootCID := s\<rparr>) r
     else if n = ''artifacts'' then put_list dec_job_artifact v (\<lambda>as. r\<lparr>jr_Artifacts := as\<rparr>) r
     else (r, True))"

definition dec_job_meta :: "json \<Rightarrow> job_meta \<times> bool" where
  "dec_job_meta j = decode_struct zero_job_meta set_job_meta j"

definition dec_job_state :: "json \<Rightarrow> job_state \<times> bool" where
  "dec_job_state j = decode_struct zero_job_state set_job_state j"

definition dec_job_result :: "json \<Rightarrow> job_result \<times> bool" where
  "dec_job_result j = decode_struct zero_job_result set_job_result j"

definition set_job :: "job setter" where
  "set_job k v j = (let n = ToLower k in
     if n = ''meta'' then put_ptr dec_job_meta v (\<lambda>x. j\<lparr>jb_Meta := x\<rparr>) j
     else if n = ''state'' then put_ptr dec_job_state v (\<lambda>x. j\<lparr>jb_State := x\<rparr>) j
     else if n = ''result'' then put_ptr dec_job_result v (\<lambda>x. j\<lparr>jb_Result := x\<rparr>) j
     else (j, True))"

definition dec_job :: "json \<Rightarrow> job \<times> bool" where
  "dec_job j = decode_struct zero_job set_job j"

definition set_task_endpoint :: "task_endpoint setter" where
  "set_task_endpoint k v e = (let n = ToLower k in
     if n = ''task_id'' then put_str v (\<lambda>s. e\<lparr>te_TaskID := s\<rparr>) e
     else if n = ''proto'' then put_str v (\<lambda>s. e\<lparr>te_Proto := s\<rparr>) e
     else if n = ''endpoint'' then put_str v (\<lambda>s. e\<lparr>te_Endpoint := s\<rparr>) e
     else if n = ''updated'' then put_time v (\<lambda>t. e\<lparr>te_Updated := t\<rparr>) e
     else (e, True))"

definition dec_task_endpoint :: "json \<Rightarrow> task_endpoint \<times> bool" where
  "dec_task_endpoint j = decode_struct \<lparr>te_TaskID = [], te_Proto = [], te_Endpoint = [], te_Updated = 0\<rparr> set_task_endpoint j"

definition set_get_response :: "get_response setter" where
  "set_get_response k v r = (let n = ToLower k in
     if n = ''size'' then put_i64 v (\<lambda>w. r\<lparr>gs_Size := w\<rparr>) r
     else if n = ''err'' then put_str v (\<lambda>s. r\<lparr>gs_Err := s\<rparr>) r
     else (r, True))"

definition dec_get_response :: "json \<Rightarrow> get_response \<times> bool" where
  "dec_get_response j = decode_struct \<lparr>gs_Size = 0, gs_Err = []\<rparr> set_get_response j"

definition set_manifest_ad :: "manifest_ad setter" where
  "set_manifest_ad k v m = (let n = ToLower k in
     if n = ''root_cid'' then put_str v (\<lambda>s. m\<lparr>mn_RootCID := s\<rparr>) m
     else if n = ''providers'' then put_list dec_provider v (\<lambda>ps. m\<lparr>mn_Providers := ps\<rparr>) m
     else if n = ''rendezvous'' then put_str v (\<lambda>s. m\<lparr>mn_Rendezvous := s\<rparr>) m
     else if n = ''transports'' then put_list decode_str v (\<lambda>ss. m\<lparr>mn_Transports := ss\<rparr>) m
     else if n = ''exp'' then put_time v (\<lambda>t. m\<lparr>mn_Exp := t\<rparr>) m
     else (m, True))"

definition dec_manifest_ad :: "json \<Rightarrow> manifest_ad \<times> bool" where
  "dec_manifest_ad j = decode_struct \<lparr>mn_RootCID = [], mn_Providers = [], mn_Rendezvous = [], mn_Transports = [],
     mn_Exp = 0\<rparr> set_manifest_ad j"

text \<open>The view of a stored job: what a client that decodes the server's answer into a \<open>Job\<close> holds.\<close>

definition view_of :: "db_job \<Rightarrow> job" where
  "view_of j = \<lparr>jb_Meta = Some (zero_job_meta\<lparr>jm_ID := j_ID j, jm_Image := j_Image j, jm_Command := j_Command j\<rparr>),
     jb_State = Some (zero_job_state\<lparr>js_ID := j_ID j, js_Status := j_Status j\<rparr>), jb_Result = None\<rparr>"

subsection \<open>Round trips\<close>

lemma ToLower_view_members [simp]:
  "ToLower ''createdAt'' = ''createdat''" "ToLower ''RetryCount'' = ''retrycount''" "ToLower ''updatedAt'' = ''updatedat''"
  "ToLower ''assignedTo'' = ''assignedto''" "ToLower ''leaseExpiresAt'' = ''leaseexpiresat''"
  "ToLower ''fencingToken'' = ''fencingtoken''" "ToLower ''final_metrics'' = ''final_metrics''"
  "ToLower ''meta'' = ''meta''" "ToLower ''state'' = ''state''" "ToLower ''result'' = ''result''"
  "ToLower ''task_id'' = ''task_id''" "ToLower ''proto'' = ''proto''" "ToLower ''endpoint'' = ''endpoint''"
  "ToLower ''updated'' = ''updated''" "ToLower ''err'' = ''err''" "ToLower ''exp'' = ''exp''" "ToLower ''manifest'' = ''manifest''"
  by code_simp+

lemma dec_enc_job_meta: "in_i64 (jm_RetryCount m) \<Longrightarrow> dec_job_meta (enc_job_meta m) = (m, True)"
  by (simp add: dec_job_meta_def enc_job_meta_def set_job_meta_def zero_job_meta_def decode_steps del: decode_members.simps(2))

lemma dec_enc_job_state [json_simps]: "dec_job_state (enc_job_state s) = (s, True)"
  by (simp add: dec_job_state_def enc_job_state_def set_job_state_def zero_job_state_def decode_steps del: decode_members.simps(2))

lemma dec_enc_job_artifact [json_simps]: "dec_job_artifact (enc_job_artifact a) = (a, True)"
  by (simp add: dec_job_artifact_def enc_job_artifact_def set_job_artifact_def decode_steps del: decode_members.simps(2))

lemma dec_enc_job_result [json_simps]: "dec_job_result (enc_job_result r) = (r, True)"
  by (simp add: dec_job_result_def enc_job_result_def set_job_result_def zero_job_result_def decode_steps put_list_enc comp_def list_all_iff
      dec_enc_job_artifact del: decode_members.simps(2))

lemma enc_view_not_null: "enc_job_meta m \<noteq> JNull" "enc_job_state s \<noteq> JNull" "enc_job_result r \<noteq> JNull"
  by (simp_all add: enc_job_meta_def enc_job_state_def enc_job_result_def)

lemma dec_enc_job:
  assumes "\<And>m. jb_Meta j = Some m \<Longrightarrow> in_i64 (jm_RetryCount m)"
  shows "dec_job (enc_job j) = (j, True)"
  using assms
  by (simp add: dec_job_def enc_job_def set_job_def zero_job_def decode_steps put_ptr_enc_opt enc_view_not_null
      dec_enc_job_meta dec_enc_job_state dec_enc_job_result del: decode_members.simps(2))

lemma dec_enc_declared [json_simps]:
  "dec_task_endpoint (enc_task_endpoint e) = (e, True)"
  "dec_get_response (enc_get_response r) = (r, True)"
  "dec_manifest_ad (enc_manifest_ad m) = (m, True)"
  by (simp_all add: dec_task_endpoint_def enc_task_endpoint_def set_task_endpoint_def dec_get_response_def
      enc_get_response_def set_get_response_def dec_manifest_ad_def enc_manifest_ad_def set_manifest_ad_def
      decode_steps put_list_enc comp_def list_all_iff del: decode_members.simps(2))

text \<open>The expiry of a lease is written even when there is none.\<close>

lemma leaseExpiresAt_written: "enc_job_state s = JObj ms \<Longrightarrow> map_of ms ''leaseExpiresAt'' = Some (JTime (js_LeaseExpiresAt s))"
  by (auto simp: enc_job_state_def omit_def)

text \<open>The answer to \<open>GET /api/tasks/{id}\<close>, read as a \<open>Job\<close>.\<close>

lemma dec_task_view: "dec_job (task_view job om) = (view_of job, True)"
  by (cases om) (simp_all add: dec_job_def task_view_def set_job_def zero_job_def dec_job_meta_def set_job_meta_def
      dec_job_state_def set_job_state_def zero_job_meta_def zero_job_state_def view_of_def)

lemma status_declared: "row_ok r \<Longrightarrow> r_status r \<in> set job_statuses"
  by (auto simp: row_ok_def job_statuses_def split: if_splits)

subsection \<open>Properties\<close>

text \<open>The declared job view decodes what it encodes: a \<open>Job\<close> whose retry count is a Go \<open>int\<close> comes back
  unchanged through JSON, absent parts included, and so do an endpoint, a response header and a manifest
  advertisement.\<close>

lemma view_roundtrip:
  assumes "\<And>m. jb_Meta j = Some m \<Longrightarrow> in_i64 (jm_RetryCount m)"
  shows "dec_job (enc_job j) = (j, True) \<and> dec_task_endpoint (enc_task_endpoint e) = (e, True) \<and>
    dec_get_response (enc_get_response r) = (r, True) \<and> dec_manifest_ad (enc_manifest_ad ad) = (ad, True)"
  using assms by (simp add: dec_enc_job dec_enc_declared)

lemma view_roundtrip_witness:
  "dec_job (enc_job \<lparr>jb_Meta = Some (zero_job_meta\<lparr>jm_RetryCount := 2\<rparr>), jb_State = None,
     jb_Result = Some (zero_job_result\<lparr>jr_Status := ''succeeded''\<rparr>)\<rparr>) =
   (\<lparr>jb_Meta = Some (zero_job_meta\<lparr>jm_RetryCount := 2\<rparr>), jb_State = None,
     jb_Result = Some (zero_job_result\<lparr>jr_Status := ''succeeded''\<rparr>)\<rparr>, True)"
proof -
  let ?j = "\<lparr>jb_Meta = Some (zero_job_meta\<lparr>jm_RetryCount := 2\<rparr>), jb_State = None,
     jb_Result = Some (zero_job_result\<lparr>jr_Status := ''succeeded''\<rparr>)\<rparr>"
  have "\<And>m. jb_Meta ?j = Some m \<Longrightarrow> in_i64 (jm_RetryCount m)" by (auto simp: in_i64_def)
  from view_roundtrip [OF this] show ?thesis by blast
qed

text \<open>C21: what a client sees of a task. The answer to an authorized \<open>GET /api/tasks/{id}\<close> of an existing job
  decodes, as the declared \<open>Job\<close>, to the image, command and status of the job's row, and the status is
  one of the declared five; the creation time, the version, the update time, the assignment and the result
  of the view are always empty, although the declaration says they are visible in API responses.\<close>

theorem task_answer_view:
  assumes "dht_up (sv_dht sv) view" "db_ok (w_db w)" "db_up (ce_db ce)"
    and "plain_seg i" "i \<noteq> ''logs''" "requireAuth (sv_env sv) (get_request i auth)" "row_of (w_db w) i = Some row"
  shows "\<exists>body m s. fst (mountHTTP sv ce (get_request i auth) w) = Resp 200 (JsonBody body) \<and>
    dec_job body = (\<lparr>jb_Meta = Some m, jb_State = Some s, jb_Result = None\<rparr>, True) \<and>
    jm_ID m = i \<and> jm_Image m = r_image row \<and> jm_Command m = j_Command (job_of_row row) \<and>
    js_ID s = i \<and> js_Status s = r_status row \<and> js_Status s \<in> set job_statuses \<and>
    jm_CreatedAt m = 0 \<and> js_Version s = 0 \<and> js_UpdatedAt s = 0 \<and> js_AssignedTo s = []"
proof -
  have "r_id row = i" "row_ok row" using row_of_SomeD [OF assms(7)] db_ok_rowD [OF assms(2,7)] by auto
  then show ?thesis
    by (simp add: get_request_reply [OF assms] dec_task_view view_of_def job_of_row_def zero_job_meta_def zero_job_state_def
        status_declared)
qed

theorem task_answer_view_witness:
  "\<exists>body j. fst (mountHTTP sample_server sample_call (get_request ''q'' ''Bearer s'') (sample_world sample_db)) = Resp 200 (JsonBody body) \<and>
     dec_job body = (j, True) \<and> jb_Result j = None"
proof -
  have "requireAuth (sv_env sample_server) (get_request ''q'' ''Bearer s'')"
    by (simp add: requireAuth_def sample_server_def get_request_def agent_header_def)
  from task_answer_view [OF sample_server_up sample_world_ok(1) sample_call_up sample_segs(1) _ this sample_world_ok(2)]
  show ?thesis by auto
qed

end
