(* ===== verification/Spec2Isabelle.thy ===== *)
theory Spec2Isabelle
  imports Agent_Server Seeder Server_Documents Dht_Races Kad_Agree Api_Views
begin

text \<open>
  \<^bold>\<open>Mutual Cloud prototype: a verification development.\<close>

  The program runs jobs on machines that find their work in a distributed hash table. A
  \<^emph>\<open>control server\<close> (\<open>cmd/control\<close>) keeps the jobs in a PostgreSQL table, publishes their documents
  in a libp2p Kademlia DHT and serves an HTTP interface. \<^emph>\<open>Agents\<close> (\<open>cmd/agent\<close>, \<open>pkg/agent\<close>) scan the
  DHT for advertised jobs, claim one over HTTP, keep the lease by heartbeats, fetch the inputs
  from a \<^emph>\<open>seeder\<close> (\<open>cmd/seeder\<close>, \<open>pkg/seeder\<close>), run a container and report the end. A lease carries a
  fencing token that only grows; a lease that expires is requeued by a loop of the server.

  \<^bold>\<open>Theories, bottom up.\<close>

  \<^item> \<open>MC_Prelude\<close>: time and durations as integers of nanoseconds (the zero time is 0), errors as
    optional texts, Go's division, 64-bit wrap-around, SQL addition, code that may panic
    (\<open>outcome\<close>), and the collections of simplification rules.
  \<^item> \<open>Go_Strings\<close>, \<open>Go_Json\<close>: the functions of \<open>strings\<close>, \<open>strconv\<close> and \<open>fmt\<close> the code calls, on lists of
    characters; JSON at the level of values, with decoders as folds over the members of an object.
    \<open>Go_Random\<close>: the nonces of \<open>randNonce\<close> and \<open>newNonce\<close> from random bytes, in hex and base64.
  \<^item> \<open>Task_Types\<close> (\<open>internal/task/types.go\<close>, \<open>index_sharded.go\<close>): the documents with their encoders and
    decoders by json tag, and the DHT keys with their distinctness.
  \<^item> \<open>Dht_Node\<close>, \<open>Dht_Net\<close> (\<open>internal/dht\<close>): reading and writing documents with the local fallback
    store, the compare-and-swap loop, the validator of the namespace; starting a node and the
    addresses it advertises. What the network promises are the locales \<open>dht_net\<close> and \<open>dht_up\<close>,
    interpreted for a node alone (\<open>solo\<close>), one with peers (\<open>lan\<close>) and one of a replicated network
    (\<open>mesh_node\<close>).
  \<^item> \<open>Kad_Replicas\<close> (vendored \<open>go-libp2p-kad-dht\<close>, \<open>routing.go\<close> and \<open>handlers.go\<close>): values on the datastores of
    several nodes, with pushing, selection by the program's validator and read repair.
  \<^item> \<open>Task_Claim\<close> (\<open>internal/task/claim.go\<close>): leases kept in the DHT only.
  \<^item> \<open>Lease_Store\<close> (\<open>internal/lease\<close>, \<open>configs/schema.sql\<close>): the table as a list of rows, each statement
    as its condition and its update, faults of the connection as part of the environment of a call.
    \<open>Lease_Protocol\<close>: an abstract machine of leases (\<open>lease_step\<close>) and the locale \<open>lease_store\<close> that a
    store refines it, interpreted for the model of \<open>PGStore\<close>. \<open>Lease_Spec\<close>: every operation on every
    branch. \<open>Lease_Runs\<close>: sequences of calls.
  \<^item> \<open>Announce\<close> (\<open>cmd/control/main.go\<close>, \<open>control_http.go\<close>): advertisements, mirrors and the announce
    manager, whose loop is the list of events it receives.
  \<^item> \<open>Http_Types\<close>, \<open>Control_Http\<close> (\<open>cmd/control/control_http.go\<close>): paths, request and response bodies, every
    handler and the multiplexer as functions from a request and a world (database, DHT, manager)
    to a response and a world. \<open>Control_Safety\<close>, \<open>Control_Publish\<close>: what they do.
  \<^item> \<open>Control_Loops\<close> (\<open>cmd/control/main.go\<close>): restore, requeue, re-announce and snapshot passes and the start.
  \<^item> \<open>Server_Runs\<close>: runs of the whole server as a step relation over requests, ticks, restarts and changes
    of the DHT from outside, each step explained by calls of the store. \<open>Server_Documents\<close>: the types of
    the documents such runs leave in the DHT. \<open>Dht_Keeps\<close>: what survives one access to the DHT survives
    every run (the locale \<open>dht_keeps\<close>); \<open>Kad_Agree\<close>: the agreement of replicas is such a property.
  \<^item> \<open>Dht_Races\<close>: \<open>PutJSONCAS\<close> and \<open>addToIndex\<close> as machines with one access to the store per step, and
    schedules of several callers.
  \<^item> \<open>Api_Views\<close> (\<open>internal/lease/types.go\<close> and the other declared wire types): the job view with its
    encoding, and what it shows of the server's answers.
  \<^item> \<open>Agent_Discover\<close>, \<open>Agent_Client\<close>, \<open>P2P_Fetch\<close>, \<open>Agent_Run\<close> (\<open>pkg/agent\<close>, \<open>pkg/p2p\<close>, \<open>pkg/seeder\<close>,
    \<open>cmd/agent\<close>): discovery, the HTTP clients, fetching from a seeder, and the agent's treatment of a
    job; \<open>Seeder\<close> (\<open>cmd/seeder\<close>). What a file system promises is the locale \<open>file_system\<close>, interpreted
    on files in memory.
  \<^item> \<open>Agent_Server\<close>: agents and server together, over a link described by the locale \<open>control_link\<close> and
    interpreted on the link that delivers requests to the server's multiplexer in order.
  \<^item> This theory: the whole way of a task.

  \<^bold>\<open>What is shown.\<close> Leases: two agents never hold a job at once, tokens strictly increase, an expired
  lease is recovered, a finished job stays finished, under every sequence of calls with faults
  (\<open>Lease_Runs\<close>), by refinement of the abstract machine; and the same for every run of the server, in
  terms of the leases in its answers, with the consequence that a superseded agent cannot change
  the database any more, and that tokens do not wrap around (\<open>Server_Runs\<close>). The documents in the DHT keep their types
  (\<open>Server_Documents\<close>). The server: the authorization gate, the agreement of row, DHT documents and
  answer after claims, heartbeats and reports, publication of tasks and manifests, secrecy of the
  manifest's secret, recovery and restore, and the view of a task (\<open>Control_Safety\<close>,
  \<open>Control_Publish\<close>, \<open>Control_Loops\<close>, \<open>Announce\<close>, \<open>Api_Views\<close>). The DHT: what a compare-and-swap installs,
  that it is the interleaving machine run alone and returns under every schedule, that leases in the
  DHT exclude each other one call after another and are guarded by their nonce, and that replicas
  that reach each other behave as one map and stay equal in every run of the server (\<open>Dht_Node\<close>,
  \<open>Dht_Races\<close>, \<open>Task_Claim\<close>, \<open>Kad_Replicas\<close>, \<open>Kad_Agree\<close>). Agents: what they offer themselves,
  that waits end, that heartbeats fit the lease, what a fetch stores, and that a job that is offered
  is settled in the database as its specification says (\<open>Agent_Server\<close>). Here: a published job is
  offered to agents, also on another replica of the DHT, and a created task is settled. Several theorems state defects: a claim that
  panics, a stale report that erases documents of the running agent, a wait that outlasts the
  lease, a seeder that serves files outside its directory, concurrent claims that both succeed, a
  task lost from the index, a stale replica whose read undoes a newer write.

  \<^bold>\<open>Parameters.\<close> Code that is not part of the program is an argument: the Kademlia operations (\<open>kad\<close>;
  in \<open>Kad_Replicas\<close>, what a lookup finds and whom a message reaches), libp2p hosts, streams and multiaddresses, the HTTP transport, the file system, \<open>docker\<close>, network
  interfaces, the faults and row orders of the database, every clock reading and random number.
  Hypotheses on them are stated where they are used and hold for concrete instances in the
  examples.

  \<^bold>\<open>Loops and fuel.\<close> No fuel is used. The compare-and-swap and finish loops recurse on their number of
  attempts, loops over a ticker on the list of the ticks they receive; the waits for a manifest
  and for peers are partial functions whose result \<open>None\<close> means that they do not return, and they
  are shown to return on a clock that advances. In \<open>Agent_Run\<close> the heartbeats of a goroutine are
  counted per phase of a job, so every interleaving with the phases is covered.

  \<^bold>\<open>Abstractions.\<close> JSON text is a value, so a nil and an empty slice or map are one, and repeated members
  and the time zone of a time are not represented. Strings are bytes. Requests have decoded
  paths, and redirects are not followed. Statements of the database are atomic, as autocommitted
  single statements are. A handler is one step of a run, and what others do to the DHT comes
  between the steps; the accesses that handlers of different goroutines interleave on one document
  are the subject of \<open>Dht_Races\<close>. For the database the finer grain makes no difference: the guarantees of \<open>Lease_Runs\<close>
  hold for every sequence of single calls of the store, so for every interleaving of handlers and loops. Log lines are left out, but for those of the snapshot loop.

  \<^bold>\<open>Not modelled.\<close> Cancelling a node (\<open>Node.Context\<close>, \<open>Node.Close\<close>), which ends the process; the interface
  \<open>ClaimClient\<close>, which no code uses; provider records, routing tables and
  messages of the Kademlia library; the test of the announce manager; the shell scripts and the
  Makefile.
\<close>

text \<open>A pass that will announce the job: the order in which it takes the dirty set is a permutation,
  and the job is in it and due.\<close>

definition due_pass :: "'n server \<Rightarrow> (string list \<Rightarrow> string list) \<Rightarrow> time \<Rightarrow> string \<Rightarrow> 'n world \<Rightarrow> bool" where
  "due_pass sv ord now i w \<longleftrightarrow> am_ns (w_mgr w) = sv_ns sv \<and> distinct (am_dirty (w_mgr w)) \<and>
     mset (ord (am_dirty (w_mgr w))) = mset (am_dirty (w_mgr w)) \<and> i \<in> set (am_dirty (w_mgr w)) \<and> due (w_mgr w) now i"

text \<open>Every index shard is empty or can be read.\<close>

definition shards_readable :: "string \<Rightarrow> (string \<rightharpoonup> payload) \<Rightarrow> bool" where
  "shards_readable ns seen \<longleftrightarrow> (\<forall>s<TaskIndexShardCount.
     seen (KeyIndexShard ns s) = None \<or> readable zero_index dec_index (seen (KeyIndexShard ns s)))"

definition sample_created :: "(string \<rightharpoonup> payload) world" where
  "sample_created = created_world sample_server sample_call ''t'' ''alpine'' [''echo''] (sample_world [])"

text \<open>The same on a node of a replicated DHT.\<close>

definition replica_created :: "(string stores) world" where
  "replica_created = created_world replica_server sample_call ''t'' ''alpine'' [''echo''] replica_world"

definition sample_announced :: "(string \<rightharpoonup> payload) world" where
  "sample_announced = announced sample_server (\<lambda>ids. ids) 60 (\<lambda>_ _. 60) sample_created"

subsection \<open>Announcements\<close>

lemma queued_state_read: "ts_Status (state_of (Some (Doc (enc_state (queued_state i t))))) = StatusQueued"
proof -
  have "dec_state (enc_state (queued_state i t)) = (queued_state i t, True)"
    by (rule dec_enc_state) (simp add: queued_state_def zero_state_def)
  then show ?thesis by (simp add: read_as_Doc queued_state_def)
qed

lemma announced_docs:
  assumes "dht_up (sv_dht sv) view" "due_pass sv ord now i w"
  shows "\<exists>k. advertised (sv_env sv) (sv_ns sv) (am_ttl (w_mgr w)) (docs sv view (announced sv ord now clk w)) i (clk k 1)"
    and "docs sv view (announced sv ord now clk w) (KeyMeta j) = docs sv view w (KeyMeta j)"
    and "docs sv view (announced sv ord now clk w) (KeyState j) = docs sv view w (KeyState j)"
    and "docs sv view (announced sv ord now clk w) (KeyIndexShard ns s) = docs sv view w (KeyIndexShard ns s)"
proof -
  let ?m = "w_mgr w" let ?ids = "filter (due ?m now) (ord (am_dirty ?m))"
  have p: "docs sv view (announced sv ord now clk w) = doc (sv_dht sv) view (fst (announce_all (sv_env sv) (sv_dht sv) clk 0 ?ids (w_dht w, ?m)))"
    by (simp add: announced_def process_def split_beta)
  have m: "am_ns ?m = sv_ns sv" "distinct (am_dirty ?m)" "mset (ord (am_dirty ?m)) = mset (am_dirty ?m)" "i \<in> set (am_dirty ?m)" "due ?m now i"
    using assms(2) by (simp_all add: due_pass_def)
  have "distinct ?ids" "i \<in> set ?ids"
    using m mset_eq_imp_distinct_iff [OF m(3)] mset_eq_setD [OF m(3)] by auto
  from dht_up.announce_all_docs [OF assms(1) this, of "sv_env sv" ?m clk 0 "w_dht w"] m(1)
  show "\<exists>k. advertised (sv_env sv) (sv_ns sv) (am_ttl ?m) (docs sv view (announced sv ord now clk w)) i (clk k 1)" by (simp add: p)
  show "docs sv view (announced sv ord now clk w) (KeyMeta j) = docs sv view w (KeyMeta j)"
    "docs sv view (announced sv ord now clk w) (KeyState j) = docs sv view w (KeyState j)"
    "docs sv view (announced sv ord now clk w) (KeyIndexShard ns s) = docs sv view w (KeyIndexShard ns s)"
    unfolding p by (rule dht_up.announce_all_frame [OF assms(1)], simp add: ad_keys_def)+
qed

lemma published_indexed:
  assumes "published sv view j w" "shards_readable (sv_ns sv) (docs sv view w)"
  shows "j_ID j \<in> set (indexed (sv_ns sv) (docs sv view w))"
proof -
  obtain s where s: "s < TaskIndexShardCount" "j_ID j \<in> set (ix_IDs (index_at (docs sv view w (KeyIndexShard (sv_ns sv) s))))"
    using assms(1) by (auto simp: published_def)
  then have "docs sv view w (KeyIndexShard (sv_ns sv) s) \<noteq> None" by (auto simp: read_as_def zero_index_def split: option.splits)
  with s assms(2) show ?thesis by (auto simp: indexed_def shards_readable_def Let_def intro!: bexI [of _ s])
qed

lemma created_published:
  assumes "dht_up (sv_dht sv) view" "ce_shard ce < TaskIndexShardCount"
  shows "published sv view (new_job i img cmd (ce_now ce 0)) (created_world sv ce i img cmd w)"
  using created_world_docs [where ce = ce and i = i and img = img and cmd = cmd and w = w, OF assms(1)] assms(2) by (auto simp: published_def new_job_def)

lemma tick_offers:
  assumes "dht_up (sv_dht sv) view" "dht_net c view'" "published sv view j w" "j_ID j \<noteq> []"
    and "due_pass sv ord now (j_ID j) w" "shards_readable (sv_ns sv) (docs sv view w)"
    and "doc c view' d = docs sv view (announced sv ord now clk w)"
    and "dv_ns dv = sv_ns sv" "dv_seen dv (j_ID j) = None" "\<And>n k m. clk' n k \<le> clk m 1 + am_ttl (w_mgr w)"
  shows "\<exists>dv' d' l ps. discover_tick c (ListFromIndex c (dv_ns dv)) note_offer clk' (dv, d, []) = Some (dv', d', l) \<and>
    (j_ID j, ps, demand_url (sv_env sv)) \<in> set l"
proof -
  let ?i = "j_ID j" and ?d1 = "snd (ListFromIndex c (dv_ns dv) d)"
  note a = announced_docs [OF assms(1,5), of clk]
  note L = dht_net.ListFromIndex_indexed [OF assms(2), of "dv_ns dv" d]
  obtain m where adv: "advertised (sv_env sv) (dv_ns dv) (am_ttl (w_mgr w)) (doc c view' d) ?i (clk m 1)"
    using a(1) assms(7,8) by auto
  have st: "ts_Status (state_of (doc c view' d (KeyState ?i))) = StatusQueued"
    using assms(3) a(3) by (auto simp: assms(7) published_def queued_state_read)
  have "indexed (dv_ns dv) (doc c view' d) = indexed (sv_ns sv) (docs sv view w)"
    by (simp add: indexed_def assms(7,8) a(4))
  then have ix: "?i \<in> set (fst (ListFromIndex c (dv_ns dv) d))" using published_indexed [OF assms(3,6)] L(1) by simp
  have off: "offer (doc c view' ?d1) dv (clk' n) ?i =
      Some (filterProviders (ma_Providers (read_as zero_ManifestAd dec_ManifestAd (doc c view' d (KeyP2PManifestMirror ?i)))),
        demand_url (sv_env sv))" for n
    unfolding L(2) by (rule advertised_offer [OF adv st assms(4) _ assms(10,10)]) (simp add: recently_seen_def assms(9))
  from dht_net.handle_all_offers [where n = 0 and log = "[]" and clk = clk', OF assms(2) ix off offer_cong]
  show ?thesis by (auto simp: discover_tick_def split_beta)
qed

subsection \<open>Properties of the system\<close>

text \<open>C12: a published job reaches the agents. Take a job whose metadata, queued state and index entry are
  in the DHT and that is due for announcement (what creating a task and restoring after a restart
  both leave), let the announce manager make a pass, and let an agent in the namespace whose node
  sees the same documents have a tick before the advertisement expires: the tick offers the job
  to the agent's callback, with the address of the control server.\<close>

theorem published_job_offered:
  assumes "dht_up (sv_dht sv) view" "dht_net c view'" "published sv view j w" "j_ID j \<noteq> []"
    and "due_pass sv ord now (j_ID j) w" "shards_readable (sv_ns sv) (docs sv view w)"
    and "doc c view' d = docs sv view (announced sv ord now clk w)"
    and "dv_ns dv = sv_ns sv" "dv_seen dv (j_ID j) = None" "\<And>n k m. clk' n k \<le> clk m 1 + am_ttl (w_mgr w)"
  shows "\<exists>dv' d' l ps. discover_tick c (ListFromIndex c (dv_ns dv)) note_offer clk' (dv, d, []) = Some (dv', d', l) \<and>
    (j_ID j, ps, demand_url (sv_env sv)) \<in> set l"
  by (rule tick_offers [OF assms])

text \<open>C13: a task created on one machine is offered on another. The server is a node of a replicated DHT whose
  nodes reach each other and hold the same documents. A task is created over HTTP and the announce
  manager makes a pass; then an agent on any other node, reading its own replica, is offered the task
  at its next tick before the advertisement expires, with the address of the control server.\<close>

theorem offered_across_replicas:
  assumes "sv_dht sv = replica nodes q" "q \<in> set nodes" "p \<in> set nodes" "p \<noteq> q" "agreed nodes (w_dht w0)"
    and "i \<noteq> []" "db_up (ce_db ce)" "ce_shard ce < TaskIndexShardCount" "requireAuth (sv_env sv) (create_request i img cmd auth)"
    and "mountHTTP sv ce (create_request i img cmd auth) w0 = (resp, w1)"
    and "due_pass sv ord now i w1" "shards_readable (sv_ns sv) (docs sv (replica_view nodes q) w1)"
    and "dv_ns dv = sv_ns sv" "dv_seen dv i = None" "\<And>n k m. clk' n k \<le> clk m 1 + am_ttl (w_mgr w1)"
  shows "resp = Resp 201 (JsonBody (JObj [(''job_id'', JStr i)])) \<and>
    (\<exists>dv' d' l ps. discover_tick (replica nodes p) (ListFromIndex (replica nodes p) (dv_ns dv)) note_offer clk'
        (dv, w_dht (announced sv ord now clk w1), []) = Some (dv', d', l) \<and> (i, ps, demand_url (sv_env sv)) \<in> set l)"
proof -
  have up: "dht_up (sv_dht sv) (replica_view nodes q)" unfolding assms(1) by (rule mesh_node.dht_up_axioms)
  have w1: "resp = Resp 201 (JsonBody (JObj [(''job_id'', JStr i)]))" "w1 = created_world sv ce i img cmd w0"
    using create_request_reply [OF up assms(7,9,6), of w0] assms(10) by simp_all
  have "connected q nodes" using assms(2-4) by (auto simp: connected_def)
  then have agree: "agreed nodes (w_dht (announced sv ord now clk w1))"
    using mesh_keeps.keeps_passes(3) [OF assms(1)] mesh_keeps.keeps_mount [OF assms(1)] assms(5,10) by (metis snd_conv)
  let ?j = "new_job i img cmd (ce_now ce 0)"
  have pub: "published sv (replica_view nodes q) ?j w1" unfolding w1(2) by (rule created_published [OF up assms(8)])
  have same: "doc (replica nodes p) (replica_view nodes p) (w_dht (announced sv ord now clk w1)) =
      docs sv (replica_view nodes q) (announced sv ord now clk w1)"
    unfolding assms(1) by (rule agreed_docs [OF agree assms(3,2)])
  have "j_ID ?j = i" by (simp add: new_job_def)
  with tick_offers [where j = ?j and clk' = clk' and dv = dv, OF up mesh_node.dht_net_axioms pub _ _ assms(12) same assms(13) _ assms(15)]
    assms(6,11,14) w1(1) show ?thesis by simp
qed

text \<open>C1: a task from its creation to its end. A task is created over HTTP under a new id, the announce
  manager makes a pass, and an agent whose node sees the same documents handles the id before the
  advertisement expires, over a link on which nobody else touches the job. Then the job is
  finished in the database, without a lease, and with exactly the outcome and the metrics that
  the agent's view of the job's documents determines.\<close>

theorem created_task_settles:
  assumes "control_link (mc_http M) base sv ce oth" "serving sv ce oth view (ag_token cfg) i" "dht_net c view'"
    and "configured cfg base" "demand_url (sv_env sv) = base" "steady (jes (as_jobs s))"
    and "db_ok (w_db w0)" "row_of (w_db w0) i = None" "db_up (ce_db ce0)"
    and "requireAuth (sv_env sv) (create_request i img cmd auth)"
    and "mountHTTP sv ce0 (create_request i img cmd auth) w0 = (resp, w1)"
    and "due_pass sv ord now i w1" "as_web s = (n, announced sv ord now clk w1)"
    and "doc c view' d = docs sv view (announced sv ord now clk w1)"
    and "dv_ns dv = sv_ns sv" "dv_seen dv i = None" "\<And>k m. clk' k \<le> clk m 1 + am_ttl (w_mgr w1)"
    and "job_report M (doc c view' d) i (as_files s, as_host s) = Some (succ, mets)"
  shows "\<exists>dv' d' s' row'. handleJob c clk' (onCandidate M c cfg jes) i (dv, d, s) = Some (dv', d', s') \<and>
    resp = Resp 201 (JsonBody (JObj [(''job_id'', JStr i)])) \<and>
    row_of (w_db (snd (as_web s'))) i = Some row' \<and> r_lease_agent row' = None \<and>
    r_status row' = (if succ then ''succeeded'' else ''failed'') \<and> r_metrics row' = Some (JObj mets)"
proof -
  note sv = servingD [OF assms(2)]
  have i: "i \<noteq> []" using sv(3) by (simp add: plain_seg_def)
  have w1: "resp = Resp 201 (JsonBody (JObj [(''job_id'', JStr i)]))" "w1 = created_world sv ce0 i img cmd w0"
    using create_request_reply [OF sv(1) assms(9,10) i, of w0] assms(11) by simp_all
  note a = announced_docs [OF sv(1) assms(12), of clk]
  obtain m where adv: "advertised (sv_env sv) (dv_ns dv) (am_ttl (w_mgr w1)) (doc c view' d) i (clk m 1)"
    using a(1) assms(14,15) by auto
  have st: "ts_Status (state_of (doc c view' d (KeyState i))) = StatusQueued"
    using a(3) [of i] created_world_docs(2) [OF sv(1)] by (simp add: assms(14) w1(2) queued_state_read)
  obtain ps where off: "offer (doc c view' d) dv clk' i = Some (ps, base)"
    using advertised_offer [OF adv st i _ assms(17,17)] assms(5,16) by (simp add: recently_seen_def)
  obtain d1 where d1: "doc c view' d1 = doc c view' d" "handleJob c clk' (onCandidate M c cfg jes) i (dv, d, s) =
      (case onCandidate M c cfg jes i ps base (d1, s) of
         None \<Rightarrow> None | Some (d4, s') \<Rightarrow> Some (dv\<lparr>dv_seen := (dv_seen dv)(i \<mapsto> clk' 3)\<rparr>, d4, s'))"
    using dht_net.handleJob_offer [OF assms(3), of d clk' "onCandidate M c cfg jes" i dv s] off by auto
  let ?row = "new_row (new_job i img cmd (ce_now ce0 0)) (stmt_now (ce_db ce0) 0)"
  have row: "row_of (w_db w1) i = Some ?row" "r_status ?row = ''queued''" "sint (r_lease_token ?row) < 2 ^ 63 - 1"
    using created_world_docs(5) [where ce = ce0 and i = i and img = img and cmd = cmd and w = w0, OF sv(1)] assms(8) by (simp_all add: w1(2) new_row_def new_job_def)
  have ok: "db_ok (w_db w1)"
    using assms(7,8) by (auto simp: w1(2) created_world_def Let_def enqueue_def db_ok_def row_ok_def new_row_def new_job_def row_of_None_iff)
  have "job_report M (doc c view' d1) i (as_files s, as_host s) = Some (succ, mets)" using assms(18) d1(1) by simp
  from control_link.onCandidate_settles [where jes = jes and url = base and ps = ps, OF assms(1) refl assms(2,3,4) _ assms(13) _ _ row(2,3) assms(6) this]
  show ?thesis using ok row(1) d1(2) w1(1) by auto
qed

subsection \<open>Examples\<close>

text \<open>A task \<open>t\<close> created on an empty server, and a pass over it.\<close>

lemma created_on_empty:
  assumes "dht_up (sv_dht sv) view" "docs sv view w = Map.empty" "sv_ns sv = ''mc''"
  shows "docs sv view (created_world sv sample_call ''t'' ''alpine'' [''echo''] w) =
     [KeyMeta ''t'' \<mapsto> Doc (enc_meta (new_meta ''t'' ''alpine'' [''echo''] 50)), KeyState ''t'' \<mapsto> Doc (enc_state (queued_state ''t'' 50)),
      KeyIndexShard ''mc'' 3 \<mapsto> Doc (enc_index \<lparr>ix_IDs = [''t''], ix_UpdatedAt = 50, ix_Version = 1\<rparr>)]"
proof -
  note up = assms(1) and net = dht_up.axioms(1) [OF assms(1)]
  have "ce_now sample_call = (\<lambda>_. 50)" "ce_shard sample_call = 3" "index_at None = \<lparr>ix_IDs = [], ix_UpdatedAt = 0, ix_Version = 0\<rparr>"
    by (simp_all add: sample_call_def read_as_def zero_index_def)
  with assms(2,3) show ?thesis
    by (simp add: created_world_def Let_def enqueue_def addToIndex_def split_beta dht_up.PutJSON_put [OF up]
        dht_net.GetJSON_value [OF net] dht_net.GetJSON_frame [OF net])
qed

lemma created_mgr:
  assumes "w_mgr w = NewAnnounceManager ''mc'' (30 * second) (3 * second)" "sv_ns sv = ''mc''"
  shows "w_mgr (created_world sv ce ''t'' img cmd w) = Enqueue ''t'' (NewAnnounceManager ''mc'' (30 * second) (3 * second))"
    and "due_pass sv (\<lambda>ids. ids) 60 ''t'' (created_world sv ce ''t'' img cmd w)"
  using assms by (simp_all add: created_world_def enqueue_def Let_def due_pass_def due_def Enqueue_def NewAnnounceManager_def)

lemma sample_created_docs:
  "docs sample_server (\<lambda>m. m) sample_created =
     [KeyMeta ''t'' \<mapsto> Doc (enc_meta (new_meta ''t'' ''alpine'' [''echo''] 50)), KeyState ''t'' \<mapsto> Doc (enc_state (queued_state ''t'' 50)),
      KeyIndexShard ''mc'' 3 \<mapsto> Doc (enc_index \<lparr>ix_IDs = [''t''], ix_UpdatedAt = 50, ix_Version = 1\<rparr>)]"
  unfolding sample_created_def
proof (rule created_on_empty [OF sample_server_up])
  show "docs sample_server (\<lambda>m. m) (sample_world []) = Map.empty"
    by (rule ext) (simp add: doc_def sample_world_def fresh_dht_def)
qed (simp add: sample_server_def)

lemma sample_created_mgr: "w_mgr sample_created = Enqueue ''t'' (NewAnnounceManager ''mc'' (30 * second) (3 * second))"
  unfolding sample_created_def by (rule created_mgr) (simp_all add: sample_world_def sample_server_def)

lemma sample_created_due: "due_pass sample_server (\<lambda>ids. ids) 60 ''t'' sample_created"
  unfolding sample_created_def by (rule created_mgr) (simp_all add: sample_world_def sample_server_def)

lemma created_readable:
  assumes "docs sv view w = [KeyMeta ''t'' \<mapsto> a, KeyState ''t'' \<mapsto> b, KeyIndexShard ''mc'' 3 \<mapsto> Doc (enc_index x)]"
  shows "shards_readable ''mc'' (docs sv view w)"
  by (auto simp: shards_readable_def assms readable_Doc)

lemmas sample_created_readable = created_readable [OF sample_created_docs]

lemma sample_announced_docs:
  "docs sample_server (\<lambda>m. m) sample_announced (KeyManifest ''t'') = Some (Doc (enc_manifest (noop_manifest 60)))"
  "docs sample_server (\<lambda>m. m) sample_announced (KeyMeta ''t'') = Some (Doc (enc_meta (new_meta ''t'' ''alpine'' [''echo''] 50)))"
proof -
  note up = sample_server_up and net = dht_up.axioms(1) [OF sample_server_up]
  have d: "docs sample_server (\<lambda>m. m) sample_created (KeyManifest ''t'') = None" by (simp add: sample_created_docs)
  obtain err d1 where g: "GetJSON (sv_dht sample_server) zero_manifest dec_manifest (KeyManifest ''t'') (2 * second) (w_dht sample_created) =
      ((manifest_at None, err), d1)"
    using dht_net.GetJSON_cases [OF net, of zero_manifest dec_manifest "KeyManifest ''t''" "2 * second" "w_dht sample_created"] d by metis
  have "mf_RootCID (manifest_at None) = []" by (simp add: read_as_def zero_manifest_def)
  then show "docs sample_server (\<lambda>m. m) sample_announced (KeyManifest ''t'') = Some (Doc (enc_manifest (noop_manifest 60)))"
    using g by (simp add: sample_announced_def announced_def process_def split_beta sample_created_mgr Enqueue_def NewAnnounceManager_def
        due_def announceOnce_def Let_def dht_up.announceAds_docs [OF up] dht_up.PutJSON_put [OF up])
  show "docs sample_server (\<lambda>m. m) sample_announced (KeyMeta ''t'') = Some (Doc (enc_meta (new_meta ''t'' ''alpine'' [''echo''] 50)))"
    using announced_docs(2) [OF up sample_created_due] by (simp add: sample_announced_def sample_created_docs)
qed

lemma sample_demand_url: "demand_url (sv_env sample_server) = ''http://127.0.0.1:8080''"
  by (simp add: demand_url_def sample_server_def)

theorem published_job_offered_witness:
  "\<exists>dv' d' l ps. discover_tick (solo_cfg ''mc'') (ListFromIndex (solo_cfg ''mc'') ''mc'') note_offer (\<lambda>_ _. 70)
      (NewDiscoverer ''mc'' 5, w_dht sample_announced, []) = Some (dv', d', l) \<and> (''t'', ps, ''http://127.0.0.1:8080'') \<in> set l"
proof -
  let ?j = "new_job ''t'' ''alpine'' [''echo''] 50"
  have ns: "sv_ns sample_server = ''mc''" "sv_dht sample_server = solo_cfg ''mc''" "ce_shard sample_call < TaskIndexShardCount"
    "ce_now sample_call 0 = 50"
    by (simp_all add: sample_server_def sample_call_def TaskIndexShardCount_def)
  have "published sample_server (\<lambda>m. m) ?j sample_created"
    using created_published [OF sample_server_up ns(3), of "''t''" "''alpine''" "[''echo'']" "sample_world []"]
    by (simp add: sample_created_def ns(4))
  from published_job_offered [where ord = "\<lambda>ids. ids" and now = 60 and clk = "\<lambda>_ _. 60" and clk' = "\<lambda>_ _. 70"
      and d = "w_dht sample_announced" and dv = "NewDiscoverer ''mc'' 5",
      OF sample_server_up solo.dht_net_axioms this] sample_created_due sample_created_readable
  show ?thesis
    by (simp add: ns new_job_def sample_announced_def NewDiscoverer_def sample_demand_url sample_created_mgr Enqueue_def NewAnnounceManager_def)
qed

theorem offered_across_replicas_witness:
  "\<exists>dv' d' l ps. discover_tick (replica [''s'', ''a''] ''a'') (ListFromIndex (replica [''s'', ''a''] ''a'') ''mc'') note_offer (\<lambda>_ _. 70)
      (NewDiscoverer ''mc'' 5, w_dht (announced replica_server (\<lambda>ids. ids) 60 (\<lambda>_ _. 60) replica_created), []) = Some (dv', d', l) \<and>
    (''t'', ps, ''http://127.0.0.1:8080'') \<in> set l"
proof -
  let ?v = "replica_view [''s'', ''a''] ''s''" and ?r = "create_request ''t'' ''alpine'' [''echo''] ''Bearer s''"
  have up: "dht_up (sv_dht replica_server) ?v" unfolding replica_server_def by (simp add: mesh_node.dht_up_axioms)
  have sv: "sv_dht replica_server = replica [''s'', ''a''] ''s''" "sv_ns replica_server = ''mc''" "sv_env replica_server = sv_env sample_server"
    by (simp_all add: replica_server_def)
  have auth: "requireAuth (sv_env replica_server) ?r" using sample_auth_publish(2) by (simp add: sv)
  have "docs replica_server ?v replica_world = Map.empty" by (rule ext) (simp add: doc_def replica_world_def mesh_view_def)
  note docs = created_on_empty [OF up this sv(2)]
  have m: "mountHTTP replica_server sample_call ?r replica_world =
      (Resp 201 (JsonBody (JObj [(''job_id'', JStr ''t'')])), replica_created)"
    unfolding replica_created_def by (rule create_request_reply [OF up sample_call_up auth]) simp
  have mgr: "w_mgr replica_created = Enqueue ''t'' (NewAnnounceManager ''mc'' (30 * second) (3 * second))"
    "due_pass replica_server (\<lambda>ids. ids) 60 ''t'' replica_created"
    unfolding replica_created_def by (rule created_mgr, simp_all add: replica_world_def sv)+
  have "shards_readable (sv_ns replica_server) (docs replica_server ?v replica_created)"
    unfolding replica_created_def sv(2) by (rule created_readable [OF docs])
  from offered_across_replicas [where p = "''a''" and dv = "NewDiscoverer ''mc'' 5" and clk = "\<lambda>_ _. 60" and clk' = "\<lambda>_ _. 70",
      OF sv(1) _ _ _ _ _ sample_call_up _ auth m mgr(2) this]
  show ?thesis
    by (simp add: sv NewDiscoverer_def mgr(1) Enqueue_def NewAnnounceManager_def sample_demand_url agreed_def replica_world_def
        sample_call_def TaskIndexShardCount_def)
qed

theorem created_task_settles_witness:
  "\<exists>dv' d' s' row'. handleJob (solo_cfg ''mc'') (\<lambda>_. 70) (onCandidate sample_agent (solo_cfg ''mc'') sample_cfg (\<lambda>_. sample_jobenv)) ''t''
      (NewDiscoverer ''mc'' 5, w_dht sample_announced, sample_astate\<lparr>as_web := (0, sample_announced)\<rparr>) = Some (dv', d', s') \<and>
    row_of (w_db (snd (as_web s'))) ''t'' = Some row' \<and> r_status row' = ''succeeded''"
proof -
  let ?s = "sample_astate\<lparr>as_web := (0, sample_announced)\<rparr>"
  let ?r = "create_request ''t'' ''alpine'' [''echo''] ''Bearer s''"
  have "safe_id ''t''" by (simp add: safe_id_def plain_seg_def url_char_def)
  then have sv: "serving sample_server (\<lambda>_. sample_call) (\<lambda>_ w. w) (\<lambda>m. m) (ag_token sample_cfg) ''t''"
    using sample_serving by (simp add: sample_cfg_def)
  have link: "control_link (mc_http sample_agent) ''http://127.0.0.1:8080'' sample_server (\<lambda>_. sample_call) (\<lambda>_ w. w)"
    using sample_link_ok by (simp add: sample_agent_def)
  have db: "db_ok (w_db (sample_world []))" "row_of (w_db (sample_world [])) ''t'' = None"
    by (simp_all add: sample_world_def db_ok_def row_of_def)
  have auth: "requireAuth (sv_env sample_server) ?r" using sample_auth_publish by simp
  obtain resp where m: "mountHTTP sample_server sample_call ?r (sample_world []) = (resp, sample_created)"
    using create_request_reply [OF sample_server_up sample_call_up auth, of "sample_world []"] by (simp add: sample_created_def)
  have ns: "sv_ns sample_server = ''mc''" "sv_dht sample_server = solo_cfg ''mc''" by (simp_all add: sample_server_def)
  obtain mets where jr: "job_report sample_agent (docs sample_server (\<lambda>m. m) sample_announced) ''t'' (as_files ?s, as_host ?s) = Some (True, mets)"
    using sample_job_report [where seen = "docs sample_server (\<lambda>m. m) sample_announced", OF sample_announced_docs] by blast
  show ?thesis
    using created_task_settles [where jes = "\<lambda>_. sample_jobenv" and s = ?s and n = 0 and d = "w_dht sample_announced"
        and ord = "\<lambda>ids. ids" and now = 60 and clk = "\<lambda>_ _. 60" and clk' = "\<lambda>_. 70" and dv = "NewDiscoverer ''mc'' 5" and succ = True and mets = mets,
        OF link sv solo.dht_net_axioms sample_configured sample_demand_url sample_steady db sample_call_up auth m sample_created_due] jr
    by (auto simp: sample_announced_def [symmetric] ns NewDiscoverer_def sample_created_mgr Enqueue_def NewAnnounceManager_def)
qed

end
